(* ===== verification/Go_Prelude.thy ===== *)
theory Go_Prelude
  imports Main "HOL-Library.Word" "HOL-Library.Multiset" "HOL-Library.List_Lexorder"
    "HOL-Library.Char_ord" "HOL-Library.Product_Lexorder"
begin

text \<open>
  What the components share: results of fallible Go code as sums, the loop that stops at the
  first error, Go's fixed-width integers with the wrap-around written out, and the functions of
  the packages strings, strconv and fmt that the sources call, on byte strings. Go strings are
  byte sequences, so \<^typ>\<open>string\<close> (a list of 8-bit characters) is their type; the case mapping and
  the white space are those of ASCII.
\<close>

named_theorems go_simps
named_theorems go_intros

type_synonym byte = "8 word"

section \<open>Results and loops with an early return\<close>

definition bind_res :: "'e + 'a \<Rightarrow> ('a \<Rightarrow> 'e + 'b) \<Rightarrow> 'e + 'b" where
  "bind_res r f = (case r of Inl e \<Rightarrow> Inl e | Inr x \<Rightarrow> f x)"

definition fail_if :: "bool \<Rightarrow> 'e \<Rightarrow> 'e + 'a \<Rightarrow> 'e + 'a" where
  "fail_if b e k = (if b then Inl e else k)"

fun is_ok :: "'e + 'a \<Rightarrow> bool" where
  "is_ok (Inl _) = False"
| "is_ok (Inr _) = True"

text \<open>A \<^verbatim>\<open>for ... range\<close> loop over a state whose body may return an error.\<close>

fun for_each :: "('x \<Rightarrow> 's \<Rightarrow> 'e + 's) \<Rightarrow> 'x list \<Rightarrow> 's \<Rightarrow> 'e + 's" where
  "for_each f [] s = Inr s"
| "for_each f (x # xs) s = (case f x s of Inl e \<Rightarrow> Inl e | Inr s' \<Rightarrow> for_each f xs s')"

lemma bind_res_simps [simp]:
  "bind_res (Inl e) f = Inl e"
  "bind_res (Inr x) f = f x"
  by (simp_all add: bind_res_def)

lemma bind_res_Inr: "bind_res r f = Inr y \<longleftrightarrow> (\<exists>x. r = Inr x \<and> f x = Inr y)"
  by (cases r) simp_all

lemma fail_if_Inr: "fail_if b e k = Inr y \<longleftrightarrow> \<not> b \<and> k = Inr y"
  by (simp add: fail_if_def)

lemma is_ok_iff: "is_ok r \<longleftrightarrow> (\<exists>x. r = Inr x)"
  by (cases r) auto

lemma is_ok_bind_res: "is_ok (bind_res r f) \<longleftrightarrow> (\<exists>x. r = Inr x \<and> is_ok (f x))"
  by (cases r) auto

lemma is_ok_fail_if: "is_ok (fail_if b e k) \<longleftrightarrow> \<not> b \<and> is_ok k"
  by (simp add: fail_if_def)

lemmas res_ok = bind_res_Inr fail_if_Inr
lemmas res_is_ok = is_ok_bind_res is_ok_fail_if

lemma for_each_append:
  "for_each f (xs @ ys) s = bind_res (for_each f xs s) (for_each f ys)"
  by (induction xs arbitrary: s) (auto split: sum.splits)

lemma for_each_invariant:
  assumes "for_each f xs s = Inr s'" and "P s"
    and "\<And>x s s'. x \<in> set xs \<Longrightarrow> P s \<Longrightarrow> f x s = Inr s' \<Longrightarrow> P s'"
  shows "P s'"
  using assms
proof (induction xs arbitrary: s)
  case Nil
  then show ?case by simp
next
  case (Cons x xs)
  from Cons.prems(1) obtain t where t: "f x s = Inr t" "for_each f xs t = Inr s'"
    by (auto split: sum.splits)
  have "P t" using Cons.prems(3) [of x s t] Cons.prems(2) t(1) by simp
  then show ?case using Cons.IH [OF t(2)] Cons.prems(3) by auto
qed

text \<open>A loop whose body only checks leaves the state alone and succeeds when every check does.\<close>

lemma for_each_check:
  assumes "\<And>x s. x \<in> set xs \<Longrightarrow> f x s = (if p x then Inr s else Inl (e x))"
  shows "for_each f xs s = Inr s' \<longleftrightarrow> s' = s \<and> list_all p xs"
  using assms by (induction xs) auto

lemma for_each_fail_if:
  assumes "\<And>x u. f x u = fail_if (b x) (e x) (Inr u)"
  shows "for_each f xs u = Inr u' \<longleftrightarrow> u' = u \<and> (\<forall>x \<in> set xs. \<not> b x)"
  by (induction xs) (auto simp: assms fail_if_def)

lemma for_each_Inl: "for_each f xs s = Inl e \<Longrightarrow> \<exists>x \<in> set xs. \<exists>s'. f x s' = Inl e"
  by (induction xs arbitrary: s) (auto split: sum.splits)

lemma bind_res_Inl: "bind_res r f = Inl e \<longleftrightarrow> r = Inl e \<or> (\<exists>x. r = Inr x \<and> f x = Inl e)"
  by (cases r) auto

lemma fail_if_Inl: "fail_if b e' k = Inl e \<longleftrightarrow> b \<and> e = e' \<or> \<not> b \<and> k = Inl e"
  by (auto simp: fail_if_def)

lemmas res_err = bind_res_Inl fail_if_Inl

lemma for_each_unit:
  assumes "\<And>x u u'. f x u = Inr (u' :: unit) \<longleftrightarrow> p x"
  shows "for_each f xs u = Inr u' \<longleftrightarrow> (\<forall>x \<in> set xs. p x)"
proof (induction xs)
  case (Cons x xs)
  then show ?case using assms[of x u "()"] by (cases "f x u") auto
qed simp

lemma fail_if_simps: "fail_if False e k = k" "fail_if True e k = Inl e"
  by (simp_all add: fail_if_def)

section \<open>Fixed-width integers\<close>

text \<open>
  Unsigned 64-bit values are \<^typ>\<open>nat\<close>, signed ones \<^typ>\<open>int\<close>; every operation of the source that
  can leave the range is followed by the wrap-around of the machine.
\<close>

definition max_u64 :: nat where
  "max_u64 = 2 ^ 64 - 1"

definition wrap_u64 :: "nat \<Rightarrow> nat" where
  "wrap_u64 n = n mod 2 ^ 64"

definition u64_sub :: "nat \<Rightarrow> nat \<Rightarrow> nat" where
  "u64_sub a b = wrap_u64 (a + 2 ^ 64 - b)"

lemma u64_sub_id: "b \<le> a \<Longrightarrow> a < 2 ^ 64 \<Longrightarrow> u64_sub a b = a - b"
  by (simp add: u64_sub_def wrap_u64_def mod_if)

definition wrap_i64 :: "int \<Rightarrow> int" where
  "wrap_i64 n = (n + 2 ^ 63) mod 2 ^ 64 - 2 ^ 63"

definition in_i64 :: "int \<Rightarrow> bool" where
  "in_i64 n \<longleftrightarrow> - (2 ^ 63) \<le> n \<and> n < 2 ^ 63"

definition i64_div :: "int \<Rightarrow> int \<Rightarrow> int" where
  "i64_div a b = wrap_i64 (sgn a * sgn b * (\<bar>a\<bar> div \<bar>b\<bar>))"

lemma wrap_u64_id [simp]: "n < 2 ^ 64 \<Longrightarrow> wrap_u64 n = n"
  by (simp add: wrap_u64_def)

lemma wrap_u64_bound: "wrap_u64 n < 2 ^ 64"
  by (simp add: wrap_u64_def)

lemma wrap_i64_id: "in_i64 n \<Longrightarrow> wrap_i64 n = n"
  by (simp add: wrap_i64_def in_i64_def)

lemma in_i64_wrap [simp]: "in_i64 (wrap_i64 n)"
proof -
  have "0 \<le> (n + 2 ^ 63) mod 2 ^ 64" and "(n + 2 ^ 63) mod 2 ^ 64 < (2 :: int) ^ 64"
    by simp_all
  then show ?thesis by (simp add: wrap_i64_def in_i64_def)
qed

lemma wrap_i64_add_cancel: "wrap_i64 (wrap_i64 a + b) = wrap_i64 (a + b)"
proof -
  have "((a + 2 ^ 63) mod 2 ^ 64 - 2 ^ 63 + b + 2 ^ 63) mod 2 ^ 64
      = ((a + 2 ^ 63) mod 2 ^ 64 + b) mod (2 :: int) ^ 64"
    by (simp add: algebra_simps)
  also have "\<dots> = (a + 2 ^ 63 + b) mod 2 ^ 64"
    by (rule mod_add_left_eq)
  finally show ?thesis
    by (simp add: wrap_i64_def algebra_simps)
qed

section \<open>Package strings\<close>

definition has_prefix :: "string \<Rightarrow> string \<Rightarrow> bool" where
  "has_prefix s p \<longleftrightarrow> take (length p) s = p"

definition has_suffix :: "string \<Rightarrow> string \<Rightarrow> bool" where
  "has_suffix s p \<longleftrightarrow> length p \<le> length s \<and> drop (length s - length p) s = p"

definition trim_prefix :: "string \<Rightarrow> string \<Rightarrow> string" where
  "trim_prefix s p = (if has_prefix s p then drop (length p) s else s)"

fun split_on :: "char \<Rightarrow> string \<Rightarrow> string list" where
  "split_on c [] = [[]]"
| "split_on c (x # xs) =
     (if x = c then [] # split_on c xs
      else (case split_on c xs of [] \<Rightarrow> [[x]] | w # ws \<Rightarrow> (x # w) # ws))"

fun join_with :: "string \<Rightarrow> string list \<Rightarrow> string" where
  "join_with sep [] = []"
| "join_with sep [w] = w"
| "join_with sep (w # ws) = w @ sep @ join_with sep ws"

text \<open>\<^verbatim>\<open>strings.Cut\<close> at one character: what is before it, what is after it, whether it is there.\<close>

fun cut_at :: "char \<Rightarrow> string \<Rightarrow> string \<times> string \<times> bool" where
  "cut_at c [] = ([], [], False)"
| "cut_at c (x # xs) =
     (if x = c then ([], xs, True)
      else (case cut_at c xs of (b, a, found) \<Rightarrow> (x # b, a, found)))"

fun last_index :: "char \<Rightarrow> string \<Rightarrow> nat option" where
  "last_index c [] = None"
| "last_index c (x # xs) =
     (case last_index c xs of Some i \<Rightarrow> Some (Suc i) | None \<Rightarrow> if x = c then Some 0 else None)"

fun index_byte :: "char \<Rightarrow> string \<Rightarrow> nat option" where
  "index_byte c [] = None"
| "index_byte c (x # xs) = (if x = c then Some 0 else map_option Suc (index_byte c xs))"

fun contains_str :: "string \<Rightarrow> string \<Rightarrow> bool" where
  "contains_str [] p = (p = [])"
| "contains_str (x # xs) p = (has_prefix (x # xs) p \<or> contains_str xs p)"

definition is_space :: "char \<Rightarrow> bool" where
  "is_space c \<longleftrightarrow> c \<in> {CHR '' '', CHR 0x09, CHR 0x0A, CHR 0x0B, CHR 0x0C, CHR 0x0D}"

definition trim_space :: "string \<Rightarrow> string" where
  "trim_space s = rev (dropWhile is_space (rev (dropWhile is_space s)))"

definition code_of :: "char \<Rightarrow> nat" where
  "code_of c = of_char c"

definition lower_char :: "char \<Rightarrow> char" where
  "lower_char c = (if 65 \<le> code_of c \<and> code_of c \<le> 90 then char_of (code_of c + 32) else c)"

definition to_lower :: "string \<Rightarrow> string" where
  "to_lower s = map lower_char s"

definition upper_char :: "char \<Rightarrow> char" where
  "upper_char c = (if 97 \<le> code_of c \<and> code_of c \<le> 122 then char_of (code_of c - 32) else c)"

definition to_upper :: "string \<Rightarrow> string" where
  "to_upper s = map upper_char s"

definition is_lower_alnum :: "char \<Rightarrow> bool" where
  "is_lower_alnum c \<longleftrightarrow> (97 \<le> code_of c \<and> code_of c \<le> 122) \<or> (48 \<le> code_of c \<and> code_of c \<le> 57)"

text \<open>\<^verbatim>\<open>strings.FieldsFunc\<close>: the maximal runs of characters that are not separators.\<close>

fun fields_aux :: "(char \<Rightarrow> bool) \<Rightarrow> string \<Rightarrow> string \<Rightarrow> string list" where
  "fields_aux p acc [] = (if acc = [] then [] else [rev acc])"
| "fields_aux p acc (x # xs) =
     (if p x then (if acc = [] then [] else [rev acc]) @ fields_aux p [] xs
      else fields_aux p (x # acc) xs)"

definition fields_func :: "(char \<Rightarrow> bool) \<Rightarrow> string \<Rightarrow> string list" where
  "fields_func p s = fields_aux p [] s"

text \<open>\<^verbatim>\<open>strings.ReplaceAll\<close> for a non-empty old string.\<close>

fun replace_all :: "string \<Rightarrow> string \<Rightarrow> string \<Rightarrow> string" where
  "replace_all [] old new = []"
| "replace_all (x # xs) old new =
     (if old \<noteq> [] \<and> has_prefix (x # xs) old
      then new @ replace_all (drop (length old - 1) xs) old new
      else x # replace_all xs old new)"

lemma split_on_ne [simp]: "split_on c s \<noteq> []"
  by (induction s) (auto split: list.splits)

lemma join_split: "join_with [c] (split_on c s) = s"
proof (induction s)
  case Nil
  then show ?case by simp
next
  case (Cons x xs)
  obtain w ws where w: "split_on c xs = w # ws"
    by (cases "split_on c xs") auto
  with Cons show ?case by (cases ws) auto
qed

lemma split_on_no_sep: "w \<in> set (split_on c s) \<Longrightarrow> c \<notin> set w"
  by (induction s arbitrary: w) (auto split: if_splits list.splits)

lemma split_on_word: "c \<notin> set w \<Longrightarrow> split_on c w = [w]"
  by (induction w) auto

lemma split_on_append: "c \<notin> set w \<Longrightarrow> split_on c (w @ c # s) = w # split_on c s"
  by (induction w) auto

lemma split_join:
  "ws \<noteq> [] \<Longrightarrow> (\<And>w. w \<in> set ws \<Longrightarrow> c \<notin> set w) \<Longrightarrow> split_on c (join_with [c] ws) = ws"
  by (induction "[c]" ws rule: join_with.induct) (auto simp: split_on_word split_on_append)

lemma cut_at_found: "cut_at c s = (b, a, True) \<Longrightarrow> s = b @ c # a \<and> c \<notin> set b"
  by (induction s arbitrary: b a) (auto split: if_splits prod.splits)

lemma cut_at_word: "c \<notin> set w \<Longrightarrow> cut_at c (w @ c # s) = (w, s, True)"
  by (induction w) auto

lemma cut_at_not_found: "c \<notin> set w \<Longrightarrow> cut_at c w = (w, [], False)"
  by (induction w) auto

lemma has_prefix_append [simp]: "has_prefix (p @ s) p"
  by (simp add: has_prefix_def)

lemma has_prefix_iff: "has_prefix s p \<longleftrightarrow> (\<exists>r. s = p @ r)"
  by (auto simp: has_prefix_def) (metis append_take_drop_id)

lemma trim_prefix_append [simp]: "trim_prefix (p @ s) p = s"
  by (simp add: trim_prefix_def)

section \<open>Package strconv and the verbs of fmt\<close>

definition is_digit :: "char \<Rightarrow> bool" where
  "is_digit c \<longleftrightarrow> 48 \<le> code_of c \<and> code_of c \<le> 57"

definition digit_val :: "char \<Rightarrow> nat" where
  "digit_val c = code_of c - 48"

fun digits_val :: "nat \<Rightarrow> string \<Rightarrow> nat" where
  "digits_val acc [] = acc"
| "digits_val acc (c # cs) = digits_val (10 * acc + digit_val c) cs"

text \<open>\<^verbatim>\<open>strconv.ParseUint(s, 10, 64)\<close>: no sign, digits only, in range.\<close>

definition parse_uint :: "string \<Rightarrow> nat option" where
  "parse_uint s =
     (if s = [] \<or> \<not> list_all is_digit s \<or> max_u64 < digits_val 0 s then None
      else Some (digits_val 0 s))"

text \<open>\<^verbatim>\<open>strconv.ParseInt(s, 10, 64)\<close> and \<^verbatim>\<open>strconv.Atoi\<close>: an optional sign, digits, in range.\<close>

definition parse_int :: "string \<Rightarrow> int option" where
  "parse_int s =
     (let neg = has_prefix s ''-'';
          body = (if neg \<or> has_prefix s ''+'' then tl s else s);
          n = int (digits_val 0 body);
          v = (if neg then - n else n)
      in if body = [] \<or> \<not> list_all is_digit body \<or> \<not> in_i64 v then None else Some v)"

text \<open>
  \<^verbatim>\<open>value, _ := strconv.Atoi(s)\<close>: on an error the value is 0, or the nearest bound when the number
  is out of range.
\<close>

definition atoi_value :: "string \<Rightarrow> int" where
  "atoi_value s =
     (case parse_int s of Some v \<Rightarrow> v
      | None \<Rightarrow>
          let neg = has_prefix s ''-'';
              body = (if neg \<or> has_prefix s ''+'' then tl s else s)
          in if body = [] \<or> \<not> list_all is_digit body then 0
             else if neg then - (2 ^ 63) else 2 ^ 63 - 1)"

definition digit_char :: "nat \<Rightarrow> char" where
  "digit_char d = char_of (48 + d)"

fun show_nat :: "nat \<Rightarrow> string" where
  "show_nat n = (if n < 10 then [digit_char n] else show_nat (n div 10) @ [digit_char (n mod 10)])"

declare show_nat.simps [simp del]

definition show_int :: "int \<Rightarrow> string" where
  "show_int i = (if i < 0 then ''-'' @ show_nat (nat (- i)) else show_nat (nat i))"

text \<open>\<^verbatim>\<open>%0<w>d\<close> of a non-negative number.\<close>

definition pad_nat :: "nat \<Rightarrow> nat \<Rightarrow> string" where
  "pad_nat w n = replicate (w - length (show_nat n)) CHR ''0'' @ show_nat n"

lemma code_of_char_of: "n < 256 \<Longrightarrow> code_of (char_of n) = n"
  by (simp add: code_of_def)

lemma digit_char_props: "d < 10 \<Longrightarrow> is_digit (digit_char d) \<and> digit_val (digit_char d) = d"
  by (simp add: is_digit_def digit_val_def digit_char_def code_of_char_of)

lemma digits_val_append: "digits_val acc (xs @ ys) = digits_val (digits_val acc xs) ys"
  by (induction xs arbitrary: acc) auto

lemma show_nat_ne [simp]: "show_nat n \<noteq> []"
  by (subst show_nat.simps) simp

lemma show_nat_digits: "list_all is_digit (show_nat n)"
proof (induction n rule: show_nat.induct)
  case (1 n)
  then show ?case
    by (subst show_nat.simps) (simp add: digit_char_props)
qed

lemma digits_val_show_nat: "digits_val 0 (show_nat n) = n"
proof (induction n rule: show_nat.induct)
  case (1 n)
  then show ?case
    by (subst show_nat.simps) (auto simp: digit_char_props digits_val_append)
qed

lemma parse_uint_show: "n < 2 ^ 64 \<Longrightarrow> parse_uint (show_nat n) = Some n"
  by (simp add: parse_uint_def show_nat_digits digits_val_show_nat max_u64_def)

lemma not_digit_sign: "is_digit c \<Longrightarrow> c \<noteq> CHR ''-'' \<and> c \<noteq> CHR ''+'' \<and> c \<noteq> CHR ''/''"
  by (auto simp: is_digit_def code_of_def)

lemma show_nat_hd_digit: "is_digit (hd (show_nat n))"
  using show_nat_digits [of n] by (cases "show_nat n") auto

lemma has_prefix_single: "has_prefix s [c] \<longleftrightarrow> s \<noteq> [] \<and> hd s = c"
  by (cases s) (auto simp: has_prefix_def)

lemma parse_int_show: "in_i64 i \<Longrightarrow> parse_int (show_int i) = Some i"
proof (cases "i < 0")
  case True
  assume "in_i64 i"
  with True show ?thesis
    by (simp add: parse_int_def show_int_def has_prefix_single show_nat_digits
        digits_val_show_nat)
next
  case False
  assume "in_i64 i"
  with False show_nat_hd_digit [of "nat i"] show ?thesis
    by (auto simp: parse_int_def show_int_def has_prefix_single show_nat_digits
        digits_val_show_nat dest: not_digit_sign)
qed

lemma show_nat_inj: "show_nat m = show_nat n \<longleftrightarrow> m = n"
  by (metis digits_val_show_nat)

lemma show_nat_no_slash: "CHR ''/'' \<notin> set (show_nat n)"
  using show_nat_digits [of n] by (auto simp: list_all_iff dest: not_digit_sign)

section \<open>Go maps in iteration order\<close>

text \<open>
  A Go map that the code ranges over is an association list with distinct keys, in the order of
  the iteration; the properties that matter are proved to be independent of that order.
\<close>

type_synonym ('k, 'v) gomap = "('k \<times> 'v) list"

definition gm_wf :: "('k, 'v) gomap \<Rightarrow> bool" where
  "gm_wf m \<longleftrightarrow> distinct (map fst m)"

fun gm_put :: "'k \<Rightarrow> 'v \<Rightarrow> ('k, 'v) gomap \<Rightarrow> ('k, 'v) gomap" where
  "gm_put k v [] = [(k, v)]"
| "gm_put k v ((k', v') # m) = (if k = k' then (k, v) # m else (k', v') # gm_put k v m)"

text \<open>\<^verbatim>\<open>m[k]\<close> with the zero value for a missing key.\<close>

definition gm_get :: "'v \<Rightarrow> ('k, 'v) gomap \<Rightarrow> 'k \<Rightarrow> 'v" where
  "gm_get z m k = (case map_of m k of None \<Rightarrow> z | Some v \<Rightarrow> v)"

lemma map_of_gm_put: "map_of (gm_put k v m) = (map_of m)(k \<mapsto> v)"
  by (induction m) auto

lemma keys_gm_put: "fst ` set (gm_put k v m) = insert k (fst ` set m)"
  by (induction k v m rule: gm_put.induct) (simp_all add: insert_commute)

lemma gm_wf_put: "gm_wf m \<Longrightarrow> gm_wf (gm_put k v m)"
proof (induction m)
  case (Cons p m)
  then show ?case
    using keys_gm_put [of k v m] by (cases p) (auto simp: gm_wf_def)
qed (simp add: gm_wf_def)

lemma gm_wf_Nil [simp]: "gm_wf []"
  by (simp add: gm_wf_def)

lemma mset_concat_map: "mset (concat (map f xs)) = (\<Sum>x \<in># mset xs. mset (f x))"
  by (induction xs) auto

lemma gm_get_mset:
  assumes "mset a = mset b" "gm_wf a"
  shows "gm_get z a = gm_get z b"
proof -
  have "mset (map fst a) = mset (map fst b)" using assms(1) by simp
  then have "gm_wf b" using assms(2) mset_eq_imp_distinct_iff unfolding gm_wf_def by blast
  then have "map_of a = map_of b"
    using assms mset_eq_setD[OF assms(1)] unfolding gm_wf_def by (intro map_of_inject_set[THEN iffD2]) auto
  then show ?thesis by (auto simp: gm_get_def)
qed

lemma distinct_map_mset: "mset xs = mset ys \<Longrightarrow> distinct (map f xs) = distinct (map f ys)"
  by (intro mset_eq_imp_distinct_iff) simp

section \<open>File paths\<close>

text \<open>\<^verbatim>\<open>filepath.Join\<close> and \<^verbatim>\<open>filepath.Base\<close> on paths that are clean already.\<close>

definition path_join :: "string \<Rightarrow> string \<Rightarrow> string" where
  "path_join a b = a @ ''/'' @ b"

definition path_base :: "string \<Rightarrow> string" where
  "path_base s = last (split_on CHR ''/'' s)"

text \<open>\<^verbatim>\<open>strings.Fields\<close>.\<close>

definition str_fields :: "string \<Rightarrow> string list" where
  "str_fields s = fields_func is_space s"

text \<open>Deletion from a map.\<close>

definition gm_del :: "'k \<Rightarrow> ('k, 'v) gomap \<Rightarrow> ('k, 'v) gomap" where
  "gm_del k m = filter (\<lambda>(k', v). k' \<noteq> k) m"

lemma map_of_gm_del: "map_of (gm_del k m) = (map_of m)(k := None)"
  by (rule ext, induction m) (auto simp: gm_del_def)

lemma gm_wf_del: "gm_wf m \<Longrightarrow> gm_wf (gm_del k m)"
  unfolding gm_wf_def gm_del_def by (induction m) (auto simp: rev_image_eqI)

lemma gm_wf_map_of: "gm_wf m \<Longrightarrow> (k, v) \<in> set m \<longleftrightarrow> map_of m k = Some v"
  by (simp add: gm_wf_def)

lemma find_SomeD: "List.find P xs = Some x \<Longrightarrow> x \<in> set xs \<and> P x"
  by (induction xs) (auto split: if_splits)

section \<open>Fresh names\<close>

text \<open>A list of names without repetition that avoids the names already seen.\<close>

definition fresh :: "'a list \<Rightarrow> 'a set \<Rightarrow> bool" where
  "fresh xs seen \<longleftrightarrow> distinct xs \<and> set xs \<inter> seen = {}"

lemma fresh_simps [simp]:
  "fresh [] seen"
  "fresh (x # xs) seen \<longleftrightarrow> x \<notin> seen \<and> fresh xs (insert x seen)"
  by (auto simp: fresh_def)

lemma fresh_append: "fresh (xs @ ys) seen \<longleftrightarrow> fresh xs seen \<and> fresh ys (seen \<union> set xs)"
  by (auto simp: fresh_def)

lemma fresh_empty: "fresh xs {} \<longleftrightarrow> distinct xs"
  by (simp add: fresh_def)

section \<open>Normal forms of names\<close>

lemma trim_space_idem [simp]: "trim_space (trim_space s) = trim_space s"
proof -
  have i: "dropWhile P (rev (dropWhile P (rev t))) = rev (dropWhile P (rev t))"
    if "dropWhile P t = t" for P and t :: string
  proof (cases "rev (dropWhile P (rev t))")
    case (Cons x xs)
    have "t = (x # xs) @ rev (takeWhile P (rev t))"
      using Cons by (metis rev_append rev_rev_ident takeWhile_dropWhile_id)
    then have "\<not> P x" using that by (metis append_Cons dropWhile_eq_self_iff list.sel(1) list.distinct(1))
    then show ?thesis unfolding Cons by simp
  next
    case Nil
    show ?thesis unfolding Nil by simp
  qed
  show ?thesis
    unfolding trim_space_def by (simp add: i dropWhile_idem)
qed

lemma fields_aux_words:
  "list_all (\<lambda>x. \<not> p x) acc \<Longrightarrow> w \<in> set (fields_aux p acc s) \<Longrightarrow> w \<noteq> [] \<and> list_all (\<lambda>x. \<not> p x) w"
proof (induction s arbitrary: acc)
  case (Cons x xs)
  show ?case
  proof (cases "p x")
    case True
    then have "w \<in> set (fields_aux p [] xs) \<or> acc \<noteq> [] \<and> w = rev acc" using Cons.prems(2) by (auto split: if_splits)
    then show ?thesis using Cons.IH[of "[]"] Cons.prems(1) by (auto simp: list_all_iff)
  next
    case False
    then show ?thesis using Cons.IH[of "x # acc"] Cons.prems by simp
  qed
qed (auto simp: list_all_iff split: if_splits)

lemma fields_aux_run:
  "list_all (\<lambda>x. \<not> p x) w \<Longrightarrow> fields_aux p acc (w @ s) = fields_aux p (rev w @ acc) s"
  by (induction w arbitrary: acc) simp_all

lemma fields_func_join:
  assumes "p c" "\<forall>w \<in> set ws. w \<noteq> [] \<and> list_all (\<lambda>x. \<not> p x) w"
  shows "fields_func p (join_with [c] ws) = ws"
proof -
  have "fields_aux p [] (join_with [c] ws) = ws" using assms(2)
  proof (induction "[c]" ws rule: join_with.induct)
    case (2 w)
    then show ?case using fields_aux_run[of p w "[]" "[]"] by simp
  next
    case (3 w v vs)
    then show ?case using fields_aux_run[of p w "[]" "c # join_with [c] (v # vs)"] assms(1) by simp
  qed simp
  then show ?thesis by (simp add: fields_func_def)
qed

lemma to_lower_alnum: "list_all is_lower_alnum w \<Longrightarrow> to_lower w = w"
  unfolding to_lower_def by (rule map_idI) (auto simp: list_all_iff is_lower_alnum_def lower_char_def)

lemma to_lower_join: "to_lower (join_with sep ws) = join_with (to_lower sep) (map to_lower ws)"
  by (induction sep ws rule: join_with.induct) (simp_all add: to_lower_def)

text \<open>The normal form of a name: words of lower case letters and digits joined by underscores.\<close>

definition join_fields :: "string \<Rightarrow> string" where
  "join_fields v = join_with ''_'' (fields_func (\<lambda>c. \<not> is_lower_alnum c) (to_lower v))"

lemma join_fields_idem [simp]: "join_fields (join_fields v) = join_fields v"
proof -
  let ?ws = "fields_func (\<lambda>c. \<not> is_lower_alnum c) (to_lower v)"
  have w: "\<forall>w \<in> set ?ws. w \<noteq> [] \<and> list_all is_lower_alnum w"
    using fields_aux_words[of "\<lambda>c. \<not> is_lower_alnum c" "[]"] by (simp add: fields_func_def)
  have "map to_lower ?ws = ?ws" using w to_lower_alnum by (simp add: map_idI)
  moreover have "to_lower ''_'' = ''_''" by code_simp
  moreover have "\<not> is_lower_alnum (CHR ''_'')" by code_simp
  ultimately show ?thesis
    unfolding join_fields_def to_lower_join using fields_func_join[of "\<lambda>c. \<not> is_lower_alnum c" "CHR ''_''" ?ws] w by simp
qed

lemma join_fields_chars: "x \<in> set (join_fields v) \<Longrightarrow> is_lower_alnum x \<or> x = CHR ''_''"
proof -
  have "x \<in> set (join_with ''_'' ws) \<Longrightarrow> (\<forall>w \<in> set ws. list_all is_lower_alnum w) \<Longrightarrow> is_lower_alnum x \<or> x = CHR ''_''" for ws
    by (induction "''_''" ws rule: join_with.induct) (auto simp: list_all_iff)
  moreover have "\<forall>w \<in> set (fields_func (\<lambda>c. \<not> is_lower_alnum c) (to_lower v)). list_all is_lower_alnum w"
    using fields_aux_words[of "\<lambda>c. \<not> is_lower_alnum c" "[]"] by (simp add: fields_func_def)
  ultimately show "x \<in> set (join_fields v) \<Longrightarrow> is_lower_alnum x \<or> x = CHR ''_''" unfolding join_fields_def by blast
qed

lemma space_not_alnum: "is_space x \<Longrightarrow> \<not> is_lower_alnum x \<and> x \<noteq> CHR ''_''"
  by (auto simp: is_space_def is_lower_alnum_def code_of_def)

lemma trim_no_space: "(\<And>x. x \<in> set s \<Longrightarrow> \<not> is_space x) \<Longrightarrow> trim_space s = s"
proof -
  assume s: "\<And>x. x \<in> set s \<Longrightarrow> \<not> is_space x"
  have d: "dropWhile is_space t = t" if "set t \<subseteq> set s" for t
    using that s by (cases t) auto
  show "trim_space s = s" unfolding trim_space_def by (simp add: d)
qed

lemma trim_join_fields [simp]: "trim_space (join_fields v) = join_fields v"
  by (rule trim_no_space) (metis join_fields_chars space_not_alnum)

lemma gm_put_append: "k \<notin> fst ` set m \<Longrightarrow> gm_put k v m = m @ [(k, v)]"
  by (induction m) auto

lemma gm_put_new: "map_of m k = None \<Longrightarrow> gm_put k v m = m @ [(k, v)]"
  by (simp add: gm_put_append map_of_eq_None_iff)

lemma gm_get_put: "gm_get z (gm_put k v m) q = (if q = k then v else gm_get z m q)"
  by (simp add: gm_get_def map_of_gm_put)

lemma list_all2_back: "list_all2 P xs ys \<Longrightarrow> y \<in> set ys \<Longrightarrow> \<exists>x\<in>set xs. P x y"
  by (induction rule: list_all2_induct) auto

end
