(* ===== verification/Ring.thy ===== *)
theory Ring
  imports Go_Prelude
begin

text \<open>
  The shared-memory ring of \<^verbatim>\<open>src/shared/ring/ring.go\<close>: one producer process and one consumer
  process map the same file, which holds a header (two counters, a magic number and the bounds) and
  a number of fixed-size slots. The mapped file is a byte memory with a length; a \<^verbatim>\<open>Ring\<close> value is
  the record of what one side keeps. \<^verbatim>\<open>Read\<close> and \<^verbatim>\<open>Write\<close> are composed of the three parts the code
  has (wait for a frame, copy, publish the counter), and the two processes interleave at exactly
  those parts in the step relation \<open>ring_step\<close>.
\<close>

section \<open>Memory and little-endian values\<close>

fun le_bytes :: "nat \<Rightarrow> nat \<Rightarrow> byte list" where
  "le_bytes 0 v = []"
| "le_bytes (Suc n) v = of_nat (v mod 256) # le_bytes n (v div 256)"

fun le_val :: "byte list \<Rightarrow> nat" where
  "le_val [] = 0"
| "le_val (b # bs) = unat b + 256 * le_val bs"

definition peek :: "(nat \<Rightarrow> byte) \<Rightarrow> nat \<Rightarrow> nat \<Rightarrow> byte list" where
  "peek m off n = map m [off ..< off + n]"

definition poke :: "(nat \<Rightarrow> byte) \<Rightarrow> nat \<Rightarrow> byte list \<Rightarrow> (nat \<Rightarrow> byte)" where
  "poke m off bs = (\<lambda>i. if off \<le> i \<and> i < off + length bs then bs ! (i - off) else m i)"

definition load_le :: "nat \<Rightarrow> (nat \<Rightarrow> byte) \<Rightarrow> nat \<Rightarrow> nat" where
  "load_le n m off = le_val (peek m off n)"

definition store_le :: "nat \<Rightarrow> (nat \<Rightarrow> byte) \<Rightarrow> nat \<Rightarrow> nat \<Rightarrow> (nat \<Rightarrow> byte)" where
  "store_le n m off v = poke m off (le_bytes n v)"

lemma length_le_bytes [simp]: "length (le_bytes n v) = n"
  by (induction n arbitrary: v) auto

lemma unat_of_nat_byte: "unat (of_nat (v mod 256) :: byte) = v mod 256"
  by (simp add: unat_of_nat)

lemma le_val_le_bytes: "le_val (le_bytes n v) = v mod 256 ^ n"
proof (induction n arbitrary: v)
  case 0
  then show ?case by simp
next
  case (Suc n)
  have "le_val (le_bytes (Suc n) v) = v mod 256 + 256 * ((v div 256) mod 256 ^ n)"
    using Suc by (simp add: unat_of_nat_byte)
  also have "\<dots> = v mod (256 * 256 ^ n)"
    by (simp add: mod_mult2_eq)
  finally show ?case by simp
qed

lemma length_peek [simp]: "length (peek m off n) = n"
  by (simp add: peek_def)

lemma peek_nth: "i < n \<Longrightarrow> peek m off n ! i = m (off + i)"
  by (simp add: peek_def)

lemma peek_poke_same: "n = length bs \<Longrightarrow> peek (poke m off bs) off n = bs"
  by (rule nth_equalityI) (auto simp: peek_nth poke_def)

lemma peek_poke_other:
  "off' + n \<le> off \<or> off + length bs \<le> off' \<Longrightarrow> peek (poke m off bs) off' n = peek m off' n"
  by (rule nth_equalityI) (auto simp: peek_nth poke_def)

lemma load_store_same: "load_le n (store_le n m off v) off = v mod 256 ^ n"
  by (simp add: load_le_def store_le_def peek_poke_same le_val_le_bytes)

lemma load_poke_other:
  "off' + n \<le> off \<or> off + length bs \<le> off' \<Longrightarrow> load_le n (poke m off bs) off' = load_le n m off'"
  by (simp add: load_le_def peek_poke_other)

lemma load_store_other:
  "off' + n \<le> off \<or> off + k \<le> off' \<Longrightarrow> load_le n (store_le k m off v) off' = load_le n m off'"
  by (simp add: store_le_def load_poke_other)

lemma store_le_outside: "i < off \<or> off + n \<le> i \<Longrightarrow> store_le n m off v i = m i"
  by (auto simp: store_le_def poke_def)

section \<open>The file and its header\<close>

definition HeaderSize :: nat where "HeaderSize = 4096"
definition DefaultSlots :: nat where "DefaultSlots = 8"
definition MaxSlotSize :: nat where "MaxSlotSize = 16 * 2 ^ 20"
definition MinSlotSize :: nat where "MinSlotSize = 2 ^ 20"
definition MaxStreamLength :: nat where "MaxStreamLength = 2 ^ 40"
definition versionOffset :: nat where "versionOffset = 136"
definition slotsOffset :: nat where "slotsOffset = 140"
definition slotSizeOffset :: nat where "slotSizeOffset = 144"
definition totalOffset :: nat where "totalOffset = 152"
definition headOffset :: nat where "headOffset = 0"
definition tailOffset :: nat where "tailOffset = 64"

lemmas ring_consts = HeaderSize_def MaxSlotSize_def MinSlotSize_def MaxStreamLength_def
  versionOffset_def slotsOffset_def slotSizeOffset_def totalOffset_def headOffset_def tailOffset_def

definition ring_magic :: "byte list" where
  "ring_magic = [65, 73, 79, 82, 73, 78, 71, 49]"

record mapping =
  map_len :: nat
  map_mem :: "nat \<Rightarrow> byte"

record ring =
  r_slots :: nat
  r_slotSize :: nat
  r_total :: nat
  r_position :: nat
  r_frameBytes :: nat
  r_framePos :: nat
  r_producer :: bool

datatype ring_error =
    OsError string
  | InvalidBounds
  | MappingTooLarge
  | NotRegularFile
  | InvalidMagicOrVersion
  | InvalidBoundsOrLength
  | ProducerCannotRead
  | EndOfFile
  | ConsumerCannotWrite
  | WriteExceedsLength
  | CorruptCounters
  | ClosedEarly nat nat

text \<open>
  \<open>os\<close> is the first failure of the system calls that create, truncate and map the file, if there is
  one. A truncated new file reads as zero.
\<close>

definition ring_initialize :: "ring_error option \<Rightarrow> int \<Rightarrow> nat \<Rightarrow> nat \<Rightarrow> ring_error + mapping" where
  "ring_initialize os slots slotSize totalLen =
     fail_if (slots < 2 \<or> slots > 64 \<or> slotSize < MinSlotSize \<or> slotSize > MaxSlotSize
              \<or> totalLen = 0 \<or> totalLen > MaxStreamLength) InvalidBounds
     (let size = wrap_u64 (HeaderSize + wrap_u64 (nat slots * slotSize)) in
      fail_if (size > 2 ^ 63 - 1) MappingTooLarge
      (case os of Some e \<Rightarrow> Inl e
       | None \<Rightarrow>
           let m1 = poke (\<lambda>_. 0) 128 ring_magic;
               m2 = store_le 4 m1 versionOffset 1;
               m3 = store_le 4 m2 slotsOffset (nat slots);
               m4 = store_le 8 m3 slotSizeOffset slotSize;
               m5 = store_le 8 m4 totalOffset totalLen;
               m6 = store_le 8 m5 headOffset 0;
               m7 = store_le 8 m6 tailOffset 0
           in Inr \<lparr>map_len = size, map_mem = m7\<rparr>))"

text \<open>
  \<open>os\<close> is again the first failing system call (the open, the stat or the map), \<open>regular\<close> whether the
  mode has no type bits.
\<close>

definition ring_open :: "ring_error option \<Rightarrow> bool \<Rightarrow> mapping \<Rightarrow> bool \<Rightarrow> ring_error + ring" where
  "ring_open os regular file producer =
     (case os of Some e \<Rightarrow> Inl e
      | None \<Rightarrow>
          fail_if (\<not> regular \<or> map_len file < HeaderSize) NotRegularFile
          (let m = map_mem file in
           fail_if (peek m 128 8 \<noteq> ring_magic \<or> load_le 4 m versionOffset \<noteq> 1) InvalidMagicOrVersion
           (let slots = load_le 4 m slotsOffset;
                slotSize = load_le 8 m slotSizeOffset;
                totalLen = load_le 8 m totalOffset;
                want = wrap_u64 (HeaderSize + wrap_u64 (slots * slotSize))
            in fail_if (slots < 2 \<or> slots > 64 \<or> slotSize < MinSlotSize \<or> slotSize > MaxSlotSize
                        \<or> totalLen = 0 \<or> totalLen > MaxStreamLength \<or> want \<noteq> map_len file)
                 InvalidBoundsOrLength
                 (Inr \<lparr>r_slots = slots, r_slotSize = slotSize, r_total = totalLen, r_position = 0,
                       r_frameBytes = 0, r_framePos = 0, r_producer = producer\<rparr>))))"

section \<open>Read and Write\<close>

text \<open>The counters are 64-bit words at their offsets in the mapping.\<close>

definition get_head :: "mapping \<Rightarrow> nat" where "get_head mp = load_le 8 (map_mem mp) headOffset"
definition get_tail :: "mapping \<Rightarrow> nat" where "get_tail mp = load_le 8 (map_mem mp) tailOffset"

definition set_head :: "nat \<Rightarrow> mapping \<Rightarrow> mapping" where
  "set_head v mp = mp\<lparr>map_mem := store_le 8 (map_mem mp) headOffset v\<rparr>"

definition set_tail :: "nat \<Rightarrow> mapping \<Rightarrow> mapping" where
  "set_tail v mp = mp\<lparr>map_mem := store_le 8 (map_mem mp) tailOffset v\<rparr>"

datatype acquired = Corrupt | MustWait | Acquired ring

text \<open>One round of the waiting loop of \<^verbatim>\<open>Read\<close>: \<open>MustWait\<close> is the call of \<^verbatim>\<open>wait\<close>.\<close>

definition acquire_read :: "mapping \<Rightarrow> ring \<Rightarrow> acquired" where
  "acquire_read mp r =
     (if r_framePos r = r_frameBytes r then
        let h = get_head mp; t = get_tail mp in
        if h < t \<or> h - t > r_slots r then Corrupt
        else if h = t then MustWait
        else Acquired (r\<lparr>r_frameBytes := min (r_slotSize r) (u64_sub (r_total r) (r_position r)), r_framePos := 0\<rparr>)
      else Acquired r)"

definition acquire_write :: "mapping \<Rightarrow> ring \<Rightarrow> acquired" where
  "acquire_write mp r =
     (if r_framePos r = r_frameBytes r then
        let h = get_head mp; t = get_tail mp in
        if h < t \<or> h - t > r_slots r then Corrupt
        else if h - t = r_slots r then MustWait
        else Acquired (r\<lparr>r_frameBytes := min (r_slotSize r) (u64_sub (r_total r) (r_position r)), r_framePos := 0\<rparr>)
      else Acquired r)"

definition slot_start :: "ring \<Rightarrow> nat \<Rightarrow> nat" where
  "slot_start r c = wrap_u64 (wrap_u64 (HeaderSize + wrap_u64 ((c mod r_slots r) * r_slotSize r))
                              + r_framePos r)"

definition advance :: "nat \<Rightarrow> ring \<Rightarrow> ring" where
  "advance amount r = r\<lparr>r_framePos := wrap_u64 (r_framePos r + amount),
                        r_position := wrap_u64 (r_position r + amount)\<rparr>"

text \<open>
  The copy out of the slot for a buffer of \<open>n\<close> bytes: the bytes, the new state and the tail that was
  loaded. A slice expression out of the mapping's range panics, which is \<open>None\<close>.
\<close>

definition copy_read :: "mapping \<Rightarrow> ring \<Rightarrow> nat \<Rightarrow> (byte list \<times> ring \<times> nat) option" where
  "copy_read mp r n =
     (let amount = min n (u64_sub (r_frameBytes r) (r_framePos r));
          t = get_tail mp;
          start = slot_start r t
      in if start + amount \<le> map_len mp
         then Some (peek (map_mem mp) start amount, advance amount r, t) else None)"

definition publish_read :: "mapping \<Rightarrow> ring \<Rightarrow> nat \<Rightarrow> mapping" where
  "publish_read mp r t =
     (if r_framePos r = r_frameBytes r then set_tail (wrap_u64 (t + 1)) mp else mp)"

definition copy_write :: "mapping \<Rightarrow> ring \<Rightarrow> byte list \<Rightarrow> (mapping \<times> ring \<times> byte list \<times> nat) option" where
  "copy_write mp r buffer =
     (let amount = min (length buffer) (u64_sub (r_frameBytes r) (r_framePos r));
          h = get_head mp;
          start = slot_start r h
      in if start + amount \<le> map_len mp
         then Some (mp\<lparr>map_mem := poke (map_mem mp) start (take amount buffer)\<rparr>,
                    advance amount r, drop amount buffer, h)
         else None)"

definition publish_write :: "mapping \<Rightarrow> ring \<Rightarrow> nat \<Rightarrow> mapping" where
  "publish_write mp r h =
     (if r_framePos r = r_frameBytes r then set_head (wrap_u64 (h + 1)) mp else mp)"

text \<open>The checks at the entry of the two methods.\<close>

definition read_guard :: "ring \<Rightarrow> ring_error option" where
  "read_guard r = (if r_producer r then Some ProducerCannotRead
                   else if r_position r = r_total r then Some EndOfFile else None)"

definition write_guard :: "ring \<Rightarrow> byte list \<Rightarrow> ring_error option" where
  "write_guard r buffer =
     (if \<not> r_producer r then Some ConsumerCannotWrite
      else if wrap_u64 (r_position r + length buffer) > r_total r then Some WriteExceedsLength
      else None)"

text \<open>
  A whole call on a mapping that nobody else changes meanwhile. \<open>Blocked\<close> is a call that waits, with
  what is still to be written; \<open>Panics\<close> a slice out of range. The loop of \<^verbatim>\<open>Write\<close> is
  \<open>ring_write_loop\<close>; it returns \<open>None\<close> if it never stops.
\<close>

datatype 'a call = Failed ring_error nat | Blocked mapping ring 'a | Panics | Returns mapping ring 'a

definition ring_read :: "mapping \<Rightarrow> ring \<Rightarrow> nat \<Rightarrow> byte list call" where
  "ring_read mp r n =
     (case read_guard r of Some e \<Rightarrow> Failed e 0
      | None \<Rightarrow>
          (case acquire_read mp r of
             Corrupt \<Rightarrow> Failed CorruptCounters 0
           | MustWait \<Rightarrow> Blocked mp r []
           | Acquired r1 \<Rightarrow>
               (case copy_read mp r1 n of
                  None \<Rightarrow> Panics
                | Some (bs, r2, t) \<Rightarrow> Returns (publish_read mp r2 t) r2 bs)))"

partial_function (option) ring_write_loop ::
  "mapping \<Rightarrow> ring \<Rightarrow> byte list \<Rightarrow> nat \<Rightarrow> byte list call option" where
  "ring_write_loop mp r buffer written =
     (if buffer = [] then Some (Returns mp r [])
      else (case acquire_write mp r of
              Corrupt \<Rightarrow> Some (Failed CorruptCounters written)
            | MustWait \<Rightarrow> Some (Blocked mp r buffer)
            | Acquired r1 \<Rightarrow>
                (case copy_write mp r1 buffer of
                   None \<Rightarrow> Some Panics
                 | Some (mp2, r2, rest, h) \<Rightarrow>
                     ring_write_loop (publish_write mp2 r2 h) r2 rest
                       (written + (length buffer - length rest)))))"

definition ring_write :: "mapping \<Rightarrow> ring \<Rightarrow> byte list \<Rightarrow> byte list call option" where
  "ring_write mp r buffer =
     (case write_guard r buffer of Some e \<Rightarrow> Some (Failed e 0)
      | None \<Rightarrow> ring_write_loop mp r buffer 0)"

definition ring_close :: "ring \<Rightarrow> ring_error option \<Rightarrow> ring_error option \<Rightarrow> ring_error option" where
  "ring_close r unmap_err close_err =
     (let result = (if r_producer r \<and> r_position r \<noteq> r_total r
                    then Some (ClosedEarly (r_position r) (r_total r)) else None);
          result = (if result = None \<and> unmap_err \<noteq> None then unmap_err else result)
      in if result = None \<and> close_err \<noteq> None then close_err else result)"

section \<open>Two processes on one mapping\<close>

text \<open>
  Where each process is: outside a call, at the top of the loop, after the frame is acquired, after
  the copy. Each remembers what the local variables of the call hold there. The two loads at the top
  of the loop are one step, because a side loads its own counter and one counter of the other side.
  \<open>p_cancel\<close> and \<open>c_cancel\<close> are \<^verbatim>\<open>wait\<close> returning the error of a context that ended. The
  counters are accessed by sequentially consistent atomic operations. The length of a Go slice is a
  non-negative \<^verbatim>\<open>int\<close>, so it is below \<open>2 ^ 63\<close>.
\<close>

datatype ppc = P_Idle | P_Loop "byte list" | P_Copy "byte list" | P_Pub "byte list" nat
datatype cpc = C_Idle | C_Loop nat | C_Copy nat | C_Pub "byte list" nat

record ring_sys =
  s_map :: mapping
  s_prod :: ring
  s_cons :: ring
  s_ppc :: ppc
  s_cpc :: cpc
  s_sent :: "byte list"
  s_got :: "byte list"

inductive ring_step :: "ring_sys \<Rightarrow> ring_sys \<Rightarrow> bool" where
  p_call: "s_ppc s = P_Idle \<Longrightarrow> length buffer < 2 ^ 63 \<Longrightarrow> write_guard (s_prod s) buffer = None \<Longrightarrow>
     ring_step s (s\<lparr>s_ppc := P_Loop buffer\<rparr>)"
| p_return: "s_ppc s = P_Loop [] \<Longrightarrow> ring_step s (s\<lparr>s_ppc := P_Idle\<rparr>)"
| p_acquire: "s_ppc s = P_Loop buffer \<Longrightarrow> buffer \<noteq> [] \<Longrightarrow>
     acquire_write (s_map s) (s_prod s) = Acquired r \<Longrightarrow>
     ring_step s (s\<lparr>s_prod := r, s_ppc := P_Copy buffer\<rparr>)"
| p_cancel: "s_ppc s = P_Loop buffer \<Longrightarrow> buffer \<noteq> [] \<Longrightarrow>
     acquire_write (s_map s) (s_prod s) = MustWait \<Longrightarrow> ring_step s (s\<lparr>s_ppc := P_Idle\<rparr>)"
| p_copy: "s_ppc s = P_Copy buffer \<Longrightarrow>
     copy_write (s_map s) (s_prod s) buffer = Some (mp, r, rest, h) \<Longrightarrow>
     ring_step s (s\<lparr>s_map := mp, s_prod := r, s_ppc := P_Pub rest h,
                    s_sent := s_sent s @ take (length buffer - length rest) buffer\<rparr>)"
| p_publish: "s_ppc s = P_Pub rest h \<Longrightarrow>
     ring_step s (s\<lparr>s_map := publish_write (s_map s) (s_prod s) h, s_ppc := P_Loop rest\<rparr>)"
| c_call: "s_cpc s = C_Idle \<Longrightarrow> read_guard (s_cons s) = None \<Longrightarrow>
     ring_step s (s\<lparr>s_cpc := C_Loop n\<rparr>)"
| c_acquire: "s_cpc s = C_Loop n \<Longrightarrow> acquire_read (s_map s) (s_cons s) = Acquired r \<Longrightarrow>
     ring_step s (s\<lparr>s_cons := r, s_cpc := C_Copy n\<rparr>)"
| c_cancel: "s_cpc s = C_Loop n \<Longrightarrow> acquire_read (s_map s) (s_cons s) = MustWait \<Longrightarrow>
     ring_step s (s\<lparr>s_cpc := C_Idle\<rparr>)"
| c_copy: "s_cpc s = C_Copy n \<Longrightarrow> copy_read (s_map s) (s_cons s) n = Some (bs, r, t) \<Longrightarrow>
     ring_step s (s\<lparr>s_cons := r, s_cpc := C_Pub bs t\<rparr>)"
| c_publish: "s_cpc s = C_Pub bs t \<Longrightarrow>
     ring_step s (s\<lparr>s_map := publish_read (s_map s) (s_cons s) t, s_cpc := C_Idle,
                    s_got := s_got s @ bs\<rparr>)"

text \<open>Both processes open a file that \<^verbatim>\<open>Initialize\<close> has made.\<close>

inductive ring_reachable :: "ring_sys \<Rightarrow> bool" where
  start: "ring_initialize None slots slotSize totalLen = Inr mp \<Longrightarrow>
     ring_open None True mp True = Inr p \<Longrightarrow> ring_open None True mp False = Inr c \<Longrightarrow>
     ring_reachable \<lparr>s_map = mp, s_prod = p, s_cons = c, s_ppc = P_Idle, s_cpc = C_Idle,
                     s_sent = [], s_got = []\<rparr>"
| step: "ring_reachable s \<Longrightarrow> ring_step s t \<Longrightarrow> ring_reachable t"

end
