(* ===== verification/Ring_Stream.thy ===== *)
theory Ring_Stream
  imports Ring
begin

text \<open>
  Correctness of the ring of \<open>Ring\<close>: the invariant of a producer and a consumer that share one
  mapping, and what follows from it for the byte stream between them. The invariant places byte \<open>q\<close>
  of the stream at the address \<open>ring_addr r q\<close> as long as its frame has not been released; a
  preservation lemma per step gives it for every reachable state.
\<close>

section \<open>Frames\<close>

definition ring_geom :: "ring \<Rightarrow> bool" where
  "ring_geom r \<longleftrightarrow> 2 \<le> r_slots r \<and> r_slots r \<le> 64 \<and> MinSlotSize \<le> r_slotSize r
     \<and> r_slotSize r \<le> MaxSlotSize \<and> 0 < r_total r \<and> r_total r \<le> MaxStreamLength"

definition ring_size :: "ring \<Rightarrow> nat" where
  "ring_size r = HeaderSize + r_slots r * r_slotSize r"

text \<open>A side between two frames, inside frame \<open>c\<close>, and after a copy into or out of frame \<open>c\<close>.\<close>

definition frame_closed :: "nat \<Rightarrow> ring \<Rightarrow> bool" where
  "frame_closed c r \<longleftrightarrow> r_framePos r = r_frameBytes r \<and> r_position r = min (c * r_slotSize r) (r_total r)
     \<and> c * r_slotSize r < r_total r + r_slotSize r"

definition frame_copied :: "nat \<Rightarrow> ring \<Rightarrow> bool" where
  "frame_copied c r \<longleftrightarrow> r_framePos r \<le> r_frameBytes r \<and> r_position r = c * r_slotSize r + r_framePos r
     \<and> r_frameBytes r = min (r_slotSize r) (r_total r - c * r_slotSize r) \<and> c * r_slotSize r < r_total r"

definition frame_open :: "nat \<Rightarrow> ring \<Rightarrow> bool" where
  "frame_open c r \<longleftrightarrow> frame_copied c r \<and> r_framePos r < r_frameBytes r"

definition same_ring :: "ring \<Rightarrow> ring \<Rightarrow> bool" where
  "same_ring r r' \<longleftrightarrow> r_slots r' = r_slots r \<and> r_slotSize r' = r_slotSize r \<and> r_total r' = r_total r
     \<and> r_producer r' = r_producer r"

lemmas frame_defs = frame_closed_def frame_copied_def frame_open_def same_ring_def

lemma geom_bounds:
  assumes "ring_geom r"
  shows "0 < r_slots r" "0 < r_slotSize r" "r_slotSize r \<le> 16777216" "r_total r \<le> 1099511627776"
    "ring_size r \<le> 1073745920"
proof -
  show "0 < r_slots r" "0 < r_slotSize r" "r_slotSize r \<le> 16777216" "r_total r \<le> 1099511627776"
    using assms by (auto simp: ring_geom_def ring_consts)
  have "r_slots r * r_slotSize r \<le> 64 * 16777216"
    using assms by (intro mult_mono) (auto simp: ring_geom_def ring_consts)
  then show "ring_size r \<le> 1073745920"
    by (simp add: ring_size_def HeaderSize_def)
qed

lemma frame_copied_position: "frame_copied c r \<Longrightarrow> r_position r \<le> r_total r"
  by (auto simp: frame_copied_def)

text \<open>The address of byte \<open>q\<close> of the stream.\<close>

definition ring_addr :: "ring \<Rightarrow> nat \<Rightarrow> nat" where
  "ring_addr r q = HeaderSize + (q div r_slotSize r mod r_slots r) * r_slotSize r + q mod r_slotSize r"

lemma ring_addr_frame:
  assumes "ring_geom r" "i < r_slotSize r"
  shows "ring_addr r (c * r_slotSize r + i) = HeaderSize + (c mod r_slots r) * r_slotSize r + i"
  using assms geom_bounds[OF assms(1)] by (simp add: ring_addr_def)

lemma slot_in_size:
  assumes "ring_geom r" "i \<le> r_slotSize r"
  shows "HeaderSize + (c mod r_slots r) * r_slotSize r + i \<le> ring_size r"
proof -
  have "Suc (c mod r_slots r) * r_slotSize r \<le> r_slots r * r_slotSize r"
    using geom_bounds(1)[OF assms(1)] by (intro mult_right_mono) (simp_all add: Suc_leI)
  then show ?thesis
    using assms(2) by (simp add: ring_size_def)
qed

lemma ring_addr_ge: "HeaderSize \<le> ring_addr r q"
  by (simp add: ring_addr_def)

lemma mod_window_le:
  fixes a b :: nat
  assumes "a mod n = b mod n" "a \<le> b" "b < a + n"
  shows "a = b"
proof -
  have "n dvd b - a" using mod_eq_dvd_iff_nat[of a b n] assms by simp
  then have "b - a = 0 \<or> n \<le> b - a" using dvd_imp_le[of n "b - a"] by blast
  then show ?thesis using assms(2,3) by linarith
qed

lemma mod_window_inj:
  fixes a b :: nat
  assumes "a mod n = b mod n" "t \<le> a" "a < t + n" "t \<le> b" "b < t + n"
  shows "a = b"
proof (cases "a \<le> b")
  case True
  then show ?thesis using assms mod_window_le[of a n b] by linarith
next
  case False
  then show ?thesis using assms mod_window_le[of b n a] by linarith
qed

lemma divmod_digits_inj:
  fixes a b x y :: nat
  assumes "a * s + x = b * s + y" "x < s" "y < s"
  shows "a = b" "x = y"
proof -
  have "(a * s + x) div s = a" "(b * s + y) div s = b" using assms(2,3) by simp_all
  then show "a = b" using assms(1) by (simp only:)
  then show "x = y" using assms(1) by simp
qed

lemma ring_addr_inj:
  assumes g: "ring_geom r" and eq: "ring_addr r p = ring_addr r q"
    and p: "t * r_slotSize r \<le> p" "p < (t + r_slots r) * r_slotSize r"
    and q: "t * r_slotSize r \<le> q" "q < (t + r_slots r) * r_slotSize r"
  shows "p = q"
proof -
  let ?S = "r_slotSize r" and ?N = "r_slots r"
  have S: "0 < ?S" by (rule geom_bounds[OF g])
  have e: "(p div ?S mod ?N) * ?S + p mod ?S = (q div ?S mod ?N) * ?S + q mod ?S"
    using eq by (simp only: ring_addr_def add.assoc add_left_cancel)
  note dm = divmod_digits_inj[OF e mod_less_divisor[OF S] mod_less_divisor[OF S]]
  have lo: "t \<le> p div ?S" "t \<le> q div ?S"
    by (simp_all only: less_eq_div_iff_mult_less_eq[OF S] p q)
  have hi: "p div ?S < t + ?N" "q div ?S < t + ?N"
    by (simp_all only: div_less_iff_less_mult[OF S] p q)
  have "p div ?S = q div ?S" by (rule mod_window_inj[OF dm(1) lo(1) hi(1) lo(2) hi(2)])
  then have "p div ?S * ?S + p mod ?S = q div ?S * ?S + q mod ?S" using dm(2) by (simp only:)
  then show ?thesis by (simp only: div_mult_mod_eq)
qed


section \<open>The parts of a call\<close>

definition ring_counters :: "mapping \<Rightarrow> ring \<Rightarrow> nat \<Rightarrow> nat \<Rightarrow> bool" where
  "ring_counters mp r h t \<longleftrightarrow> get_head mp = h \<and> get_tail mp = t \<and> t \<le> h \<and> h \<le> t + r_slots r
     \<and> map_len mp = ring_size r"

lemma geom_total_u64: "ring_geom r \<Longrightarrow> r_total r < 2 ^ 64"
  using geom_bounds(4)[of r] by simp

lemma u64_sub_total:
  "ring_geom r \<Longrightarrow> r_position r \<le> r_total r \<Longrightarrow> u64_sub (r_total r) (r_position r) = r_total r - r_position r"
  using geom_total_u64[of r] by (simp add: u64_sub_id)

lemma reopen_frame:
  assumes "ring_geom r" "frame_closed c r" "r_position r < r_total r"
  shows "frame_open c (r\<lparr>r_frameBytes := min (r_slotSize r) (u64_sub (r_total r) (r_position r)), r_framePos := 0\<rparr>)"
  unfolding u64_sub_total[OF assms(1) less_imp_le[OF assms(3)]]
  using assms(2,3) geom_bounds(2)[OF assms(1)] by (auto simp: frame_defs)

lemma acquire_write_cases:
  assumes g: "ring_geom r" and c: "ring_counters mp r h t"
    and f: "frame_closed h r \<or> frame_open h r \<and> h < t + r_slots r" and p: "r_position r < r_total r"
  shows "(acquire_write mp r = MustWait \<and> h = t + r_slots r \<and> frame_closed h r) \<or>
    (\<exists>r'. acquire_write mp r = Acquired r' \<and> frame_open h r' \<and> h < t + r_slots r \<and> same_ring r r'
       \<and> r_position r' = r_position r)"
proof (cases "frame_closed h r")
  case True
  then show ?thesis
    using c reopen_frame[OF g True p]
    by (auto simp: acquire_write_def ring_counters_def frame_closed_def Let_def same_ring_def)
next
  case False
  then show ?thesis
    using f by (auto simp: acquire_write_def frame_open_def same_ring_def)
qed

lemma acquire_read_cases:
  assumes g: "ring_geom r" and c: "ring_counters mp r h t"
    and f: "frame_closed t r \<or> frame_open t r \<and> t < h" and p: "r_position r < r_total r"
  shows "(acquire_read mp r = MustWait \<and> h = t \<and> frame_closed t r) \<or>
    (\<exists>r'. acquire_read mp r = Acquired r' \<and> frame_open t r' \<and> t < h \<and> same_ring r r'
       \<and> r_position r' = r_position r)"
proof (cases "frame_closed t r")
  case True
  then show ?thesis
    using c reopen_frame[OF g True p]
    by (auto simp: acquire_read_def ring_counters_def frame_closed_def Let_def same_ring_def)
next
  case False
  then show ?thesis
    using f by (auto simp: acquire_read_def frame_open_def same_ring_def)
qed

lemma slot_start_addr:
  assumes g: "ring_geom r" and f: "frame_open c r"
  shows "slot_start r c = ring_addr r (r_position r)"
    "slot_start r c = HeaderSize + (c mod r_slots r) * r_slotSize r + r_framePos r"
proof -
  have fp: "r_framePos r < r_slotSize r" using f by (auto simp: frame_defs)
  let ?b = "(c mod r_slots r) * r_slotSize r"
  have "HeaderSize + ?b + r_framePos r \<le> 1073745920"
    using slot_in_size[OF g, of "r_framePos r" c] geom_bounds(5)[OF g] fp by simp
  then have "wrap_u64 ?b = ?b" "wrap_u64 (HeaderSize + ?b) = HeaderSize + ?b"
    "wrap_u64 (HeaderSize + ?b + r_framePos r) = HeaderSize + ?b + r_framePos r"
    by (simp_all add: wrap_u64_def)
  then show e: "slot_start r c = HeaderSize + ?b + r_framePos r" by (simp add: slot_start_def)
  show "slot_start r c = ring_addr r (r_position r)"
    using f ring_addr_frame[OF g fp, of c] e by (simp add: frame_defs)
qed

lemma advance_frame:
  assumes g: "ring_geom r" and f: "frame_open c r" and a: "amount \<le> r_frameBytes r - r_framePos r"
  shows "frame_copied c (advance amount r)" "same_ring r (advance amount r)"
    "r_position (advance amount r) = r_position r + amount"
    "r_framePos (advance amount r) = r_framePos r + amount"
proof -
  have "r_framePos r + amount \<le> r_position r + amount" "r_position r + amount \<le> r_total r"
    using f a by (auto simp: frame_defs)
  then have "r_framePos r + amount < 2 ^ 64" "r_position r + amount < 2 ^ 64"
    using geom_total_u64[OF g] by linarith+
  then show "r_position (advance amount r) = r_position r + amount"
    "r_framePos (advance amount r) = r_framePos r + amount"
    by (simp_all add: advance_def)
  then show "frame_copied c (advance amount r)" "same_ring r (advance amount r)"
    using f a by (auto simp: frame_defs advance_def)
qed

lemma frame_amount:
  assumes g: "ring_geom r" and f: "frame_open c r"
  shows "u64_sub (r_frameBytes r) (r_framePos r) = r_frameBytes r - r_framePos r"
    "slot_start r c + (r_frameBytes r - r_framePos r) \<le> ring_size r"
proof -
  have b: "r_frameBytes r \<le> r_slotSize r" "r_framePos r < r_frameBytes r"
    using f by (auto simp: frame_defs)
  then have "r_frameBytes r < 2 ^ 64" using geom_bounds(3)[OF g] by simp
  then show "u64_sub (r_frameBytes r) (r_framePos r) = r_frameBytes r - r_framePos r"
    using b by (simp add: u64_sub_id)
  show "slot_start r c + (r_frameBytes r - r_framePos r) \<le> ring_size r"
    using slot_in_size[OF g b(1), of c] b by (simp add: slot_start_addr(2)[OF g f])
qed

lemma copy_write_ok:
  assumes g: "ring_geom r" and c: "ring_counters mp r h t" and f: "frame_open h r"
  defines "amount \<equiv> \<lambda>b. min (length b) (r_frameBytes r - r_framePos r)"
  shows "copy_write mp r b = Some
    (mp\<lparr>map_mem := poke (map_mem mp) (ring_addr r (r_position r)) (take (amount b) b)\<rparr>,
     advance (amount b) r, drop (amount b) b, h)"
proof -
  have "slot_start r h + amount b \<le> map_len mp"
    using frame_amount(2)[OF g f] c by (simp add: amount_def ring_counters_def)
  then show ?thesis
    using c by (simp add: copy_write_def frame_amount(1)[OF g f] slot_start_addr(1)[OF g f]
        ring_counters_def amount_def Let_def)
qed

lemma copy_read_ok:
  assumes g: "ring_geom r" and c: "ring_counters mp r h t" and f: "frame_open t r"
  defines "amount \<equiv> \<lambda>n. min n (r_frameBytes r - r_framePos r)"
  shows "copy_read mp r n = Some
    (peek (map_mem mp) (ring_addr r (r_position r)) (amount n), advance (amount n) r, t)"
proof -
  have "slot_start r t + amount n \<le> map_len mp"
    using frame_amount(2)[OF g f] c by (simp add: amount_def ring_counters_def)
  then show ?thesis
    using c by (simp add: copy_read_def frame_amount(1)[OF g f] slot_start_addr(1)[OF g f]
        ring_counters_def amount_def Let_def)
qed


section \<open>The invariant of the two processes\<close>

definition writer_at :: "nat \<Rightarrow> nat \<Rightarrow> ring \<Rightarrow> bool" where
  "writer_at h t r \<longleftrightarrow> frame_closed h r \<or> frame_open h r \<and> h < t + r_slots r"

definition reader_at :: "nat \<Rightarrow> nat \<Rightarrow> ring \<Rightarrow> bool" where
  "reader_at h t r \<longleftrightarrow> frame_closed t r \<or> frame_open t r \<and> t < h"

fun prod_ok :: "ppc \<Rightarrow> ring \<Rightarrow> nat \<Rightarrow> nat \<Rightarrow> bool" where
  "prod_ok P_Idle r h t = writer_at h t r"
| "prod_ok (P_Loop b) r h t = (writer_at h t r \<and> r_position r + length b \<le> r_total r)"
| "prod_ok (P_Copy b) r h t =
     (frame_open h r \<and> h < t + r_slots r \<and> b \<noteq> [] \<and> r_position r + length b \<le> r_total r)"
| "prod_ok (P_Pub b h') r h t =
     (h' = h \<and> frame_copied h r \<and> h < t + r_slots r \<and> r_position r + length b \<le> r_total r)"

fun cons_ok :: "cpc \<Rightarrow> ring \<Rightarrow> nat \<Rightarrow> nat \<Rightarrow> bool" where
  "cons_ok C_Idle r h t = reader_at h t r"
| "cons_ok (C_Loop n) r h t = (reader_at h t r \<and> r_position r < r_total r)"
| "cons_ok (C_Copy n) r h t = (frame_open t r \<and> t < h)"
| "cons_ok (C_Pub bs t') r h t = (t' = t \<and> frame_copied t r \<and> t < h)"

fun in_hand :: "cpc \<Rightarrow> byte list" where
  "in_hand (C_Pub bs t) = bs"
| "in_hand _ = []"

definition stream_ok :: "mapping \<Rightarrow> ring \<Rightarrow> nat \<Rightarrow> byte list \<Rightarrow> bool" where
  "stream_ok mp r t sent \<longleftrightarrow>
     (\<forall>q. t * r_slotSize r \<le> q \<longrightarrow> q < length sent \<longrightarrow> map_mem mp (ring_addr r q) = sent ! q)"

definition ring_inv :: "ring_sys \<Rightarrow> nat \<Rightarrow> nat \<Rightarrow> bool" where
  "ring_inv s h t \<longleftrightarrow>
     ring_geom (s_prod s) \<and> r_producer (s_prod s) \<and>
     same_ring (s_prod s) ((s_cons s)\<lparr>r_producer := True\<rparr>) \<and> \<not> r_producer (s_cons s) \<and>
     ring_counters (s_map s) (s_prod s) h t \<and>
     prod_ok (s_ppc s) (s_prod s) h t \<and> cons_ok (s_cpc s) (s_cons s) h t \<and>
     length (s_sent s) = r_position (s_prod s) \<and>
     r_position (s_cons s) \<le> length (s_sent s) \<and>
     s_got s @ in_hand (s_cpc s) = take (r_position (s_cons s)) (s_sent s) \<and>
     stream_ok (s_map s) (s_prod s) t (s_sent s)"

lemma prod_ok_tail: "prod_ok pc r h t \<Longrightarrow> t \<le> t' \<Longrightarrow> prod_ok pc r h t'"
  by (cases pc) (auto simp: writer_at_def)

lemma cons_ok_head: "cons_ok pc r h t \<Longrightarrow> h \<le> h' \<Longrightarrow> cons_ok pc r h' t"
  by (cases pc) (auto simp: reader_at_def)

lemma prod_ok_position:
  assumes "prod_ok pc r h t"
  shows "min (h * r_slotSize r) (r_total r) \<le> r_position r" "h * r_slotSize r < r_total r + r_slotSize r"
    "r_position r \<le> r_total r"
  using assms by (cases pc; auto simp: writer_at_def frame_defs)+

lemma cons_ok_position:
  assumes "cons_ok pc r h t"
  shows "r_position r \<le> r_total r"
  using assms by (cases pc) (auto simp: reader_at_def frame_defs)

lemma head_u64:
  assumes "ring_geom r" "h * r_slotSize r < r_total r + r_slotSize r"
  shows "h + 1 < 2 ^ 64"
proof -
  have "h \<le> h * r_slotSize r" using geom_bounds(2)[OF assms(1)] by simp
  then have "h + 1 < 1099511627776 + 16777216 + 2"
    using assms(2) geom_bounds(3,4)[OF assms(1)] by linarith
  then show ?thesis by simp
qed

lemma addr_in_frame:
  assumes g: "ring_geom r" and f: "frame_open c r" and i: "i < r_frameBytes r - r_framePos r"
  shows "ring_addr r (r_position r + i) = ring_addr r (r_position r) + i"
proof -
  have p: "r_position r = c * r_slotSize r + r_framePos r" and b: "r_framePos r + i < r_slotSize r"
    using f i by (auto simp: frame_defs)
  then show ?thesis
    using ring_addr_frame[OF g b, of c] ring_addr_frame[OF g, of "r_framePos r" c]
    by (simp add: add.assoc)
qed

lemma counter_simps [simp]:
  "get_head (set_head v mp) = v mod 2 ^ 64" "get_tail (set_tail v mp) = v mod 2 ^ 64"
  "get_head (set_tail v mp) = get_head mp" "get_tail (set_head v mp) = get_tail mp"
  "map_len (set_head v mp) = map_len mp" "map_len (set_tail v mp) = map_len mp"
  by (simp_all add: get_head_def get_tail_def set_head_def set_tail_def load_store_same
      load_store_other ring_consts)

lemma counter_addr [simp]:
  "map_mem (set_head v mp) (ring_addr r q) = map_mem mp (ring_addr r q)"
  "map_mem (set_tail v mp) (ring_addr r q) = map_mem mp (ring_addr r q)"
  using ring_addr_ge[of r q]
  by (simp_all add: set_head_def set_tail_def store_le_outside ring_consts)

lemma counter_poke [simp]:
  "get_head (mp\<lparr>map_mem := poke (map_mem mp) (ring_addr r q) bs\<rparr>) = get_head mp"
  "get_tail (mp\<lparr>map_mem := poke (map_mem mp) (ring_addr r q) bs\<rparr>) = get_tail mp"
  using ring_addr_ge[of r q]
  by (simp_all add: get_head_def get_tail_def load_poke_other ring_consts)

lemma same_ring_geom:
  assumes "same_ring r r'"
  shows "ring_geom r' = ring_geom r" "ring_size r' = ring_size r" "ring_addr r' q = ring_addr r q"
    "ring_counters mp r' h t = ring_counters mp r h t" "stream_ok mp r' t sent = stream_ok mp r t sent"
  using assms by (simp_all add: same_ring_def ring_geom_def ring_size_def ring_addr_def
      ring_counters_def stream_ok_def)

text \<open>A copy into the frame keeps what is still to be read and adds the new bytes.\<close>

lemma stream_ok_write:
  assumes g: "ring_geom r" and f: "frame_open h r" and ht: "h < t + r_slots r"
    and st: "stream_ok mp r t sent" and len: "length sent = r_position r"
    and bs: "length bs \<le> r_frameBytes r - r_framePos r"
  shows "stream_ok (mp\<lparr>map_mem := poke (map_mem mp) (ring_addr r (r_position r)) bs\<rparr>) r t (sent @ bs)"
  unfolding stream_ok_def
proof (intro allI impI)
  fix q assume q: "t * r_slotSize r \<le> q" "q < length (sent @ bs)"
  let ?a = "ring_addr r (r_position r)"
  have "Suc h * r_slotSize r \<le> (t + r_slots r) * r_slotSize r" using ht by (intro mult_right_mono) auto
  then have top: "r_position r + length bs \<le> (t + r_slots r) * r_slotSize r"
    using f bs by (auto simp: frame_defs)
  show "map_mem (mp\<lparr>map_mem := poke (map_mem mp) ?a bs\<rparr>) (ring_addr r q) = (sent @ bs) ! q"
  proof (cases "q < length sent")
    case True
    have "\<not> (?a \<le> ring_addr r q \<and> ring_addr r q < ?a + length bs)"
    proof
      assume in_a: "?a \<le> ring_addr r q \<and> ring_addr r q < ?a + length bs"
      define i where "i = ring_addr r q - ?a"
      have i: "i < length bs" "ring_addr r q = ?a + i" using in_a by (auto simp: i_def)
      then have "ring_addr r q = ring_addr r (r_position r + i)"
        using addr_in_frame[OF g f, of i] bs by simp
      then have "q = r_position r + i"
        by (rule ring_addr_inj[OF g]) (use q top i True len in auto)
      then show False using True len by simp
    qed
    then show ?thesis using st q True by (auto simp: poke_def stream_ok_def nth_append)
  next
    case False
    define i where "i = q - length sent"
    have i: "i < length bs" "q = r_position r + i" using False q len by (auto simp: i_def)
    then have "ring_addr r q = ?a + i" using addr_in_frame[OF g f, of i] bs by simp
    then show ?thesis using i len by (simp add: poke_def nth_append)
  qed
qed

lemma stream_ok_read:
  assumes g: "ring_geom r" and f: "frame_open t r" and st: "stream_ok mp r t sent"
    and len: "r_position r + n \<le> length sent" and n: "n \<le> r_frameBytes r - r_framePos r"
  shows "peek (map_mem mp) (ring_addr r (r_position r)) n = take n (drop (r_position r) sent)"
proof (rule nth_equalityI)
  fix i assume i: "i < length (peek (map_mem mp) (ring_addr r (r_position r)) n)"
  have "map_mem mp (ring_addr r (r_position r + i)) = sent ! (r_position r + i)"
    using st f i len by (auto simp: stream_ok_def frame_defs)
  then show "peek (map_mem mp) (ring_addr r (r_position r)) n ! i = take n (drop (r_position r) sent) ! i"
    using i n len addr_in_frame[OF g f, of i] by (simp add: peek_nth)
qed (use len in simp)


lemma publish_write_inv:
  assumes g: "ring_geom r" and c: "ring_counters mp r h t" and f: "frame_copied h r"
    and ht: "h < t + r_slots r"
  obtains h' where "ring_counters (publish_write mp r h) r h' t" "h \<le> h'" "writer_at h' t r"
proof (cases "r_framePos r = r_frameBytes r")
  case True
  have hu: "h + 1 < 2 ^ 64" by (rule head_u64[OF g]) (use f in \<open>auto simp: frame_defs\<close>)
  have "ring_counters (publish_write mp r h) r (h + 1) t"
    using c ht hu True by (auto simp: ring_counters_def publish_write_def)
  moreover have "writer_at (h + 1) t r"
    using f True by (auto simp: writer_at_def frame_defs)
  ultimately show ?thesis by (intro that[of "h + 1"]) auto
next
  case False
  then show ?thesis
    using c f ht by (intro that[of h]) (auto simp: publish_write_def writer_at_def frame_defs)
qed

lemma publish_read_inv:
  assumes g: "ring_geom r" and c: "ring_counters mp r h t" and f: "frame_copied t r" and ht: "t < h"
  obtains t' where "ring_counters (publish_read mp r t) r h t'" "t \<le> t'" "reader_at h t' r"
proof (cases "r_framePos r = r_frameBytes r")
  case True
  have tu: "t + 1 < 2 ^ 64" by (rule head_u64[OF g]) (use f in \<open>auto simp: frame_defs\<close>)
  have "ring_counters (publish_read mp r t) r h (t + 1)"
    using c ht tu True by (auto simp: ring_counters_def publish_read_def)
  moreover have "reader_at h (t + 1) r"
    using f True by (auto simp: reader_at_def frame_defs)
  ultimately show ?thesis by (intro that[of "t + 1"]) auto
next
  case False
  then show ?thesis
    using c f ht by (intro that[of t]) (auto simp: publish_read_def reader_at_def frame_defs)
qed

lemma stream_ok_publish:
  "stream_ok mp r t sent \<Longrightarrow> stream_ok (publish_write mp r' h) r t sent"
  "stream_ok mp r t sent \<Longrightarrow> t \<le> t' \<Longrightarrow> stream_ok (publish_read mp r' t2) r t' sent"
  by (auto simp: stream_ok_def publish_write_def publish_read_def dest: order_trans[rotated, OF _ mult_le_mono1])

lemma same_ring_trans: "same_ring a b \<Longrightarrow> same_ring b c \<Longrightarrow> same_ring a c"
  by (simp add: same_ring_def)

lemma same_ring_sym: "same_ring a b \<Longrightarrow> same_ring b a"
  by (simp add: same_ring_def)

lemma inv_cons_ring:
  assumes "ring_inv s h t"
  shows "ring_geom (s_cons s)" "ring_counters (s_map s) (s_cons s) h t"
    "stream_ok (s_map s) (s_cons s) t (s_sent s)"
  using assms by (auto simp: ring_inv_def same_ring_def ring_geom_def ring_counters_def ring_size_def
      stream_ok_def ring_addr_def)

lemma inv_p_copy:
  assumes inv: "ring_inv s h t" and pc: "s_ppc s = P_Copy b"
    and cw: "copy_write (s_map s) (s_prod s) b = Some (mp, r, rest, h')"
  shows "ring_inv (s\<lparr>s_map := mp, s_prod := r, s_ppc := P_Pub rest h',
    s_sent := s_sent s @ take (length b - length rest) b\<rparr>) h t"
proof -
  let ?p = "s_prod s"
  define a where "a = min (length b) (r_frameBytes ?p - r_framePos ?p)"
  have g: "ring_geom ?p" and c: "ring_counters (s_map s) ?p h t" and f: "frame_open h ?p"
    and ht: "h < t + r_slots ?p" and st: "stream_ok (s_map s) ?p t (s_sent s)"
    and len: "length (s_sent s) = r_position ?p" and pos: "r_position ?p + length b \<le> r_total ?p"
    using inv pc by (auto simp: ring_inv_def)
  have e: "mp = (s_map s)\<lparr>map_mem := poke (map_mem (s_map s)) (ring_addr ?p (r_position ?p)) (take a b)\<rparr>"
    "r = advance a ?p" "rest = drop a b" "h' = h"
    using cw copy_write_ok[OF g c f, of b] by (auto simp: a_def)
  have a: "a \<le> r_frameBytes ?p - r_framePos ?p" "a \<le> length b" by (auto simp: a_def)
  note adv = advance_frame[OF g f a(1)]
  have "stream_ok mp ?p t (s_sent s @ take a b)"
    unfolding e(1) by (rule stream_ok_write[OF g f ht st len]) (use a in simp)
  moreover have "ring_counters mp ?p h t" using c by (simp add: ring_counters_def e)
  ultimately show ?thesis
    using inv pc adv a pos ht same_ring_geom[OF adv(2)]
    by (auto simp: ring_inv_def e same_ring_def)
qed

lemma inv_c_copy:
  assumes inv: "ring_inv s h t" and pc: "s_cpc s = C_Copy n"
    and cr: "copy_read (s_map s) (s_cons s) n = Some (bs, r, t')"
  shows "ring_inv (s\<lparr>s_cons := r, s_cpc := C_Pub bs t'\<rparr>) h t"
proof -
  let ?c = "s_cons s"
  define a where "a = min n (r_frameBytes ?c - r_framePos ?c)"
  note cr_ring = inv_cons_ring[OF inv]
  have f: "frame_open t ?c" and th: "t < h" using inv pc by (auto simp: ring_inv_def)
  have e: "bs = peek (map_mem (s_map s)) (ring_addr ?c (r_position ?c)) a" "r = advance a ?c" "t' = t"
    using cr copy_read_ok[OF cr_ring(1,2) f, of n] by (auto simp: a_def)
  have a: "a \<le> r_frameBytes ?c - r_framePos ?c" by (simp add: a_def)
  note adv = advance_frame[OF cr_ring(1) f a]
  have same: "r_slotSize (s_prod s) = r_slotSize ?c" "r_total (s_prod s) = r_total ?c"
    using inv by (auto simp: ring_inv_def same_ring_def)
  have "Suc t * r_slotSize ?c \<le> h * r_slotSize ?c" using th by (intro mult_right_mono) auto
  then have "r_position ?c + a \<le> min (h * r_slotSize ?c) (r_total ?c)"
    using f a by (auto simp: frame_defs)
  also have "\<dots> \<le> length (s_sent s)"
    using inv prod_ok_position(1)[of "s_ppc s" "s_prod s" h t] by (auto simp: ring_inv_def same)
  finally have len: "r_position ?c + a \<le> length (s_sent s)" .
  have "bs = take a (drop (r_position ?c) (s_sent s))"
    unfolding e(1) by (rule stream_ok_read[OF cr_ring(1) f cr_ring(3) len a])
  then have "s_got s @ bs = take (r_position ?c + a) (s_sent s)"
    using inv pc by (simp add: ring_inv_def take_add)
  then show ?thesis
    using inv pc adv th len by (auto simp: ring_inv_def e same_ring_def)
qed


lemma write_guard_None:
  assumes "ring_geom r" "r_position r \<le> r_total r" "length b < 2 ^ 63" "write_guard r b = None"
  shows "r_position r + length b \<le> r_total r"
proof -
  have "r_position r + length b < 2 ^ 64" using assms geom_bounds(4)[OF assms(1)] by simp
  then show ?thesis using assms by (simp add: write_guard_def split: if_splits)
qed

lemma inv_p_acquire:
  assumes inv: "ring_inv s h t" and pc: "s_ppc s = P_Loop b" "b \<noteq> []"
    and aq: "acquire_write (s_map s) (s_prod s) = Acquired r"
  shows "ring_inv (s\<lparr>s_prod := r, s_ppc := P_Copy b\<rparr>) h t"
proof -
  let ?p = "s_prod s"
  have g: "ring_geom ?p" and c: "ring_counters (s_map s) ?p h t"
    and f: "frame_closed h ?p \<or> frame_open h ?p \<and> h < t + r_slots ?p"
    and pos: "r_position ?p + length b \<le> r_total ?p"
    using inv pc by (auto simp: ring_inv_def writer_at_def)
  moreover have "r_position ?p < r_total ?p" using pos pc(2) by (cases b) auto
  ultimately have "frame_open h r" "h < t + r_slots ?p" "r_position r = r_position ?p"
    and sr: "same_ring ?p r"
    using acquire_write_cases[of ?p "s_map s" h t] aq by auto
  then show ?thesis
    using inv pc pos same_ring_geom[OF sr] by (auto simp: ring_inv_def same_ring_def)
qed

lemma inv_c_acquire:
  assumes inv: "ring_inv s h t" and pc: "s_cpc s = C_Loop n"
    and aq: "acquire_read (s_map s) (s_cons s) = Acquired r"
  shows "ring_inv (s\<lparr>s_cons := r, s_cpc := C_Copy n\<rparr>) h t"
proof -
  let ?c = "s_cons s"
  have f: "frame_closed t ?c \<or> frame_open t ?c \<and> t < h" and pos: "r_position ?c < r_total ?c"
    using inv pc by (auto simp: ring_inv_def reader_at_def)
  then have "frame_open t r" "t < h" "r_position r = r_position ?c" "same_ring ?c r"
    using acquire_read_cases[OF inv_cons_ring(1,2)[OF inv] f pos] aq by auto
  then show ?thesis using inv pc by (auto simp: ring_inv_def same_ring_def)
qed

lemma inv_p_publish:
  assumes inv: "ring_inv s h t" and pc: "s_ppc s = P_Pub rest h'"
  shows "\<exists>h'' . ring_inv (s\<lparr>s_map := publish_write (s_map s) (s_prod s) h', s_ppc := P_Loop rest\<rparr>) h'' t"
proof -
  let ?p = "s_prod s"
  have i: "ring_geom ?p" "ring_counters (s_map s) ?p h t" "frame_copied h ?p" "h < t + r_slots ?p" "h' = h"
    using inv pc by (auto simp: ring_inv_def)
  obtain h'' where n: "ring_counters (publish_write (s_map s) ?p h) ?p h'' t" "h \<le> h''" "writer_at h'' t ?p"
    using publish_write_inv[OF i(1-4)] by blast
  have "cons_ok (s_cpc s) (s_cons s) h'' t"
    using inv n(2) by (auto simp: ring_inv_def intro: cons_ok_head)
  then have "ring_inv (s\<lparr>s_map := publish_write (s_map s) ?p h', s_ppc := P_Loop rest\<rparr>) h'' t"
    using inv pc n i(5) by (auto simp: ring_inv_def intro: stream_ok_publish(1))
  then show ?thesis ..
qed

lemma inv_c_publish:
  assumes inv: "ring_inv s h t" and pc: "s_cpc s = C_Pub bs t'"
  shows "\<exists>t''. ring_inv (s\<lparr>s_map := publish_read (s_map s) (s_cons s) t', s_cpc := C_Idle,
    s_got := s_got s @ bs\<rparr>) h t''"
proof -
  let ?c = "s_cons s"
  have i: "frame_copied t ?c" "t < h" "t' = t" using inv pc by (auto simp: ring_inv_def)
  obtain t'' where n: "ring_counters (publish_read (s_map s) ?c t) ?c h t''" "t \<le> t''" "reader_at h t'' ?c"
    using publish_read_inv[OF inv_cons_ring(1,2)[OF inv] i(1,2)] by blast
  have "prod_ok (s_ppc s) (s_prod s) h t''"
    using inv n(2) by (auto simp: ring_inv_def intro: prod_ok_tail)
  moreover have "ring_counters (publish_read (s_map s) ?c t) (s_prod s) h t''"
    using inv n(1) by (auto simp: ring_inv_def ring_counters_def same_ring_def ring_size_def)
  ultimately have "ring_inv (s\<lparr>s_map := publish_read (s_map s) ?c t', s_cpc := C_Idle,
      s_got := s_got s @ bs\<rparr>) h t''"
    using inv pc n i(3) by (auto simp: ring_inv_def intro: stream_ok_publish(2))
  then show ?thesis ..
qed

lemma ring_step_inv:
  assumes st: "ring_step s s'" and inv: "ring_inv s h t"
  shows "\<exists>h' t'. ring_inv s' h' t'"
  using st
proof cases
  case (p_call buffer)
  then have "r_position (s_prod s) + length buffer \<le> r_total (s_prod s)"
    using inv write_guard_None prod_ok_position(3)[of "s_ppc s"] unfolding ring_inv_def by blast
  then show ?thesis using p_call inv by (intro exI[of _ h] exI[of _ t]) (simp add: ring_inv_def)
next
  case p_return
  then show ?thesis using inv by (intro exI[of _ h] exI[of _ t]) (simp add: ring_inv_def)
next
  case (p_acquire buffer r)
  then show ?thesis using inv_p_acquire[OF inv] by blast
next
  case p_cancel
  then show ?thesis using inv by (intro exI[of _ h] exI[of _ t]) (simp add: ring_inv_def)
next
  case p_copy
  then show ?thesis using inv_p_copy[OF inv] by blast
next
  case p_publish
  then show ?thesis using inv_p_publish[OF inv] by blast
next
  case (c_call n)
  then have "r_position (s_cons s) < r_total (s_cons s)"
    using inv cons_ok_position[of "s_cpc s" "s_cons s" h t]
    by (auto simp: ring_inv_def read_guard_def split: if_splits)
  then show ?thesis using c_call inv by (intro exI[of _ h] exI[of _ t]) (simp add: ring_inv_def)
next
  case c_acquire
  then show ?thesis using inv_c_acquire[OF inv] by blast
next
  case c_cancel
  then show ?thesis using inv by (intro exI[of _ h] exI[of _ t]) (simp add: ring_inv_def)
next
  case c_copy
  then show ?thesis using inv_c_copy[OF inv] by blast
next
  case c_publish
  then show ?thesis using inv_c_publish[OF inv] by blast
qed


section \<open>Initialize and Open\<close>

lemma ring_initialize_Inr:
  assumes "ring_initialize os slots slotSize totalLen = Inr mp"
  shows "2 \<le> slots" "slots \<le> 64" "MinSlotSize \<le> slotSize" "slotSize \<le> MaxSlotSize" "0 < totalLen"
    "totalLen \<le> MaxStreamLength" "os = None"
  using assms by (auto simp: ring_initialize_def fail_if_Inr Let_def split: option.splits)

lemma mapping_size_u64:
  assumes "2 \<le> slots" "slots \<le> 64" "MinSlotSize \<le> slotSize" "slotSize \<le> MaxSlotSize"
  shows "wrap_u64 (HeaderSize + wrap_u64 (nat slots * slotSize)) = HeaderSize + nat slots * slotSize"
    "HeaderSize + nat slots * slotSize < 2 ^ 63 - 1"
proof -
  have "nat slots * slotSize \<le> 64 * 16777216"
    using assms by (intro mult_mono) (auto simp: ring_consts)
  then show "wrap_u64 (HeaderSize + wrap_u64 (nat slots * slotSize)) = HeaderSize + nat slots * slotSize"
    "HeaderSize + nat slots * slotSize < 2 ^ 63 - 1"
    by (simp_all add: wrap_u64_def HeaderSize_def)
qed

lemma ring_initialize_header:
  assumes "ring_initialize os slots slotSize totalLen = Inr mp"
  shows "map_len mp = HeaderSize + nat slots * slotSize" "peek (map_mem mp) 128 8 = ring_magic"
    "load_le 4 (map_mem mp) versionOffset = 1" "load_le 4 (map_mem mp) slotsOffset = nat slots"
    "load_le 8 (map_mem mp) slotSizeOffset = slotSize" "load_le 8 (map_mem mp) totalOffset = totalLen"
    "get_head mp = 0" "get_tail mp = 0"
proof -
  note b = ring_initialize_Inr[OF assms]
  note sz = mapping_size_u64[OF b(1-4)]
  have bounds: "nat slots < 256 ^ 4" "slotSize < 256 ^ 8" "totalLen < 256 ^ 8"
    using b by (auto simp: ring_consts)
  have mp: "mp = \<lparr>map_len = HeaderSize + nat slots * slotSize, map_mem =
      store_le 8 (store_le 8 (store_le 8 (store_le 8 (store_le 4 (store_le 4
        (poke (\<lambda>_. 0) 128 ring_magic) versionOffset 1) slotsOffset (nat slots)) slotSizeOffset slotSize)
        totalOffset totalLen) headOffset 0) tailOffset 0\<rparr>"
    using assms b unfolding ring_initialize_def
    by (simp add: fail_if_Inr Let_def sz(1))
  have pk: "peek (store_le k m off v) 128 8 = peek m 128 8" if "off + k \<le> 128 \<or> 136 \<le> off" for k m off v
    using that unfolding store_le_def by (intro peek_poke_other) auto
  show "peek (map_mem mp) 128 8 = ring_magic"
    by (simp add: mp pk ring_consts peek_poke_same ring_magic_def)
  show "map_len mp = HeaderSize + nat slots * slotSize"
    "load_le 4 (map_mem mp) versionOffset = 1" "load_le 4 (map_mem mp) slotsOffset = nat slots"
    "load_le 8 (map_mem mp) slotSizeOffset = slotSize" "load_le 8 (map_mem mp) totalOffset = totalLen"
    "get_head mp = 0" "get_tail mp = 0"
    using bounds by (simp_all add: mp get_head_def get_tail_def load_store_same load_store_other ring_consts)
qed

lemma ring_open_of_initialize:
  assumes "ring_initialize os slots slotSize totalLen = Inr mp"
  shows "ring_open None True mp producer = Inr \<lparr>r_slots = nat slots, r_slotSize = slotSize,
    r_total = totalLen, r_position = 0, r_frameBytes = 0, r_framePos = 0, r_producer = producer\<rparr>"
proof -
  note b = ring_initialize_Inr[OF assms]
  have "2 \<le> nat slots" "nat slots \<le> 64" using b(1,2) by linarith+
  then show ?thesis
    using b mapping_size_u64[OF b(1-4)] ring_initialize_header[OF assms]
    by (simp add: ring_open_def fail_if_def Let_def)
qed

lemma ring_reachable_inv: "ring_reachable s \<Longrightarrow> \<exists>h t. ring_inv s h t"
proof (induction rule: ring_reachable.induct)
  case (start slots slotSize totalLen mp p c)
  note b = ring_initialize_Inr[OF start(1)]
  have "p = \<lparr>r_slots = nat slots, r_slotSize = slotSize, r_total = totalLen, r_position = 0,
      r_frameBytes = 0, r_framePos = 0, r_producer = True\<rparr>"
    "c = \<lparr>r_slots = nat slots, r_slotSize = slotSize, r_total = totalLen, r_position = 0,
      r_frameBytes = 0, r_framePos = 0, r_producer = False\<rparr>"
    using start(2,3) ring_open_of_initialize[OF start(1)] by auto
  then show ?case
    using b ring_initialize_header[OF start(1)]
    by (intro exI[of _ 0]) (auto simp: ring_inv_def ring_geom_def ring_counters_def ring_size_def
        stream_ok_def writer_at_def reader_at_def frame_defs nat_le_iff le_nat_iff)
next
  case (step s t)
  then show ?case using ring_step_inv by blast
qed


section \<open>Write as a sequence of steps\<close>





section \<open>Properties\<close>

lemma stream_integrity_facts:
  assumes "ring_reachable s"
  shows "s_got s = take (length (s_got s)) (s_sent s)"
    and "length (s_sent s) \<le> r_total (s_prod s)"
    and "s_cpc s = C_Idle \<Longrightarrow> read_guard (s_cons s) = Some EndOfFile \<Longrightarrow>
           s_got s = s_sent s \<and> length (s_got s) = r_total (s_cons s)"
proof -
  obtain h t where i: "ring_inv s h t" using ring_reachable_inv[OF assms] by blast
  then have e: "s_got s @ in_hand (s_cpc s) = take (r_position (s_cons s)) (s_sent s)"
    and l: "r_position (s_cons s) \<le> length (s_sent s)" "length (s_sent s) = r_position (s_prod s)"
    by (auto simp: ring_inv_def)
  have "take (length (s_got s)) (s_got s @ in_hand (s_cpc s)) = s_got s" by simp
  then have "s_got s = take (length (s_got s)) (take (r_position (s_cons s)) (s_sent s))" by (simp only: e)
  moreover have "length (s_got s) \<le> r_position (s_cons s)" using arg_cong[OF e, of length] l by simp
  ultimately show "s_got s = take (length (s_got s)) (s_sent s)" by (simp add: min_def)
  show t: "length (s_sent s) \<le> r_total (s_prod s)"
    using i prod_ok_position(3)[of "s_ppc s" "s_prod s" h t] by (simp add: ring_inv_def)
  assume "s_cpc s = C_Idle" "read_guard (s_cons s) = Some EndOfFile"
  then show "s_got s = s_sent s \<and> length (s_got s) = r_total (s_cons s)"
    using i e l t by (auto simp: ring_inv_def read_guard_def same_ring_def split: if_splits)
qed

text \<open>
  C1. Whatever the interleaving of a producer and a consumer that open the same initialised file,
  what the consumer has received is a prefix of what the producer has written, the producer never
  writes more than the declared length, and a consumer that has reached the end of the stream has
  received every byte of it.
\<close>

theorem ring_stream_integrity:
  assumes "ring_reachable s"
  shows "s_got s = take (length (s_got s)) (s_sent s) \<and> length (s_sent s) \<le> r_total (s_prod s) \<and>
    (s_cpc s = C_Idle \<and> read_guard (s_cons s) = Some EndOfFile \<longrightarrow>
       s_got s = s_sent s \<and> length (s_got s) = r_total (s_cons s))"
  using stream_integrity_facts[OF assms] by blast

lemma no_fault_facts:
  assumes "ring_reachable s"
  shows "s_ppc s = P_Loop b \<Longrightarrow> b \<noteq> [] \<Longrightarrow> acquire_write (s_map s) (s_prod s) \<noteq> Corrupt"
    and "s_cpc s = C_Loop n \<Longrightarrow> acquire_read (s_map s) (s_cons s) \<noteq> Corrupt"
    and "s_ppc s = P_Copy b \<Longrightarrow> copy_write (s_map s) (s_prod s) b \<noteq> None"
    and "s_cpc s = C_Copy n \<Longrightarrow> copy_read (s_map s) (s_cons s) n \<noteq> None"
proof -
  obtain h t where i: "ring_inv s h t" using ring_reachable_inv[OF assms] by blast
  note c = inv_cons_ring(1,2)[OF i]
  show "acquire_write (s_map s) (s_prod s) \<noteq> Corrupt" if "s_ppc s = P_Loop b" "b \<noteq> []"
    using acquire_write_cases[of "s_prod s" "s_map s" h t] i that
    by (cases b) (auto simp: ring_inv_def writer_at_def)
  show "acquire_read (s_map s) (s_cons s) \<noteq> Corrupt" if "s_cpc s = C_Loop n"
    using acquire_read_cases[OF c] i that by (auto simp: ring_inv_def reader_at_def)
  show "copy_write (s_map s) (s_prod s) b \<noteq> None" if "s_ppc s = P_Copy b"
    using copy_write_ok[of "s_prod s" "s_map s" h t b] i that by (auto simp: ring_inv_def)
  show "copy_read (s_map s) (s_cons s) n \<noteq> None" if "s_cpc s = C_Copy n"
    using copy_read_ok[OF c, of n] i that by (auto simp: ring_inv_def)
qed

text \<open>
  C2. In every reachable state no side finds corrupt counters and no copy leaves the mapping, so
  neither the error \<^verbatim>\<open>corrupt ring counters\<close> nor a slice panic occurs.
\<close>

theorem ring_no_fault:
  assumes "ring_reachable s"
  shows "(s_ppc s = P_Loop b \<and> b \<noteq> [] \<longrightarrow> acquire_write (s_map s) (s_prod s) \<noteq> Corrupt) \<and>
    (s_cpc s = C_Loop n \<longrightarrow> acquire_read (s_map s) (s_cons s) \<noteq> Corrupt) \<and>
    (s_ppc s = P_Copy b \<longrightarrow> copy_write (s_map s) (s_prod s) b \<noteq> None) \<and>
    (s_cpc s = C_Copy n \<longrightarrow> copy_read (s_map s) (s_cons s) n \<noteq> None)"
  using no_fault_facts[OF assms] by blast

text \<open>
  C36. The two sides never wait for each other: when both are at the top of their loops, at least one
  of them acquires a frame.
\<close>

theorem ring_no_deadlock:
  assumes "ring_reachable s" "s_ppc s = P_Loop b" "b \<noteq> []" "s_cpc s = C_Loop n"
  shows "(\<exists>r. acquire_write (s_map s) (s_prod s) = Acquired r) \<or>
         (\<exists>r. acquire_read (s_map s) (s_cons s) = Acquired r)"
proof -
  obtain h t where i: "ring_inv s h t" using ring_reachable_inv[OF assms(1)] by blast
  have p: "r_position (s_prod s) < r_total (s_prod s)"
    using i assms(2,3) by (cases b) (auto simp: ring_inv_def)
  have w: "h = t + r_slots (s_prod s) \<or> (\<exists>r. acquire_write (s_map s) (s_prod s) = Acquired r)"
    using acquire_write_cases[of "s_prod s" "s_map s" h t] i assms p
    by (auto simp: ring_inv_def writer_at_def)
  have r: "h = t \<or> (\<exists>r. acquire_read (s_map s) (s_cons s) = Acquired r)"
    using acquire_read_cases[OF inv_cons_ring(1,2)[OF i]] i assms by (auto simp: ring_inv_def reader_at_def)
  have "0 < r_slots (s_prod s)" using i geom_bounds(1) by (simp add: ring_inv_def)
  then show ?thesis using w r by auto
qed


text \<open>
  \<^verbatim>\<open>Open\<close> reads back what \<^verbatim>\<open>Initialize\<close> wrote: every file it makes opens for both sides with the
  given bounds, and \<^verbatim>\<open>Initialize\<close> fails for want of bounds only, never for the size of the mapping.
\<close>

theorem ring_open_initialize:
  shows "(ring_initialize os slots slotSize totalLen = Inr mp \<longrightarrow>
      ring_open None True mp producer = Inr \<lparr>r_slots = nat slots, r_slotSize = slotSize,
        r_total = totalLen, r_position = 0, r_frameBytes = 0, r_framePos = 0, r_producer = producer\<rparr>) \<and>
    (ring_initialize None slots slotSize totalLen = Inl e \<longleftrightarrow>
      e = InvalidBounds \<and> \<not> (2 \<le> slots \<and> slots \<le> 64 \<and> MinSlotSize \<le> slotSize \<and> slotSize \<le> MaxSlotSize
        \<and> 0 < totalLen \<and> totalLen \<le> MaxStreamLength))"
proof (intro conjI impI)
  show "ring_open None True mp producer = Inr \<lparr>r_slots = nat slots, r_slotSize = slotSize,
        r_total = totalLen, r_position = 0, r_frameBytes = 0, r_framePos = 0, r_producer = producer\<rparr>"
    if "ring_initialize os slots slotSize totalLen = Inr mp"
    using that by (rule ring_open_of_initialize)
  show "ring_initialize None slots slotSize totalLen = Inl e \<longleftrightarrow>
      e = InvalidBounds \<and> \<not> (2 \<le> slots \<and> slots \<le> 64 \<and> MinSlotSize \<le> slotSize \<and> slotSize \<le> MaxSlotSize
        \<and> 0 < totalLen \<and> totalLen \<le> MaxStreamLength)"
    using mapping_size_u64[of slots slotSize]
    by (auto simp: ring_initialize_def fail_if_def Let_def split: if_splits)
qed

section \<open>A transfer of three bytes\<close>

lemma demo_init: "\<exists>mp. ring_initialize None 2 1048576 3 = Inr mp"
  by (simp add: ring_initialize_def fail_if_def ring_consts wrap_u64_def Let_def)

definition demo_ring :: "bool \<Rightarrow> ring" where
  "demo_ring producer = \<lparr>r_slots = 2, r_slotSize = 1048576, r_total = 3, r_position = 0,
     r_frameBytes = 0, r_framePos = 0, r_producer = producer\<rparr>"

definition demo_sys :: "mapping \<Rightarrow> ring_sys" where
  "demo_sys mp = \<lparr>s_map = mp, s_prod = demo_ring True, s_cons = demo_ring False, s_ppc = P_Idle,
     s_cpc = C_Idle, s_sent = [], s_got = []\<rparr>"

lemma demo_reachable: "ring_initialize None 2 1048576 3 = Inr mp \<Longrightarrow> ring_reachable (demo_sys mp)"
  unfolding demo_sys_def
  by (rule ring_reachable.start) (auto simp: ring_open_of_initialize demo_ring_def)

lemma demo_calls:
  assumes "ring_initialize None 2 1048576 3 = Inr mp"
  shows "ring_reachable ((demo_sys mp)\<lparr>s_ppc := P_Loop [7, 8, 9], s_cpc := C_Loop 5\<rparr>)"
proof -
  have "ring_reachable ((demo_sys mp)\<lparr>s_ppc := P_Loop [7, 8, 9]\<rparr>)"
    by (rule ring_reachable.step[OF demo_reachable[OF assms] p_call])
      (simp_all add: demo_sys_def demo_ring_def write_guard_def)
  from ring_reachable.step[OF this c_call[where n = 5]] show ?thesis
    by (simp add: demo_sys_def demo_ring_def read_guard_def)
qed

definition demo_frame :: "nat \<Rightarrow> bool \<Rightarrow> ring" where
  "demo_frame n producer = (demo_ring producer)\<lparr>r_position := n, r_frameBytes := 3, r_framePos := n\<rparr>"

definition demo_full :: "mapping \<Rightarrow> mapping" where
  "demo_full mp = set_head 1 (mp\<lparr>map_mem := poke (map_mem mp) 4096 [7, 8, 9]\<rparr>)"

lemma demo_counters:
  assumes "ring_initialize None 2 1048576 3 = Inr mp"
  shows "get_head mp = 0" "get_tail mp = 0" "map_len mp = 2101248" "get_head (demo_full mp) = 1"
    "get_tail (demo_full mp) = 0" "map_len (demo_full mp) = 2101248"
    "peek (map_mem (demo_full mp)) 4096 3 = [7, 8, 9]"
proof -
  show e: "get_head mp = 0" "get_tail mp = 0" "map_len mp = 2101248"
    using ring_initialize_header[OF assms] by (simp_all add: ring_consts)
  have "get_tail (mp\<lparr>map_mem := poke (map_mem mp) 4096 [7, 8, 9]\<rparr>) = get_tail mp"
    by (simp add: get_tail_def load_poke_other ring_consts)
  then show "get_head (demo_full mp) = 1" "get_tail (demo_full mp) = 0" "map_len (demo_full mp) = 2101248"
    using e by (simp_all add: demo_full_def)
  show "peek (map_mem (demo_full mp)) 4096 3 = [7, 8, 9]"
    by (simp add: demo_full_def set_head_def store_le_def peek_poke_other peek_poke_same ring_consts)
qed

lemma demo_produced:
  assumes mp: "ring_initialize None 2 1048576 3 = Inr mp"
  shows "ring_reachable ((demo_sys mp)\<lparr>s_map := demo_full mp, s_prod := demo_frame 3 True,
    s_ppc := P_Loop [], s_cpc := C_Loop 5, s_sent := [7, 8, 9]\<rparr>)"
proof -
  note d = demo_counters[OF mp] and ds = demo_sys_def demo_ring_def demo_frame_def
  have "ring_reachable ((demo_sys mp)\<lparr>s_prod := demo_frame 0 True, s_ppc := P_Copy [7, 8, 9], s_cpc := C_Loop 5\<rparr>)"
    using ring_reachable.step[OF demo_calls[OF mp] p_acquire[where r = "demo_frame 0 True"]]
    by (simp add: ds acquire_write_def d u64_sub_id)
  from ring_reachable.step[OF this p_copy[where h = 0 and rest = "[]" and r = "demo_frame 3 True"
        and mp = "mp\<lparr>map_mem := poke (map_mem mp) 4096 [7, 8, 9]\<rparr>"]]
  have "ring_reachable ((demo_sys mp)\<lparr>s_map := mp\<lparr>map_mem := poke (map_mem mp) 4096 [7, 8, 9]\<rparr>,
      s_prod := demo_frame 3 True, s_ppc := P_Pub [] 0, s_cpc := C_Loop 5, s_sent := [7, 8, 9]\<rparr>)"
    by (simp add: ds copy_write_def d u64_sub_id slot_start_def advance_def HeaderSize_def Let_def)
  from ring_reachable.step[OF this p_publish] show ?thesis
    by (simp add: ds publish_write_def demo_full_def)
qed

lemma demo_consumed:
  assumes mp: "ring_initialize None 2 1048576 3 = Inr mp"
  shows "ring_reachable ((demo_sys mp)\<lparr>s_map := set_tail 1 (demo_full mp), s_prod := demo_frame 3 True,
    s_cons := demo_frame 3 False, s_ppc := P_Loop [], s_cpc := C_Idle, s_sent := [7, 8, 9], s_got := [7, 8, 9]\<rparr>)"
proof -
  note d = demo_counters[OF mp] and ds = demo_sys_def demo_ring_def demo_frame_def
  have "ring_reachable ((demo_sys mp)\<lparr>s_map := demo_full mp, s_prod := demo_frame 3 True,
      s_cons := demo_frame 0 False, s_ppc := P_Loop [], s_cpc := C_Copy 5, s_sent := [7, 8, 9]\<rparr>)"
    using ring_reachable.step[OF demo_produced[OF mp] c_acquire[where r = "demo_frame 0 False"]]
    by (simp add: ds acquire_read_def d u64_sub_id)
  from ring_reachable.step[OF this c_copy[where t = 0 and bs = "[7, 8, 9]" and r = "demo_frame 3 False"]]
  have "ring_reachable ((demo_sys mp)\<lparr>s_map := demo_full mp, s_prod := demo_frame 3 True,
      s_cons := demo_frame 3 False, s_ppc := P_Loop [], s_cpc := C_Pub [7, 8, 9] 0, s_sent := [7, 8, 9]\<rparr>)"
    by (simp add: ds copy_read_def d u64_sub_id slot_start_def advance_def HeaderSize_def Let_def)
  from ring_reachable.step[OF this c_publish] show ?thesis
    by (simp add: ds publish_read_def)
qed

theorem ring_stream_integrity_witness:
  "\<exists>s. ring_reachable s \<and> s_cpc s = C_Idle \<and> read_guard (s_cons s) = Some EndOfFile \<and>
     s_got s = [7, 8, 9] \<and> s_got s = s_sent s \<and> length (s_got s) = r_total (s_cons s)"
proof -
  obtain mp where mp: "ring_initialize None 2 1048576 3 = Inr mp" using demo_init by blast
  let ?s = "(demo_sys mp)\<lparr>s_map := set_tail 1 (demo_full mp), s_prod := demo_frame 3 True,
    s_cons := demo_frame 3 False, s_ppc := P_Loop [], s_cpc := C_Idle, s_sent := [7, 8, 9], s_got := [7, 8, 9]\<rparr>"
  have "read_guard (s_cons ?s) = Some EndOfFile"
    by (simp add: read_guard_def demo_frame_def demo_ring_def)
  then show ?thesis
    using ring_stream_integrity[OF demo_consumed[OF mp]] demo_consumed[OF mp]
    by (intro exI[of _ ?s]) simp
qed

theorem ring_no_fault_witness:
  "\<exists>s. ring_reachable s \<and> s_ppc s = P_Loop [7, 8, 9] \<and> s_cpc s = C_Loop 5 \<and>
     acquire_write (s_map s) (s_prod s) \<noteq> Corrupt \<and> acquire_read (s_map s) (s_cons s) \<noteq> Corrupt"
proof -
  obtain mp where mp: "ring_initialize None 2 1048576 3 = Inr mp" using demo_init by blast
  show ?thesis
    using ring_no_fault[OF demo_calls[OF mp], of "[7, 8, 9]" 5] demo_calls[OF mp]
    by (intro exI[of _ "(demo_sys mp)\<lparr>s_ppc := P_Loop [7, 8, 9], s_cpc := C_Loop 5\<rparr>"]) simp
qed

theorem ring_no_deadlock_witness:
  "\<exists>s. ring_reachable s \<and> s_ppc s = P_Loop [7, 8, 9] \<and> s_cpc s = C_Loop 5 \<and>
     ((\<exists>r. acquire_write (s_map s) (s_prod s) = Acquired r) \<or>
      (\<exists>r. acquire_read (s_map s) (s_cons s) = Acquired r))"
proof -
  obtain mp where mp: "ring_initialize None 2 1048576 3 = Inr mp" using demo_init by blast
  show ?thesis
    using ring_no_deadlock[OF demo_calls[OF mp], of "[7, 8, 9]" 5] demo_calls[OF mp]
    by (intro exI[of _ "(demo_sys mp)\<lparr>s_ppc := P_Loop [7, 8, 9], s_cpc := C_Loop 5\<rparr>"]) simp
qed


theorem ring_open_initialize_witness:
  "\<exists>mp. ring_initialize None 2 1048576 3 = Inr mp \<and> ring_open None True mp False = Inr (demo_ring False)"
proof -
  obtain mp where mp: "ring_initialize None 2 1048576 3 = Inr mp" using demo_init by blast
  then show ?thesis
    using ring_open_initialize[of None 2 1048576 3 mp False InvalidBounds]
    by (intro exI[of _ mp]) (simp add: demo_ring_def)
qed

end
