(* ===== verification/Manifest.thy ===== *)
theory Manifest
  imports Go_Prelude
begin

text \<open>
  The checkpoint manifest of \<^verbatim>\<open>src/shared/checkpoint\<close>: its data, \<^verbatim>\<open>Validate\<close> with every check and
  every error in the order of the code, \<^verbatim>\<open>ValidStoragePath\<close>, \<^verbatim>\<open>Compatible\<close>, \<^verbatim>\<open>Objects\<close> and the
  optimizer state. JSON decoding and \<^verbatim>\<open>time.Parse\<close> are parameters. A Go panic on an index out of range
  is the error \<open>ManifestPanic\<close>.
\<close>

section \<open>Constants and patterns\<close>

definition manifest_Version :: int where "manifest_Version = 2"
definition MaxManifestBytes :: nat where "MaxManifestBytes = 16 * 2 ^ 20"
definition MaxChunks :: nat where "MaxChunks = 4096"
definition MaxDimensions :: nat where "MaxDimensions = 16"
definition MaxOptimizerMetadataBytes :: nat where "MaxOptimizerMetadataBytes = 4 * 2 ^ 20"

definition is_alnum :: "char \<Rightarrow> bool" where
  "is_alnum c \<longleftrightarrow> is_lower_alnum c \<or> (65 \<le> code_of c \<and> code_of c \<le> 90)"

definition start_then :: "nat \<Rightarrow> string \<Rightarrow> string \<Rightarrow> bool" where
  "start_then n extra s \<longleftrightarrow>
     s \<noteq> [] \<and> is_alnum (hd s) \<and> list_all (\<lambda>c. is_alnum c \<or> c \<in> set extra) (tl s) \<and> length (tl s) \<le> n"

definition idPattern :: "string \<Rightarrow> bool" where "idPattern = start_then 127 ''._-''"
definition tensorPattern :: "string \<Rightarrow> bool" where "tensorPattern = start_then 511 ''._:/-''"
definition adapterPattern :: "string \<Rightarrow> bool" where "adapterPattern = start_then 63 ''._-''"

definition hashPattern :: "string \<Rightarrow> bool" where
  "hashPattern s \<longleftrightarrow> length s = 64 \<and> list_all (\<lambda>c. is_digit c \<or> (97 \<le> code_of c \<and> code_of c \<le> 102)) s"

section \<open>Data\<close>

text \<open>
  A \<^verbatim>\<open>float64\<close> is not a number, infinite, or the finite value \<open>m * 2 ^ e\<close>. A nil map is \<open>None\<close>
  where the code distinguishes it.
\<close>

datatype float64 = F_NaN | F_PosInf | F_NegInf | F_Fin int int

type_synonym raw_json = string

record quantization =
  q_Scheme :: string
  q_Scale :: float64
  q_ZeroPoint :: int
  q_Rounding :: string
  q_Clamp :: "int \<times> int"

record chunk =
  c_ChunkID :: string
  c_StoragePath :: string
  c_Slice :: "(nat \<times> nat) list"
  c_Shape :: "nat list"
  c_ByteOffset :: nat
  c_ByteLength :: nat
  c_SHA256 :: string
  c_WriterRank :: int

record tensor =
  t_Role :: string
  t_GlobalShape :: "nat list"
  t_CanonicalDType :: string
  t_ByteOrder :: string
  t_Layout :: string
  t_Quantization :: "quantization option"
  t_Chunks :: "chunk list"

record rank =
  rk_Rank :: int
  rk_Hardware :: string
  rk_Adapter :: string

record world =
  w_Size :: int
  w_Ranks :: "rank list"

record metadata =
  md_TotalParameters :: nat
  md_CanonicalDType :: string
  md_ModelID :: string
  md_ModelSchemaHash :: string
  md_DatasetID :: string
  md_ContainerImageDigest :: string
  md_Framework :: string
  md_FrameworkVersion :: string
  md_AdapterVersions :: "(string, string) gomap"

record artifact =
  a_StoragePath :: string
  a_ByteLength :: nat
  a_SHA256 :: string

record mstate =
  st_OptimizerMetadata :: artifact
  st_Scheduler :: "(string, raw_json) gomap option"
  st_RNG :: "(string, artifact) gomap"
  st_DataCursor :: "(string, raw_json) gomap option"

record manifest =
  m_CheckpointVersion :: int
  m_RunID :: string
  m_GlobalStep :: nat
  m_Epoch :: float64
  m_CreatedAt :: string
  m_Metadata :: metadata
  m_World :: world
  m_Tensors :: "(string, tensor) gomap"
  m_State :: mstate

record object =
  o_ID :: string
  o_Path :: string
  o_Offset :: nat
  o_Length :: nat
  o_SHA256 :: string
  o_WriterRank :: int

record compatibility =
  cp_ModelID :: string
  cp_ModelSchemaHash :: string
  cp_DatasetID :: string
  cp_ContainerImageDigest :: string
  cp_Framework :: string
  cp_FrameworkVersion :: string
  cp_AdapterVersions :: "(string, string) gomap"

datatype (plugins only: size) manifest_error =
    ManifestPanic
  | BadManifestLength
  | DecodeFailed string
  | BadVersion
  | BadRunID
  | BadEpoch
  | BadCreatedAt
  | BadCanonicalDType
  | BadMetadataField string
  | BadSchemaHash
  | BadImageDigest
  | BadAdapterCount
  | BadAdapterVersion string
  | BadWorldSize
  | BadRank int
  | BadRankHardware int
  | NoAdapterVersion int string
  | NoTensors
  | BadTensorName string
  | BadRole string
  | BadDimensionality string
  | BadGlobalShape string
  | BadTensorFormat string
  | BadQuantization string
  | BadQuantizedDType string
  | BadChunkID string
  | DuplicateChunkID string
  | BadStoragePath string
  | SharedStoragePath string string string
  | ChunkDimensionality string
  | BadSliceOrShape string
  | BadByteRange string
  | BadHashOrWriter string
  | CoverageOverflows string
  | ChunksOverlap string string string
  | CoverageMismatch string nat nat
  | TooManyChunks
  | ParameterOverflow string
  | DTypeDiffers string
  | TotalParametersMismatch nat nat
  | StateIncomplete
  | BadRNGRank string
  | BadArtifact string
  | Incompatible string
  | NoWantedAdapters
  | IncompatibleAdapter string
  | NotAuthorized string
  | BadOptimizerLength
  | BadOptimizerVersion
  | BadParameterGroup
  | UnknownGroupParameter string
  | UnknownStateParameter string
  | EmptySlotName string
  | UnknownSlotTensor string string

section \<open>Small checks\<close>

fun finitePositive :: "float64 \<Rightarrow> bool" where
  "finitePositive (F_Fin mant e) = (mant > 0)"
| "finitePositive _ = False"

fun finiteNonNegative :: "float64 \<Rightarrow> bool" where
  "finiteNonNegative (F_Fin mant e) = (mant \<ge> 0)"
| "finiteNonNegative _ = False"

definition dtypeSize :: "string \<Rightarrow> nat option" where
  "dtypeSize dtype = map_of [(''float16'', 2), (''bfloat16'', 2), (''float32'', 4), (''float64'', 8),
     (''int8'', 1), (''uint8'', 1), (''int16'', 2), (''int32'', 4), (''int64'', 8), (''bool'', 1)] dtype"

fun product_loop :: "nat \<Rightarrow> nat list \<Rightarrow> nat option" where
  "product_loop result [] = Some result"
| "product_loop result (dimension # shape) =
     (if dimension = 0 \<or> result > max_u64 div dimension then None
      else product_loop (wrap_u64 (result * dimension)) shape)"

definition shape_product :: "nat list \<Rightarrow> nat option" where
  "shape_product shape = product_loop 1 shape"

text \<open>\<open>None\<close> is the panic of \<^verbatim>\<open>b[i]\<close> when \<open>b\<close> is shorter than \<open>a\<close>.\<close>

fun slicesOverlap :: "(nat \<times> nat) list \<Rightarrow> (nat \<times> nat) list \<Rightarrow> bool option" where
  "slicesOverlap [] b = Some True"
| "slicesOverlap (a # as) [] = None"
| "slicesOverlap (a # as) (b # bs) =
     (if snd a \<le> fst b \<or> snd b \<le> fst a then Some False else slicesOverlap as bs)"

text \<open>
  \<^verbatim>\<open>path.Clean\<close>: the elements of the path with the empty and \<^verbatim>\<open>.\<close> elements dropped and each \<^verbatim>\<open>..\<close>
  that has an element before it removed with that element; the stack holds the result reversed.
\<close>

fun clean_elems :: "bool \<Rightarrow> string list \<Rightarrow> string list \<Rightarrow> string list" where
  "clean_elems rooted stack [] = rev stack"
| "clean_elems rooted stack (e # es) =
     (if e = '''' \<or> e = ''.'' then clean_elems rooted stack es
      else if e = ''..'' then
        (if stack \<noteq> [] \<and> hd stack \<noteq> ''..'' then clean_elems rooted (tl stack) es
         else if rooted then clean_elems rooted stack es
         else clean_elems rooted (e # stack) es)
      else clean_elems rooted (e # stack) es)"

definition path_clean :: "string \<Rightarrow> string" where
  "path_clean s =
     (if s = '''' then ''.''
      else let rooted = has_prefix s ''/'';
               elems = clean_elems rooted [] (split_on CHR ''/'' s)
           in if rooted then ''/'' @ join_with ''/'' elems
              else if elems = [] then ''.'' else join_with ''/'' elems)"

definition ValidStoragePath :: "string \<Rightarrow> bool" where
  "ValidStoragePath v \<longleftrightarrow> v \<noteq> '''' \<and> length v \<le> 1024 \<and> \<not> list_ex (\<lambda>c. c = CHR 0x5C \<or> c = CHR 0x00) v
     \<and> \<not> has_prefix v ''/'' \<and> path_clean v = v \<and> v \<noteq> ''.'' \<and> \<not> has_prefix v ''../''"

type_synonym paths = "(string, string) gomap"

definition uniquePath :: "string \<Rightarrow> string \<Rightarrow> paths \<Rightarrow> manifest_error + paths" where
  "uniquePath v owner ps =
     fail_if (\<not> ValidStoragePath v) (BadStoragePath owner)
     (case map_of ps v of
        Some previous \<Rightarrow> Inl (SharedStoragePath v previous owner)
      | None \<Rightarrow> Inr (gm_put v owner ps))"

section \<open>Validation\<close>

text \<open>The fields \<^verbatim>\<open>Metadata.validate\<close> ranges over; the order decides only which error is reported.\<close>

definition metadata_fields :: "metadata \<Rightarrow> (string, string) gomap" where
  "metadata_fields md = [(''model_id'', md_ModelID md), (''dataset_id'', md_DatasetID md),
     (''framework'', md_Framework md), (''framework_version'', md_FrameworkVersion md)]"

definition metadata_validate :: "metadata \<Rightarrow> manifest_error + unit" where
  "metadata_validate md =
     fail_if (dtypeSize (md_CanonicalDType md) = None) BadCanonicalDType
     (bind_res (for_each (\<lambda>(n, v) u. fail_if (v = '''' \<or> length v > 512) (BadMetadataField n) (Inr u))
        (metadata_fields md) ())
     (\<lambda>_. fail_if (\<not> hashPattern (md_ModelSchemaHash md)) BadSchemaHash
     (fail_if (\<not> has_prefix (md_ContainerImageDigest md) ''sha256:''
               \<or> \<not> hashPattern (trim_prefix (md_ContainerImageDigest md) ''sha256:'')) BadImageDigest
     (fail_if (md_AdapterVersions md = [] \<or> length (md_AdapterVersions md) > 64) BadAdapterCount
     (for_each (\<lambda>(n, v) u. fail_if (\<not> adapterPattern n \<or> v = '''' \<or> length v > 64)
                             (BadAdapterVersion n) (Inr u))
        (md_AdapterVersions md) ())))))"

definition rank_check :: "int \<Rightarrow> rank \<Rightarrow> bool list \<Rightarrow> manifest_error + bool list" where
  "rank_check sz r seen =
     fail_if (rk_Rank r < 0 \<or> rk_Rank r \<ge> sz \<or> seen ! nat (rk_Rank r)) (BadRank (rk_Rank r))
     (fail_if (\<not> List.member [''cpu'', ''nvidia-gpu'', ''opentpu-sim''] (rk_Hardware r)
               \<or> rk_Adapter r = '''' \<or> length (rk_Adapter r) > 64) (BadRankHardware (rk_Rank r))
     (Inr (seen[nat (rk_Rank r) := True])))"

definition world_validate :: "world \<Rightarrow> manifest_error + unit" where
  "world_validate w =
     fail_if (w_Size w < 1 \<or> w_Size w > 65536 \<or> int (length (w_Ranks w)) \<noteq> w_Size w) BadWorldSize
     (bind_res (for_each (rank_check (w_Size w)) (w_Ranks w) (replicate (nat (w_Size w)) False))
     (\<lambda>_. Inr ()))"

text \<open>The loop over the dimensions of a chunk; its three lists have one length by the check before it.\<close>

fun slice_bad :: "(nat \<times> nat) list \<Rightarrow> nat list \<Rightarrow> nat list \<Rightarrow> bool" where
  "slice_bad (b # bs) (s # ss) (g # gs) =
     (fst b \<ge> snd b \<or> snd b > g \<or> s \<noteq> u64_sub (snd b) (fst b) \<or> slice_bad bs ss gs)"
| "slice_bad _ _ _ = False"

definition byte_range_bad :: "nat option \<Rightarrow> nat \<Rightarrow> chunk \<Rightarrow> bool" where
  "byte_range_bad elements sz c \<longleftrightarrow>
     (case elements of None \<Rightarrow> True
      | Some n \<Rightarrow> n > max_u64 div sz \<or> wrap_u64 (n * sz) \<noteq> c_ByteLength c \<or> c_ByteLength c = 0
                  \<or> c_ByteOffset c > u64_sub max_u64 (c_ByteLength c))"

fun overlap_check :: "string \<Rightarrow> chunk \<Rightarrow> chunk list \<Rightarrow> manifest_error + unit" where
  "overlap_check name c [] = Inr ()"
| "overlap_check name c (d # ds) =
     (case slicesOverlap (c_Slice c) (c_Slice d) of
        None \<Rightarrow> Inl ManifestPanic
      | Some True \<Rightarrow> Inl (ChunksOverlap name (c_ChunkID c) (c_ChunkID d))
      | Some False \<Rightarrow> overlap_check name c ds)"

text \<open>One round of the loop over the chunks: \<open>before\<close> are the chunks of the earlier rounds.\<close>

definition chunk_check ::
  "string \<Rightarrow> tensor \<Rightarrow> nat \<Rightarrow> world \<Rightarrow> chunk list \<Rightarrow> chunk \<Rightarrow> paths \<times> string list \<times> nat \<Rightarrow>
   manifest_error + paths \<times> string list \<times> nat" where
  "chunk_check name t sz w before c = (\<lambda>(ps, ids, covered).
     fail_if (\<not> idPattern (c_ChunkID c)) (BadChunkID name)
     (fail_if (List.member ids (c_ChunkID c)) (DuplicateChunkID (c_ChunkID c))
     (bind_res (uniquePath (c_StoragePath c) (''chunk '' @ c_ChunkID c) ps) (\<lambda>ps'.
      fail_if (length (c_Slice c) \<noteq> length (t_GlobalShape t) \<or> length (c_Shape c) \<noteq> length (t_GlobalShape t))
        (ChunkDimensionality (c_ChunkID c))
     (fail_if (slice_bad (c_Slice c) (c_Shape c) (t_GlobalShape t)) (BadSliceOrShape (c_ChunkID c))
     (let elements = shape_product (c_Shape c) in
      fail_if (byte_range_bad elements sz c) (BadByteRange (c_ChunkID c))
     (fail_if (\<not> hashPattern (c_SHA256 c) \<or> c_WriterRank c < 0 \<or> c_WriterRank c \<ge> w_Size w)
        (BadHashOrWriter (c_ChunkID c))
     (fail_if (u64_sub max_u64 covered < the elements) (CoverageOverflows name)
     (bind_res (overlap_check name c before)
     (\<lambda>_. Inr (ps', ids @ [c_ChunkID c], wrap_u64 (covered + the elements))))))))))))"

fun chunks_loop ::
  "string \<Rightarrow> tensor \<Rightarrow> nat \<Rightarrow> world \<Rightarrow> chunk list \<Rightarrow> chunk list \<Rightarrow> paths \<times> string list \<times> nat \<Rightarrow>
   manifest_error + paths \<times> string list \<times> nat" where
  "chunks_loop name t sz w before [] s = Inr s"
| "chunks_loop name t sz w before (c # cs) s =
     bind_res (chunk_check name t sz w before c s) (chunks_loop name t sz w (before @ [c]) cs)"

definition quantization_check :: "string \<Rightarrow> tensor \<Rightarrow> manifest_error + unit" where
  "quantization_check name t =
     (case t_Quantization t of None \<Rightarrow> Inr ()
      | Some q \<Rightarrow>
          fail_if (q_Scheme q \<noteq> ''affine_int8'' \<or> \<not> finitePositive (q_Scale q) \<or> q_ZeroPoint q < -128
                   \<or> q_ZeroPoint q > 127 \<or> q_Rounding q \<noteq> ''ties_to_even'' \<or> q_Clamp q \<noteq> (-128, 127))
            (BadQuantization name)
          (fail_if (t_CanonicalDType t \<noteq> ''float32'' \<and> t_CanonicalDType t \<noteq> ''bfloat16'')
            (BadQuantizedDType name) (Inr ())))"

definition tensor_validate ::
  "string \<Rightarrow> tensor \<Rightarrow> world \<Rightarrow> paths \<times> string list \<Rightarrow> manifest_error + paths \<times> string list" where
  "tensor_validate name t w = (\<lambda>(ps, ids).
     fail_if (\<not> List.member [''model_parameter'', ''model_buffer'', ''optimizer_tensor'', ''application_state'']
                (t_Role t)) (BadRole name)
     (fail_if (t_GlobalShape t = [] \<or> length (t_GlobalShape t) > MaxDimensions) (BadDimensionality name)
     (case shape_product (t_GlobalShape t) of None \<Rightarrow> Inl (BadGlobalShape name)
      | Some globalElements \<Rightarrow>
          (case dtypeSize (t_CanonicalDType t) of None \<Rightarrow> Inl (BadTensorFormat name)
           | Some sz \<Rightarrow>
              fail_if (t_ByteOrder t \<noteq> ''little'' \<or> t_Layout t \<noteq> ''C'' \<or> t_Chunks t = [])
                (BadTensorFormat name)
              (bind_res (quantization_check name t) (\<lambda>_.
               bind_res (chunks_loop name t sz w [] (t_Chunks t) (ps, ids, 0)) (\<lambda>(ps', ids', covered).
               fail_if (covered \<noteq> globalElements) (CoverageMismatch name covered globalElements)
               (Inr (ps', ids')))))))))"

definition artifact_validate :: "string \<Rightarrow> artifact \<Rightarrow> paths \<Rightarrow> manifest_error + paths" where
  "artifact_validate owner a ps =
     bind_res (uniquePath (a_StoragePath a) owner ps) (\<lambda>ps'.
     fail_if (a_ByteLength a = 0 \<or> \<not> hashPattern (a_SHA256 a)) (BadArtifact owner) (Inr ps'))"

definition rng_check :: "world \<Rightarrow> string \<times> artifact \<Rightarrow> paths \<Rightarrow> manifest_error + paths" where
  "rng_check w = (\<lambda>(r, a) ps.
     (case parse_int r of None \<Rightarrow> Inl (BadRNGRank r)
      | Some v \<Rightarrow> fail_if (v < 0 \<or> v \<ge> w_Size w) (BadRNGRank r)
                    (artifact_validate (''rng rank '' @ r) a ps)))"

definition state_validate :: "mstate \<Rightarrow> world \<Rightarrow> paths \<Rightarrow> manifest_error + paths" where
  "state_validate st w ps =
     bind_res (artifact_validate ''optimizer_metadata'' (st_OptimizerMetadata st) ps) (\<lambda>ps'.
     fail_if (st_Scheduler st = None \<or> st_DataCursor st = None \<or> int (length (st_RNG st)) \<noteq> w_Size w)
       StateIncomplete
     (for_each (rng_check w) (st_RNG st) ps'))"

record tensors_acc =
  ta_paths :: paths
  ta_ids :: "string list"
  ta_chunks :: nat
  ta_parameters :: nat

definition tensor_step :: "manifest \<Rightarrow> string \<times> tensor \<Rightarrow> tensors_acc \<Rightarrow> manifest_error + tensors_acc" where
  "tensor_step m = (\<lambda>(name, t) acc.
     fail_if (\<not> tensorPattern name) (BadTensorName name)
     (bind_res (tensor_validate name t (m_World m) (ta_paths acc, ta_ids acc)) (\<lambda>(ps, ids).
      let totalChunks = ta_chunks acc + length (t_Chunks t);
          acc' = acc\<lparr>ta_paths := ps, ta_ids := ids, ta_chunks := totalChunks\<rparr> in
      fail_if (totalChunks > MaxChunks) TooManyChunks
      (if t_Role t = ''model_parameter'' then
         (case shape_product (t_GlobalShape t) of None \<Rightarrow> Inl (ParameterOverflow name)
          | Some elements \<Rightarrow>
              fail_if (u64_sub max_u64 (ta_parameters acc) < elements) (ParameterOverflow name)
              (fail_if (t_CanonicalDType t \<noteq> md_CanonicalDType (m_Metadata m)) (DTypeDiffers name)
              (Inr (acc'\<lparr>ta_parameters := wrap_u64 (ta_parameters acc + elements)\<rparr>))))
       else Inr acc'))))"

text \<open>\<open>rfc3339\<close> is whether \<^verbatim>\<open>time.Parse(time.RFC3339, s)\<close> succeeds.\<close>

definition manifest_validate :: "(string \<Rightarrow> bool) \<Rightarrow> manifest \<Rightarrow> manifest_error + unit" where
  "manifest_validate rfc3339 m =
     fail_if (m_CheckpointVersion m \<noteq> manifest_Version) BadVersion
     (fail_if (\<not> idPattern (m_RunID m)) BadRunID
     (fail_if (\<not> finiteNonNegative (m_Epoch m)) BadEpoch
     (fail_if (\<not> rfc3339 (m_CreatedAt m)) BadCreatedAt
     (bind_res (metadata_validate (m_Metadata m)) (\<lambda>_.
      bind_res (world_validate (m_World m)) (\<lambda>_.
      bind_res (for_each (\<lambda>r u. fail_if (gm_get '''' (md_AdapterVersions (m_Metadata m)) (rk_Hardware r) = '''')
                                 (NoAdapterVersion (rk_Rank r) (rk_Hardware r)) (Inr u))
        (w_Ranks (m_World m)) ()) (\<lambda>_.
      fail_if (m_Tensors m = []) NoTensors
     (bind_res (for_each (tensor_step m) (m_Tensors m)
                 \<lparr>ta_paths = [], ta_ids = [], ta_chunks = 0, ta_parameters = 0\<rparr>) (\<lambda>acc.
      fail_if (ta_parameters acc \<noteq> md_TotalParameters (m_Metadata m))
        (TotalParametersMismatch (md_TotalParameters (m_Metadata m)) (ta_parameters acc))
     (bind_res (state_validate (m_State m) (m_World m) (ta_paths acc)) (\<lambda>_. Inr ())))))))))))"

section \<open>Decoding, compatibility and objects\<close>

text \<open>
  \<open>dec\<close> is one \<^verbatim>\<open>Decode\<close> of a strict decoder (the value and the rest of the input), \<open>next\<close> what a
  second \<^verbatim>\<open>Decode\<close> into an empty struct gives.
\<close>

datatype json_end = JEof | JValue | JError string

definition DecodeStrictJSON ::
  "(string \<Rightarrow> string + 'a \<times> string) \<Rightarrow> (string \<Rightarrow> json_end) \<Rightarrow> string \<Rightarrow> string + 'a" where
  "DecodeStrictJSON dec next data =
     bind_res (dec data) (\<lambda>(v, rest).
     (case next rest of JEof \<Rightarrow> Inr v | JValue \<Rightarrow> Inl ''multiple JSON values'' | JError e \<Rightarrow> Inl e))"

definition DecodeManifest ::
  "(string \<Rightarrow> string + manifest \<times> string) \<Rightarrow> (string \<Rightarrow> json_end) \<Rightarrow> (string \<Rightarrow> bool) \<Rightarrow> string \<Rightarrow>
   manifest_error + manifest" where
  "DecodeManifest dec next rfc3339 data =
     fail_if (data = [] \<or> length data > MaxManifestBytes) BadManifestLength
     (case DecodeStrictJSON dec next data of Inl e \<Rightarrow> Inl (DecodeFailed e)
      | Inr m \<Rightarrow> bind_res (manifest_validate rfc3339 m) (\<lambda>_. Inr m))"

definition compat_checks :: "manifest \<Rightarrow> compatibility \<Rightarrow> (string \<times> string \<times> string) list" where
  "compat_checks m want = (let md = m_Metadata m in
     [(''model_id'', md_ModelID md, cp_ModelID want),
      (''model_schema_hash'', md_ModelSchemaHash md, cp_ModelSchemaHash want),
      (''dataset_id'', md_DatasetID md, cp_DatasetID want),
      (''container_image_digest'', md_ContainerImageDigest md, cp_ContainerImageDigest want),
      (''framework'', md_Framework md, cp_Framework want),
      (''framework_version'', md_FrameworkVersion md, cp_FrameworkVersion want)])"

definition manifest_compatible :: "manifest \<Rightarrow> compatibility \<Rightarrow> manifest_error + unit" where
  "manifest_compatible m want =
     bind_res (for_each (\<lambda>(n, got, wanted) u. fail_if (wanted = '''' \<or> got \<noteq> wanted) (Incompatible n) (Inr u))
       (compat_checks m want) ()) (\<lambda>_.
     fail_if (cp_AdapterVersions want = []) NoWantedAdapters
     (for_each (\<lambda>(a, v) u. fail_if (gm_get '''' (md_AdapterVersions (m_Metadata m)) a \<noteq> v)
                             (IncompatibleAdapter a) (Inr u))
       (cp_AdapterVersions want) ()))"

definition chunk_object :: "chunk \<Rightarrow> object" where
  "chunk_object c = \<lparr>o_ID = c_ChunkID c, o_Path = c_StoragePath c, o_Offset = c_ByteOffset c,
     o_Length = c_ByteLength c, o_SHA256 = c_SHA256 c, o_WriterRank = c_WriterRank c\<rparr>"

definition artifact_object :: "string \<Rightarrow> int \<Rightarrow> artifact \<Rightarrow> object" where
  "artifact_object i r a = \<lparr>o_ID = i, o_Path = a_StoragePath a, o_Offset = 0,
     o_Length = a_ByteLength a, o_SHA256 = a_SHA256 a, o_WriterRank = r\<rparr>"

definition manifest_objects :: "manifest \<Rightarrow> object list" where
  "manifest_objects m =
     concat (map (\<lambda>(n, t). map chunk_object (t_Chunks t)) (m_Tensors m))
     @ [artifact_object ''optimizer_metadata'' 0 (st_OptimizerMetadata (m_State m))]
     @ map (\<lambda>(r, a). artifact_object (''rng_'' @ r) (atoi_value r) a) (st_RNG (m_State m))"

definition manifest_object :: "manifest \<Rightarrow> string \<Rightarrow> manifest_error + object" where
  "manifest_object m i =
     (case List.find (\<lambda>ob. o_ID ob = i) (manifest_objects m) of
        Some ob \<Rightarrow> Inr ob | None \<Rightarrow> Inl (NotAuthorized i))"

section \<open>Optimizer state\<close>

record 'v optimizer_group =
  og_Parameters :: "string list"
  og_Options :: "(string, 'v) gomap option"

record 'v optimizer_parameter =
  op_Scalars :: "(string, 'v) gomap"
  op_Tensors :: "(string, string) gomap"

record 'v optimizer_state =
  os_FormatVersion :: int
  os_ParameterGroups :: "'v optimizer_group list"
  os_Parameters :: "(string, 'v optimizer_parameter) gomap"

definition tensors_with_role :: "string \<Rightarrow> manifest \<Rightarrow> string list" where
  "tensors_with_role role m = map fst (filter (\<lambda>(n, t). t_Role t = role) (m_Tensors m))"

definition group_check :: "string list \<Rightarrow> 'v optimizer_group \<Rightarrow> unit \<Rightarrow> manifest_error + unit" where
  "group_check model g u =
     fail_if (og_Parameters g = [] \<or> og_Options g = None) BadParameterGroup
     (for_each (\<lambda>n u. fail_if (\<not> List.member model n) (UnknownGroupParameter n) (Inr u)) (og_Parameters g) u)"

definition parameter_check ::
  "string list \<Rightarrow> string list \<Rightarrow> string \<times> 'v optimizer_parameter \<Rightarrow> unit \<Rightarrow> manifest_error + unit" where
  "parameter_check model opt = (\<lambda>(n, p) u.
     fail_if (\<not> List.member model n) (UnknownStateParameter n)
     (for_each (\<lambda>(slot, t) u. fail_if (slot = '''') (EmptySlotName n)
                  (fail_if (\<not> List.member opt t) (UnknownSlotTensor slot t) (Inr u)))
        (op_Tensors p) u))"

definition optimizer_check :: "manifest \<Rightarrow> 'v optimizer_state \<Rightarrow> manifest_error + unit" where
  "optimizer_check m st =
     fail_if (os_FormatVersion st \<noteq> 1) BadOptimizerVersion
     (let model = tensors_with_role ''model_parameter'' m;
          opt = tensors_with_role ''optimizer_tensor'' m in
      bind_res (for_each (group_check model) (os_ParameterGroups st) ())
      (\<lambda>_. for_each (parameter_check model opt) (os_Parameters st) ()))"

definition DecodeOptimizerState ::
  "(string \<Rightarrow> string + 'v optimizer_state \<times> string) \<Rightarrow> (string \<Rightarrow> json_end) \<Rightarrow> string \<Rightarrow> manifest \<Rightarrow>
   manifest_error + 'v optimizer_state" where
  "DecodeOptimizerState dec next data m =
     fail_if (data = [] \<or> length data > MaxOptimizerMetadataBytes) BadOptimizerLength
     (case DecodeStrictJSON dec next data of Inl e \<Rightarrow> Inl (DecodeFailed e)
      | Inr st \<Rightarrow> bind_res (optimizer_check m st) (\<lambda>_. Inr st))"

end
