(* ===== verification/Manifest_Tiling.thy ===== *)
theory Manifest_Tiling
  imports Manifest
begin

text \<open>
  The geometry behind the coverage check of \<^verbatim>\<open>Tensor.validate\<close>: the elements of a tensor that a
  slice covers, and that pairwise disjoint slices whose element counts add up to the size of the
  tensor tile it.
\<close>

section \<open>Products of dimensions\<close>

lemma prod_list_pos: "0 \<notin> set sh \<Longrightarrow> 0 < prod_list (sh :: nat list)"
  by (induction sh) auto

lemma product_loop_Some:
  assumes "0 < r" "r \<le> max_u64"
  shows "product_loop r sh = Some n \<longleftrightarrow> 0 \<notin> set sh \<and> r * prod_list sh \<le> max_u64 \<and> n = r * prod_list sh"
  using assms
proof (induction sh arbitrary: r)
  case Nil
  then show ?case by auto
next
  case (Cons d sh)
  have fits: "r > max_u64 div d \<longleftrightarrow> \<not> r * d \<le> max_u64" if "0 < d"
    using less_eq_div_iff_mult_less_eq[OF that, of r max_u64] by auto
  show ?case
  proof (cases "d = 0 \<or> r > max_u64 div d")
    case True
    have "\<not> r * (d * prod_list sh) \<le> max_u64" if "0 < d" "0 \<notin> set sh"
    proof -
      have "1 \<le> prod_list sh" using prod_list_pos[OF that(2)] by simp
      then have "r * d * 1 \<le> r * d * prod_list sh" by (rule mult_left_mono) simp
      moreover have "max_u64 < r * d" using True fits that by auto
      ultimately show ?thesis by (simp only: mult.assoc[symmetric] mult_1_right not_le)
    qed
    then show ?thesis using True by auto
  next
    case False
    then have "0 < r * d" "r * d \<le> max_u64" using Cons.prems fits by auto
    moreover have "wrap_u64 (r * d) = r * d" using calculation by (simp add: max_u64_def)
    ultimately show ?thesis using Cons.IH[of "r * d"] False by (auto simp: mult.assoc)
  qed
qed

lemma shape_product_Some:
  "shape_product sh = Some n \<longleftrightarrow> 0 \<notin> set sh \<and> prod_list sh \<le> max_u64 \<and> n = prod_list sh"
  by (simp add: shape_product_def product_loop_Some max_u64_def)

lemma prod_list_member_le:
  fixes sh :: "nat list"
  assumes "0 \<notin> set sh" "g \<in> set sh"
  shows "g \<le> prod_list sh"
proof -
  obtain a b where "sh = a @ g # b" using assms(2) by (meson split_list)
  then have "prod_list sh = g * (prod_list a * prod_list b)" "0 < prod_list a * prod_list b"
    using assms(1) prod_list_pos[of a] prod_list_pos[of b] by auto
  then show ?thesis by simp
qed

section \<open>The elements of a slice\<close>

fun cells :: "(nat \<times> nat) list \<Rightarrow> nat list set" where
  "cells [] = {[]}"
| "cells (b # bs) = (\<lambda>(x, xs). x # xs) ` ({fst b..<snd b} \<times> cells bs)"

definition full_box :: "nat list \<Rightarrow> (nat \<times> nat) list" where
  "full_box gs = map (\<lambda>g. (0, g)) gs"

definition extents :: "(nat \<times> nat) list \<Rightarrow> nat list" where
  "extents bs = map (\<lambda>b. snd b - fst b) bs"

definition box_in :: "(nat \<times> nat) list \<Rightarrow> nat list \<Rightarrow> bool" where
  "box_in bs gs \<longleftrightarrow> list_all2 (\<lambda>b g. fst b < snd b \<and> snd b \<le> g) bs gs"

lemma cells_iff:
  "xs \<in> cells bs \<longleftrightarrow> list_all2 (\<lambda>x b. fst b \<le> x \<and> x < snd b) xs bs"
  by (induction bs arbitrary: xs) (auto simp: list_all2_Cons2)

lemma finite_cells [simp]: "finite (cells bs)"
  by (induction bs) auto

lemma card_cells: "card (cells bs) = prod_list (extents bs)"
proof (induction bs)
  case Nil
  then show ?case by (simp add: extents_def)
next
  case (Cons b bs)
  have "inj_on (\<lambda>(x, xs). x # xs) ({fst b..<snd b} \<times> cells bs)" by (auto simp: inj_on_def)
  then show ?case using Cons by (simp add: card_image extents_def card_cartesian_product)
qed

lemma extents_full_box [simp]: "extents (full_box gs) = gs"
  by (induction gs) (auto simp: extents_def full_box_def)

lemma cells_box_in: "box_in bs gs \<Longrightarrow> cells bs \<subseteq> cells (full_box gs)"
  unfolding box_in_def
  by (induction rule: list_all2_induct) (auto simp: full_box_def)

lemma extents_positive: "box_in bs gs \<Longrightarrow> 0 \<notin> set (extents bs)"
  unfolding box_in_def by (induction rule: list_all2_induct) (auto simp: extents_def)

lemma extents_le:
  assumes "box_in bs gs"
  shows "prod_list (extents bs) \<le> prod_list gs"
proof -
  have "card (cells bs) \<le> card (cells (full_box gs))"
    using cells_box_in[OF assms] by (intro card_mono) auto
  then show ?thesis by (simp add: card_cells)
qed

lemma slicesOverlap_cells:
  assumes "box_in a gs" "box_in b gs"
  shows "slicesOverlap a b = Some (cells a \<inter> cells b \<noteq> {})"
  using assms
proof (induction a b arbitrary: gs rule: slicesOverlap.induct)
  case (1 b)
  then show ?case by (simp add: box_in_def)
next
  case (2 a as)
  then show ?case by (auto simp: box_in_def list_all2_Cons1)
next
  case (3 a as b bs)
  then obtain g gs' where g: "gs = g # gs'" "box_in as gs'" "box_in bs gs'" "fst a < snd a" "fst b < snd b"
    by (auto simp: box_in_def list_all2_Cons1)
  have split: "cells (a # as) \<inter> cells (b # bs)
      = (\<lambda>(x, xs). x # xs) ` (({fst a..<snd a} \<inter> {fst b..<snd b}) \<times> (cells as \<inter> cells bs))"
    by auto
  show ?case
  proof (cases "snd a \<le> fst b \<or> snd b \<le> fst a")
    case True
    then show ?thesis unfolding split by auto
  next
    case False
    then have "max (fst a) (fst b) \<in> {fst a..<snd a} \<inter> {fst b..<snd b}" using g by auto
    then have "{fst a..<snd a} \<inter> {fst b..<snd b} \<noteq> {}" by blast
    then show ?thesis using False 3(1)[OF False g(2,3)] unfolding split by auto
  qed
qed

section \<open>Tilings\<close>

definition tiles :: "nat list \<Rightarrow> (nat \<times> nat) list list \<Rightarrow> bool" where
  "tiles gs bs \<longleftrightarrow> (\<forall>x \<in> cells (full_box gs). \<exists>!i. i < length bs \<and> x \<in> cells (bs ! i))"

definition pairwise_disjoint :: "(nat \<times> nat) list list \<Rightarrow> bool" where
  "pairwise_disjoint bs \<longleftrightarrow> (\<forall>i j. i < length bs \<longrightarrow> j < i \<longrightarrow> cells (bs ! i) \<inter> cells (bs ! j) = {})"

lemma pairwise_disjointD:
  assumes "pairwise_disjoint bs" "i < length bs" "j < length bs" "i \<noteq> j"
  shows "cells (bs ! i) \<inter> cells (bs ! j) = {}"
proof (cases "j < i")
  case True
  then show ?thesis using assms by (auto simp: pairwise_disjoint_def)
next
  case False
  then have "cells (bs ! j) \<inter> cells (bs ! i) = {}"
    using assms by (simp add: pairwise_disjoint_def)
  then show ?thesis by auto
qed

lemma card_disjoint_cells:
  assumes "pairwise_disjoint bs"
  shows "card (\<Union>i<length bs. cells (bs ! i)) = sum_list (map (\<lambda>b. prod_list (extents b)) bs)"
proof -
  have "card (\<Union>i<length bs. cells (bs ! i)) = (\<Sum>i<length bs. card (cells (bs ! i)))"
    using pairwise_disjointD[OF assms] by (intro card_UN_disjoint) auto
  also have "\<dots> = sum_list (map (\<lambda>b. prod_list (extents b)) bs)"
    by (simp add: card_cells sum_list_sum_nth atLeast0LessThan)
  finally show ?thesis .
qed

lemma tiles_iff:
  assumes sub: "\<And>b. b \<in> set bs \<Longrightarrow> box_in b gs"
  shows "tiles gs bs \<longleftrightarrow> pairwise_disjoint bs \<and> sum_list (map (\<lambda>b. prod_list (extents b)) bs) = prod_list gs"
proof -
  let ?U = "\<Union>i<length bs. cells (bs ! i)"
  have U: "?U \<subseteq> cells (full_box gs)" by (rule UN_least) (simp add: cells_box_in sub)
  have full: "card (cells (full_box gs)) = prod_list gs" by (simp add: card_cells)
  show ?thesis
  proof
    assume t: "tiles gs bs"
    have "pairwise_disjoint bs"
      unfolding pairwise_disjoint_def
    proof (intro allI impI)
      fix i j assume ij: "i < length bs" "j < i"
      then have "cells (bs ! i) \<subseteq> cells (full_box gs)" using cells_box_in[OF sub] by simp
      moreover have "j < length bs" "i \<noteq> j" using ij by auto
      ultimately show "cells (bs ! i) \<inter> cells (bs ! j) = {}"
        using t ij(1) unfolding tiles_def by blast
    qed
    moreover have "cells (full_box gs) \<subseteq> ?U" using t by (auto simp: tiles_def)
    ultimately show "pairwise_disjoint bs \<and> sum_list (map (\<lambda>b. prod_list (extents b)) bs) = prod_list gs"
      using card_disjoint_cells[of bs] U full by (simp add: subset_antisym)
  next
    assume d: "pairwise_disjoint bs \<and> sum_list (map (\<lambda>b. prod_list (extents b)) bs) = prod_list gs"
    then have "?U = cells (full_box gs)"
      using card_disjoint_cells[of bs] U full by (intro card_subset_eq) auto
    then have ex: "\<exists>i. i < length bs \<and> x \<in> cells (bs ! i)" if "x \<in> cells (full_box gs)" for x
      using that by blast
    have "i = j" if "i < length bs" "x \<in> cells (bs ! i)" "j < length bs" "x \<in> cells (bs ! j)" for i j x
      using pairwise_disjointD[of bs i j] d that by blast
    then show "tiles gs bs"
      unfolding tiles_def using ex by (intro ballI ex_ex1I) blast+
  qed
qed

end
