(* ===== verification/Storage_Path.thy ===== *)
theory Storage_Path
  imports Manifest
begin

text \<open>
  What \<^verbatim>\<open>ValidStoragePath\<close> accepts, by the elements of the path: \<^verbatim>\<open>path.Clean\<close> leaves a relative path
  alone exactly when its elements are \<^verbatim>\<open>..\<close> elements followed by plain ones.
\<close>

section \<open>Storage paths\<close>

definition plain_elem :: "string \<Rightarrow> bool" where
  "plain_elem e \<longleftrightarrow> e \<noteq> '''' \<and> e \<noteq> ''.'' \<and> e \<noteq> ''..''"

definition cleaned :: "string list \<Rightarrow> bool" where
  "cleaned es \<longleftrightarrow> (\<exists>k gs. es = replicate k ''..'' @ gs \<and> list_all plain_elem gs)"

lemma cleaned_snoc_plain: "cleaned es \<Longrightarrow> plain_elem e \<Longrightarrow> cleaned (es @ [e])"
proof -
  assume "cleaned es" "plain_elem e"
  then obtain k gs where "es = replicate k ''..'' @ gs" "list_all plain_elem gs" by (auto simp: cleaned_def)
  then show ?thesis
    unfolding cleaned_def using \<open>plain_elem e\<close> by (intro exI[of _ k] exI[of _ "gs @ [e]"]) simp
qed

lemma cleaned_snoc_up:
  assumes "cleaned es" "es = [] \<or> last es = ''..''"
  shows "cleaned (es @ [''..''])"
proof -
  obtain k gs where e: "es = replicate k ''..'' @ gs" "list_all plain_elem gs"
    using assms(1) by (auto simp: cleaned_def)
  have "gs = []"
  proof (rule ccontr)
    assume "gs \<noteq> []"
    then have "last es = last gs" "plain_elem (last gs)" using e by (auto simp: list_all_iff)
    then show False using assms(2) e \<open>gs \<noteq> []\<close> by (auto simp: plain_elem_def)
  qed
  then show ?thesis
    unfolding cleaned_def using e by (intro exI[of _ "Suc k"] exI[of _ "[]"]) (simp add: replicate_append_same)
qed

lemma cleaned_butlast: "cleaned es \<Longrightarrow> cleaned (butlast es)"
  unfolding cleaned_def
proof (elim exE conjE)
  fix k gs assume e: "es = replicate k ''..'' @ gs" "list_all plain_elem gs"
  show "\<exists>k gs. butlast es = replicate k ''..'' @ gs \<and> list_all plain_elem gs"
  proof (cases "gs = []")
    case True
    then show ?thesis using e by (intro exI[of _ "k - 1"] exI[of _ "[]"]) (cases k, auto simp: replicate_append_same[symmetric])
  next
    case False
    then show ?thesis using e by (intro exI[of _ k] exI[of _ "butlast gs"])
      (auto simp: butlast_append list_all_iff dest: in_set_butlastD)
  qed
qed

lemma clean_elems_cleaned: "cleaned (rev stack) \<Longrightarrow> cleaned (clean_elems False stack es)"
proof (induction es arbitrary: stack)
  case (Cons e es)
  consider (skip) "e = '''' \<or> e = ''.''" | (pop) "e = ''..''" "stack \<noteq> []" "hd stack \<noteq> ''..''"
    | (up) "e = ''..''" "stack = [] \<or> hd stack = ''..''" | (plain) "plain_elem e"
    by (auto simp: plain_elem_def)
  then show ?case
  proof cases
    case skip
    then show ?thesis using Cons by auto
  next
    case pop
    then show ?thesis using Cons.IH[of "tl stack"] cleaned_butlast[OF Cons.prems] by (simp add: butlast_rev)
  next
    case up
    then show ?thesis
      using Cons.IH[of "e # stack"] cleaned_snoc_up[OF Cons.prems] by (auto simp: last_rev)
  next
    case plain
    then show ?thesis
      using Cons.IH[of "e # stack"] cleaned_snoc_plain[OF Cons.prems plain] by (auto simp: plain_elem_def)
  qed
qed simp

lemma clean_elems_plain: "list_all plain_elem es \<Longrightarrow> clean_elems False stack es = rev stack @ es"
  by (induction es arbitrary: stack) (auto simp: plain_elem_def)

lemma clean_elems_Cons:
  "clean_elems rooted stack (e # es) = clean_elems rooted stack es
   \<or> clean_elems rooted stack (e # es) = clean_elems rooted (tl stack) es
   \<or> clean_elems rooted stack (e # es) = clean_elems rooted (e # stack) es"
  by (simp only: clean_elems.simps split: if_split) simp

lemma clean_elems_all:
  "list_all P stack \<Longrightarrow> list_all P es \<Longrightarrow> list_all P (clean_elems rooted stack es)"
proof (induction es arbitrary: stack)
  case (Cons e es)
  have "list_all P (tl stack)" using Cons.prems(1) by (cases stack) auto
  then have "list_all P (clean_elems rooted stack es)" "list_all P (clean_elems rooted (tl stack) es)"
    "list_all P (clean_elems rooted (e # stack) es)"
    using Cons.prems by (auto intro!: Cons.IH)
  then show ?case using clean_elems_Cons[of rooted stack e es] by metis
qed (simp add: list_all_iff)

lemma split_on_no_root: "\<not> has_prefix v ''/'' \<longleftrightarrow> v = '''' \<or> hd (split_on CHR ''/'' v) \<noteq> ''''"
  by (cases v) (auto simp: has_prefix_iff split: list.splits)

lemma path_clean_fixed:
  assumes "\<not> has_prefix v ''/''" "v \<noteq> ''''" "v \<noteq> ''.''" "path_clean v = v"
  shows "clean_elems False [] (split_on CHR ''/'' v) = split_on CHR ''/'' v"
proof -
  let ?es = "clean_elems False [] (split_on CHR ''/'' v)"
  have j: "join_with ''/'' ?es = v" "?es \<noteq> []"
    using assms by (auto simp: path_clean_def Let_def split: if_splits)
  have "\<forall>w \<in> set ?es. CHR ''/'' \<notin> set w"
    using clean_elems_all[of "\<lambda>w. CHR ''/'' \<notin> set w" "[]" "split_on CHR ''/'' v" False]
      split_on_no_sep[of _ "CHR ''/''" v] by (auto simp: list_all_iff)
  then have "split_on CHR ''/'' (join_with ''/'' ?es) = ?es" using j(2) by (intro split_join) auto
  then show ?thesis using j(1) by simp
qed

lemma plain_path_clean:
  assumes "list_all plain_elem (split_on CHR ''/'' v)"
  shows "v \<noteq> ''''" "v \<noteq> ''.''" "\<not> has_prefix v ''/''" "path_clean v = v" "\<not> has_prefix v ''../''"
proof -
  show ne: "v \<noteq> ''''" "v \<noteq> ''.''" using assms by (auto simp: plain_elem_def)
  show np: "\<not> has_prefix v ''/''"
    unfolding split_on_no_root using assms by (cases "split_on CHR ''/'' v") (auto simp: plain_elem_def)
  show "path_clean v = v"
    using ne np clean_elems_plain[OF assms, of "[]"] by (simp add: path_clean_def join_split)
  show "\<not> has_prefix v ''../''"
  proof
    assume "has_prefix v ''../''"
    then obtain r where "v = ''..'' @ CHR ''/'' # r" by (auto simp: has_prefix_iff)
    then have "split_on CHR ''/'' v = ''..'' # split_on CHR ''/'' r" by (simp only: split_on_append) simp
    then show False using assms by (simp add: plain_elem_def)
  qed
qed

lemma valid_path_elems:
  assumes "ValidStoragePath v" "v \<noteq> ''..''"
  shows "list_all plain_elem (split_on CHR ''/'' v)"
proof -
  let ?es = "split_on CHR ''/'' v"
  have "cleaned ?es"
    using assms(1) path_clean_fixed[of v] clean_elems_cleaned[of "[]" ?es]
    by (auto simp: ValidStoragePath_def cleaned_def)
  then obtain k gs where e: "?es = replicate k ''..'' @ gs" "list_all plain_elem gs" by (auto simp: cleaned_def)
  have v: "v = join_with ''/'' ?es" by (simp add: join_split)
  have "k = 0"
  proof (cases k)
    case (Suc j)
    then obtain rest where r: "?es = ''..'' # rest" using e by auto
    then have "v = ''..'' \<or> has_prefix v ''../''"
      by (subst (1 2) v) (cases rest; simp add: has_prefix_iff)
    then show ?thesis using assms by (simp add: ValidStoragePath_def)
  qed
  then show ?thesis using e by simp
qed

lemma ValidStoragePath_iff:
  "ValidStoragePath v \<longleftrightarrow> length v \<le> 1024 \<and> \<not> list_ex (\<lambda>c. c = CHR 0x5C \<or> c = CHR 0x00) v
     \<and> (v = ''..'' \<or> list_all plain_elem (split_on CHR ''/'' v))"
proof (cases "v = ''..''")
  case True
  then show ?thesis by (simp add: ValidStoragePath_def path_clean_def has_prefix_def)
next
  case False
  show ?thesis
  proof
    assume "ValidStoragePath v"
    then show "length v \<le> 1024 \<and> \<not> list_ex (\<lambda>c. c = CHR 0x5C \<or> c = CHR 0x00) v
        \<and> (v = ''..'' \<or> list_all plain_elem (split_on CHR ''/'' v))"
      using valid_path_elems[of v] False unfolding ValidStoragePath_def by blast
  next
    assume r: "length v \<le> 1024 \<and> \<not> list_ex (\<lambda>c. c = CHR 0x5C \<or> c = CHR 0x00) v
        \<and> (v = ''..'' \<or> list_all plain_elem (split_on CHR ''/'' v))"
    then have "list_all plain_elem (split_on CHR ''/'' v)" using False by blast
    from plain_path_clean[OF this] r show "ValidStoragePath v" unfolding ValidStoragePath_def by blast
  qed
qed

end
