(* ===== verification/Manifest_Valid.thy ===== *)
theory Manifest_Valid
  imports Manifest_Tiling Storage_Path
begin

text \<open>
  What \<^verbatim>\<open>Validate\<close> accepts: the declarative specification \<open>manifest_spec\<close>, which knows no loop and no
  iteration order, and the lemmas that take each function of the validation to its part of it.
\<close>

section \<open>Specification\<close>

definition quantization_spec :: "tensor \<Rightarrow> bool" where
  "quantization_spec t \<longleftrightarrow> (\<forall>q. t_Quantization t = Some q \<longrightarrow>
     q_Scheme q = ''affine_int8'' \<and> finitePositive (q_Scale q) \<and> -128 \<le> q_ZeroPoint q \<and> q_ZeroPoint q \<le> 127
     \<and> q_Rounding q = ''ties_to_even'' \<and> q_Clamp q = (-128, 127)
     \<and> t_CanonicalDType t \<in> {''float32'', ''bfloat16''})"

definition chunk_spec :: "world \<Rightarrow> tensor \<Rightarrow> nat \<Rightarrow> chunk \<Rightarrow> bool" where
  "chunk_spec w t sz c \<longleftrightarrow> idPattern (c_ChunkID c) \<and> ValidStoragePath (c_StoragePath c)
     \<and> box_in (c_Slice c) (t_GlobalShape t) \<and> c_Shape c = extents (c_Slice c)
     \<and> c_ByteLength c = prod_list (c_Shape c) * sz \<and> c_ByteOffset c + c_ByteLength c \<le> max_u64
     \<and> hashPattern (c_SHA256 c) \<and> 0 \<le> c_WriterRank c \<and> c_WriterRank c < w_Size w"

definition tensor_spec :: "world \<Rightarrow> tensor \<Rightarrow> bool" where
  "tensor_spec w t \<longleftrightarrow>
     t_Role t \<in> {''model_parameter'', ''model_buffer'', ''optimizer_tensor'', ''application_state''}
     \<and> 1 \<le> length (t_GlobalShape t) \<and> length (t_GlobalShape t) \<le> MaxDimensions
     \<and> 0 \<notin> set (t_GlobalShape t) \<and> prod_list (t_GlobalShape t) \<le> max_u64
     \<and> t_ByteOrder t = ''little'' \<and> t_Layout t = ''C'' \<and> quantization_spec t
     \<and> (\<exists>sz. dtypeSize (t_CanonicalDType t) = Some sz \<and> list_all (chunk_spec w t sz) (t_Chunks t))
     \<and> tiles (t_GlobalShape t) (map c_Slice (t_Chunks t))"

definition metadata_spec :: "metadata \<Rightarrow> bool" where
  "metadata_spec md \<longleftrightarrow> dtypeSize (md_CanonicalDType md) \<noteq> None
     \<and> list_all (\<lambda>v. v \<noteq> '''' \<and> length v \<le> 512)
         [md_ModelID md, md_DatasetID md, md_Framework md, md_FrameworkVersion md]
     \<and> hashPattern (md_ModelSchemaHash md)
     \<and> (\<exists>d. md_ContainerImageDigest md = ''sha256:'' @ d \<and> hashPattern d)
     \<and> 1 \<le> length (md_AdapterVersions md) \<and> length (md_AdapterVersions md) \<le> 64
     \<and> (\<forall>(n, v) \<in> set (md_AdapterVersions md). adapterPattern n \<and> v \<noteq> '''' \<and> length v \<le> 64)"

definition world_spec :: "world \<Rightarrow> bool" where
  "world_spec w \<longleftrightarrow> 1 \<le> w_Size w \<and> w_Size w \<le> 65536
     \<and> distinct (map rk_Rank (w_Ranks w)) \<and> rk_Rank ` set (w_Ranks w) = {0..<w_Size w}
     \<and> (\<forall>r \<in> set (w_Ranks w). rk_Hardware r \<in> {''cpu'', ''nvidia-gpu'', ''opentpu-sim''}
           \<and> rk_Adapter r \<noteq> '''' \<and> length (rk_Adapter r) \<le> 64)"

definition artifact_spec :: "artifact \<Rightarrow> bool" where
  "artifact_spec a \<longleftrightarrow> ValidStoragePath (a_StoragePath a) \<and> 0 < a_ByteLength a \<and> hashPattern (a_SHA256 a)"

definition state_spec :: "world \<Rightarrow> mstate \<Rightarrow> bool" where
  "state_spec w st \<longleftrightarrow> artifact_spec (st_OptimizerMetadata st)
     \<and> st_Scheduler st \<noteq> None \<and> st_DataCursor st \<noteq> None \<and> int (length (st_RNG st)) = w_Size w
     \<and> (\<forall>(r, a) \<in> set (st_RNG st). (\<exists>v. parse_int r = Some v \<and> 0 \<le> v \<and> v < w_Size w) \<and> artifact_spec a)"

definition parameter_count :: "tensor \<Rightarrow> nat" where
  "parameter_count t = (if t_Role t = ''model_parameter'' then prod_list (t_GlobalShape t) else 0)"

definition all_chunks :: "(string, tensor) gomap \<Rightarrow> chunk list" where
  "all_chunks ts = concat (map (\<lambda>(n, t). t_Chunks t) ts)"

definition manifest_spec :: "(string \<Rightarrow> bool) \<Rightarrow> manifest \<Rightarrow> bool" where
  "manifest_spec rfc3339 m \<longleftrightarrow>
     m_CheckpointVersion m = manifest_Version \<and> idPattern (m_RunID m) \<and> finiteNonNegative (m_Epoch m)
     \<and> rfc3339 (m_CreatedAt m) \<and> metadata_spec (m_Metadata m) \<and> world_spec (m_World m)
     \<and> (\<forall>r \<in> set (w_Ranks (m_World m)). gm_get '''' (md_AdapterVersions (m_Metadata m)) (rk_Hardware r) \<noteq> '''')
     \<and> m_Tensors m \<noteq> []
     \<and> (\<forall>(n, t) \<in> set (m_Tensors m). tensorPattern n \<and> tensor_spec (m_World m) t \<and>
          (t_Role t = ''model_parameter'' \<longrightarrow> t_CanonicalDType t = md_CanonicalDType (m_Metadata m)))
     \<and> distinct (map c_ChunkID (all_chunks (m_Tensors m)))
     \<and> distinct (map o_Path (manifest_objects m))
     \<and> length (all_chunks (m_Tensors m)) \<le> MaxChunks
     \<and> sum_list (map (\<lambda>(n, t). parameter_count t) (m_Tensors m)) = md_TotalParameters (m_Metadata m)
     \<and> md_TotalParameters (m_Metadata m) \<le> max_u64
     \<and> state_spec (m_World m) (m_State m)"

section \<open>Paths\<close>

lemma uniquePath_Inr:
  "uniquePath v owner ps = Inr ps' \<longleftrightarrow> ValidStoragePath v \<and> v \<notin> fst ` set ps \<and> ps' = ps @ [(v, owner)]"
proof (cases "v \<in> fst ` set ps")
  case True
  then have "map_of ps v \<noteq> None" by (simp add: map_of_eq_None_iff)
  then show ?thesis using True by (auto simp: uniquePath_def fail_if_Inr)
next
  case False
  then have "map_of ps v = None" by (simp add: map_of_eq_None_iff)
  then show ?thesis using False by (auto simp: uniquePath_def fail_if_Inr gm_put_append)
qed

section \<open>World and metadata\<close>

definition hardware_ok :: "rank \<Rightarrow> bool" where
  "hardware_ok r \<longleftrightarrow> rk_Hardware r \<in> {''cpu'', ''nvidia-gpu'', ''opentpu-sim''}
     \<and> rk_Adapter r \<noteq> '''' \<and> length (rk_Adapter r) \<le> 64"

lemma rank_check_Inr:
  "rank_check sz r seen = Inr seen' \<longleftrightarrow>
     0 \<le> rk_Rank r \<and> rk_Rank r < sz \<and> \<not> seen ! nat (rk_Rank r) \<and> hardware_ok r
     \<and> seen' = seen[nat (rk_Rank r) := True]"
  by (auto simp: rank_check_def fail_if_Inr hardware_ok_def)

lemma ranks_loop_ok:
  assumes "length seen = nat sz"
  shows "is_ok (for_each (rank_check sz) rs seen) \<longleftrightarrow>
     distinct (map rk_Rank rs) \<and>
     (\<forall>r \<in> set rs. 0 \<le> rk_Rank r \<and> rk_Rank r < sz \<and> \<not> seen ! nat (rk_Rank r) \<and> hardware_ok r)"
  using assms
proof (induction rs arbitrary: seen)
  case Nil
  then show ?case by simp
next
  case (Cons r rs)
  show ?case
  proof (cases "rank_check sz r seen")
    case (Inl e)
    then have "\<not> (0 \<le> rk_Rank r \<and> rk_Rank r < sz \<and> \<not> seen ! nat (rk_Rank r) \<and> hardware_ok r)"
      using rank_check_Inr[of sz r seen] by auto
    then show ?thesis using Inl by auto
  next
    case (Inr seen')
    then have r: "0 \<le> rk_Rank r" "rk_Rank r < sz" "\<not> seen ! nat (rk_Rank r)" "hardware_ok r"
      and s: "seen' = seen[nat (rk_Rank r) := True]" by (auto simp: rank_check_Inr)
    have upd: "seen' ! nat (rk_Rank x) \<longleftrightarrow> rk_Rank x = rk_Rank r \<or> seen ! nat (rk_Rank x)"
      if "0 \<le> rk_Rank x" "rk_Rank x < sz" for x
      using that r Cons.prems by (auto simp: s nth_list_update nat_eq_iff)
    have "length seen' = nat sz" using Cons.prems by (simp add: s)
    then show ?thesis using Cons.IH[of seen'] Inr r upd by (auto simp: image_iff)
  qed
qed

lemma world_validate_Inr: "world_validate w = Inr () \<longleftrightarrow> world_spec w"
proof -
  have loop: "(\<exists>x. for_each (rank_check (w_Size w)) (w_Ranks w) (replicate (nat (w_Size w)) False) = Inr x)
      \<longleftrightarrow> distinct (map rk_Rank (w_Ranks w)) \<and>
          (\<forall>r \<in> set (w_Ranks w). 0 \<le> rk_Rank r \<and> rk_Rank r < w_Size w \<and> hardware_ok r)"
    using ranks_loop_ok[of "replicate (nat (w_Size w)) False" "w_Size w" "w_Ranks w"]
    by (auto simp: is_ok_iff)
  have onto: "rk_Rank ` set (w_Ranks w) = {0..<w_Size w} \<longleftrightarrow>
      int (length (w_Ranks w)) = w_Size w \<and> (\<forall>r \<in> set (w_Ranks w). 0 \<le> rk_Rank r \<and> rk_Rank r < w_Size w)"
    if d: "distinct (map rk_Rank (w_Ranks w))" and n: "1 \<le> w_Size w"
  proof -
    have c: "card (rk_Rank ` set (w_Ranks w)) = length (w_Ranks w)" using distinct_card[OF d] by simp
    show ?thesis
    proof
      assume e: "rk_Rank ` set (w_Ranks w) = {0..<w_Size w}"
      then have "length (w_Ranks w) = nat (w_Size w)" using c by simp
      then show "int (length (w_Ranks w)) = w_Size w \<and> (\<forall>r \<in> set (w_Ranks w). 0 \<le> rk_Rank r \<and> rk_Rank r < w_Size w)"
        using e n by auto
    next
      assume a: "int (length (w_Ranks w)) = w_Size w \<and> (\<forall>r \<in> set (w_Ranks w). 0 \<le> rk_Rank r \<and> rk_Rank r < w_Size w)"
      then show "rk_Rank ` set (w_Ranks w) = {0..<w_Size w}"
        using c n by (intro card_subset_eq) auto
    qed
  qed
  show ?thesis
    using loop onto by (auto simp: world_validate_def res_ok world_spec_def hardware_ok_def)
qed

lemma metadata_validate_Inr: "metadata_validate md = Inr () \<longleftrightarrow> metadata_spec md"
proof -
  have fields: "for_each (\<lambda>(n, v) u. fail_if (v = '''' \<or> length v > 512) (BadMetadataField n) (Inr u))
      (metadata_fields md) () = Inr u \<longleftrightarrow> list_all (\<lambda>v. v \<noteq> '''' \<and> length v \<le> 512)
         [md_ModelID md, md_DatasetID md, md_Framework md, md_FrameworkVersion md]" for u
    by (subst for_each_fail_if[where b = "\<lambda>(n, v). v = '''' \<or> length v > 512" and e = "\<lambda>(n, v). BadMetadataField n"])
      (auto simp: metadata_fields_def)
  have adapters: "for_each (\<lambda>(n, v) u. fail_if (\<not> adapterPattern n \<or> v = '''' \<or> length v > 64) (BadAdapterVersion n) (Inr u))
      (md_AdapterVersions md) () = Inr u \<longleftrightarrow>
      (\<forall>(n, v) \<in> set (md_AdapterVersions md). adapterPattern n \<and> v \<noteq> '''' \<and> length v \<le> 64)" for u
    by (subst for_each_fail_if[where b = "\<lambda>(n, v). \<not> adapterPattern n \<or> v = '''' \<or> length v > 64"
          and e = "\<lambda>(n, v). BadAdapterVersion n"]) auto
  have digest: "has_prefix d p \<and> hashPattern (trim_prefix d p) \<longleftrightarrow> (\<exists>h. d = p @ h \<and> hashPattern h)" for d p
    by (auto simp: has_prefix_iff)
  show ?thesis
    unfolding metadata_validate_def metadata_spec_def res_ok fields adapters
    using digest[of "md_ContainerImageDigest md" "''sha256:''"]
    by (auto simp: not_less Suc_le_eq)
qed

section \<open>Chunks and tensors\<close>

lemma slice_bad_iff:
  assumes "length sl = length gs" "length sh = length gs" "\<forall>g \<in> set gs. g \<le> max_u64"
  shows "\<not> slice_bad sl sh gs \<longleftrightarrow> box_in sl gs \<and> sh = extents sl"
  using assms
proof (induction sl sh gs rule: slice_bad.induct)
  case (1 b bs s ss g gs)
  have "u64_sub (snd b) (fst b) = snd b - fst b" if "fst b < snd b" "snd b \<le> g"
    using that 1(4) by (intro u64_sub_id) (auto simp: max_u64_def)
  then show ?case using 1 by (auto simp: box_in_def extents_def)
qed (auto simp: box_in_def extents_def)

lemma byte_range_ok:
  assumes "0 < sz"
  shows "\<not> byte_range_bad (Some n) sz c \<longleftrightarrow>
    c_ByteLength c = n * sz \<and> 0 < n \<and> c_ByteOffset c + c_ByteLength c \<le> max_u64"
proof (cases "n * sz \<le> max_u64")
  case True
  then have "\<not> n > max_u64 div sz" "wrap_u64 (n * sz) = n * sz"
    using less_eq_div_iff_mult_less_eq[OF assms, of n max_u64] by (auto simp: max_u64_def)
  moreover have "u64_sub max_u64 (n * sz) = max_u64 - n * sz"
    using True by (intro u64_sub_id) (auto simp: max_u64_def)
  ultimately show ?thesis using True assms by (cases "n = 0") (auto simp: byte_range_bad_def)
next
  case False
  then have "n > max_u64 div sz" using less_eq_div_iff_mult_less_eq[OF assms, of n max_u64] by auto
  then show ?thesis using False by (auto simp: byte_range_bad_def)
qed

lemma overlap_check_Inr:
  assumes "box_in (c_Slice c) gs" "\<forall>d \<in> set ds. box_in (c_Slice d) gs"
  shows "overlap_check name c ds = Inr () \<longleftrightarrow> (\<forall>d \<in> set ds. cells (c_Slice c) \<inter> cells (c_Slice d) = {})"
  using assms(2)
proof (induction ds)
  case (Cons d ds)
  then show ?case using slicesOverlap_cells[OF assms(1), of "c_Slice d"]
    by (cases "cells (c_Slice c) \<inter> cells (c_Slice d) = {}") auto
qed simp

definition good_shape :: "tensor \<Rightarrow> bool" where
  "good_shape t \<longleftrightarrow> 0 \<notin> set (t_GlobalShape t) \<and> prod_list (t_GlobalShape t) \<le> max_u64"

definition chunk_entry :: "chunk \<Rightarrow> string \<times> string" where
  "chunk_entry c = (c_StoragePath c, ''chunk '' @ c_ChunkID c)"

abbreviation chunk_elements :: "chunk \<Rightarrow> nat" where
  "chunk_elements c \<equiv> prod_list (extents (c_Slice c))"

lemma good_shape_le: "good_shape t \<Longrightarrow> \<forall>g \<in> set (t_GlobalShape t). g \<le> max_u64"
  using prod_list_member_le by (fastforce simp: good_shape_def)

lemma box_elements:
  assumes "good_shape t" "box_in bs (t_GlobalShape t)"
  shows "shape_product (extents bs) = Some (prod_list (extents bs))" "0 < prod_list (extents bs)"
  using assms extents_le[OF assms(2)] extents_positive[OF assms(2)] prod_list_pos
  by (auto simp: shape_product_Some good_shape_def)

lemma chunk_check_Inr:
  assumes g: "good_shape t" and sz: "0 < sz" and cov: "cov \<le> max_u64"
    and bf: "\<forall>d \<in> set before. box_in (c_Slice d) (t_GlobalShape t)"
  shows "chunk_check name t sz w before c (ps, ids, cov) = Inr s' \<longleftrightarrow>
    chunk_spec w t sz c \<and> c_ChunkID c \<notin> set ids \<and> c_StoragePath c \<notin> fst ` set ps
    \<and> cov + chunk_elements c \<le> max_u64
    \<and> (\<forall>d \<in> set before. cells (c_Slice c) \<inter> cells (c_Slice d) = {})
    \<and> s' = (ps @ [chunk_entry c], ids @ [c_ChunkID c], cov + chunk_elements c)"
proof (cases "length (c_Slice c) = length (t_GlobalShape t) \<and> length (c_Shape c) = length (t_GlobalShape t)
    \<and> box_in (c_Slice c) (t_GlobalShape t) \<and> c_Shape c = extents (c_Slice c)")
  case False
  moreover have "box_in (c_Slice c) (t_GlobalShape t) \<Longrightarrow> length (c_Slice c) = length (t_GlobalShape t)"
    by (auto simp: box_in_def dest: list_all2_lengthD)
  ultimately show ?thesis
    using slice_bad_iff[OF _ _ good_shape_le[OF g], of "c_Slice c" "c_Shape c"]
    by (auto simp: chunk_check_def res_ok chunk_spec_def extents_def)
next
  case True
  note el = box_elements[OF g conjunct1[OF conjunct2[OF conjunct2[OF True]]]]
  have sub: "u64_sub max_u64 cov = max_u64 - cov" using cov by (intro u64_sub_id) (auto simp: max_u64_def)
  have wr: "wrap_u64 (cov + chunk_elements c) = cov + chunk_elements c" if "cov + chunk_elements c \<le> max_u64"
    using that by (intro wrap_u64_id) (simp add: max_u64_def)
  show ?thesis
    using True el slice_bad_iff[OF _ _ good_shape_le[OF g], of "c_Slice c" "c_Shape c"]
      byte_range_ok[OF sz, of "chunk_elements c" c] overlap_check_Inr[OF _ bf, of c name] cov wr
    by (auto simp: chunk_check_def res_ok chunk_spec_def uniquePath_Inr chunk_entry_def sub Let_def
        le_diff_conv2 not_less add.commute)
qed

fun disjoint_from :: "chunk list \<Rightarrow> chunk list \<Rightarrow> bool" where
  "disjoint_from before [] = True"
| "disjoint_from before (c # cs) =
     ((\<forall>d \<in> set before. cells (c_Slice c) \<inter> cells (c_Slice d) = {}) \<and> disjoint_from (before @ [c]) cs)"

lemma disjoint_from_nth:
  "disjoint_from before cs \<longleftrightarrow>
     (\<forall>i < length cs. \<forall>d \<in> set (before @ take i cs). cells (c_Slice (cs ! i)) \<inter> cells (c_Slice d) = {})"
proof (induction before cs rule: disjoint_from.induct)
  case (2 before c cs)
  then show ?case by (simp add: All_less_Suc2)
qed simp

lemma disjoint_from_pairwise: "disjoint_from [] cs \<longleftrightarrow> pairwise_disjoint (map c_Slice cs)"
proof -
  have "(\<forall>d \<in> set (take i cs). Q d) \<longleftrightarrow> (\<forall>j < i. Q (cs ! j))" if "i < length cs" for i Q
    using that by (auto simp: nth_image[symmetric])
  then show ?thesis by (simp add: disjoint_from_nth pairwise_disjoint_def)
qed

lemma chunks_loop_Inr:
  assumes "good_shape t" "0 < sz" "cov \<le> max_u64" "\<forall>d \<in> set before. box_in (c_Slice d) (t_GlobalShape t)"
  shows "chunks_loop name t sz w before cs (ps, ids, cov) = Inr s' \<longleftrightarrow>
    list_all (chunk_spec w t sz) cs
    \<and> fresh (map c_ChunkID cs) (set ids) \<and> fresh (map c_StoragePath cs) (fst ` set ps)
    \<and> cov + sum_list (map chunk_elements cs) \<le> max_u64 \<and> disjoint_from before cs
    \<and> s' = (ps @ map chunk_entry cs, ids @ map c_ChunkID cs, cov + sum_list (map chunk_elements cs))"
  using assms
proof (induction cs arbitrary: before ps ids cov)
  case Nil
  then show ?case by auto
next
  case (Cons c cs)
  note step = chunk_check_Inr[OF Cons.prems, of name w c ps ids]
  let ?cond = "chunk_spec w t sz c \<and> c_ChunkID c \<notin> set ids \<and> c_StoragePath c \<notin> fst ` set ps
    \<and> cov + chunk_elements c \<le> max_u64
    \<and> (\<forall>d \<in> set before. cells (c_Slice c) \<inter> cells (c_Slice d) = {})"
  show ?case
  proof (cases ?cond)
    case False
    then show ?thesis using step by (auto simp: bind_res_Inr)
  next
    case True
    then have bf: "\<forall>d \<in> set (before @ [c]). box_in (c_Slice d) (t_GlobalShape t)"
      using Cons.prems(4) by (auto simp: chunk_spec_def)
    have e: "chunk_check name t sz w before c (ps, ids, cov)
        = Inr (ps @ [chunk_entry c], ids @ [c_ChunkID c], cov + chunk_elements c)"
      using True step by blast
    have "cov + chunk_elements c \<le> max_u64" using True by blast
    from Cons.IH[OF Cons.prems(1,2) this bf, of "ps @ [chunk_entry c]" "ids @ [c_ChunkID c]"] True
    show ?thesis by (auto simp: e chunk_entry_def add.assoc)
  qed
qed

lemma dtypeSize_pos: "dtypeSize d = Some sz \<Longrightarrow> 0 < sz"
  by (auto simp: dtypeSize_def split: if_splits)

lemma quantization_check_Inr: "quantization_check name t = Inr () \<longleftrightarrow> quantization_spec t"
  by (auto simp: quantization_check_def quantization_spec_def fail_if_Inr split: option.splits)

lemma tiles_not_empty: "tiles gs [] \<Longrightarrow> 0 \<notin> set gs \<Longrightarrow> False"
proof -
  assume "tiles gs []" "0 \<notin> set gs"
  then have "card (cells (full_box gs)) = 0" by (auto simp: tiles_def)
  then show False using prod_list_pos[OF \<open>0 \<notin> set gs\<close>] by (simp add: card_cells)
qed

lemma tensor_validate_Inr:
  "tensor_validate name t w (ps, ids) = Inr s' \<longleftrightarrow> tensor_spec w t
     \<and> fresh (map c_ChunkID (t_Chunks t)) (set ids) \<and> fresh (map c_StoragePath (t_Chunks t)) (fst ` set ps)
     \<and> s' = (ps @ map chunk_entry (t_Chunks t), ids @ map c_ChunkID (t_Chunks t))"
proof (cases "good_shape t \<and> dtypeSize (t_CanonicalDType t) \<noteq> None")
  case False
  then show ?thesis
    by (auto simp: tensor_validate_def res_ok tensor_spec_def good_shape_def shape_product_Some
        split: option.splits)
next
  case True
  then obtain sz where sz: "dtypeSize (t_CanonicalDType t) = Some sz" and g: "good_shape t" by auto
  have p: "shape_product (t_GlobalShape t) = Some (prod_list (t_GlobalShape t))"
    using g by (simp add: good_shape_def shape_product_Some)
  have til: "tiles (t_GlobalShape t) (map c_Slice (t_Chunks t)) \<longleftrightarrow> disjoint_from [] (t_Chunks t)
      \<and> sum_list (map chunk_elements (t_Chunks t)) = prod_list (t_GlobalShape t)"
    if "list_all (chunk_spec w t sz) (t_Chunks t)"
    using that tiles_iff[of "map c_Slice (t_Chunks t)" "t_GlobalShape t"]
    by (auto simp: disjoint_from_pairwise list_all_iff chunk_spec_def comp_def)
  have ne: "t_Chunks t \<noteq> []" if "tiles (t_GlobalShape t) (map c_Slice (t_Chunks t))"
    using that tiles_not_empty[of "t_GlobalShape t"] g by (auto simp: good_shape_def)
  show ?thesis
    using g til ne
      chunks_loop_Inr[OF g dtypeSize_pos[OF sz], of 0 "[]" name w "t_Chunks t" ps ids]
    by (auto simp: tensor_validate_def res_ok p sz tensor_spec_def quantization_check_Inr good_shape_def
        Suc_le_eq)
qed

section \<open>The loop over the tensors\<close>

definition tensor_ok :: "manifest \<Rightarrow> string \<times> tensor \<Rightarrow> bool" where
  "tensor_ok m = (\<lambda>(n, t). tensorPattern n \<and> tensor_spec (m_World m) t \<and>
     (t_Role t = ''model_parameter'' \<longrightarrow> t_CanonicalDType t = md_CanonicalDType (m_Metadata m)))"

definition tensors_acc_after :: "(string, tensor) gomap \<Rightarrow> tensors_acc \<Rightarrow> tensors_acc" where
  "tensors_acc_after ts acc =
     \<lparr>ta_paths = ta_paths acc @ map chunk_entry (all_chunks ts),
      ta_ids = ta_ids acc @ map c_ChunkID (all_chunks ts),
      ta_chunks = ta_chunks acc + length (all_chunks ts),
      ta_parameters = ta_parameters acc + sum_list (map (\<lambda>(n, t). parameter_count t) ts)\<rparr>"

lemma all_chunks_simps [simp]:
  "all_chunks [] = []" "all_chunks ((n, t) # ts) = t_Chunks t @ all_chunks ts"
  by (simp_all add: all_chunks_def)

lemma chunk_entry_fst [simp]: "fst (chunk_entry c) = c_StoragePath c"
  by (simp add: chunk_entry_def)

lemma tensors_acc_after_Nil [simp]: "tensors_acc_after [] acc = acc"
  by (simp add: tensors_acc_after_def)

lemma tensors_acc_after_Cons: "tensors_acc_after (p # ts) acc = tensors_acc_after ts (tensors_acc_after [p] acc)"
  by (cases p) (simp add: tensors_acc_after_def)

lemma tensors_acc_after_mono:
  "ta_chunks acc \<le> ta_chunks (tensors_acc_after ts acc)"
  "ta_parameters acc \<le> ta_parameters (tensors_acc_after ts acc)"
  by (simp_all add: tensors_acc_after_def)

lemma tensor_step_Inr:
  assumes "ta_parameters acc \<le> max_u64"
  shows "tensor_step m (n, t) acc = Inr acc' \<longleftrightarrow>
    tensor_ok m (n, t) \<and> fresh (map c_ChunkID (t_Chunks t)) (set (ta_ids acc))
    \<and> fresh (map c_StoragePath (t_Chunks t)) (fst ` set (ta_paths acc))
    \<and> ta_chunks acc' \<le> MaxChunks \<and> ta_parameters acc' \<le> max_u64 \<and> acc' = tensors_acc_after [(n, t)] acc"
proof (cases "tensor_validate n t (m_World m) (ta_paths acc, ta_ids acc)")
  case (Inl e)
  then show ?thesis
    using tensor_validate_Inr[of n t "m_World m" "ta_paths acc" "ta_ids acc"]
    by (auto simp: tensor_step_def fail_if_Inr tensor_ok_def)
next
  case (Inr s)
  have sub: "u64_sub max_u64 (ta_parameters acc) = max_u64 - ta_parameters acc"
    using assms by (intro u64_sub_id) (auto simp: max_u64_def)
  have wr: "wrap_u64 (ta_parameters acc + k) = ta_parameters acc + k" if "ta_parameters acc + k \<le> max_u64" for k
    using that by (intro wrap_u64_id) (simp add: max_u64_def)
  have s: "tensor_spec (m_World m) t" "s = (ta_paths acc @ map chunk_entry (t_Chunks t), ta_ids acc @ map c_ChunkID (t_Chunks t))"
    "fresh (map c_ChunkID (t_Chunks t)) (set (ta_ids acc))"
    "fresh (map c_StoragePath (t_Chunks t)) (fst ` set (ta_paths acc))"
    using Inr by (auto simp: tensor_validate_Inr)
  then have p: "shape_product (t_GlobalShape t) = Some (prod_list (t_GlobalShape t))"
    by (simp add: tensor_spec_def shape_product_Some)
  have le: "(max_u64 - ta_parameters acc < k) = (\<not> ta_parameters acc + k \<le> max_u64)" for k
    using assms by linarith
  show ?thesis
    using s(1,3,4) assms wr[of "prod_list (t_GlobalShape t)"]
    by (cases "t_Role t = ''model_parameter''")
      (auto simp: tensor_step_def res_ok Inr s(2) p Let_def sub le parameter_count_def tensor_ok_def
        tensors_acc_after_def)
qed

lemma tensors_loop_Inr:
  assumes "ta_parameters acc \<le> max_u64" "ta_chunks acc \<le> MaxChunks"
  shows "for_each (tensor_step m) ts acc = Inr acc' \<longleftrightarrow>
    list_all (tensor_ok m) ts \<and> fresh (map c_ChunkID (all_chunks ts)) (set (ta_ids acc))
    \<and> fresh (map c_StoragePath (all_chunks ts)) (fst ` set (ta_paths acc))
    \<and> ta_chunks acc' \<le> MaxChunks \<and> ta_parameters acc' \<le> max_u64 \<and> acc' = tensors_acc_after ts acc"
  using assms
proof (induction ts arbitrary: acc)
  case Nil
  then show ?case by auto
next
  case (Cons p ts)
  obtain n t where p: "p = (n, t)" by (cases p)
  let ?a = "tensors_acc_after [(n, t)] acc"
  note step = tensor_step_Inr[OF Cons.prems(1), of m n t]
  have ids: "set (ta_ids ?a) = set (ta_ids acc) \<union> set (map c_ChunkID (t_Chunks t))"
    "fst ` set (ta_paths ?a) = fst ` set (ta_paths acc) \<union> set (map c_StoragePath (t_Chunks t))"
    by (auto simp: tensors_acc_after_def image_Un image_image)
  have mono: "ta_chunks ?a \<le> ta_chunks acc'" "ta_parameters ?a \<le> ta_parameters acc'"
    if "acc' = tensors_acc_after ts ?a"
    using that tensors_acc_after_mono by auto
  show ?case
  proof (cases "tensor_step m (n, t) acc")
    case (Inl e)
    then show ?thesis
      using step[of ?a] mono by (auto simp: p tensors_acc_after_Cons[of _ ts] fresh_append)
  next
    case (Inr a)
    then have a: "a = ?a" "ta_parameters ?a \<le> max_u64" "ta_chunks ?a \<le> MaxChunks" using step[of a] by auto
    show ?thesis
      using Cons.IH[OF a(2,3)] Inr step[of ?a]
      by (auto simp: p a(1) tensors_acc_after_Cons[of _ ts] fresh_append ids)
  qed
qed

section \<open>State and the whole manifest\<close>

lemma artifact_validate_Inr:
  "artifact_validate owner a ps = Inr ps' \<longleftrightarrow>
     artifact_spec a \<and> a_StoragePath a \<notin> fst ` set ps \<and> ps' = ps @ [(a_StoragePath a, owner)]"
  by (auto simp: artifact_validate_def res_ok uniquePath_Inr artifact_spec_def)

definition rng_ok :: "world \<Rightarrow> string \<times> artifact \<Rightarrow> bool" where
  "rng_ok w = (\<lambda>(r, a). (\<exists>v. parse_int r = Some v \<and> 0 \<le> v \<and> v < w_Size w) \<and> artifact_spec a)"

lemma rng_loop_Inr:
  "for_each (rng_check w) rs ps = Inr ps' \<longleftrightarrow>
     list_all (rng_ok w) rs \<and> fresh (map (a_StoragePath \<circ> snd) rs) (fst ` set ps)
     \<and> ps' = ps @ map (\<lambda>(r, a). (a_StoragePath a, ''rng rank '' @ r)) rs"
proof (induction rs arbitrary: ps)
  case Nil
  then show ?case by auto
next
  case (Cons p rs)
  obtain r a where p: "p = (r, a)" by (cases p)
  have step: "rng_check w (r, a) ps = Inr ps1 \<longleftrightarrow> rng_ok w (r, a) \<and> a_StoragePath a \<notin> fst ` set ps
      \<and> ps1 = ps @ [(a_StoragePath a, ''rng rank '' @ r)]" for ps1
    by (auto simp: rng_check_def rng_ok_def artifact_validate_Inr fail_if_Inr split: option.splits)
  show ?case
  proof (cases "rng_check w (r, a) ps")
    case (Inl e)
    then show ?thesis using step[of "ps @ [(a_StoragePath a, ''rng rank '' @ r)]"] by (auto simp: p)
  next
    case (Inr ps1)
    then show ?thesis using Cons.IH[of ps1] step[of ps1] by (auto simp: p)
  qed
qed

lemma state_validate_Inr:
  "(\<exists>ps'. state_validate st w ps = Inr ps') \<longleftrightarrow> state_spec w st \<and>
     fresh (a_StoragePath (st_OptimizerMetadata st) # map (a_StoragePath \<circ> snd) (st_RNG st)) (fst ` set ps)"
  by (auto simp: state_validate_def res_ok artifact_validate_Inr rng_loop_Inr state_spec_def list_all_iff
      rng_ok_def split: prod.splits)

lemma object_paths:
  "map o_Path (manifest_objects m) = map c_StoragePath (all_chunks (m_Tensors m))
     @ a_StoragePath (st_OptimizerMetadata (m_State m)) # map (a_StoragePath \<circ> snd) (st_RNG (m_State m))"
  by (simp add: manifest_objects_def all_chunks_def chunk_object_def artifact_object_def map_concat comp_def
      split_def)

lemma adapters_loop_Inr:
  "for_each (\<lambda>r u. fail_if (gm_get '''' vs (rk_Hardware r) = '''') (NoAdapterVersion (rk_Rank r) (rk_Hardware r)) (Inr u))
     rs () = Inr u \<longleftrightarrow> (\<forall>r \<in> set rs. gm_get '''' vs (rk_Hardware r) \<noteq> '''')"
  by (subst for_each_fail_if[where b = "\<lambda>r. gm_get '''' vs (rk_Hardware r) = ''''"
        and e = "\<lambda>r. NoAdapterVersion (rk_Rank r) (rk_Hardware r)"]) auto

lemma tensors_phase:
  "(\<exists>acc. for_each (tensor_step m) (m_Tensors m) \<lparr>ta_paths = [], ta_ids = [], ta_chunks = 0, ta_parameters = 0\<rparr> = Inr acc
      \<and> ta_parameters acc = md_TotalParameters (m_Metadata m)
      \<and> (\<exists>ps'. state_validate (m_State m) (m_World m) (ta_paths acc) = Inr ps')) \<longleftrightarrow>
   list_all (tensor_ok m) (m_Tensors m) \<and> distinct (map c_ChunkID (all_chunks (m_Tensors m)))
   \<and> distinct (map o_Path (manifest_objects m)) \<and> length (all_chunks (m_Tensors m)) \<le> MaxChunks
   \<and> sum_list (map (\<lambda>(n, t). parameter_count t) (m_Tensors m)) = md_TotalParameters (m_Metadata m)
   \<and> md_TotalParameters (m_Metadata m) \<le> max_u64 \<and> state_spec (m_World m) (m_State m)"
proof -
  let ?a = "\<lparr>ta_paths = [], ta_ids = [], ta_chunks = 0, ta_parameters = 0\<rparr>"
  have loop: "for_each (tensor_step m) (m_Tensors m) ?a = Inr acc \<longleftrightarrow>
      list_all (tensor_ok m) (m_Tensors m) \<and> distinct (map c_ChunkID (all_chunks (m_Tensors m)))
      \<and> distinct (map c_StoragePath (all_chunks (m_Tensors m)))
      \<and> ta_chunks acc \<le> MaxChunks \<and> ta_parameters acc \<le> max_u64
      \<and> acc = tensors_acc_after (m_Tensors m) ?a" for acc
    using tensors_loop_Inr[of ?a m "m_Tensors m" acc] by (simp add: fresh_empty)
  have keys: "fst ` set (ta_paths (tensors_acc_after (m_Tensors m) ?a)) = set (map c_StoragePath (all_chunks (m_Tensors m)))"
    by (simp add: tensors_acc_after_def image_image)
  have paths: "distinct (map o_Path (manifest_objects m)) \<longleftrightarrow> distinct (map c_StoragePath (all_chunks (m_Tensors m)))
      \<and> fresh (a_StoragePath (st_OptimizerMetadata (m_State m)) # map (a_StoragePath \<circ> snd) (st_RNG (m_State m)))
           (set (map c_StoragePath (all_chunks (m_Tensors m))))"
    by (auto simp: object_paths fresh_def)
  show ?thesis
    unfolding loop state_validate_Inr paths
    by (auto simp: keys) (auto simp: tensors_acc_after_def)
qed

lemma manifest_validate_iff: "manifest_validate rfc3339 m = Inr () \<longleftrightarrow> manifest_spec rfc3339 m"
proof -
  have "list_all (tensor_ok m) (m_Tensors m) \<longleftrightarrow>
      (\<forall>(n, t) \<in> set (m_Tensors m). tensorPattern n \<and> tensor_spec (m_World m) t \<and>
        (t_Role t = ''model_parameter'' \<longrightarrow> t_CanonicalDType t = md_CanonicalDType (m_Metadata m)))"
    by (simp add: list_all_iff tensor_ok_def)
  moreover have "manifest_validate rfc3339 m = Inr () \<longleftrightarrow>
      m_CheckpointVersion m = manifest_Version \<and> idPattern (m_RunID m) \<and> finiteNonNegative (m_Epoch m)
      \<and> rfc3339 (m_CreatedAt m) \<and> metadata_spec (m_Metadata m) \<and> world_spec (m_World m)
      \<and> (\<forall>r \<in> set (w_Ranks (m_World m)). gm_get '''' (md_AdapterVersions (m_Metadata m)) (rk_Hardware r) \<noteq> '''')
      \<and> m_Tensors m \<noteq> [] \<and>
      (\<exists>acc. for_each (tensor_step m) (m_Tensors m) \<lparr>ta_paths = [], ta_ids = [], ta_chunks = 0, ta_parameters = 0\<rparr> = Inr acc
        \<and> ta_parameters acc = md_TotalParameters (m_Metadata m)
        \<and> (\<exists>ps'. state_validate (m_State m) (m_World m) (ta_paths acc) = Inr ps'))"
    by (simp add: manifest_validate_def res_ok metadata_validate_Inr world_validate_Inr
        adapters_loop_Inr[simplified])
  ultimately show ?thesis
    unfolding tensors_phase manifest_spec_def by (simp only: conj_assoc)
qed

end
