(* ===== verification/Manifest_Props.thy ===== *)
theory Manifest_Props
  imports Manifest_Valid
begin

text \<open>
  The properties of the checkpoint manifest: what is accepted, that chunks tile their tensors, that
  acceptance does not depend on map iteration order, that the authorised objects are safe to store,
  and what optimizer metadata may refer to.
\<close>

section \<open>Iteration order\<close>

lemma all_chunks_mset: "mset ts = mset ts' \<Longrightarrow> mset (all_chunks ts) = mset (all_chunks ts')"
  by (simp add: all_chunks_def mset_concat_map)

lemma manifest_spec_order:
  assumes t: "mset ts = mset (m_Tensors m)" and r: "mset rng = mset (st_RNG (m_State m))"
    and a: "mset av = mset (md_AdapterVersions (m_Metadata m))" and wf: "gm_wf av"
  shows "manifest_spec rfc3339 (m\<lparr>m_Tensors := ts, m_State := (m_State m)\<lparr>st_RNG := rng\<rparr>,
      m_Metadata := (m_Metadata m)\<lparr>md_AdapterVersions := av\<rparr>\<rparr>) = manifest_spec rfc3339 m"
    (is "manifest_spec rfc3339 ?m = _")
proof -
  note sets = mset_eq_setD[OF t] mset_eq_setD[OF r] mset_eq_setD[OF a]
  note lens = mset_eq_length[OF r] mset_eq_length[OF a] mset_eq_length[OF all_chunks_mset[OF t]]
  have "mset (map o_Path (manifest_objects ?m)) = mset (map o_Path (manifest_objects m))"
    using all_chunks_mset[OF t] r by (simp add: object_paths)
  then have "distinct (map o_Path (manifest_objects ?m)) = distinct (map o_Path (manifest_objects m))"
    by (rule mset_eq_imp_distinct_iff)
  moreover have "distinct (map c_ChunkID (all_chunks ts)) = distinct (map c_ChunkID (all_chunks (m_Tensors m)))"
    by (rule distinct_map_mset[OF all_chunks_mset[OF t]])
  moreover have "sum_list (map (\<lambda>(n, t). parameter_count t) ts) = sum_list (map (\<lambda>(n, t). parameter_count t) (m_Tensors m))"
    using t by (metis mset_map sum_mset_sum_list)
  moreover have "ts = [] \<longleftrightarrow> m_Tensors m = []" using t by auto
  moreover have "metadata_spec (m_Metadata ?m) = metadata_spec (m_Metadata m)"
    by (simp add: metadata_spec_def sets lens)
  moreover have "state_spec (m_World m) (m_State ?m) = state_spec (m_World m) (m_State m)"
    by (simp add: state_spec_def sets lens)
  ultimately show ?thesis
    by (simp add: manifest_spec_def sets lens gm_get_mset[OF a wf])
qed

section \<open>Panics\<close>

lemma slicesOverlap_total: "length a = length b \<Longrightarrow> slicesOverlap a b \<noteq> None"
  by (induction a b rule: slicesOverlap.induct) auto

lemma overlap_check_no_panic:
  "\<forall>d \<in> set ds. length (c_Slice d) = length (c_Slice c) \<Longrightarrow> overlap_check name c ds \<noteq> Inl ManifestPanic"
proof (induction ds)
  case (Cons d ds)
  then show ?case using slicesOverlap_total[of "c_Slice c" "c_Slice d"] by (auto split: option.splits bool.splits)
qed simp

lemma uniquePath_no_panic: "uniquePath v owner ps \<noteq> Inl ManifestPanic"
  by (auto simp: uniquePath_def fail_if_Inl split: option.splits)

lemma chunk_check_no_panic:
  assumes "\<forall>d \<in> set before. length (c_Slice d) = length (t_GlobalShape t)"
  shows "chunk_check name t sz w before c s \<noteq> Inl ManifestPanic"
    and "chunk_check name t sz w before c s = Inr s' \<Longrightarrow> length (c_Slice c) = length (t_GlobalShape t)"
  using assms overlap_check_no_panic[of before c name] uniquePath_no_panic
  by (cases s; auto simp: chunk_check_def res_err res_ok Let_def)+

lemma chunks_loop_no_panic:
  assumes "\<forall>d \<in> set before. length (c_Slice d) = length (t_GlobalShape t)"
  shows "chunks_loop name t sz w before cs s \<noteq> Inl ManifestPanic"
  using assms
proof (induction cs arbitrary: before s)
  case (Cons c cs)
  note c = chunk_check_no_panic[OF Cons.prems, of name sz w c s]
  have "\<forall>d \<in> set (before @ [c]). length (c_Slice d) = length (t_GlobalShape t)"
    if "chunk_check name t sz w before c s = Inr s'" for s'
    using c(2)[OF that] Cons.prems by auto
  then show ?case using c(1) Cons.IH[of "before @ [c]"] by (auto simp: bind_res_Inl)
qed simp

lemma quantization_no_panic: "quantization_check name t \<noteq> Inl ManifestPanic"
  by (auto simp: quantization_check_def fail_if_Inl split: option.splits)

lemma tensor_validate_no_panic: "tensor_validate name t w s \<noteq> Inl ManifestPanic"
  using chunks_loop_no_panic[of "[]" t name _ w "t_Chunks t"] quantization_no_panic[of name t]
  by (cases s) (auto simp: tensor_validate_def res_err split: option.splits prod.splits)

lemma tensor_step_no_panic: "tensor_step m p acc \<noteq> Inl ManifestPanic"
  using tensor_validate_no_panic
  by (cases p) (auto simp: tensor_step_def res_err Let_def split: option.splits prod.splits if_splits)

lemma artifact_no_panic: "artifact_validate owner a ps \<noteq> Inl ManifestPanic"
  using uniquePath_no_panic by (auto simp: artifact_validate_def res_err)

lemma state_validate_no_panic: "state_validate st w ps \<noteq> Inl ManifestPanic"
proof -
  have "rng_check w p ps \<noteq> Inl ManifestPanic" for p ps
    using artifact_no_panic by (cases p) (auto simp: rng_check_def res_err split: option.splits)
  then have "for_each (rng_check w) rs ps \<noteq> Inl ManifestPanic" for rs ps
    using for_each_Inl[of "rng_check w" rs ps ManifestPanic] by blast
  then show ?thesis using artifact_no_panic by (auto simp: state_validate_def res_err)
qed

lemma metadata_no_panic: "metadata_validate md \<noteq> Inl ManifestPanic"
  by (auto simp: metadata_validate_def res_err dest!: for_each_Inl)

lemma world_no_panic: "world_validate w \<noteq> Inl ManifestPanic"
  by (auto simp: world_validate_def res_err rank_check_def dest!: for_each_Inl)

lemma manifest_no_panic_fact: "manifest_validate rfc3339 m \<noteq> Inl ManifestPanic"
proof -
  have "for_each (tensor_step m) ts acc \<noteq> Inl ManifestPanic" for ts acc
    using for_each_Inl[of "tensor_step m" ts acc ManifestPanic] tensor_step_no_panic by blast
  then show ?thesis
    using metadata_no_panic[of "m_Metadata m"] world_no_panic[of "m_World m"] state_validate_no_panic
    by (auto simp: manifest_validate_def res_err dest!: for_each_Inl)
qed

section \<open>Objects and optimizer state\<close>

lemma tensor_chunk_spec:
  assumes "manifest_spec rfc3339 m" "(n, t) \<in> set (m_Tensors m)" "c \<in> set (t_Chunks t)"
  shows "\<exists>sz. dtypeSize (t_CanonicalDType t) = Some sz \<and> chunk_spec (m_World m) t sz c"
  using assms by (fastforce simp: manifest_spec_def tensor_spec_def list_all_iff)

definition object_safe :: "manifest \<Rightarrow> object \<Rightarrow> bool" where
  "object_safe m ob \<longleftrightarrow> ValidStoragePath (o_Path ob) \<and> 0 < o_Length ob \<and> hashPattern (o_SHA256 ob)
     \<and> 0 \<le> o_WriterRank ob \<and> o_WriterRank ob < w_Size (m_World m)"

lemma chunk_length_pos:
  assumes "dtypeSize d = Some sz" "chunk_spec w t sz c"
  shows "0 < c_ByteLength c"
  using assms dtypeSize_pos[OF assms(1)] prod_list_pos[OF extents_positive, of "c_Slice c"]
  by (auto simp: chunk_spec_def)

lemma manifest_objects_safe_fact:
  assumes v: "manifest_spec rfc3339 m" and ob: "ob \<in> set (manifest_objects m)"
  shows "object_safe m ob"
proof -
  have st: "state_spec (m_World m) (m_State m)" and sz: "1 \<le> w_Size (m_World m)"
    using v by (auto simp: manifest_spec_def world_spec_def)
  consider (chunk) n t c where "(n, t) \<in> set (m_Tensors m)" "c \<in> set (t_Chunks t)" "ob = chunk_object c"
    | (opt) "ob = artifact_object ''optimizer_metadata'' 0 (st_OptimizerMetadata (m_State m))"
    | (rng) r a where "(r, a) \<in> set (st_RNG (m_State m))" "ob = artifact_object (''rng_'' @ r) (atoi_value r) a"
    using ob by (auto simp: manifest_objects_def)
  then show ?thesis
  proof cases
    case chunk
    obtain k where k: "dtypeSize (t_CanonicalDType t) = Some k" "chunk_spec (m_World m) t k c"
      using tensor_chunk_spec[OF v chunk(1,2)] by blast
    show ?thesis
      using k(2) chunk_length_pos[OF k] by (simp add: chunk(3) object_safe_def chunk_object_def chunk_spec_def)
  next
    case opt
    then show ?thesis using st sz
      by (simp add: object_safe_def artifact_object_def state_spec_def artifact_spec_def)
  next
    case rng
    then obtain x where "parse_int r = Some x" "0 \<le> x" "x < w_Size (m_World m)" "artifact_spec a"
      using st by (auto simp: state_spec_def)
    then show ?thesis
      by (simp add: rng(2) object_safe_def artifact_object_def atoi_value_def artifact_spec_def)
  qed
qed

definition optimizer_spec :: "manifest \<Rightarrow> 'v optimizer_state \<Rightarrow> bool" where
  "optimizer_spec m st \<longleftrightarrow>
     (let has = \<lambda>role n. \<exists>t. (n, t) \<in> set (m_Tensors m) \<and> t_Role t = role in
      os_FormatVersion st = 1
      \<and> (\<forall>g \<in> set (os_ParameterGroups st). og_Parameters g \<noteq> [] \<and> og_Options g \<noteq> None
           \<and> (\<forall>n \<in> set (og_Parameters g). has ''model_parameter'' n))
      \<and> (\<forall>(n, p) \<in> set (os_Parameters st). has ''model_parameter'' n
           \<and> (\<forall>(slot, t) \<in> set (op_Tensors p). slot \<noteq> '''' \<and> has ''optimizer_tensor'' t)))"

lemma tensors_with_role_iff:
  "n \<in> set (tensors_with_role role m) \<longleftrightarrow> (\<exists>t. (n, t) \<in> set (m_Tensors m) \<and> t_Role t = role)"
  by (force simp: tensors_with_role_def)

lemma group_check_Inr:
  "group_check model g u = Inr u' \<longleftrightarrow>
     og_Parameters g \<noteq> [] \<and> og_Options g \<noteq> None \<and> set (og_Parameters g) \<subseteq> set model"
  unfolding group_check_def fail_if_Inr
  by (subst for_each_fail_if[where b = "\<lambda>n. \<not> List.member model n" and e = UnknownGroupParameter]) auto

lemma parameter_check_Inr:
  "parameter_check model opt (n, p) u = Inr u' \<longleftrightarrow>
     n \<in> set model \<and> (\<forall>(slot, t) \<in> set (op_Tensors p). slot \<noteq> '''' \<and> t \<in> set opt)"
  unfolding parameter_check_def prod.case fail_if_Inr
  by (subst for_each_fail_if[where b = "\<lambda>(slot, t). slot = '''' \<or> \<not> List.member opt t"
        and e = "\<lambda>(slot, t). if slot = '''' then EmptySlotName n else UnknownSlotTensor slot t"])
    (auto simp: fail_if_def)

lemma optimizer_check_Inr: "optimizer_check m st = Inr () \<longleftrightarrow> optimizer_spec m st"
proof -
  have gs: "for_each (group_check model) gs u = Inr u' \<longleftrightarrow> (\<forall>g \<in> set gs. og_Parameters g \<noteq> [] \<and> og_Options g \<noteq> None
      \<and> set (og_Parameters g) \<subseteq> set model)" for model u u' and gs :: "'a optimizer_group list"
    by (rule for_each_unit) (rule group_check_Inr)
  have ps: "for_each (parameter_check model opt) ps u = Inr u' \<longleftrightarrow> (\<forall>(n, p) \<in> set ps. n \<in> set model
      \<and> (\<forall>(slot, t) \<in> set (op_Tensors p). slot \<noteq> '''' \<and> t \<in> set opt))"
    for model opt u u' and ps :: "(string, 'a optimizer_parameter) gomap"
    by (rule for_each_unit) (auto simp: parameter_check_Inr)
  show ?thesis
    by (simp add: optimizer_check_def res_ok gs ps optimizer_spec_def tensors_with_role_iff Let_def subset_eq)
qed

section \<open>A small manifest\<close>


definition demo_hash :: string where "demo_hash = replicate 64 CHR ''a''"

definition demo_chunk :: "string \<Rightarrow> string \<Rightarrow> nat \<times> nat \<Rightarrow> chunk" where
  "demo_chunk i p b = \<lparr>c_ChunkID = i, c_StoragePath = p, c_Slice = [b, (0, 3)], c_Shape = [snd b - fst b, 3],
     c_ByteOffset = 0, c_ByteLength = (snd b - fst b) * 3 * 4, c_SHA256 = demo_hash, c_WriterRank = 0\<rparr>"

definition demo_tensor :: tensor where
  "demo_tensor = \<lparr>t_Role = ''model_parameter'', t_GlobalShape = [4, 3], t_CanonicalDType = ''float32'',
     t_ByteOrder = ''little'', t_Layout = ''C'', t_Quantization = None,
     t_Chunks = [demo_chunk ''c0'' ''t/0'' (0, 1), demo_chunk ''c1'' ''t/1'' (1, 4)]\<rparr>"

definition demo_artifact :: "string \<Rightarrow> artifact" where
  "demo_artifact p = \<lparr>a_StoragePath = p, a_ByteLength = 1, a_SHA256 = demo_hash\<rparr>"

definition demo_manifest :: manifest where
  "demo_manifest = \<lparr>m_CheckpointVersion = 2, m_RunID = ''r1'', m_GlobalStep = 1, m_Epoch = F_Fin 0 0,
     m_CreatedAt = ''2024-01-01T00:00:00Z'',
     m_Metadata = \<lparr>md_TotalParameters = 12, md_CanonicalDType = ''float32'', md_ModelID = ''m'',
       md_ModelSchemaHash = demo_hash, md_DatasetID = ''d'', md_ContainerImageDigest = ''sha256:'' @ demo_hash,
       md_Framework = ''f'', md_FrameworkVersion = ''1'', md_AdapterVersions = [(''cpu'', ''1'')]\<rparr>,
     m_World = \<lparr>w_Size = 2, w_Ranks = [\<lparr>rk_Rank = 1, rk_Hardware = ''cpu'', rk_Adapter = ''cpu''\<rparr>,
       \<lparr>rk_Rank = 0, rk_Hardware = ''cpu'', rk_Adapter = ''cpu''\<rparr>]\<rparr>,
     m_Tensors = [(''w'', demo_tensor)],
     m_State = \<lparr>st_OptimizerMetadata = demo_artifact ''opt'', st_Scheduler = Some [],
       st_RNG = [(''0'', demo_artifact ''rng/0''), (''00'', demo_artifact ''rng/1'')], st_DataCursor = Some []\<rparr>\<rparr>"

lemmas demo_defs = demo_chunk_def demo_tensor_def demo_artifact_def demo_manifest_def

lemma demo_hash_ok: "hashPattern demo_hash"
  by (simp add: hashPattern_def demo_hash_def list_all_iff is_digit_def code_of_def)

lemma demo_paths:
  "ValidStoragePath ''t/0''" "ValidStoragePath ''t/1''" "ValidStoragePath ''opt''"
  "ValidStoragePath ''rng/0''" "ValidStoragePath ''rng/1''"
  by (simp_all add: ValidStoragePath_def path_clean_def has_prefix_def)

lemma demo_ids:
  "idPattern ''r1''" "idPattern ''c0''" "idPattern ''c1''" "tensorPattern ''w''" "adapterPattern ''cpu''"
  by (simp_all add: idPattern_def tensorPattern_def adapterPattern_def start_then_def is_alnum_def
      is_lower_alnum_def code_of_def)

lemma demo_ranks: "parse_int ''0'' = Some 0" "parse_int ''00'' = Some 0"
  by (simp_all add: parse_int_def has_prefix_def is_digit_def digit_val_def code_of_def in_i64_def)

lemma demo_digest: "has_prefix (''sha256:'' @ h) ''sha256:''" "trim_prefix (''sha256:'' @ h) ''sha256:'' = h"
  by (simp_all only: has_prefix_append trim_prefix_append)

lemma demo_metadata: "metadata_validate (m_Metadata demo_manifest) = Inr ()"
  unfolding demo_defs manifest.simps metadata_validate_def metadata_fields_def metadata.simps demo_digest
  by (simp add: demo_ids demo_hash_ok dtypeSize_def fail_if_def has_prefix_def trim_prefix_def)

lemma demo_world: "world_validate (m_World demo_manifest) = Inr ()"
  by (simp add: demo_defs world_validate_def rank_check_def fail_if_def numeral_2_eq_2)

lemma demo_tensor_ok: "tensor_validate ''w'' demo_tensor (m_World demo_manifest) ([], [])
    = Inr ([(''t/0'', ''chunk c0''), (''t/1'', ''chunk c1'')], [''c0'', ''c1''])"
  by (simp add: demo_defs tensor_validate_def MaxDimensions_def shape_product_def max_u64_def dtypeSize_def
      quantization_check_def chunk_check_def uniquePath_def demo_paths demo_ids demo_hash_ok byte_range_bad_def
      u64_sub_id fail_if_def)

lemma demo_manifest_ok: "manifest_validate (\<lambda>_. True) demo_manifest = Inr ()"
proof -
  have t: "tensor_validate ''w'' demo_tensor (m_World demo_manifest) ([], [])
    = Inr ([(''t/0'', ''chunk c0''), (''t/1'', ''chunk c1'')], [''c0'', ''c1''])" by (rule demo_tensor_ok)
  have "for_each (tensor_step demo_manifest) (m_Tensors demo_manifest)
      \<lparr>ta_paths = [], ta_ids = [], ta_chunks = 0, ta_parameters = 0\<rparr>
    = Inr \<lparr>ta_paths = [(''t/0'', ''chunk c0''), (''t/1'', ''chunk c1'')], ta_ids = [''c0'', ''c1''],
           ta_chunks = 2, ta_parameters = 12\<rparr>"
    using t by (simp add: demo_defs tensor_step_def demo_ids MaxChunks_def shape_product_def max_u64_def u64_sub_id fail_if_def)
  moreover have "state_validate (m_State demo_manifest) (m_World demo_manifest) [(''t/0'', ''chunk c0''), (''t/1'', ''chunk c1'')]
    = Inr [(''t/0'', ''chunk c0''), (''t/1'', ''chunk c1''), (''opt'', ''optimizer_metadata''), (''rng/0'', ''rng rank 0''), (''rng/1'', ''rng rank 00'')]"
    by (simp add: demo_defs state_validate_def artifact_validate_def uniquePath_def demo_paths demo_hash_ok rng_check_def
        demo_ranks fail_if_def)
  moreover have "m_CheckpointVersion demo_manifest = manifest_Version" "idPattern (m_RunID demo_manifest)"
    "finiteNonNegative (m_Epoch demo_manifest)" "m_Tensors demo_manifest \<noteq> []"
    "md_TotalParameters (m_Metadata demo_manifest) = 12"
    "\<forall>r \<in> set (w_Ranks (m_World demo_manifest)). gm_get '''' (md_AdapterVersions (m_Metadata demo_manifest)) (rk_Hardware r) \<noteq> ''''"
    by (simp_all add: demo_defs manifest_Version_def demo_ids gm_get_def)
  ultimately show ?thesis
    using demo_metadata demo_world
    by (simp add: manifest_validate_def fail_if_simps adapters_loop_Inr[simplified, THEN iffD2])
qed

section \<open>Properties\<close>

text \<open>
  C15. \<^verbatim>\<open>Validate\<close> accepts exactly the manifests of the declarative specification: every loop, every
  accumulated map and every overflow check together decide \<open>manifest_spec\<close>, in which the chunks of each
  tensor tile it, ranks are a permutation of \<open>0 ..< size\<close> and all chunk ids and storage paths differ.
\<close>

theorem manifest_validate_spec: "manifest_validate rfc3339 m = Inr () \<longleftrightarrow> manifest_spec rfc3339 m"
  by (rule manifest_validate_iff)

text \<open>
  C16. Each element of each tensor of a manifest that \<^verbatim>\<open>DecodeManifest\<close> returns lies in exactly one of
  the tensor's chunks.
\<close>

theorem manifest_chunks_tile:
  assumes "DecodeManifest dec next rfc3339 data = Inr m" "(n, t) \<in> set (m_Tensors m)"
    and "list_all2 (\<lambda>x g. x < g) idx (t_GlobalShape t)"
  shows "\<exists>!i. i < length (t_Chunks t) \<and>
    list_all2 (\<lambda>x b. fst b \<le> x \<and> x < snd b) idx (c_Slice (t_Chunks t ! i))"
proof -
  have "manifest_validate rfc3339 m = Inr ()"
    using assms(1) by (auto simp: DecodeManifest_def res_ok split: sum.splits)
  then have "tiles (t_GlobalShape t) (map c_Slice (t_Chunks t))"
    using assms(2) by (auto simp: manifest_validate_iff manifest_spec_def tensor_spec_def)
  moreover have "idx \<in> cells (full_box (t_GlobalShape t))"
    using assms(3) by (auto simp: cells_iff full_box_def list_all2_conv_all_nth)
  ultimately show ?thesis by (auto simp: tiles_def cells_iff cong: conj_cong)
qed

theorem manifest_chunks_tile_witness:
  "DecodeManifest (\<lambda>s. Inr (demo_manifest, [])) (\<lambda>_. JEof) (\<lambda>_. True) ''{}'' = Inr demo_manifest \<and>
   (\<exists>!i. i < length (t_Chunks demo_tensor) \<and>
      list_all2 (\<lambda>x b. fst b \<le> x \<and> x < snd b) [2, 1] (c_Slice (t_Chunks demo_tensor ! i)))"
proof -
  have d: "DecodeManifest (\<lambda>s. Inr (demo_manifest, [])) (\<lambda>_. JEof) (\<lambda>_. True) ''{}'' = Inr demo_manifest"
    by (simp add: DecodeManifest_def DecodeStrictJSON_def demo_manifest_ok MaxManifestBytes_def fail_if_def)
  show ?thesis
    using d manifest_chunks_tile[OF d, of "''w''" demo_tensor "[2, 1]"]
    by (simp add: demo_manifest_def demo_tensor_def)
qed

text \<open>
  Whether a manifest is accepted does not depend on the order in which the runtime iterates over
  its maps of tensors, RNG artifacts and adapter versions.
\<close>

theorem manifest_validate_order:
  assumes "mset ts = mset (m_Tensors m)" "mset rng = mset (st_RNG (m_State m))"
    and "mset av = mset (md_AdapterVersions (m_Metadata m))" "gm_wf av"
  shows "manifest_validate rfc3339 (m\<lparr>m_Tensors := ts, m_State := (m_State m)\<lparr>st_RNG := rng\<rparr>,
      m_Metadata := (m_Metadata m)\<lparr>md_AdapterVersions := av\<rparr>\<rparr>) = Inr ()
    \<longleftrightarrow> manifest_validate rfc3339 m = Inr ()"
  using manifest_spec_order[OF assms] by (simp add: manifest_validate_iff)

theorem manifest_validate_order_witness:
  "manifest_validate (\<lambda>_. True) (demo_manifest\<lparr>m_Tensors := m_Tensors demo_manifest,
      m_State := (m_State demo_manifest)\<lparr>st_RNG := rev (st_RNG (m_State demo_manifest))\<rparr>,
      m_Metadata := (m_Metadata demo_manifest)\<lparr>md_AdapterVersions := [(''cpu'', ''1'')]\<rparr>\<rparr>) = Inr ()"
proof -
  have "md_AdapterVersions (m_Metadata demo_manifest) = [(''cpu'', ''1'')]" by (simp add: demo_manifest_def)
  then show ?thesis
    using manifest_validate_order[of "m_Tensors demo_manifest" demo_manifest
        "rev (st_RNG (m_State demo_manifest))" "[(''cpu'', ''1'')]" "\<lambda>_. True"] demo_manifest_ok
    by (simp add: gm_wf_def)
qed

text \<open>
  C17. The objects an accepted manifest authorises have pairwise different storage paths, and each has
  a valid path, a non-empty length, a well-formed digest and a writer among the ranks of the world.
\<close>

theorem manifest_objects_safe:
  assumes "manifest_validate rfc3339 m = Inr ()"
  shows "distinct (map o_Path (manifest_objects m)) \<and> list_all (object_safe m) (manifest_objects m)"
proof -
  have v: "manifest_spec rfc3339 m" using assms by (simp add: manifest_validate_iff)
  then show ?thesis using manifest_objects_safe_fact[OF v] by (auto simp: manifest_spec_def list_all_iff)
qed

theorem manifest_objects_safe_witness:
  "distinct (map o_Path (manifest_objects demo_manifest)) \<and>
   list_all (object_safe demo_manifest) (manifest_objects demo_manifest)"
  by (rule manifest_objects_safe[OF demo_manifest_ok])


text \<open>Validation never indexes a slice of a chunk out of range, whatever the manifest holds.\<close>

theorem manifest_no_panic: "manifest_validate rfc3339 m \<noteq> Inl ManifestPanic"
  by (rule manifest_no_panic_fact)

text \<open>
  Optimizer metadata that is decoded refers to tensors of the manifest only: groups and parameters
  to model parameters, slots to optimizer tensors; and every such state of the right length is accepted.
\<close>

theorem optimizer_state_references:
  "DecodeOptimizerState dec next data m = Inr st \<longleftrightarrow>
     1 \<le> length data \<and> length data \<le> MaxOptimizerMetadataBytes
     \<and> DecodeStrictJSON dec next data = Inr st \<and> optimizer_spec m st"
  by (auto simp: DecodeOptimizerState_def res_ok optimizer_check_Inr Suc_le_eq split: sum.splits)

text \<open>
  C38. One RNG artifact per rank is not what \<^verbatim>\<open>State.validate\<close> ensures: keys that spell the same rank
  differently are accepted, so a valid manifest can leave a rank without an artifact.
\<close>

theorem rng_rank_missing:
  "\<exists>m. manifest_validate (\<lambda>_. True) m = Inr () \<and> gm_wf (st_RNG (m_State m)) \<and>
     (\<exists>r. 0 \<le> r \<and> r < w_Size (m_World m) \<and> r \<notin> (\<lambda>(k, a). atoi_value k) ` set (st_RNG (m_State m)))"
proof (intro exI[of _ demo_manifest] conjI exI[of _ 1])
  show "manifest_validate (\<lambda>_. True) demo_manifest = Inr ()" by (rule demo_manifest_ok)
  show "1 \<notin> (\<lambda>(k, a). atoi_value k) ` set (st_RNG (m_State demo_manifest))"
    by (simp add: demo_manifest_def atoi_value_def demo_ranks)
qed (simp_all add: demo_manifest_def gm_wf_def)

end
