(* ===== verification/Draplugin.thy ===== *)
theory Draplugin
  imports Go_Prelude
begin

text \<open>
  The kubelet plugin that both DRA drivers share, \<^verbatim>\<open>src/shared/draplugin/plugin.go\<close>: prepared claims
  in memory and as one JSON file per claim, recovery at start, preparation and unpreparation. The
  driver supplies a \<^verbatim>\<open>Config\<close> of functions; what the plugin relies on of it is the locale
  \<open>dra_config\<close>. \<open>jh\<close> stands for the digest of a value's JSON encoding, and the outcome of each file
  operation and each API call is an argument. A file is its decoded record, or \<open>None\<close> when it does
  not decode.
\<close>

section \<open>Data\<close>

record prepared_claim =
  pc_Version :: int
  pc_UID :: string
  pc_Namespace :: string
  pc_Name :: string
  pc_Hash :: string
  pc_Inventory :: string
  pc_Devices :: "string list"
  pc_CPUs :: "int list"
  pc_NUMA :: int

text \<open>An allocation result; \<open>al_Other\<close> stands for the fields that only enter the digest.\<close>

record alloc =
  al_Request :: string
  al_Driver :: string
  al_Pool :: string
  al_Device :: string
  al_Other :: string

record resource_claim =
  rc_UID :: string
  rc_Namespace :: string
  rc_Name :: string
  rc_Allocation :: "alloc list option"

record kube_device =
  kd_Requests :: "string list"
  kd_PoolName :: string
  kd_DeviceName :: string
  kd_CDIDeviceIDs :: "string list"

record dra_cfg =
  cf_Version :: int
  cf_DriverName :: string
  cf_PoolName :: string
  cf_HasDevice :: "string \<Rightarrow> bool"
  cf_InventoryHash :: "string list \<Rightarrow> string"
  cf_Prepare :: "(string list \<Rightarrow> prepared_claim \<Rightarrow> string + prepared_claim) option"
  cf_ClaimDevices :: "alloc list \<Rightarrow> kube_device list"

type_synonym prepared_map = "(string, prepared_claim) gomap"
type_synonym state_dir = "(string, prepared_claim option) gomap"

record plugin =
  pl_prepared :: prepared_map
  pl_dir :: state_dir

datatype dra_error =
    NoAllocatedDevices
  | AllocationChanged
  | OtherDriverOrNode string string
  | DeviceAbsent string
  | DeviceTwice string
  | DevicePrepared string
  | PrepareFailed string
  | WriteFailed
  | ReadFailed string
  | InvalidPreparedState string
  | PreparedDeviceAbsent string
  | HeldTwice string string string
  | InventoryChanged string
  | RemoveFailed string
  | RecoverFailed string string
  | NoLongerAllocated string string
  | RecoveredAllocationChanged string string

definition plugin_path :: "string \<Rightarrow> string" where
  "plugin_path uid = uid @ ''.json''"

definition plugin_inventoryHash :: "dra_cfg \<Rightarrow> string list \<Rightarrow> string" where
  "plugin_inventoryHash cfg names = cf_InventoryHash cfg (sort names)"

text \<open>\<^verbatim>\<open>slices.SortFunc\<close> on the joined key; entries with one key keep their order here.\<close>

definition allocationHash :: "(alloc list \<Rightarrow> string) \<Rightarrow> alloc list \<Rightarrow> string" where
  "allocationHash jh results =
     jh (sort_key (\<lambda>a. al_Request a @ [CHR 0x00] @ al_Pool a @ [CHR 0x00] @ al_Device a) results)"

section \<open>Start\<close>

definition held_check :: "dra_cfg \<Rightarrow> string \<Rightarrow> string \<Rightarrow> (string, string) gomap \<Rightarrow> dra_error + (string, string) gomap" where
  "held_check cfg uid name held =
     fail_if (\<not> cf_HasDevice cfg name) (PreparedDeviceAbsent name)
     (case map_of held name of
        Some owner \<Rightarrow> fail_if (owner \<noteq> uid) (HeldTwice name owner uid) (Inr (gm_put name uid held))
      | None \<Rightarrow> Inr (gm_put name uid held))"

definition load_record ::
  "dra_cfg \<Rightarrow> (string \<Rightarrow> bool) \<Rightarrow> string \<times> prepared_claim option \<Rightarrow> (string, string) gomap \<times> prepared_map \<Rightarrow>
   dra_error + (string, string) gomap \<times> prepared_map" where
  "load_record cfg read_err = (\<lambda>(path, content) (held, prepared).
     fail_if (read_err path) (ReadFailed path)
     (case content of None \<Rightarrow> Inl (InvalidPreparedState path)
      | Some r \<Rightarrow>
          fail_if (pc_Version r \<noteq> cf_Version cfg \<or> pc_UID r = '''') (InvalidPreparedState path)
          (bind_res (for_each (held_check cfg (pc_UID r)) (pc_Devices r) held) (\<lambda>held'.
           fail_if (plugin_inventoryHash cfg (pc_Devices r) \<noteq> pc_Inventory r) (InventoryChanged (pc_UID r))
           (Inr (held', gm_put (pc_UID r) r prepared))))))"

text \<open>\<^verbatim>\<open>filepath.Glob\<close> lists the matching files in the order of their names.\<close>

definition glob_json :: "state_dir \<Rightarrow> state_dir" where
  "glob_json dir = sort_key fst (filter (\<lambda>(path, content). has_suffix path ''.json'') dir)"

definition plugin_New :: "dra_cfg \<Rightarrow> (string \<Rightarrow> bool) \<Rightarrow> state_dir \<Rightarrow> dra_error + plugin" where
  "plugin_New cfg read_err dir =
     bind_res (for_each (load_record cfg read_err) (glob_json dir) ([], [])) (\<lambda>(held, prepared).
     Inr \<lparr>pl_prepared = prepared, pl_dir = dir\<rparr>)"

section \<open>Preparation\<close>

definition alloc_check ::
  "dra_cfg \<Rightarrow> prepared_map \<Rightarrow> string \<Rightarrow> alloc \<Rightarrow> string list \<Rightarrow> dra_error + string list" where
  "alloc_check cfg prepared uid a devices =
     fail_if (al_Driver a \<noteq> cf_DriverName cfg \<or> al_Pool a \<noteq> cf_PoolName cfg)
       (OtherDriverOrNode (al_Pool a) (al_Device a))
     (fail_if (\<not> cf_HasDevice cfg (al_Device a)) (DeviceAbsent (al_Device a))
     (fail_if (List.member devices (al_Device a)) (DeviceTwice (al_Device a))
     (fail_if (list_ex (\<lambda>(u, other). u \<noteq> uid \<and> List.member (pc_Devices other) (al_Device a)) prepared)
       (DevicePrepared (al_Device a))
     (Inr (devices @ [al_Device a])))))"

definition plugin_prepare ::
  "dra_cfg \<Rightarrow> (alloc list \<Rightarrow> string) \<Rightarrow> prepared_map \<Rightarrow> resource_claim \<Rightarrow>
   dra_error + prepared_claim \<times> kube_device list" where
  "plugin_prepare cfg jh prepared claim =
     (case rc_Allocation claim of None \<Rightarrow> Inl NoAllocatedDevices
      | Some results \<Rightarrow>
          fail_if (results = []) NoAllocatedDevices
          (let hash = allocationHash jh results in
           case map_of prepared (rc_UID claim) of
             Some old \<Rightarrow>
               fail_if (pc_Hash old \<noteq> hash \<or> pc_Inventory old \<noteq> plugin_inventoryHash cfg (pc_Devices old)
                        \<or> pc_Namespace old \<noteq> rc_Namespace claim \<or> pc_Name old \<noteq> rc_Name claim)
                 AllocationChanged (Inr (old, cf_ClaimDevices cfg results))
           | None \<Rightarrow>
               bind_res (for_each (alloc_check cfg prepared (rc_UID claim)) results []) (\<lambda>devices.
               let r = \<lparr>pc_Version = cf_Version cfg, pc_UID = rc_UID claim, pc_Namespace = rc_Namespace claim,
                        pc_Name = rc_Name claim, pc_Hash = hash, pc_Inventory = '''', pc_Devices = sort devices,
                        pc_CPUs = [], pc_NUMA = 0\<rparr> in
               bind_res (case cf_Prepare cfg of None \<Rightarrow> Inr r
                         | Some f \<Rightarrow> (case f (pc_Devices r) r of Inl e \<Rightarrow> Inl (PrepareFailed e) | Inr r' \<Rightarrow> Inr r'))
               (\<lambda>r'. Inr (r'\<lparr>pc_Inventory := plugin_inventoryHash cfg (pc_Devices r')\<rparr>,
                          cf_ClaimDevices cfg results)))))"

text \<open>
  One round of \<^verbatim>\<open>PrepareResourceClaims\<close>. \<open>write_ok\<close> is whether \<^verbatim>\<open>AtomicJSON\<close> succeeds; it writes a
  temporary file and renames it, so a failure leaves the file of the claim as it was.
\<close>

definition prepare_one ::
  "dra_cfg \<Rightarrow> (alloc list \<Rightarrow> string) \<Rightarrow> (string \<Rightarrow> bool) \<Rightarrow> resource_claim \<Rightarrow> plugin \<Rightarrow>
   plugin \<times> (dra_error + kube_device list)" where
  "prepare_one cfg jh write_ok claim p =
     (case plugin_prepare cfg jh (pl_prepared p) claim of
        Inl e \<Rightarrow> (p, Inl e)
      | Inr (r, devices) \<Rightarrow>
          if write_ok (rc_UID claim)
          then (\<lparr>pl_prepared = gm_put (rc_UID claim) r (pl_prepared p),
                 pl_dir = gm_put (plugin_path (rc_UID claim)) (Some r) (pl_dir p)\<rparr>, Inr devices)
          else (p, Inl WriteFailed))"

fun PrepareResourceClaims ::
  "dra_cfg \<Rightarrow> (alloc list \<Rightarrow> string) \<Rightarrow> (string \<Rightarrow> bool) \<Rightarrow> resource_claim list \<Rightarrow> plugin \<Rightarrow>
   plugin \<times> (string, dra_error + kube_device list) gomap" where
  "PrepareResourceClaims cfg jh write_ok [] p = (p, [])"
| "PrepareResourceClaims cfg jh write_ok (c # cs) p =
     (let (p1, out) = prepare_one cfg jh write_ok c p;
          (p2, result) = PrepareResourceClaims cfg jh write_ok cs p1
      in (p2, (if rc_UID c \<in> fst ` set result then result else (rc_UID c, out) # result)))"

text \<open>\<open>remove_err\<close> is whether \<^verbatim>\<open>os.Remove\<close> fails other than for a missing file.\<close>

definition unprepare_one :: "(string \<Rightarrow> bool) \<Rightarrow> string \<Rightarrow> plugin \<Rightarrow> plugin \<times> dra_error option" where
  "unprepare_one remove_err uid p =
     (if remove_err uid then (p, Some (RemoveFailed uid))
      else (\<lparr>pl_prepared = gm_del uid (pl_prepared p), pl_dir = gm_del (plugin_path uid) (pl_dir p)\<rparr>, None))"

fun UnprepareResourceClaims ::
  "(string \<Rightarrow> bool) \<Rightarrow> string list \<Rightarrow> plugin \<Rightarrow> plugin \<times> (string, dra_error option) gomap" where
  "UnprepareResourceClaims remove_err [] p = (p, [])"
| "UnprepareResourceClaims remove_err (u # us) p =
     (let (p1, out) = unprepare_one remove_err u p;
          (p2, result) = UnprepareResourceClaims remove_err us p1
      in (p2, (if u \<in> fst ` set result then result else (u, out) # result)))"

section \<open>Recovery and lookup\<close>

datatype claim_get = ClaimNotFound | ClaimError | ClaimFound resource_claim

definition recover_one ::
  "(alloc list \<Rightarrow> string) \<Rightarrow> (string \<Rightarrow> string \<Rightarrow> claim_get) \<Rightarrow> (string \<Rightarrow> bool) \<Rightarrow> string \<Rightarrow> prepared_claim \<Rightarrow> plugin \<Rightarrow>
   plugin \<times> dra_error option" where
  "recover_one jh get remove_err uid r p =
     (let gone = unprepare_one remove_err uid p;
          ns = pc_Namespace r; n = pc_Name r in
      case get ns n of
        ClaimNotFound \<Rightarrow> gone
      | ClaimError \<Rightarrow> (p, Some (RecoverFailed ns n))
      | ClaimFound c \<Rightarrow>
          if rc_UID c \<noteq> uid then gone
          else (case rc_Allocation c of None \<Rightarrow> (p, Some (NoLongerAllocated ns n))
                | Some results \<Rightarrow>
                    if allocationHash jh results \<noteq> pc_Hash r then (p, Some (RecoveredAllocationChanged ns n))
                    else (p, None)))"

fun recover_loop ::
  "(alloc list \<Rightarrow> string) \<Rightarrow> (string \<Rightarrow> string \<Rightarrow> claim_get) \<Rightarrow> (string \<Rightarrow> bool) \<Rightarrow> prepared_map \<Rightarrow> plugin \<Rightarrow>
   plugin \<times> dra_error option" where
  "recover_loop jh get remove_err [] p = (p, None)"
| "recover_loop jh get remove_err ((uid, r) # rs) p =
     (case recover_one jh get remove_err uid r p of
        (p', Some e) \<Rightarrow> (p', Some e)
      | (p', None) \<Rightarrow> recover_loop jh get remove_err rs p')"

definition plugin_Recover ::
  "(alloc list \<Rightarrow> string) \<Rightarrow> (string \<Rightarrow> string \<Rightarrow> claim_get) \<Rightarrow> (string \<Rightarrow> bool) \<Rightarrow> plugin \<Rightarrow> plugin \<times> dra_error option" where
  "plugin_Recover jh get remove_err p = recover_loop jh get remove_err (pl_prepared p) p"

definition PreparedFor :: "plugin \<Rightarrow> string \<Rightarrow> string \<Rightarrow> prepared_claim option" where
  "PreparedFor p namespace name =
     map_option snd (List.find (\<lambda>(u, r). pc_Namespace r = namespace \<and> pc_Name r = name) (pl_prepared p))"

section \<open>Publication of the inventory\<close>

record annotation_keys =
  ak_Inventory :: string
  ak_Hash :: string
  ak_BootID :: string

datatype publish_result = PublishError | InventoryChangedInBoot string | Unchanged | Publish "(string, string) gomap"

text \<open>
  One attempt of \<^verbatim>\<open>PublishInventory\<close> on the node that was read; \<open>summary\<close> gives the encoded inventory
  and its hash for the boot id. A conflicting update repeats the attempt on the node read again.
\<close>

definition publish_attempt ::
  "annotation_keys \<Rightarrow> (string \<Rightarrow> (string \<times> string) option) \<Rightarrow> string \<Rightarrow> (string, string) gomap \<Rightarrow> publish_result" where
  "publish_attempt keys summary bootID annotations =
     (case summary bootID of None \<Rightarrow> PublishError
      | Some (encoded, hash) \<Rightarrow>
          if gm_get '''' annotations (ak_BootID keys) = bootID \<and> gm_get '''' annotations (ak_Hash keys) \<noteq> ''''
             \<and> gm_get '''' annotations (ak_Hash keys) \<noteq> hash then InventoryChangedInBoot bootID
          else if gm_get '''' annotations (ak_BootID keys) = bootID \<and> gm_get '''' annotations (ak_Hash keys) = hash
             \<and> gm_get '''' annotations (ak_Inventory keys) = encoded then Unchanged
          else Publish (gm_put (ak_BootID keys) bootID (gm_put (ak_Hash keys) hash
                 (gm_put (ak_Inventory keys) encoded annotations))))"

end
