(* ===== verification/Draplugin_Inv.thy ===== *)
theory Draplugin_Inv
  imports Draplugin
begin

text \<open>
  Correctness of the shared DRA plugin for every driver configuration that keeps the contract
  \<open>dra_config\<close>: devices are held by one claim at a time, memory and state directory agree after
  every call, a restart rebuilds the state from the directory, and preparation is idempotent.
\<close>

lemma plugin_path_inj: "plugin_path u = plugin_path v \<longleftrightarrow> u = v"
  by (simp add: plugin_path_def)

lemma plugin_path_json: "has_suffix (plugin_path u) ''.json''"
  by (simp add: plugin_path_def has_suffix_def)

section \<open>Invariant\<close>

definition record_ok :: "dra_cfg \<Rightarrow> string \<Rightarrow> prepared_claim \<Rightarrow> bool" where
  "record_ok cfg uid r \<longleftrightarrow> pc_Version r = cf_Version cfg \<and> pc_UID r = uid \<and> uid \<noteq> ''''
     \<and> distinct (pc_Devices r) \<and> list_all (cf_HasDevice cfg) (pc_Devices r)
     \<and> pc_Inventory r = plugin_inventoryHash cfg (pc_Devices r)"

definition exclusive :: "(string \<rightharpoonup> prepared_claim) \<Rightarrow> bool" where
  "exclusive f \<longleftrightarrow> (\<forall>u v r s. f u = Some r \<longrightarrow> f v = Some s \<longrightarrow> u \<noteq> v \<longrightarrow> set (pc_Devices r) \<inter> set (pc_Devices s) = {})"

text \<open>The state directory holds one file per prepared claim and no other JSON file.\<close>

definition dir_ok :: "(string \<rightharpoonup> prepared_claim) \<Rightarrow> state_dir \<Rightarrow> bool" where
  "dir_ok f dir \<longleftrightarrow> gm_wf dir \<and> (\<forall>u r. f u = Some r \<longrightarrow> map_of dir (plugin_path u) = Some (Some r))
     \<and> (\<forall>path c. map_of dir path = Some c \<longrightarrow> has_suffix path ''.json'' \<longrightarrow>
          (\<exists>u r. path = plugin_path u \<and> c = Some r \<and> f u = Some r))"

definition plugin_inv :: "dra_cfg \<Rightarrow> plugin \<Rightarrow> bool" where
  "plugin_inv cfg p \<longleftrightarrow> gm_wf (pl_prepared p)
     \<and> (\<forall>u r. map_of (pl_prepared p) u = Some r \<longrightarrow> record_ok cfg u r)
     \<and> exclusive (map_of (pl_prepared p)) \<and> dir_ok (map_of (pl_prepared p)) (pl_dir p)"

lemma dir_ok_put:
  assumes "dir_ok f dir"
  shows "dir_ok (f(u \<mapsto> r)) (gm_put (plugin_path u) (Some r) dir)"
  using assms unfolding dir_ok_def
  by (auto simp: gm_wf_put map_of_gm_put plugin_path_inj split: if_splits) metis+

lemma dir_ok_del:
  assumes "dir_ok f dir"
  shows "dir_ok (f(u := None)) (gm_del (plugin_path u) dir)"
  using assms unfolding dir_ok_def
  by (auto simp: gm_wf_del map_of_gm_del plugin_path_inj split: if_splits) metis+

lemma exclusive_del: "exclusive f \<Longrightarrow> exclusive (f(u := None))"
  unfolding exclusive_def by (auto split: if_splits)

lemma exclusive_put:
  assumes "exclusive f" "\<And>v s. f v = Some s \<Longrightarrow> v \<noteq> u \<Longrightarrow> set (pc_Devices r) \<inter> set (pc_Devices s) = {}"
  shows "exclusive (f(u \<mapsto> r))"
  using assms unfolding exclusive_def by (auto split: if_splits; blast)

lemma plugin_inv_put:
  assumes "plugin_inv cfg p" "record_ok cfg u r"
    and "\<And>v s. map_of (pl_prepared p) v = Some s \<Longrightarrow> v \<noteq> u \<Longrightarrow> set (pc_Devices r) \<inter> set (pc_Devices s) = {}"
  shows "plugin_inv cfg \<lparr>pl_prepared = gm_put u r (pl_prepared p),
    pl_dir = gm_put (plugin_path u) (Some r) (pl_dir p)\<rparr>"
  using assms exclusive_put[of "map_of (pl_prepared p)" u r] dir_ok_put[of "map_of (pl_prepared p)" "pl_dir p" u r]
  by (auto simp: plugin_inv_def gm_wf_put map_of_gm_put split: if_splits)

lemma unprepare_one_inv: "plugin_inv cfg p \<Longrightarrow> plugin_inv cfg (fst (unprepare_one remove_err u p))"
  using exclusive_del[of "map_of (pl_prepared p)" u] dir_ok_del[of "map_of (pl_prepared p)" "pl_dir p" u]
  by (auto simp: unprepare_one_def plugin_inv_def gm_wf_del map_of_gm_del split: if_splits)

lemma UnprepareResourceClaims_inv:
  "plugin_inv cfg p \<Longrightarrow> plugin_inv cfg (fst (UnprepareResourceClaims remove_err us p))"
proof (induction us arbitrary: p)
  case (Cons u us)
  from Cons.IH[OF unprepare_one_inv[OF Cons.prems]] show ?case by (simp add: split_def Let_def)
qed simp

lemma recover_one_inv: "plugin_inv cfg p \<Longrightarrow> plugin_inv cfg (fst (recover_one jh get remove_err uid r p))"
  by (auto simp: recover_one_def unprepare_one_inv Let_def split: claim_get.splits option.splits)

lemma recover_loop_inv: "plugin_inv cfg p \<Longrightarrow> plugin_inv cfg (fst (recover_loop jh get remove_err rs p))"
proof (induction rs arbitrary: p)
  case (Cons ur rs)
  obtain u r where ur: "ur = (u, r)" by (cases ur)
  note one = recover_one_inv[OF Cons.prems, of jh get remove_err u r]
  show ?case using Cons.IH one by (auto simp: ur split: prod.splits option.splits)
qed simp

lemma Recover_inv: "plugin_inv cfg p \<Longrightarrow> plugin_inv cfg (fst (plugin_Recover jh get remove_err p))"
  by (simp add: plugin_Recover_def recover_loop_inv)

section \<open>Restart\<close>

lemma held_loop:
  assumes "list_all (cf_HasDevice cfg) ds" "\<And>d ow. d \<in> set ds \<Longrightarrow> map_of held d = Some ow \<Longrightarrow> ow = uid"
  shows "\<exists>held'. for_each (held_check cfg uid) ds held = Inr held'
    \<and> (\<forall>d. map_of held' d = (if d \<in> set ds then Some uid else map_of held d))"
  using assms
proof (induction ds arbitrary: held)
  case (Cons d ds)
  have step: "held_check cfg uid d held = Inr (gm_put d uid held)"
    using Cons.prems(1) Cons.prems(2)[of d] by (auto simp: held_check_def fail_if_def split: option.splits)
  have "\<And>d' ow. d' \<in> set ds \<Longrightarrow> map_of (gm_put d uid held) d' = Some ow \<Longrightarrow> ow = uid"
    using Cons.prems(2) by (auto simp: map_of_gm_put split: if_splits)
  with Cons.IH[of "gm_put d uid held"] Cons.prems(1) obtain held' where
    h: "for_each (held_check cfg uid) ds (gm_put d uid held) = Inr held'"
      "\<forall>d'. map_of held' d' = (if d' \<in> set ds then Some uid else map_of (gm_put d uid held) d')" by auto
  then show ?case using step by (intro exI[of _ held']) (auto simp: map_of_gm_put)
qed simp

definition put_record :: "string \<times> prepared_claim option \<Rightarrow> prepared_map \<Rightarrow> prepared_map" where
  "put_record = (\<lambda>(path, c) m. gm_put (pc_UID (the c)) (the c) m)"

lemma load_loop:
  assumes "\<And>path c. (path, c) \<in> set fs \<Longrightarrow> \<exists>u r. path = plugin_path u \<and> c = Some r \<and> f u = Some r \<and> record_ok cfg u r"
    and "\<And>path r d ow. (path, Some r) \<in> set fs \<Longrightarrow> d \<in> set (pc_Devices r) \<Longrightarrow> map_of held d = Some ow \<Longrightarrow> ow = pc_UID r"
    and "exclusive f"
  shows "\<exists>held'. for_each (load_record cfg (\<lambda>_. False)) fs (held, m) = Inr (held', fold put_record fs m)"
  using assms(1,2)
proof (induction fs arbitrary: held m)
  case (Cons pc fs)
  obtain u r where pc: "pc = (plugin_path u, Some r)" "f u = Some r" "record_ok cfg u r"
    using Cons.prems(1)[of "fst pc" "snd pc"] by (cases pc) auto
  have "list_all (cf_HasDevice cfg) (pc_Devices r)" "pc_UID r = u" using pc(3) by (auto simp: record_ok_def)
  with held_loop[of cfg "pc_Devices r" held "pc_UID r"] Cons.prems(2)[of "plugin_path u" r] obtain h1 where
    h1: "for_each (held_check cfg (pc_UID r)) (pc_Devices r) held = Inr h1"
      "\<forall>d. map_of h1 d = (if d \<in> set (pc_Devices r) then Some u else map_of held d)" by (auto simp: pc(1))
  have step: "load_record cfg (\<lambda>_. False) pc (held, m) = Inr (h1, put_record pc m)"
    using pc(3) h1(1) by (simp add: pc(1) load_record_def put_record_def record_ok_def fail_if_def)
  have own: "ow = pc_UID r'" if r': "(path, Some r') \<in> set fs" "d \<in> set (pc_Devices r')" "map_of h1 d = Some ow" for path r' d ow
  proof -
    obtain v where v: "f v = Some r'" "pc_UID r' = v"
      using Cons.prems(1)[of path "Some r'"] r'(1) by (auto simp: record_ok_def)
    show ?thesis
    proof (cases "d \<in> set (pc_Devices r)")
      case True
      then have "u = v" using assms(3) pc(2) v r'(2) unfolding exclusive_def by blast
      then show ?thesis using True r'(3) h1(2) v by simp
    next
      case False
      then show ?thesis using r' h1(2) Cons.prems(2)[of path r' d ow] by simp
    qed
  qed
  have "\<exists>held'. for_each (load_record cfg (\<lambda>_. False)) fs (h1, put_record pc m) = Inr (held', fold put_record fs (put_record pc m))"
  proof (rule Cons.IH)
    show "\<exists>u r. path = plugin_path u \<and> c = Some r \<and> f u = Some r \<and> record_ok cfg u r"
      if "(path, c) \<in> set fs" for path c using that Cons.prems(1) by simp
    show "ow = pc_UID r'" if "(path, Some r') \<in> set fs" "d \<in> set (pc_Devices r')" "map_of h1 d = Some ow"
      for path r' d ow using that by (rule own)
  qed
  then show ?case using step by simp
qed simp

lemma fold_put_record:
  "map_of (fold put_record fs m) u =
     (case List.find (\<lambda>(path, c). pc_UID (the c) = u) (rev fs) of Some (path, c) \<Rightarrow> Some (the c) | None \<Rightarrow> map_of m u)"
proof (induction fs rule: rev_induct)
  case (snoc pc fs)
  then show ?case by (cases pc) (auto simp: put_record_def map_of_gm_put)
qed simp

lemma fold_put_wf: "gm_wf m \<Longrightarrow> gm_wf (fold put_record fs m)"
  by (induction fs arbitrary: m) (auto simp: put_record_def gm_wf_put split: prod.splits)

lemma glob_json_set: "set (glob_json dir) = {(path, c). (path, c) \<in> set dir \<and> has_suffix path ''.json''}"
  by (auto simp: glob_json_def)

lemma put_record_lookup:
  assumes fs: "\<And>path c. (path, c) \<in> set fs \<longleftrightarrow> (\<exists>u r. path = plugin_path u \<and> c = Some r \<and> f u = Some r)"
    and uid: "\<And>u r. f u = Some r \<Longrightarrow> pc_UID r = u"
  shows "map_of (fold put_record fs []) u = f u"
proof (cases "List.find (\<lambda>(path, c). pc_UID (the c) = u) (rev fs)")
  case None
  have "f u = None"
  proof (cases "f u")
    case (Some r)
    then have "(plugin_path u, Some r) \<in> set fs" using fs by blast
    moreover have "\<not> (case (plugin_path u, Some r) of (path, c) \<Rightarrow> pc_UID (the c) = u)"
      using None calculation unfolding find_None_iff set_rev by blast
    ultimately show ?thesis using uid[OF Some] by simp
  qed
  then show ?thesis using None by (simp add: fold_put_record)
next
  case (Some pc)
  obtain path c where pc: "pc = (path, c)" by (cases pc)
  have "(path, c) \<in> set fs" "pc_UID (the c) = u" using find_SomeD[OF Some] by (simp_all add: pc)
  then show ?thesis using fs[of path c] uid Some by (auto simp: fold_put_record pc)
qed

lemma New_restores:
  assumes inv: "plugin_inv cfg p"
  shows "\<exists>p'. plugin_New cfg (\<lambda>_. False) (pl_dir p) = Inr p' \<and> plugin_inv cfg p'
    \<and> map_of (pl_prepared p') = map_of (pl_prepared p) \<and> pl_dir p' = pl_dir p"
proof -
  let ?f = "map_of (pl_prepared p)" and ?fs = "glob_json (pl_dir p)"
  have d: "dir_ok ?f (pl_dir p)" and ex: "exclusive ?f" and rec: "\<And>u r. ?f u = Some r \<Longrightarrow> record_ok cfg u r"
    using inv by (auto simp: plugin_inv_def)
  have wf: "gm_wf (pl_dir p)" using d by (simp add: dir_ok_def)
  have fs: "(path, c) \<in> set ?fs \<longleftrightarrow> (\<exists>u r. path = plugin_path u \<and> c = Some r \<and> ?f u = Some r)" for path c
    using d unfolding dir_ok_def glob_json_set by (simp add: gm_wf_map_of[OF wf]) (metis plugin_path_json)
  obtain held' where l: "for_each (load_record cfg (\<lambda>_. False)) ?fs ([], []) = Inr (held', fold put_record ?fs [])"
    by (rule exE[OF load_loop[of ?fs ?f cfg "[]" "[]"]]) (use fs rec ex in auto)
  have same: "map_of (fold put_record ?fs []) = ?f"
    by (rule ext, rule put_record_lookup[OF fs]) (use rec in \<open>simp add: record_ok_def\<close>)
  let ?p = "\<lparr>pl_prepared = fold put_record ?fs [], pl_dir = pl_dir p\<rparr>"
  have "plugin_New cfg (\<lambda>_. False) (pl_dir p) = Inr ?p" using l by (simp add: plugin_New_def)
  moreover have "plugin_inv cfg ?p" using inv same fold_put_wf[of "[]"] by (simp add: plugin_inv_def)
  ultimately show ?thesis using same by auto
qed

section \<open>Calls in any order\<close>

text \<open>
  The plugin from an empty state directory on: calls of the kubelet, recovery, and restarts. A crash
  inside a call is a restart after a prefix of the claims of that call.
\<close>

inductive plugin_step :: "dra_cfg \<Rightarrow> (alloc list \<Rightarrow> string) \<Rightarrow> plugin \<Rightarrow> plugin \<Rightarrow> bool" for cfg jh where
  prepare: "list_all (\<lambda>c. rc_UID c \<noteq> '''') claims \<Longrightarrow>
     plugin_step cfg jh p (fst (PrepareResourceClaims cfg jh write_ok claims p))"
| unprepare: "plugin_step cfg jh p (fst (UnprepareResourceClaims remove_err uids p))"
| recover: "plugin_step cfg jh p (fst (plugin_Recover jh get remove_err p))"
| restart: "plugin_New cfg (\<lambda>_. False) (pl_dir p) = Inr p' \<Longrightarrow> plugin_step cfg jh p p'"

inductive plugin_reachable :: "dra_cfg \<Rightarrow> (alloc list \<Rightarrow> string) \<Rightarrow> plugin \<Rightarrow> bool" for cfg jh where
  start: "plugin_New cfg (\<lambda>_. False) [] = Inr p \<Longrightarrow> plugin_reachable cfg jh p"
| step: "plugin_reachable cfg jh p \<Longrightarrow> plugin_step cfg jh p p' \<Longrightarrow> plugin_reachable cfg jh p'"

section \<open>The contract of a driver configuration\<close>

locale dra_config =
  fixes cfg :: dra_cfg
  assumes prepare_keeps: "\<And>f names r r'. cf_Prepare cfg = Some f \<Longrightarrow> f names r = Inr r' \<Longrightarrow>
    pc_Version r' = pc_Version r \<and> pc_UID r' = pc_UID r \<and> pc_Namespace r' = pc_Namespace r \<and>
    pc_Name r' = pc_Name r \<and> pc_Hash r' = pc_Hash r \<and> pc_Devices r' = pc_Devices r"
begin

lemma alloc_loop:
  assumes "for_each (alloc_check cfg prepared uid) results devs = Inr devs'" "distinct devs"
  shows "devs' = devs @ map al_Device results" "distinct devs'"
    "\<forall>a \<in> set results. al_Driver a = cf_DriverName cfg \<and> al_Pool a = cf_PoolName cfg \<and> cf_HasDevice cfg (al_Device a)
       \<and> (\<forall>(u, other) \<in> set prepared. u \<noteq> uid \<longrightarrow> al_Device a \<notin> set (pc_Devices other))"
proof -
  have "devs' = devs @ map al_Device results \<and> distinct devs' \<and>
    (\<forall>a \<in> set results. al_Driver a = cf_DriverName cfg \<and> al_Pool a = cf_PoolName cfg \<and> cf_HasDevice cfg (al_Device a)
       \<and> (\<forall>(u, other) \<in> set prepared. u \<noteq> uid \<longrightarrow> al_Device a \<notin> set (pc_Devices other)))"
    using assms
  proof (induction results arbitrary: devs)
    case (Cons a results)
    from Cons.prems(1) obtain d1 where d: "alloc_check cfg prepared uid a devs = Inr d1"
      "for_each (alloc_check cfg prepared uid) results d1 = Inr devs'" by (auto split: sum.splits)
    then have c: "d1 = devs @ [al_Device a]" "al_Device a \<notin> set devs" "al_Driver a = cf_DriverName cfg"
      "al_Pool a = cf_PoolName cfg" "cf_HasDevice cfg (al_Device a)"
      "\<forall>(u, other) \<in> set prepared. u \<noteq> uid \<longrightarrow> al_Device a \<notin> set (pc_Devices other)"
      by (auto simp: alloc_check_def fail_if_Inr list_ex_iff)
    have "distinct d1" using c Cons.prems(2) by simp
    from Cons.IH[OF d(2) this] c show ?case by (simp only: list.map append.assoc append_Cons append_Nil list.set) blast
  qed simp
  then show "devs' = devs @ map al_Device results" "distinct devs'"
    "\<forall>a \<in> set results. al_Driver a = cf_DriverName cfg \<and> al_Pool a = cf_PoolName cfg \<and> cf_HasDevice cfg (al_Device a)
       \<and> (\<forall>(u, other) \<in> set prepared. u \<noteq> uid \<longrightarrow> al_Device a \<notin> set (pc_Devices other))" by blast+
qed

text \<open>What a successful preparation of a claim that was not prepared before records.\<close>

lemma prepare_new:
  assumes ok: "plugin_prepare cfg jh prepared claim = Inr (r, devices)" and none: "map_of prepared (rc_UID claim) = None"
    and u: "rc_UID claim \<noteq> ''''"
  obtains results where "rc_Allocation claim = Some results" "results \<noteq> []"
    "pc_Devices r = sort (map al_Device results)" "record_ok cfg (rc_UID claim) r"
    "pc_Hash r = allocationHash jh results" "pc_Namespace r = rc_Namespace claim" "pc_Name r = rc_Name claim"
    "devices = cf_ClaimDevices cfg results"
    "\<forall>a \<in> set results. al_Driver a = cf_DriverName cfg \<and> al_Pool a = cf_PoolName cfg"
    "\<forall>d \<in> set (pc_Devices r). \<forall>(v, other) \<in> set prepared. v \<noteq> rc_UID claim \<longrightarrow> d \<notin> set (pc_Devices other)"
proof -
  obtain results where a: "rc_Allocation claim = Some results" "results \<noteq> []"
    using ok by (auto simp: plugin_prepare_def fail_if_Inr split: option.splits)
  obtain devs where d: "for_each (alloc_check cfg prepared (rc_UID claim)) results [] = Inr devs"
    using ok none a by (auto simp: plugin_prepare_def fail_if_Inr bind_res_Inr Let_def)
  define r0 where "r0 = \<lparr>pc_Version = cf_Version cfg, pc_UID = rc_UID claim, pc_Namespace = rc_Namespace claim,
    pc_Name = rc_Name claim, pc_Hash = allocationHash jh results, pc_Inventory = '''', pc_Devices = sort devs,
    pc_CPUs = [], pc_NUMA = 0\<rparr>"
  obtain r1 where r1: "(case cf_Prepare cfg of None \<Rightarrow> Inr r0
      | Some f \<Rightarrow> (case f (pc_Devices r0) r0 of Inl e \<Rightarrow> Inl (PrepareFailed e) | Inr r' \<Rightarrow> Inr r')) = (Inr r1 :: dra_error + prepared_claim)"
    and r: "r = r1\<lparr>pc_Inventory := plugin_inventoryHash cfg (pc_Devices r1)\<rparr>" and dv: "devices = cf_ClaimDevices cfg results"
    using ok none a d unfolding plugin_prepare_def r0_def by (auto simp: fail_if_Inr bind_res_Inr Let_def)
  have k: "pc_Version r1 = pc_Version r0" "pc_UID r1 = pc_UID r0" "pc_Namespace r1 = pc_Namespace r0"
    "pc_Name r1 = pc_Name r0" "pc_Hash r1 = pc_Hash r0" "pc_Devices r1 = pc_Devices r0"
    using r1 prepare_keeps by (fastforce split: option.splits sum.splits)+
  note al = alloc_loop[OF d distinct.simps(1)[THEN iffD2, OF TrueI]]
  show ?thesis
    by (rule that[OF a]) (use k al u in \<open>auto simp: r dv r0_def record_ok_def list_all_iff\<close>)
qed

lemma prepare_one_inv:
  assumes inv: "plugin_inv cfg p" and u: "rc_UID claim \<noteq> ''''"
  shows "plugin_inv cfg (fst (prepare_one cfg jh write_ok claim p))"
proof (cases "plugin_prepare cfg jh (pl_prepared p) claim")
  case (Inl e)
  then show ?thesis using inv by (simp add: prepare_one_def)
next
  case (Inr rd)
  obtain r devices where rd: "rd = (r, devices)" by (cases rd)
  note ok = Inr[unfolded rd]
  have "record_ok cfg (rc_UID claim) r \<and> (\<forall>v s. map_of (pl_prepared p) v = Some s \<longrightarrow> v \<noteq> rc_UID claim \<longrightarrow>
      set (pc_Devices r) \<inter> set (pc_Devices s) = {})"
  proof (cases "map_of (pl_prepared p) (rc_UID claim)")
    case None
    have ro: "record_ok cfg (rc_UID claim) r"
      and ex: "\<forall>d \<in> set (pc_Devices r). \<forall>(v, other) \<in> set (pl_prepared p). v \<noteq> rc_UID claim \<longrightarrow> d \<notin> set (pc_Devices other)"
      by (rule prepare_new[OF ok None u]; assumption)+
    then show ?thesis by (fastforce dest: map_of_SomeD)
  next
    case (Some old)
    then have "r = old" using ok by (auto simp: plugin_prepare_def fail_if_Inr Let_def split: option.splits)
    then show ?thesis using inv Some by (auto simp: plugin_inv_def exclusive_def)
  qed
  then show ?thesis
    using inv ok plugin_inv_put[OF inv, of "rc_UID claim" r] by (auto simp: prepare_one_def)
qed

lemma prepare_idempotent:
  assumes ok: "prepare_one cfg jh write_ok claim p = (p', Inr devices)" and w: "write_ok2 (rc_UID claim)"
    and inv: "plugin_inv cfg p" and u: "rc_UID claim \<noteq> ''''"
  shows "\<exists>p''. prepare_one cfg jh write_ok2 claim p' = (p'', Inr devices)
    \<and> map_of (pl_prepared p'') = map_of (pl_prepared p') \<and> map_of (pl_dir p'') = map_of (pl_dir p')"
proof -
  obtain r where r: "plugin_prepare cfg jh (pl_prepared p) claim = Inr (r, devices)"
    and p': "p' = \<lparr>pl_prepared = gm_put (rc_UID claim) r (pl_prepared p), pl_dir = gm_put (plugin_path (rc_UID claim)) (Some r) (pl_dir p)\<rparr>"
    using ok by (auto simp: prepare_one_def split: sum.splits prod.splits if_splits)
  obtain results where a: "rc_Allocation claim = Some results" "results \<noteq> []"
    using r by (auto simp: plugin_prepare_def fail_if_Inr split: option.splits)
  have "pc_Hash r = allocationHash jh results \<and> pc_Inventory r = plugin_inventoryHash cfg (pc_Devices r)
    \<and> pc_Namespace r = rc_Namespace claim \<and> pc_Name r = rc_Name claim \<and> devices = cf_ClaimDevices cfg results"
  proof (cases "map_of (pl_prepared p) (rc_UID claim)")
    case None
    show ?thesis by (rule prepare_new[OF r None u]) (use a in \<open>auto simp: record_ok_def\<close>)
  next
    case (Some old)
    then show ?thesis using r a by (auto simp: plugin_prepare_def fail_if_Inr Let_def)
  qed
  then have "plugin_prepare cfg jh (pl_prepared p') claim = Inr (r, devices)"
    using a by (simp add: p' plugin_prepare_def map_of_gm_put fail_if_def Let_def)
  then show ?thesis
    using w by (intro exI[of _ "\<lparr>pl_prepared = gm_put (rc_UID claim) r (pl_prepared p'),
        pl_dir = gm_put (plugin_path (rc_UID claim)) (Some r) (pl_dir p')\<rparr>"])
      (simp add: prepare_one_def p' map_of_gm_put)
qed

lemma PrepareResourceClaims_inv:
  "plugin_inv cfg p \<Longrightarrow> list_all (\<lambda>c. rc_UID c \<noteq> '''') claims \<Longrightarrow>
   plugin_inv cfg (fst (PrepareResourceClaims cfg jh write_ok claims p))"
proof (induction claims arbitrary: p)
  case (Cons c cs)
  have "plugin_inv cfg (fst (prepare_one cfg jh write_ok c p))"
    using prepare_one_inv Cons.prems by simp
  from Cons.IH[OF this] Cons.prems(2) show ?case by (simp add: split_def Let_def)
qed simp

lemma step_inv: "plugin_step cfg jh p p' \<Longrightarrow> plugin_inv cfg p \<Longrightarrow> plugin_inv cfg p'"
proof (induction rule: plugin_step.induct)
  case (prepare claims p write_ok)
  then show ?case by (simp add: PrepareResourceClaims_inv)
next
  case (restart p p')
  obtain p2 where "plugin_New cfg (\<lambda>_. False) (pl_dir p) = Inr p2" "plugin_inv cfg p2"
    using New_restores[OF restart(2)] by blast
  then show ?case using restart(1) by simp
qed (simp_all add: UnprepareResourceClaims_inv Recover_inv)

lemma reachable_inv: "plugin_reachable cfg jh p \<Longrightarrow> plugin_inv cfg p"
proof (induction rule: plugin_reachable.induct)
  case (start p)
  then have "p = \<lparr>pl_prepared = [], pl_dir = []\<rparr>" by (simp add: plugin_New_def glob_json_def)
  then show ?case by (simp add: plugin_inv_def exclusive_def dir_ok_def)
next
  case (step p p')
  then show ?case using step_inv by blast
qed

lemma reachable_exclusive:
  assumes "plugin_reachable cfg jh p" "(u, r) \<in> set (pl_prepared p)" "(v, s) \<in> set (pl_prepared p)" "u \<noteq> v"
  shows "set (pc_Devices r) \<inter> set (pc_Devices s) = {}"
  using reachable_inv[OF assms(1)] assms(2-4) by (auto simp: plugin_inv_def exclusive_def gm_wf_map_of)

lemma reachable_restart:
  assumes "plugin_reachable cfg jh p"
  shows "\<exists>p'. plugin_New cfg (\<lambda>_. False) (pl_dir p) = Inr p' \<and> map_of (pl_prepared p') = map_of (pl_prepared p)
    \<and> pl_dir p' = pl_dir p"
  using New_restores[OF reachable_inv[OF assms]] by blast

end

end
