(* ===== verification/Dra_Driver.thy ===== *)
theory Dra_Driver
  imports Draplugin_Inv
begin

text \<open>
  The compute DRA driver, \<^verbatim>\<open>src/dra-driver/internal/driver\<close>: discovery of CPU cores, memory units,
  OpenTPU slots and GPUs, the summary that is published on the node, the resource slices, the CDI
  devices and the plugin configuration. The file system and \<^verbatim>\<open>nvidia-smi\<close> are arguments; \<open>pq\<close> is the
  value of \<^verbatim>\<open>resource.ParseQuantity\<close> and \<open>jh\<close> the digest of a JSON encoding.
\<close>

section \<open>Data\<close>

definition kindCPU :: string where "kindCPU = ''cpu''"
definition kindMemory :: string where "kindMemory = ''memory''"
definition kindGPU :: string where "kindGPU = ''gpu''"
definition kindOpenTPU :: string where "kindOpenTPU = ''opentpu''"
definition dra_driverName :: string where "dra_driverName = ''orchestration.gputpu.io''"
definition attributeDomain :: string where "attributeDomain = ''orchestration.gputpu.io/''"

lemmas kind_defs = kindCPU_def kindMemory_def kindGPU_def kindOpenTPU_def

record local_device =
  ld_Name :: string
  ld_Kind :: string
  ld_NUMA :: int
  ld_CPU :: int
  ld_Socket :: int
  ld_Core :: int
  ld_UnitBytes :: int
  ld_UUID :: string
  ld_Model :: string
  ld_VRAMMiB :: int
  ld_PCI :: string
  ld_Path :: string
  ld_Profile :: string
  ld_MatrixSize :: int
  ld_CPUCores :: int
  ld_MemoryBytes :: int
  ld_SharedMemory :: int

definition zero_device :: local_device where
  "zero_device = \<lparr>ld_Name = '''', ld_Kind = '''', ld_NUMA = 0, ld_CPU = 0, ld_Socket = 0, ld_Core = 0,
     ld_UnitBytes = 0, ld_UUID = '''', ld_Model = '''', ld_VRAMMiB = 0, ld_PCI = '''', ld_Path = '''',
     ld_Profile = '''', ld_MatrixSize = 0, ld_CPUCores = 0, ld_MemoryBytes = 0, ld_SharedMemory = 0\<rparr>"

type_synonym devices = "(string, local_device) gomap"

record inventory =
  inv_nodeName :: string
  inv_devices :: devices

record opentpu_profile =
  op_Name :: string
  op_MatrixSize :: int
  op_NUMA :: int
  op_Slots :: int
  op_CPUCores :: int
  op_Memory :: string
  op_SharedMemory :: string

record opentpu_config =
  oc_Version :: int
  oc_Profiles :: "opentpu_profile list"

record gpu =
  gp_UUID :: string
  gp_Model :: string
  gp_PCI :: string

record opentpu =
  ot_Profile :: string
  ot_Count :: int
  ot_MatrixSize :: int
  ot_CPUCores :: int
  ot_MemoryBytes :: int
  ot_SharedMemory :: int

record cell =
  ce_NUMA :: int
  ce_CPUs :: int
  ce_MemoryUnits :: int
  ce_MemoryUnitBytes :: int
  ce_GPUs :: "gpu list"
  ce_OpenTPU :: "opentpu list"

record hw_inventory =
  hi_Version :: int
  hi_BootID :: string
  hi_Cells :: "cell list"

datatype smi_output = SmiMissing | SmiFailed | SmiBadCSV | SmiRows "string list list"

text \<open>What discovery reads: the glob results, the files, \<^verbatim>\<open>nvidia-smi\<close> and whether \<^verbatim>\<open>/dev/dxg\<close> exists.\<close>

record sysfs =
  sf_cpus :: "string list"
  sf_nodes :: "string list"
  sf_read :: "string \<Rightarrow> string option"
  sf_cpu_nodes :: "string \<Rightarrow> string list"
  sf_pci :: string
  sf_smi :: smi_output
  sf_dxg :: bool

datatype driver_error =
    BadMemoryUnit
  | BadReservedMemory
  | BadReservedCores
  | NoCPUTopology
  | BadCPUTopology int
  | NoNodeTopology
  | BadNodeMemory int
  | BadOpenTPUConfig
  | BadOpenTPUMemory string
  | BadOpenTPUSharedMemory string
  | BadOpenTPUProfile string
  | DuplicateOpenTPU string
  | EmptyBootID
  | MixedMemoryUnits int
  | InconsistentProfile string

section \<open>Reading values\<close>

definition quantityBytes :: "(string \<Rightarrow> int option) \<Rightarrow> string \<Rightarrow> string \<Rightarrow> int option" where
  "quantityBytes pq raw fallback =
     (case pq (if raw = '''' then fallback else raw) of
        None \<Rightarrow> None | Some v \<Rightarrow> if v \<le> 0 then None else Some v)"

definition positiveInt :: "string \<Rightarrow> int \<Rightarrow> int option" where
  "positiveInt raw fallback =
     (if raw = '''' then Some fallback
      else (case parse_int raw of None \<Rightarrow> None | Some v \<Rightarrow> if v < 0 then None else Some v))"

definition readInt :: "sysfs \<Rightarrow> string \<Rightarrow> int option" where
  "readInt fs path = (case sf_read fs path of None \<Rightarrow> None | Some d \<Rightarrow> parse_int (trim_space d))"

definition onlineCPU :: "sysfs \<Rightarrow> string \<Rightarrow> bool" where
  "onlineCPU fs path =
     (case sf_read fs (path_join path ''online'') of None \<Rightarrow> True | Some d \<Rightarrow> trim_space d \<noteq> ''0'')"

definition cpuNUMA :: "sysfs \<Rightarrow> string \<Rightarrow> int" where
  "cpuNUMA fs path =
     (case sf_cpu_nodes fs path of [n] \<Rightarrow> atoi_value (trim_prefix (path_base n) ''node'') | _ \<Rightarrow> 0)"

fun meminfo_scan :: "string list \<Rightarrow> int option" where
  "meminfo_scan [] = None"
| "meminfo_scan (line # rest) =
     (let fields = str_fields line in
      if length fields \<ge> 4 \<and> fields ! 2 = ''MemTotal:''
      then (case parse_int (fields ! 3) of None \<Rightarrow> None | Some kib \<Rightarrow> Some (wrap_i64 (kib * 1024)))
      else meminfo_scan rest)"

definition nodeMemoryBytes :: "sysfs \<Rightarrow> string \<Rightarrow> int option" where
  "nodeMemoryBytes fs path =
     (case sf_read fs path of None \<Rightarrow> None | Some d \<Rightarrow> meminfo_scan (split_on CHR 0x0A d))"

definition normalize :: "string \<Rightarrow> string" where
  "normalize v = join_with ''_'' (fields_func (\<lambda>c. \<not> is_lower_alnum c) (to_lower v))"

definition NormalizeGPU :: "string \<Rightarrow> string" where
  "NormalizeGPU v =
     join_with ''_'' (fields_func (\<lambda>c. \<not> is_lower_alnum c)
       (fold (\<lambda>word s. replace_all s word '' '') [''nvidia'', ''geforce'', ''laptop'', ''gpu''] (to_lower v)))"

section \<open>Discovery\<close>

type_synonym core_key = "int \<times> int \<times> int"

definition cpu_step :: "sysfs \<Rightarrow> string \<Rightarrow> (core_key, int) gomap \<Rightarrow> driver_error + (core_key, int) gomap" where
  "cpu_step fs path cores =
     (case parse_int (trim_prefix (path_base path) ''cpu'') of
        None \<Rightarrow> Inr cores
      | Some cpu \<Rightarrow>
          if \<not> onlineCPU fs path then Inr cores
          else (case (readInt fs (path_join path ''topology/physical_package_id''),
                      readInt fs (path_join path ''topology/core_id'')) of
                  (Some socket, Some core) \<Rightarrow>
                    let k = (cpuNUMA fs path, socket, core) in
                    (case map_of cores k of
                       Some old \<Rightarrow> Inr (if cpu < old then gm_put k cpu cores else cores)
                     | None \<Rightarrow> Inr (gm_put k cpu cores))
                | _ \<Rightarrow> Inl (BadCPUTopology cpu)))"

definition core_device :: "core_key \<times> int \<Rightarrow> local_device" where
  "core_device = (\<lambda>((numa, socket, core), cpu).
     zero_device\<lparr>ld_Kind := kindCPU, ld_NUMA := numa, ld_CPU := cpu, ld_Socket := socket, ld_Core := core\<rparr>)"

definition group_cores :: "(core_key, int) gomap \<Rightarrow> (int, local_device list) gomap" where
  "group_cores cores = fold (\<lambda>kc m. let d = core_device kc in
     gm_put (ld_NUMA d) (gm_get [] m (ld_NUMA d) @ [d]) m) cores []"

definition cpu_name :: "local_device \<Rightarrow> string" where
  "cpu_name d = ''cpu-s'' @ show_int (ld_Socket d) @ ''-c'' @ show_int (ld_Core d)"

definition put_named :: "local_device \<Rightarrow> devices \<Rightarrow> devices" where
  "put_named d = gm_put (ld_Name d) d"

definition publish_cores :: "nat \<Rightarrow> local_device list \<Rightarrow> devices \<Rightarrow> devices" where
  "publish_cores reserve ds devs =
     (let sorted_ds = sort_key ld_CPU ds in
      if length sorted_ds \<le> reserve then devs
      else fold (\<lambda>d. put_named (d\<lparr>ld_Name := cpu_name d\<rparr>)) (drop reserve sorted_ds) devs)"

definition discoverCPU :: "sysfs \<Rightarrow> nat \<Rightarrow> devices \<Rightarrow> driver_error + devices" where
  "discoverCPU fs reserve devs =
     fail_if (sf_cpus fs = []) NoCPUTopology
     (bind_res (for_each (cpu_step fs) (sf_cpus fs) []) (\<lambda>cores.
      Inr (fold (\<lambda>(numa, ds). publish_cores reserve ds) (group_cores cores) devs)))"

definition memory_name :: "int \<Rightarrow> nat \<Rightarrow> string" where
  "memory_name numa i = ''memory-n'' @ show_int numa @ ''-'' @ pad_nat 5 i"

definition memory_device :: "int \<Rightarrow> int \<Rightarrow> nat \<Rightarrow> local_device" where
  "memory_device numa unit i =
     zero_device\<lparr>ld_Name := memory_name numa i, ld_Kind := kindMemory, ld_NUMA := numa, ld_UnitBytes := unit\<rparr>"

definition memory_count :: "int \<Rightarrow> int \<Rightarrow> int \<Rightarrow> int" where
  "memory_count total_bytes reserve unit = i64_div (wrap_i64 (total_bytes - reserve)) unit"

definition memory_step :: "sysfs \<Rightarrow> int \<Rightarrow> int \<Rightarrow> string \<Rightarrow> devices \<Rightarrow> driver_error + devices" where
  "memory_step fs unit reserve path devs =
     (let numa = atoi_value (trim_prefix (path_base path) ''node'') in
      case nodeMemoryBytes fs (path_join path ''meminfo'') of
        None \<Rightarrow> Inl (BadNodeMemory numa)
      | Some total_bytes \<Rightarrow>
          Inr (fold (\<lambda>i. put_named (memory_device numa unit i)) [0 ..< nat (memory_count total_bytes reserve unit)] devs))"

definition discoverMemory :: "sysfs \<Rightarrow> int \<Rightarrow> int \<Rightarrow> devices \<Rightarrow> driver_error + devices" where
  "discoverMemory fs unit reserve devs =
     fail_if (sf_nodes fs = []) NoNodeTopology (for_each (memory_step fs unit reserve) (sf_nodes fs) devs)"

definition opentpu_name :: "opentpu_profile \<Rightarrow> nat \<Rightarrow> string" where
  "opentpu_name p slot =
     ''opentpu-'' @ normalize (op_Name p) @ ''-n'' @ show_int (op_NUMA p) @ ''-'' @ pad_nat 3 slot"

definition opentpu_device :: "opentpu_profile \<Rightarrow> int \<Rightarrow> int \<Rightarrow> nat \<Rightarrow> local_device" where
  "opentpu_device p memory shared slot =
     zero_device\<lparr>ld_Name := opentpu_name p slot, ld_Kind := kindOpenTPU, ld_NUMA := op_NUMA p,
       ld_Profile := ''opentpu_'' @ trim_prefix (normalize (op_Name p)) ''opentpu_'',
       ld_MatrixSize := op_MatrixSize p, ld_CPUCores := op_CPUCores p, ld_MemoryBytes := memory,
       ld_SharedMemory := shared\<rparr>"

definition opentpu_profile_step ::
  "(string \<Rightarrow> int option) \<Rightarrow> opentpu_profile \<Rightarrow> devices \<Rightarrow> driver_error + devices" where
  "opentpu_profile_step pq p devs =
     (case quantityBytes pq (op_Memory p) '''' of None \<Rightarrow> Inl (BadOpenTPUMemory (op_Name p))
      | Some memory \<Rightarrow>
     (case quantityBytes pq (op_SharedMemory p) '''' of None \<Rightarrow> Inl (BadOpenTPUSharedMemory (op_Name p))
      | Some shared \<Rightarrow>
          let name = normalize (op_Name p) in
          fail_if (name = '''' \<or> op_Name p \<noteq> name \<or> op_Slots p < 1 \<or> op_CPUCores p < 1
                   \<or> (op_MatrixSize p \<noteq> 8 \<and> op_MatrixSize p \<noteq> 16)) (BadOpenTPUProfile (op_Name p))
          (for_each (\<lambda>slot ds.
              fail_if (map_of ds (opentpu_name p slot) \<noteq> None) (DuplicateOpenTPU (opentpu_name p slot))
              (Inr (put_named (opentpu_device p memory shared slot) ds)))
            [0 ..< nat (op_Slots p)] devs)))"

text \<open>\<open>dec\<close> is the JSON decoding of the profiles annotation.\<close>

definition discoverOpenTPU ::
  "(string \<Rightarrow> int option) \<Rightarrow> (string \<Rightarrow> opentpu_config option) \<Rightarrow> string \<Rightarrow> devices \<Rightarrow> driver_error + devices" where
  "discoverOpenTPU pq dec raw devs =
     (if trim_space raw = '''' then Inr devs
      else (case dec raw of None \<Rightarrow> Inl BadOpenTPUConfig
            | Some cfg \<Rightarrow> fail_if (oc_Version cfg \<noteq> 1) BadOpenTPUConfig
                            (for_each (opentpu_profile_step pq) (oc_Profiles cfg) devs)))"

definition numaNodes :: "devices \<Rightarrow> int list" where
  "numaNodes devs =
     sorted_list_of_set (ld_NUMA ` {d \<in> snd ` set devs. ld_Kind d = kindCPU \<or> ld_Kind d = kindMemory})"

text \<open>
  One row of \<^verbatim>\<open>nvidia-smi\<close>; \<open>None\<close> stops the loop. The devices found before an invalid row stay, since
  \<^verbatim>\<open>discoverInventory\<close> only logs the error.
\<close>

definition nvidia_row :: "sysfs \<Rightarrow> nat \<Rightarrow> string list \<Rightarrow> devices \<Rightarrow> devices option" where
  "nvidia_row fs numaCount row devs =
     (if length row \<noteq> 5 then None
      else let parts = map trim_space row in
        case (parse_int (parts ! 0), parse_int (parts ! 3)) of
          (Some index, Some vram) \<Rightarrow>
            if parts ! 1 = '''' then None
            else let pci = to_lower (parts ! 4);
                     local_numa = (case readInt fs (path_join (path_join (sf_pci fs) pci) ''numa_node'') of
                                     Some n \<Rightarrow> if n < 0 then None else Some n | None \<Rightarrow> None);
                     numa = (case local_numa of Some n \<Rightarrow> Some n
                             | None \<Rightarrow> if numaCount \<noteq> 1 then None else Some (hd (numaNodes devs)))
                 in (case numa of None \<Rightarrow> Some devs
                     | Some n \<Rightarrow>
                         let name = ''gpu-'' @ to_lower (parts ! 1);
                             path = (if sf_dxg fs then ''/dev/dxg'' else ''/dev/nvidia'' @ show_int index)
                         in Some (put_named (zero_device\<lparr>ld_Name := name, ld_Kind := kindGPU, ld_NUMA := n,
                              ld_UUID := parts ! 1, ld_Model := NormalizeGPU (parts ! 2), ld_VRAMMiB := vram,
                              ld_PCI := pci, ld_Path := path\<rparr>) devs))
        | _ \<Rightarrow> None)"

fun nvidia_rows :: "sysfs \<Rightarrow> nat \<Rightarrow> string list list \<Rightarrow> devices \<Rightarrow> devices" where
  "nvidia_rows fs numaCount [] devs = devs"
| "nvidia_rows fs numaCount (row # rows) devs =
     (case nvidia_row fs numaCount row devs of None \<Rightarrow> devs | Some devs' \<Rightarrow> nvidia_rows fs numaCount rows devs')"

definition discoverNVIDIA :: "sysfs \<Rightarrow> devices \<Rightarrow> devices" where
  "discoverNVIDIA fs devs =
     (case sf_smi fs of SmiRows rows \<Rightarrow> nvidia_rows fs (length (numaNodes devs)) rows devs | _ \<Rightarrow> devs)"

definition ann :: "string \<Rightarrow> (string, string) gomap \<Rightarrow> string" where
  "ann suffix annotations = gm_get '''' annotations (attributeDomain @ suffix)"

definition discoverInventory ::
  "(string \<Rightarrow> int option) \<Rightarrow> (string \<Rightarrow> opentpu_config option) \<Rightarrow> sysfs \<Rightarrow> string \<Rightarrow> (string, string) gomap \<Rightarrow>
   driver_error + inventory" where
  "discoverInventory pq dec fs nodeName annotations =
     (case quantityBytes pq (ann ''memory-unit'' annotations) ''1Gi'' of None \<Rightarrow> Inl BadMemoryUnit
      | Some memoryUnit \<Rightarrow>
     (case quantityBytes pq (ann ''reserved-memory-per-numa'' annotations) ''1Gi'' of None \<Rightarrow> Inl BadReservedMemory
      | Some reservedMemory \<Rightarrow>
     (case positiveInt (ann ''reserved-cores-per-numa'' annotations) 1 of None \<Rightarrow> Inl BadReservedCores
      | Some reservedCores \<Rightarrow>
          bind_res (discoverCPU fs (nat reservedCores) []) (\<lambda>d1.
          bind_res (discoverMemory fs memoryUnit reservedMemory d1) (\<lambda>d2.
          bind_res (discoverOpenTPU pq dec (ann ''opentpu-profiles'' annotations) d2) (\<lambda>d3.
          Inr \<lparr>inv_nodeName = nodeName, inv_devices = discoverNVIDIA fs d3\<rparr>))))))"

definition hasKind :: "string \<Rightarrow> inventory \<Rightarrow> bool" where
  "hasKind kind iv = list_ex (\<lambda>(n, d). ld_Kind d = kind) (inv_devices iv)"

definition removeKind :: "string \<Rightarrow> inventory \<Rightarrow> inventory" where
  "removeKind kind iv = iv\<lparr>inv_devices := filter (\<lambda>(n, d). ld_Kind d \<noteq> kind) (inv_devices iv)\<rparr>"

section \<open>Summary\<close>

type_synonym cells = "(int, cell) gomap"
type_synonym profiles = "(int \<times> string, opentpu) gomap"

definition empty_cell :: "int \<Rightarrow> cell" where
  "empty_cell numa = \<lparr>ce_NUMA = numa, ce_CPUs = 0, ce_MemoryUnits = 0, ce_MemoryUnitBytes = 0, ce_GPUs = [], ce_OpenTPU = []\<rparr>"

definition new_profile :: "local_device \<Rightarrow> opentpu" where
  "new_profile d = \<lparr>ot_Profile = ld_Profile d, ot_Count = 0, ot_MatrixSize = ld_MatrixSize d,
     ot_CPUCores = ld_CPUCores d, ot_MemoryBytes = ld_MemoryBytes d, ot_SharedMemory = ld_SharedMemory d\<rparr>"

text \<open>
  One device of the loop of \<^verbatim>\<open>summary\<close>. The nested map of profiles is one map from the pair of keys.
\<close>

definition summary_step :: "string \<times> local_device \<Rightarrow> cells \<times> profiles \<Rightarrow> driver_error + cells \<times> profiles" where
  "summary_step = (\<lambda>(n, d) (byNUMA, profs).
     let numa = ld_NUMA d;
         c = (case map_of byNUMA numa of None \<Rightarrow> empty_cell numa | Some c \<Rightarrow> c) in
     if ld_Kind d = kindCPU then Inr (gm_put numa (c\<lparr>ce_CPUs := ce_CPUs c + 1\<rparr>) byNUMA, profs)
     else if ld_Kind d = kindMemory then
       fail_if (ce_MemoryUnitBytes c \<noteq> 0 \<and> ce_MemoryUnitBytes c \<noteq> ld_UnitBytes d) (MixedMemoryUnits numa)
       (Inr (gm_put numa (c\<lparr>ce_MemoryUnitBytes := ld_UnitBytes d, ce_MemoryUnits := ce_MemoryUnits c + 1\<rparr>) byNUMA, profs))
     else if ld_Kind d = kindGPU then
       Inr (gm_put numa (c\<lparr>ce_GPUs := ce_GPUs c @ [\<lparr>gp_UUID = ld_UUID d, gp_Model = ld_Model d, gp_PCI = ld_PCI d\<rparr>]\<rparr>) byNUMA, profs)
     else if ld_Kind d = kindOpenTPU then
       (let p = (case map_of profs (numa, ld_Profile d) of None \<Rightarrow> new_profile d | Some p \<Rightarrow> p) in
        fail_if (ot_MatrixSize p \<noteq> ld_MatrixSize d \<or> ot_CPUCores p \<noteq> ld_CPUCores d
                 \<or> ot_MemoryBytes p \<noteq> ld_MemoryBytes d \<or> ot_SharedMemory p \<noteq> ld_SharedMemory d)
          (InconsistentProfile (ld_Profile d))
        (Inr (gm_put numa c byNUMA, gm_put (numa, ld_Profile d) (p\<lparr>ot_Count := ot_Count p + 1\<rparr>) profs)))
     else Inr (gm_put numa c byNUMA, profs))"

definition finish_cell :: "cells \<Rightarrow> profiles \<Rightarrow> int \<Rightarrow> cell" where
  "finish_cell byNUMA profs numa =
     (let c = the (map_of byNUMA numa) in
      c\<lparr>ce_GPUs := sort_key gp_UUID (ce_GPUs c),
        ce_OpenTPU := map (\<lambda>name. the (map_of profs (numa, name)))
                        (sorted_list_of_set (set (map (snd \<circ> fst) (filter (\<lambda>e. fst (fst e) = numa) profs))))\<rparr>)"

definition inventory_summary :: "inventory \<Rightarrow> string \<Rightarrow> driver_error + hw_inventory" where
  "inventory_summary iv bootID =
     fail_if (bootID = '''') EmptyBootID
     (bind_res (for_each summary_step (inv_devices iv) ([], [])) (\<lambda>(byNUMA, profs).
      Inr \<lparr>hi_Version = 1, hi_BootID = bootID,
           hi_Cells = map (finish_cell byNUMA profs) (sorted_list_of_set (fst ` set byNUMA))\<rparr>))"

text \<open>
  What \<^verbatim>\<open>PublishInventory\<close> gets: the encoding of the whole summary and the digest of its cells;
  \<open>enc\<close> and \<open>jhc\<close> stand for the two JSON encodings.
\<close>

definition publication ::
  "(hw_inventory \<Rightarrow> string) \<Rightarrow> (cell list \<Rightarrow> string) \<Rightarrow> inventory \<Rightarrow> string \<Rightarrow> (string \<times> string) option" where
  "publication enc jhc iv bootID =
     (case inventory_summary iv bootID of Inl e \<Rightarrow> None | Inr r \<Rightarrow> Some (enc r, jhc (hi_Cells r)))"

section \<open>Resource slices\<close>

datatype attribute = AStr string | AInt int | ABool bool
datatype capacity = CapBytes int | CapQuantity string

record resource_device =
  rd_Name :: string
  rd_Attributes :: "(string, attribute) gomap"
  rd_Capacity :: "(string, capacity) gomap"

definition kind_attributes :: "local_device \<Rightarrow> (string, attribute) gomap" where
  "kind_attributes d =
     (if ld_Kind d = kindCPU then
        [(attributeDomain @ ''logicalCPU'', AInt (ld_CPU d)), (attributeDomain @ ''socket'', AInt (ld_Socket d)),
         (attributeDomain @ ''core'', AInt (ld_Core d))]
      else if ld_Kind d = kindMemory then [(attributeDomain @ ''unitBytes'', AInt (ld_UnitBytes d))]
      else if ld_Kind d = kindGPU then
        [(attributeDomain @ ''uuid'', AStr (ld_UUID d)), (attributeDomain @ ''model'', AStr (ld_Model d)),
         (attributeDomain @ ''pci'', AStr (ld_PCI d)), (attributeDomain @ ''path'', AStr (ld_Path d))]
      else if ld_Kind d = kindOpenTPU then
        [(attributeDomain @ ''profile'', AStr (ld_Profile d)), (attributeDomain @ ''matrixSize'', AInt (ld_MatrixSize d)),
         (attributeDomain @ ''cpuCores'', AInt (ld_CPUCores d))]
      else [])"

definition kind_capacity :: "local_device \<Rightarrow> (string, capacity) gomap" where
  "kind_capacity d =
     (if ld_Kind d = kindMemory then [(attributeDomain @ ''memory'', CapBytes (ld_UnitBytes d))]
      else if ld_Kind d = kindGPU then [(attributeDomain @ ''vram'', CapQuantity (show_int (ld_VRAMMiB d) @ ''Mi''))]
      else if ld_Kind d = kindOpenTPU then
        [(attributeDomain @ ''memory'', CapBytes (ld_MemoryBytes d)),
         (attributeDomain @ ''sharedMemory'', CapBytes (ld_SharedMemory d))]
      else [])"

definition resourceDevice :: "local_device \<Rightarrow> resource_device" where
  "resourceDevice d = \<lparr>rd_Name = ld_Name d,
     rd_Attributes = [(attributeDomain @ ''kind'', AStr (ld_Kind d)), (attributeDomain @ ''numaNode'', AInt (ld_NUMA d))]
       @ kind_attributes d,
     rd_Capacity = kind_capacity d\<rparr>"

text \<open>The loop that cuts the devices into slices of at most \<open>max_devices\<close>.\<close>

function slices_of :: "nat \<Rightarrow> 'a list \<Rightarrow> 'a list list" where
  "slices_of max_devices ds =
     (if ds = [] \<or> max_devices = 0 then []
      else take (min (length ds) max_devices) ds # slices_of max_devices (drop (min (length ds) max_devices) ds))"
  by auto
termination by (relation "measure (length \<circ> snd)") auto

declare slices_of.simps [simp del]

definition pool_slices :: "nat \<Rightarrow> 'a list \<Rightarrow> 'a list list" where
  "pool_slices max_devices ds = (let out = slices_of max_devices ds in if out = [] then [[]] else out)"

definition inventory_resources :: "nat \<Rightarrow> inventory \<Rightarrow> resource_device list list" where
  "inventory_resources max_devices iv =
     pool_slices max_devices
       (map (\<lambda>name. resourceDevice (gm_get zero_device (inv_devices iv) name))
          (sorted_list_of_set (fst ` set (inv_devices iv))))"

section \<open>CDI and the plugin configuration\<close>

record cdi_device =
  cd_Name :: string
  cd_Env :: "string list"

definition opentpu_env :: "local_device \<Rightarrow> string list" where
  "opentpu_env d = [''OPENTPU_DEVICE='' @ ld_Name d, ''OPENTPU_PROFILE='' @ ld_Profile d,
     ''OPENTPU_MATRIX_SIZE='' @ show_int (ld_MatrixSize d),
     ''OPENTPU_SHARED_MEMORY_BYTES='' @ show_int (ld_SharedMemory d)]"

definition opentpu_cdi :: "inventory \<Rightarrow> cdi_device list" where
  "opentpu_cdi iv =
     sort_key cd_Name (map (\<lambda>(n, d). \<lparr>cd_Name = ld_Name d, cd_Env = opentpu_env d\<rparr>)
       (filter (\<lambda>(n, d). ld_Kind d = kindOpenTPU) (inv_devices iv)))"

definition cdiDevices :: "inventory \<Rightarrow> alloc list \<Rightarrow> kube_device list" where
  "cdiDevices iv results = concat (map (\<lambda>a.
     case map_of (inv_devices iv) (al_Device a) of None \<Rightarrow> []
     | Some d \<Rightarrow>
         if ld_Kind d \<noteq> kindGPU \<and> ld_Kind d \<noteq> kindOpenTPU then []
         else [\<lparr>kd_Requests = [al_Request a], kd_PoolName = al_Pool a, kd_DeviceName = al_Device a,
                kd_CDIDeviceIDs = [if ld_Kind d = kindGPU then dra_driverName @ ''/nvidia='' @ ld_UUID d
                                   else dra_driverName @ ''/opentpu='' @ ld_Name d]\<rparr>]) results)"

definition numa_step :: "inventory \<Rightarrow> string \<Rightarrow> prepared_claim \<Rightarrow> string + prepared_claim" where
  "numa_step iv name r =
     (let d = gm_get zero_device (inv_devices iv) name;
          add = (\<lambda>r. if ld_Kind d = kindCPU then r\<lparr>pc_CPUs := pc_CPUs r @ [ld_CPU d]\<rparr> else r) in
      if pc_NUMA r = -1 then Inr (add (r\<lparr>pc_NUMA := ld_NUMA d\<rparr>))
      else if pc_NUMA r \<noteq> ld_NUMA d then Inl ''allocated devices do not share one NUMA node''
      else Inr (add r))"

definition dra_prepare :: "inventory \<Rightarrow> string list \<Rightarrow> prepared_claim \<Rightarrow> string + prepared_claim" where
  "dra_prepare iv names r =
     bind_res (for_each (numa_step iv) names (r\<lparr>pc_NUMA := -1\<rparr>)) (\<lambda>r'.
     fail_if (pc_CPUs r' = []) ''claim has no CPU allocation'' (Inr (r'\<lparr>pc_CPUs := sort (pc_CPUs r')\<rparr>)))"

definition dra_config_of :: "(local_device list \<Rightarrow> string) \<Rightarrow> inventory \<Rightarrow> dra_cfg" where
  "dra_config_of jhd iv = \<lparr>cf_Version = 2, cf_DriverName = dra_driverName, cf_PoolName = inv_nodeName iv,
     cf_HasDevice = (\<lambda>name. map_of (inv_devices iv) name \<noteq> None),
     cf_InventoryHash = (\<lambda>names. jhd (map (gm_get zero_device (inv_devices iv)) names)),
     cf_Prepare = Some (dra_prepare iv), cf_ClaimDevices = cdiDevices iv\<rparr>"

section \<open>Container adjustment\<close>

datatype adjustment = NoAdjustment | MissingClaim string string | Adjust "int list" int

text \<open>\<^verbatim>\<open>CreateContainer\<close> of the NRI hook: the CPU set of the claim (as a sorted set) and its memory node.\<close>

definition claimAnnotation :: string where "claimAnnotation = ''orchestration.gputpu.io/resource-claim''"

definition CreateContainer :: "plugin \<Rightarrow> string \<Rightarrow> (string, string) gomap \<Rightarrow> adjustment" where
  "CreateContainer p namespace annotations =
     (let claim = gm_get '''' annotations claimAnnotation in
      if claim = '''' then NoAdjustment
      else (case PreparedFor p namespace claim of
              None \<Rightarrow> MissingClaim namespace claim
            | Some r \<Rightarrow> Adjust (sorted_list_of_set (set (pc_CPUs r))) (pc_NUMA r)))"

record nri_container =
  nc_Id :: string
  nc_PodSandboxId :: string

record nri_pod =
  np_Id :: string
  np_Namespace :: string
  np_Annotations :: "(string, string) gomap"

definition sync_step ::
  "plugin \<Rightarrow> nri_pod list \<Rightarrow> nri_container \<Rightarrow> (string \<times> int list \<times> int) list \<Rightarrow>
   (string \<times> string) + (string \<times> int list \<times> int) list" where
  "sync_step p pods c updates =
     (case List.find (\<lambda>pod. np_Id pod = nc_PodSandboxId c) (rev pods) of
        None \<Rightarrow> Inr updates
      | Some pod \<Rightarrow>
          (case CreateContainer p (np_Namespace pod) (np_Annotations pod) of
             NoAdjustment \<Rightarrow> Inr updates
           | MissingClaim ns cl \<Rightarrow> Inl (ns, cl)
           | Adjust cpus numa \<Rightarrow> Inr (updates @ [(nc_Id c, cpus, numa)])))"

definition Synchronize ::
  "plugin \<Rightarrow> nri_pod list \<Rightarrow> nri_container list \<Rightarrow> (string \<times> string) + (string \<times> int list \<times> int) list" where
  "Synchronize p pods containers = for_each (sync_step p pods) containers []"

end
