(* ===== verification/Draplugin_Ledger.thy ===== *)
theory Draplugin_Ledger
  imports Draplugin_Inv
begin

text \<open>
  The abstract contract of the plugin, a ledger of who holds which devices, and the refinement: every
  call, recovery and restart of the plugin is a sequence of ledger steps.
\<close>

section \<open>The ledger a plugin implements\<close>

text \<open>
  What the plugin promises the kubelet, without files or records: a partial map from claims to the sets
  of devices they hold, in which a claim acquires free devices as a whole and releases them as a whole.
\<close>

type_synonym ledger = "string \<rightharpoonup> string set"

inductive ledger_step :: "ledger \<Rightarrow> ledger \<Rightarrow> bool" where
  acquire: "\<lbrakk>L u = None; ds \<noteq> {}; \<forall>v es. L v = Some es \<longrightarrow> ds \<inter> es = {}\<rbrakk> \<Longrightarrow> ledger_step L (L(u \<mapsto> ds))"
| release: "L u = Some ds \<Longrightarrow> ledger_step L (L(u := None))"

definition ledger_of :: "plugin \<Rightarrow> ledger" where
  "ledger_of p u = map_option (\<lambda>r. set (pc_Devices r)) (map_of (pl_prepared p) u)"

lemma ledger_of_release:
  "ledger_step\<^sup>*\<^sup>* (ledger_of p) (ledger_of (fst (unprepare_one remove_err u p)))"
proof (cases "remove_err u \<or> map_of (pl_prepared p) u = None")
  case True
  then have "ledger_of (fst (unprepare_one remove_err u p)) = ledger_of p"
    by (auto simp: unprepare_one_def ledger_of_def fun_eq_iff map_of_gm_del)
  then show ?thesis by simp
next
  case False
  then obtain r where r: "map_of (pl_prepared p) u = Some r" "\<not> remove_err u" by auto
  then have "ledger_of (fst (unprepare_one remove_err u p)) = (ledger_of p)(u := None)"
    by (auto simp: unprepare_one_def ledger_of_def fun_eq_iff map_of_gm_del)
  moreover have "ledger_of p u = Some (set (pc_Devices r))" using r by (simp add: ledger_of_def)
  ultimately show ?thesis using ledger_step.release by (metis r_into_rtranclp)
qed

lemma unprepare_refines:
  "ledger_step\<^sup>*\<^sup>* (ledger_of p) (ledger_of (fst (UnprepareResourceClaims remove_err us p)))"
proof (induction us arbitrary: p)
  case (Cons u us)
  show ?case
    using rtranclp_trans[OF ledger_of_release[of p remove_err u] Cons.IH[of "fst (unprepare_one remove_err u p)"]]
    by (simp add: split_def Let_def)
qed simp

lemma recover_one_refines:
  "ledger_step\<^sup>*\<^sup>* (ledger_of p) (ledger_of (fst (recover_one jh get remove_err uid r p)))"
  using ledger_of_release by (auto simp: recover_one_def Let_def split: claim_get.splits option.splits)

lemma recover_loop_refines:
  "ledger_step\<^sup>*\<^sup>* (ledger_of p) (ledger_of (fst (recover_loop jh get remove_err rs p)))"
proof (induction rs arbitrary: p)
  case (Cons x rs)
  obtain uid r where x: "x = (uid, r)" by (cases x)
  obtain p1 e where p1: "recover_one jh get remove_err uid r p = (p1, e)" by (cases "recover_one jh get remove_err uid r p")
  have "ledger_step\<^sup>*\<^sup>* (ledger_of p) (ledger_of p1)" using recover_one_refines[of p jh get remove_err uid r] p1 by simp
  then show ?case using Cons.IH[of p1] by (cases e) (simp_all add: x p1)
qed simp

context dra_config
begin

lemma prepare_new_free:
  assumes "plugin_prepare cfg jh prepared claim = Inr (r, devices)" "map_of prepared (rc_UID claim) = None"
    and "rc_UID claim \<noteq> []"
  shows "set (pc_Devices r) \<noteq> {}" "map_of prepared v = Some s \<Longrightarrow> set (pc_Devices r) \<inter> set (pc_Devices s) = {}"
proof -
  have n: "set (pc_Devices r) \<noteq> {} \<and>
    (\<forall>d \<in> set (pc_Devices r). \<forall>(v, other) \<in> set prepared. v \<noteq> rc_UID claim \<longrightarrow> d \<notin> set (pc_Devices other))"
    by (rule prepare_new[OF assms], intro conjI) simp_all
  show "set (pc_Devices r) \<noteq> {}" using n by blast
  assume s: "map_of prepared v = Some s"
  then have "v \<noteq> rc_UID claim" using assms(2) by auto
  then have "\<forall>d \<in> set (pc_Devices r). d \<notin> set (pc_Devices s)"
    using bspec[OF bspec[OF n[THEN conjunct2]] map_of_SomeD[OF s]] by simp
  then show "set (pc_Devices r) \<inter> set (pc_Devices s) = {}" by blast
qed

lemma prepare_again:
  assumes "plugin_prepare cfg jh prepared claim = Inr (r, devices)" "map_of prepared (rc_UID claim) = Some old"
  shows "r = old"
  using assms by (auto simp: plugin_prepare_def fail_if_Inr Let_def split: option.splits)

lemma prepare_one_cases:
  obtains (same) "fst (prepare_one cfg jh write_ok claim p) = p"
  | (put) r devices where "plugin_prepare cfg jh (pl_prepared p) claim = Inr (r, devices)"
      "pl_prepared (fst (prepare_one cfg jh write_ok claim p)) = gm_put (rc_UID claim) r (pl_prepared p)"
proof (cases "plugin_prepare cfg jh (pl_prepared p) claim")
  case (Inl e)
  then show ?thesis using same by (simp add: prepare_one_def)
next
  case (Inr x)
  then show ?thesis using same put[of "fst x" "snd x"]
    by (cases "write_ok (rc_UID claim)") (simp_all add: prepare_one_def split_def)
qed

lemma prepare_one_refines:
  assumes u: "rc_UID claim \<noteq> []"
  shows "ledger_step\<^sup>*\<^sup>* (ledger_of p) (ledger_of (fst (prepare_one cfg jh write_ok claim p)))"
proof (cases rule: prepare_one_cases[of jh write_ok claim p])
  case same
  then show ?thesis by simp
next
  case (put r devices)
  have l: "ledger_of (fst (prepare_one cfg jh write_ok claim p)) = (ledger_of p)(rc_UID claim \<mapsto> set (pc_Devices r))"
    by (rule ext) (simp add: put(2) ledger_of_def map_of_gm_put)
  show ?thesis
  proof (cases "map_of (pl_prepared p) (rc_UID claim)")
    case None
    have "\<forall>v es. ledger_of p v = Some es \<longrightarrow> set (pc_Devices r) \<inter> es = {}"
      using prepare_new_free(2)[OF put(1) None u] by (auto simp: ledger_of_def)
    moreover have "ledger_of p (rc_UID claim) = None" using None by (simp add: ledger_of_def)
    ultimately show ?thesis unfolding l
      using ledger_step.acquire[of "ledger_of p" "rc_UID claim" "set (pc_Devices r)"] prepare_new_free(1)[OF put(1) None u] by blast
  next
    case (Some old)
    have "ledger_of (fst (prepare_one cfg jh write_ok claim p)) = ledger_of p"
      unfolding l prepare_again[OF put(1) Some] by (rule ext) (simp add: ledger_of_def Some)
    then show ?thesis by simp
  qed
qed

lemma PrepareResourceClaims_refines:
  "list_all (\<lambda>c. rc_UID c \<noteq> '''') claims \<Longrightarrow>
   ledger_step\<^sup>*\<^sup>* (ledger_of p) (ledger_of (fst (PrepareResourceClaims cfg jh write_ok claims p)))"
proof (induction claims arbitrary: p)
  case (Cons c cs)
  have "ledger_step\<^sup>*\<^sup>* (ledger_of p) (ledger_of (fst (prepare_one cfg jh write_ok c p)))"
    using prepare_one_refines Cons.prems by simp
  then show ?case
    using rtranclp_trans[OF _ Cons.IH[of "fst (prepare_one cfg jh write_ok c p)"]] Cons.prems
    by (simp add: split_def Let_def)
qed simp

lemma step_refines:
  assumes "plugin_step cfg jh p p'" "plugin_inv cfg p"
  shows "ledger_step\<^sup>*\<^sup>* (ledger_of p) (ledger_of p')"
  using assms
proof (cases rule: plugin_step.cases)
  case (prepare claims write_ok)
  then show ?thesis using PrepareResourceClaims_refines by simp
next
  case restart
  obtain p2 where "plugin_New cfg (\<lambda>_. False) (pl_dir p) = Inr p2" "map_of (pl_prepared p2) = map_of (pl_prepared p)"
    using New_restores[OF assms(2)] by blast
  then have "ledger_of p' = ledger_of p" using restart by (simp add: ledger_of_def fun_eq_iff)
  then show ?thesis by simp
qed (simp_all add: unprepare_refines recover_loop_refines plugin_Recover_def)

end

end
