(* ===== verification/Dra_Props.thy ===== *)
theory Dra_Props
  imports Dra_Driver Draplugin_Ledger
begin

text \<open>
  The compute driver keeps the contract of the shared plugin, its claims are local to one NUMA node,
  memory units fit in the memory that is left, resource slices partition the devices, and the
  published inventory is stable.
\<close>

section \<open>The plugin contract\<close>

definition dev_of :: "inventory \<Rightarrow> string \<Rightarrow> local_device" where
  "dev_of iv name = gm_get zero_device (inv_devices iv) name"

definition cpus_of :: "inventory \<Rightarrow> string list \<Rightarrow> int list" where
  "cpus_of iv names = map (ld_CPU \<circ> dev_of iv) (filter (\<lambda>n. ld_Kind (dev_of iv n) = kindCPU) names)"

lemma numa_step_Inr:
  assumes "numa_step iv name r = Inr r'" "ld_NUMA (dev_of iv name) \<noteq> -1"
  shows "r' = r\<lparr>pc_NUMA := ld_NUMA (dev_of iv name), pc_CPUs := pc_CPUs r @ cpus_of iv [name]\<rparr>"
    "pc_NUMA r = -1 \<or> pc_NUMA r = ld_NUMA (dev_of iv name)"
  using assms by (auto simp: numa_step_def dev_of_def cpus_of_def Let_def split: if_splits)

lemma numa_loop:
  assumes "for_each (numa_step iv) names r = Inr r'" "\<forall>n \<in> set names. ld_NUMA (dev_of iv n) \<noteq> -1"
  shows "r' = r\<lparr>pc_NUMA := pc_NUMA r', pc_CPUs := pc_CPUs r @ cpus_of iv names\<rparr>
    \<and> (\<forall>n \<in> set names. ld_NUMA (dev_of iv n) = pc_NUMA r') \<and> (pc_NUMA r \<noteq> -1 \<longrightarrow> pc_NUMA r' = pc_NUMA r)"
  using assms
proof (induction names arbitrary: r)
  case Nil
  then show ?case by (simp add: cpus_of_def)
next
  case (Cons n names)
  then obtain r1 where r1: "numa_step iv n r = Inr r1" "for_each (numa_step iv) names r1 = Inr r'"
    by (auto split: sum.splits)
  note s = numa_step_Inr[OF r1(1)]
  have nn: "ld_NUMA (dev_of iv n) \<noteq> -1" using Cons.prems(2) by simp
  have "pc_NUMA r1 = ld_NUMA (dev_of iv n)" using s(1)[OF nn] by simp
  with Cons.IH[OF r1(2)] Cons.prems(2) s(1,2)[OF nn] show ?case by (auto simp: cpus_of_def)
qed

lemma dra_prepare_keeps:
  assumes "dra_prepare iv names r = Inr r'"
  shows "pc_Version r' = pc_Version r \<and> pc_UID r' = pc_UID r \<and> pc_Namespace r' = pc_Namespace r \<and>
    pc_Name r' = pc_Name r \<and> pc_Hash r' = pc_Hash r \<and> pc_Devices r' = pc_Devices r"
proof -
  let ?P = "\<lambda>x. pc_Version x = pc_Version r \<and> pc_UID x = pc_UID r \<and> pc_Namespace x = pc_Namespace r \<and>
    pc_Name x = pc_Name r \<and> pc_Hash x = pc_Hash r \<and> pc_Devices x = pc_Devices r"
  obtain r1 where r1: "for_each (numa_step iv) names (r\<lparr>pc_NUMA := -1\<rparr>) = Inr r1" "r' = r1\<lparr>pc_CPUs := sort (pc_CPUs r1)\<rparr>"
    using assms by (auto simp: dra_prepare_def res_ok)
  have "?P r1"
    by (rule for_each_invariant[OF r1(1)]) (auto simp: numa_step_def Let_def split: if_splits)
  then show ?thesis using r1(2) by simp
qed

interpretation dra: dra_config "dra_config_of jhd iv" for jhd iv
  by unfold_locales (auto simp: dra_config_of_def dra_prepare_keeps)

lemma dra_prepare_local:
  assumes "dra_prepare iv names r = Inr r'" "\<forall>n \<in> set names. ld_NUMA (dev_of iv n) \<noteq> -1" "pc_CPUs r = []"
  shows "\<forall>n \<in> set names. ld_NUMA (dev_of iv n) = pc_NUMA r'" "pc_CPUs r' = sort (cpus_of iv names)" "pc_CPUs r' \<noteq> []"
proof -
  obtain r1 where r1: "for_each (numa_step iv) names (r\<lparr>pc_NUMA := -1\<rparr>) = Inr r1" "pc_CPUs r1 \<noteq> []"
      "r' = r1\<lparr>pc_CPUs := sort (pc_CPUs r1)\<rparr>"
    using assms(1) by (auto simp: dra_prepare_def res_ok)
  have "pc_CPUs r1 = cpus_of iv names" "\<forall>n \<in> set names. ld_NUMA (dev_of iv n) = pc_NUMA r1"
    using numa_loop[OF r1(1) assms(2)] assms(3) by (metis append_Nil prepared_claim.select_convs(8) prepared_claim.surjective prepared_claim.update_convs(8,9), blast)
  then show "\<forall>n \<in> set names. ld_NUMA (dev_of iv n) = pc_NUMA r'" "pc_CPUs r' = sort (cpus_of iv names)" "pc_CPUs r' \<noteq> []"
    using r1(2,3) by simp_all (metis length_0_conv length_sort)
qed

section \<open>Memory units\<close>

lemma i64_div_pos:
  assumes "0 \<le> a" "0 < b" "in_i64 a"
  shows "i64_div a b = a div b"
proof -
  have "0 \<le> a div b" "a div b \<le> a" using assms zdiv_mono2[of a 1 b] by (simp_all add: pos_imp_zdiv_nonneg_iff)
  then have "in_i64 (a div b)" using assms(3) by (simp add: in_i64_def)
  then show ?thesis using assms by (cases "a = 0") (simp_all add: i64_div_def wrap_i64_id)
qed

lemma i64_div_neg:
  assumes "a < 0" "0 < b" "in_i64 a"
  shows "i64_div a b \<le> 0"
proof -
  have "0 \<le> (- a) div b" "(- a) div b \<le> - a" using assms zdiv_mono2[of "- a" 1 b] by (simp_all add: pos_imp_zdiv_nonneg_iff)
  then have "in_i64 (- ((- a) div b))" using assms(3) by (simp add: in_i64_def)
  then show ?thesis using assms \<open>0 \<le> (- a) div b\<close> by (simp add: i64_div_def wrap_i64_id)
qed

lemma memory_count_fits:
  assumes "0 < u" "in_i64 (t - r)" "r \<le> t"
  shows "0 \<le> memory_count t r u" "memory_count t r u * u \<le> t - r" "t - r < (memory_count t r u + 1) * u"
proof -
  have c: "memory_count t r u = (t - r) div u"
    using assms i64_div_pos[of "t - r" u] by (simp add: memory_count_def wrap_i64_id)
  have m: "(t - r) div u * u + (t - r) mod u = t - r" by (rule div_mult_mod_eq)
  have "0 \<le> (t - r) mod u" "(t - r) mod u < u" using assms(1) by simp_all
  then show "memory_count t r u * u \<le> t - r" "t - r < (memory_count t r u + 1) * u"
    unfolding c distrib_right using m by linarith+
  show "0 \<le> memory_count t r u" using assms by (simp add: c pos_imp_zdiv_nonneg_iff)
qed

section \<open>Slices\<close>

lemma slices_of_Nil [simp]: "slices_of n [] = []"
  by (subst slices_of.simps) simp

lemma slices_of_Cons:
  "ds \<noteq> [] \<Longrightarrow> 0 < n \<Longrightarrow> slices_of n ds = take n ds # slices_of n (drop n ds)"
  by (subst slices_of.simps) (cases "length ds \<le> n"; simp add: min_def)

lemma slices_of_facts:
  assumes "0 < n"
  shows "concat (slices_of n ds) = ds \<and> (\<forall>s \<in> set (slices_of n ds). s \<noteq> [] \<and> length s \<le> n)"
proof (induction "length ds" arbitrary: ds rule: less_induct)
  case less
  show ?case
  proof (cases "ds = []")
    case False
    have "length (drop n ds) < length ds" using False assms by (simp add: diff_less)
    from less[OF this] have ih: "concat (slices_of n (drop n ds)) = drop n ds"
      "\<forall>s \<in> set (slices_of n (drop n ds)). s \<noteq> [] \<and> length s \<le> n" by blast+
    have "take n ds \<noteq> []" "length (take n ds) \<le> n" using False assms by simp_all
    then show ?thesis unfolding slices_of_Cons[OF False assms] using ih by simp
  qed simp
qed

section \<open>Summary\<close>

definition of_kind :: "string \<Rightarrow> int \<Rightarrow> devices \<Rightarrow> local_device list" where
  "of_kind kind numa devs = filter (\<lambda>d. ld_Kind d = kind \<and> ld_NUMA d = numa) (map snd devs)"

definition gpu_of :: "local_device \<Rightarrow> gpu" where
  "gpu_of d = \<lparr>gp_UUID = ld_UUID d, gp_Model = ld_Model d, gp_PCI = ld_PCI d\<rparr>"

definition cell_counts :: "devices \<Rightarrow> int \<Rightarrow> cell \<Rightarrow> bool" where
  "cell_counts devs numa c \<longleftrightarrow> ce_NUMA c = numa \<and> ce_CPUs c = int (length (of_kind kindCPU numa devs))
     \<and> ce_MemoryUnits c = int (length (of_kind kindMemory numa devs))
     \<and> ce_GPUs c = map gpu_of (of_kind kindGPU numa devs)"

definition summary_inv :: "devices \<Rightarrow> cells \<Rightarrow> bool" where
  "summary_inv devs byNUMA \<longleftrightarrow> gm_wf byNUMA \<and> fst ` set byNUMA = ld_NUMA ` snd ` set devs
     \<and> (\<forall>numa c. map_of byNUMA numa = Some c \<longrightarrow> cell_counts devs numa c)"

lemma of_kind_snoc:
  "of_kind kind numa (devs @ [(n, d)]) = of_kind kind numa devs @ (if ld_Kind d = kind \<and> ld_NUMA d = numa then [d] else [])"
  by (simp add: of_kind_def)

lemma of_kind_none: "numa \<notin> ld_NUMA ` snd ` set devs \<Longrightarrow> of_kind kind numa devs = []"
  by (force simp: of_kind_def filter_empty_conv)

lemma kinds_differ [simp]:
  "kindCPU \<noteq> kindMemory" "kindCPU \<noteq> kindGPU" "kindCPU \<noteq> kindOpenTPU" "kindMemory \<noteq> kindGPU"
  "kindMemory \<noteq> kindOpenTPU" "kindGPU \<noteq> kindOpenTPU"
  "kindMemory \<noteq> kindCPU" "kindGPU \<noteq> kindCPU" "kindOpenTPU \<noteq> kindCPU" "kindGPU \<noteq> kindMemory"
  "kindOpenTPU \<noteq> kindMemory" "kindOpenTPU \<noteq> kindGPU"
  by (simp_all add: kind_defs)

lemma cell_before:
  assumes "summary_inv devs byNUMA"
  shows "cell_counts devs numa (case map_of byNUMA numa of None \<Rightarrow> empty_cell numa | Some c \<Rightarrow> c)"
proof (cases "map_of byNUMA numa")
  case None
  then have "numa \<notin> ld_NUMA ` snd ` set devs"
    using assms unfolding summary_inv_def map_of_eq_None_iff by simp
  then show ?thesis using None of_kind_none by (simp add: cell_counts_def empty_cell_def)
next
  case (Some c)
  then show ?thesis using assms by (simp add: summary_inv_def)
qed

lemma summary_inv_put:
  assumes "summary_inv devs byNUMA" "cell_counts (devs @ [(n, d)]) (ld_NUMA d) c"
  shows "summary_inv (devs @ [(n, d)]) (gm_put (ld_NUMA d) c byNUMA)"
  using assms unfolding summary_inv_def
  by (auto simp: gm_wf_put keys_gm_put map_of_gm_put cell_counts_def of_kind_snoc)

lemma summary_step_inv:
  assumes "summary_inv devs byNUMA" "summary_step (n, d) (byNUMA, profs) = Inr (byNUMA', profs')"
  shows "summary_inv (devs @ [(n, d)]) byNUMA'"
proof -
  let ?c = "case map_of byNUMA (ld_NUMA d) of None \<Rightarrow> empty_cell (ld_NUMA d) | Some c \<Rightarrow> c"
  note c = cell_before[OF assms(1), of "ld_NUMA d"]
  obtain c' where "byNUMA' = gm_put (ld_NUMA d) c' byNUMA" "cell_counts (devs @ [(n, d)]) (ld_NUMA d) c'"
    using assms(2) c
    by (auto simp: summary_step_def Let_def fail_if_Inr cell_counts_def of_kind_snoc gpu_of_def split: if_splits)
  then show ?thesis using summary_inv_put[OF assms(1)] by simp
qed

lemma summary_loop:
  "for_each summary_step devs ([], []) = Inr (byNUMA, profs) \<Longrightarrow> summary_inv devs byNUMA"
proof (induction devs arbitrary: byNUMA profs rule: rev_induct)
  case Nil
  then show ?case by (simp add: summary_inv_def)
next
  case (snoc x devs)
  then obtain s where s: "for_each summary_step devs ([], []) = Inr s" "for_each summary_step [x] s = Inr (byNUMA, profs)"
    by (auto simp: for_each_append bind_res_Inr)
  obtain b p n d where sp: "s = (b, p)" "x = (n, d)" by (cases s, cases x)
  have "summary_step (n, d) (b, p) = Inr (byNUMA, profs)" using s(2) sp by (auto split: sum.splits)
  then show ?case using summary_step_inv snoc.IH s(1) sp by blast
qed

lemma finish_cell_counts:
  assumes "summary_inv devs b" "numa \<in> fst ` set b"
  shows "ce_NUMA (finish_cell b p numa) = numa"
    and "ce_CPUs (finish_cell b p numa) = int (length (of_kind kindCPU numa devs))"
    and "ce_MemoryUnits (finish_cell b p numa) = int (length (of_kind kindMemory numa devs))"
    and "ce_GPUs (finish_cell b p numa) = sort_key gp_UUID (map gpu_of (of_kind kindGPU numa devs))"
proof -
  obtain c where c: "map_of b numa = Some c" using assms(2) by (metis map_of_eq_None_iff option.exhaust)
  then have "cell_counts devs numa c" using assms(1) unfolding summary_inv_def by blast
  then show "ce_NUMA (finish_cell b p numa) = numa"
    "ce_CPUs (finish_cell b p numa) = int (length (of_kind kindCPU numa devs))"
    "ce_MemoryUnits (finish_cell b p numa) = int (length (of_kind kindMemory numa devs))"
    "ce_GPUs (finish_cell b p numa) = sort_key gp_UUID (map gpu_of (of_kind kindGPU numa devs))"
    by (simp_all add: c finish_cell_def cell_counts_def Let_def)
qed

lemma inventory_summary_Inr:
  assumes "inventory_summary iv bootID = Inr r"
  obtains b p where "summary_inv (inv_devices iv) b"
    "hi_Cells r = map (finish_cell b p) (sorted_list_of_set (fst ` set b))"
  using assms summary_loop by (fastforce simp: inventory_summary_def fail_if_Inr bind_res_Inr)

lemma summary_cells:
  assumes "inventory_summary iv bootID = Inr r"
  shows "map ce_NUMA (hi_Cells r) = sorted_list_of_set (ld_NUMA ` snd ` set (inv_devices iv))"
proof -
  obtain b p where bp: "summary_inv (inv_devices iv) b"
    "hi_Cells r = map (finish_cell b p) (sorted_list_of_set (fst ` set b))"
    using inventory_summary_Inr[OF assms] .
  have "map ce_NUMA (hi_Cells r) = sorted_list_of_set (fst ` set b)"
    unfolding bp(2) map_map by (rule map_idI) (simp add: finish_cell_counts(1)[OF bp(1)])
  then show ?thesis using bp(1) unfolding summary_inv_def by simp
qed

lemma summary_cell:
  assumes "inventory_summary iv bootID = Inr r" "c \<in> set (hi_Cells r)"
  shows "ce_CPUs c = int (length (of_kind kindCPU (ce_NUMA c) (inv_devices iv)))"
    and "ce_MemoryUnits c = int (length (of_kind kindMemory (ce_NUMA c) (inv_devices iv)))"
    and "ce_GPUs c = sort_key gp_UUID (map gpu_of (of_kind kindGPU (ce_NUMA c) (inv_devices iv)))"
proof -
  obtain b p where bp: "summary_inv (inv_devices iv) b"
    "hi_Cells r = map (finish_cell b p) (sorted_list_of_set (fst ` set b))"
    using inventory_summary_Inr[OF assms(1)] .
  obtain numa where n: "numa \<in> fst ` set b" "c = finish_cell b p numa" using assms(2) unfolding bp(2) by auto
  note f = finish_cell_counts[OF bp(1) n(1), of p, folded n(2)]
  show "ce_CPUs c = int (length (of_kind kindCPU (ce_NUMA c) (inv_devices iv)))"
    "ce_MemoryUnits c = int (length (of_kind kindMemory (ce_NUMA c) (inv_devices iv)))"
    "ce_GPUs c = sort_key gp_UUID (map gpu_of (of_kind kindGPU (ce_NUMA c) (inv_devices iv)))"
    by (simp_all only: f)
qed

section \<open>Publication\<close>

lemma publish_attempt_Publish:
  assumes "publish_attempt keys summary bootID annotations = Publish annotations'"
  obtains encoded hash where "summary bootID = Some (encoded, hash)"
    "annotations' = gm_put (ak_BootID keys) bootID (gm_put (ak_Hash keys) hash (gm_put (ak_Inventory keys) encoded annotations))"
    "gm_get [] annotations (ak_BootID keys) = bootID \<Longrightarrow> gm_get [] annotations (ak_Hash keys) \<noteq> [] \<Longrightarrow>
       gm_get [] annotations (ak_Hash keys) = hash"
proof -
  obtain e h where eh: "summary bootID = Some (e, h)"
    using assms unfolding publish_attempt_def by (cases "summary bootID") auto
  show thesis
    by (rule that[OF eh]; use assms in \<open>simp add: publish_attempt_def eh split: if_split_asm\<close>)
qed

lemma publish_then_unchanged:
  assumes "distinct [ak_Inventory keys, ak_Hash keys, ak_BootID keys]"
    and "publish_attempt keys summary bootID annotations = Publish annotations'"
  shows "publish_attempt keys summary bootID annotations' = Unchanged"
proof -
  obtain e h where eh: "summary bootID = Some (e, h)"
    "annotations' = gm_put (ak_BootID keys) bootID (gm_put (ak_Hash keys) h (gm_put (ak_Inventory keys) e annotations))"
    by (rule publish_attempt_Publish[OF assms(2)])
  have "gm_get [] annotations' (ak_BootID keys) = bootID" "gm_get [] annotations' (ak_Hash keys) = h"
    "gm_get [] annotations' (ak_Inventory keys) = e"
    using assms(1) by (auto simp: eh(2) gm_get_put)
  then show ?thesis by (simp add: publish_attempt_def eh(1))
qed

lemma publish_same_boot:
  assumes "distinct [ak_Inventory keys, ak_Hash keys, ak_BootID keys]"
    and "publish_attempt keys summary bootID annotations = Publish annotations'"
    and "gm_get [] annotations (ak_BootID keys) = bootID" "gm_get [] annotations (ak_Hash keys) \<noteq> []"
  shows "gm_get [] annotations' (ak_Hash keys) = gm_get [] annotations (ak_Hash keys)"
proof -
  obtain e h where "annotations' = gm_put (ak_BootID keys) bootID (gm_put (ak_Hash keys) h (gm_put (ak_Inventory keys) e annotations))"
    "gm_get [] annotations (ak_Hash keys) = h"
    using publish_attempt_Publish[OF assms(2)] assms(3,4) by metis
  then show ?thesis using assms(1) by (simp add: gm_get_put)
qed

end
