(* ===== verification/Optical_Driver.thy ===== *)
theory Optical_Driver
  imports Dra_Props
begin

text \<open>
  The optical DRA driver, \<^verbatim>\<open>src/optical-dra-driver/internal/driver\<close>: the topology annotation, checked and
  normalised into an inventory, its summary and resource slices, and the configuration it gives the shared
  plugin. \<open>dec\<close> is the JSON decoding of the annotation, \<open>encS\<close> and \<open>encD\<close> the encodings of the summary and
  of the device list, \<open>digest\<close> the SHA-256 digest in hexadecimal.
\<close>

section \<open>Data\<close>

definition annotationPrefix :: string where "annotationPrefix = ''orchestration.gputpu.io/''"
definition kindSwitch :: string where "kindSwitch = ''switch''"
definition kindCPOPhotonic :: string where "kindCPOPhotonic = ''cpo-photonic''"
definition kindPhysicalAsic :: string where "kindPhysicalAsic = ''physical-asic''"
definition optical_driverName :: string where "optical_driverName = ''orchestration.optical.gputpu.io''"
definition optical_attributeDomain :: string where "optical_attributeDomain = ''orchestration.optical.gputpu.io/''"

definition optical_keys :: annotation_keys where
  "optical_keys = \<lparr>ak_Inventory = annotationPrefix @ ''optical-inventory-v1'', ak_Hash = annotationPrefix @ ''optical-inventory-hash'',
     ak_BootID = annotationPrefix @ ''optical-inventory-boot-id''\<rparr>"

record optical_device =
  od_Name :: string
  od_Kind :: string
  od_NUMA :: int
  od_Model :: string
  od_Vendor :: string
  od_PartNumber :: string
  od_FormFactor :: string
  od_Protocol :: string
  od_ComponentRole :: string
  od_Management :: string
  od_SourceID :: string
  od_LinkID :: string
  od_Topology :: string
  od_Location :: string
  od_Ports :: int
  od_BandwidthGbps :: int
  od_WavelengthNM :: int
  od_FullDuplex :: bool
  od_Lanes :: int
  od_ReachMeters :: int
  od_OutputPowerDBm :: int

record optical_inventory =
  oi_nodeName :: string
  oi_devices :: "(string, optical_device) gomap"

record opticalTopology =
  tp_Version :: int
  tp_Devices :: "optical_device list"

record opticalSummary =
  os_Version :: int
  os_Driver :: string
  os_BootID :: string
  os_Devices :: "optical_device list"

datatype optical_error =
    BadTopologyJSON
  | BadTopologyVersion
  | UnsupportedKind string
  | EmptyOpticalName
  | DuplicateOpticalName string
  | NegativeOpticalNUMA string
  | NoOpticalTopology string
  | NegativeCapacity string
  | NegativeMetadata string
  | NoLetterOrDigit string string
  | SwitchWithoutLocation string
  | CPOWithoutWavelength string
  | AsicNotFullDuplex string
  | EmptyOpticalBootID

section \<open>Discovery\<close>

definition parseKind :: "string \<Rightarrow> optical_error + string" where
  "parseKind raw =
     (let n = normalize raw in
      if List.member [''switch'', ''circuit_switch'', ''optical_switch'', ''optical_circuit_switch'', ''opticalcircuitswitch''] n
      then Inr kindSwitch
      else if List.member [''cpo'', ''cpophotonic'', ''cpo_photonic'', ''cpo-photonic'', ''cpophotonicasic'', ''cpophotonic-silicon''] n
      then Inr kindCPOPhotonic
      else if List.member [''asic'', ''physical_asic'', ''physical-asic'', ''physicalasic'', ''asic_transceiver'', ''physical_asic_adapter''] n
      then Inr kindPhysicalAsic
      else Inl (UnsupportedKind raw))"

definition normalizeOptional :: "string \<Rightarrow> string \<Rightarrow> string \<Rightarrow> optical_error + string" where
  "normalizeOptional device field raw =
     (let v = trim_space raw in
      if v = '''' then Inr ''''
      else let n = normalize v in fail_if (n = '''') (NoLetterOrDigit device field) (Inr n))"

definition kind_check :: "string \<Rightarrow> string \<Rightarrow> optical_device \<Rightarrow> optical_error + unit" where
  "kind_check kind name d =
     (if kind = kindSwitch then fail_if (trim_space (od_Location d) = '''') (SwitchWithoutLocation name) (Inr ())
      else if kind = kindCPOPhotonic then fail_if (od_WavelengthNM d \<le> 0) (CPOWithoutWavelength name) (Inr ())
      else if kind = kindPhysicalAsic then fail_if (\<not> od_FullDuplex d) (AsicNotFullDuplex name) (Inr ())
      else Inr ())"

definition optical_step ::
  "optical_device \<Rightarrow> (string, optical_device) gomap \<Rightarrow> optical_error + (string, optical_device) gomap" where
  "optical_step d devs =
     bind_res (parseKind (od_Kind d)) (\<lambda>kind.
     let name = trim_space (od_Name d) in
     fail_if (name = '''') EmptyOpticalName
     (fail_if (map_of devs name \<noteq> None) (DuplicateOpticalName name)
     (fail_if (od_NUMA d < 0) (NegativeOpticalNUMA name)
     (fail_if (trim_space (od_Topology d) = '''') (NoOpticalTopology name)
     (fail_if (od_Ports d < 0 \<or> od_BandwidthGbps d < 0) (NegativeCapacity name)
     (fail_if (od_Lanes d < 0 \<or> od_ReachMeters d < 0 \<or> od_OutputPowerDBm d < 0) (NegativeMetadata name)
     (bind_res (normalizeOptional name ''vendor'' (od_Vendor d)) (\<lambda>vendor.
      bind_res (normalizeOptional name ''formFactor'' (od_FormFactor d)) (\<lambda>formFactor.
      bind_res (normalizeOptional name ''protocol'' (od_Protocol d)) (\<lambda>protocol.
      bind_res (normalizeOptional name ''componentRole'' (od_ComponentRole d)) (\<lambda>componentRole.
      bind_res (normalizeOptional name ''managementInterface'' (od_Management d)) (\<lambda>management.
      bind_res (kind_check kind name d) (\<lambda>_.
      Inr (gm_put name
        (d\<lparr>od_Name := name, od_Kind := kind, od_Model := trim_space (od_Model d), od_Vendor := vendor,
           od_PartNumber := trim_space (od_PartNumber d), od_FormFactor := formFactor, od_Protocol := protocol,
           od_ComponentRole := componentRole, od_Management := management, od_SourceID := trim_space (od_SourceID d),
           od_LinkID := trim_space (od_LinkID d), od_Topology := trim_space (od_Topology d),
           od_Location := trim_space (od_Location d)\<rparr>) devs))))))))))))))"

definition optical_discover ::
  "(string \<Rightarrow> opticalTopology option) \<Rightarrow> string \<Rightarrow> string \<Rightarrow> optical_error + optical_inventory" where
  "optical_discover dec raw nodeName =
     (let raw = trim_space raw in
      if raw = '''' then Inr \<lparr>oi_nodeName = nodeName, oi_devices = []\<rparr>
      else (case dec raw of None \<Rightarrow> Inl BadTopologyJSON
            | Some t \<Rightarrow>
                let version = (if tp_Version t = 0 then 1 else tp_Version t) in
                fail_if (version \<noteq> 1) BadTopologyVersion
                (bind_res (for_each optical_step (tp_Devices t) []) (\<lambda>devs.
                 Inr \<lparr>oi_nodeName = nodeName, oi_devices = devs\<rparr>))))"

section \<open>Summary and slices\<close>

definition optical_zero :: optical_device where
  "optical_zero = \<lparr>od_Name = [], od_Kind = [], od_NUMA = 0, od_Model = [], od_Vendor = [], od_PartNumber = [],
     od_FormFactor = [], od_Protocol = [], od_ComponentRole = [], od_Management = [], od_SourceID = [], od_LinkID = [],
     od_Topology = [], od_Location = [], od_Ports = 0, od_BandwidthGbps = 0, od_WavelengthNM = 0, od_FullDuplex = False,
     od_Lanes = 0, od_ReachMeters = 0, od_OutputPowerDBm = 0\<rparr>"

definition sorted_devices :: "optical_inventory \<Rightarrow> optical_device list" where
  "sorted_devices iv = map (gm_get optical_zero (oi_devices iv)) (sorted_list_of_set (fst ` set (oi_devices iv)))"

definition optical_summary ::
  "(opticalSummary \<Rightarrow> string) \<Rightarrow> (optical_device list \<Rightarrow> string) \<Rightarrow> (string \<Rightarrow> string) \<Rightarrow> optical_inventory \<Rightarrow> string \<Rightarrow>
   optical_error + string \<times> string \<times> string" where
  "optical_summary encS encD digest iv bootID =
     fail_if (bootID = '''') EmptyOpticalBootID
     (let devices = sorted_devices iv;
          encoded = encS \<lparr>os_Version = 1, os_Driver = optical_driverName, os_BootID = bootID, os_Devices = devices\<rparr>
      in Inr (encoded, encD devices, digest encoded))"

text \<open>\<^verbatim>\<open>PublishInventory\<close> takes the second result as the encoded inventory and the third as its hash.\<close>

definition optical_publication ::
  "(opticalSummary \<Rightarrow> string) \<Rightarrow> (optical_device list \<Rightarrow> string) \<Rightarrow> (string \<Rightarrow> string) \<Rightarrow> optical_inventory \<Rightarrow> string \<Rightarrow>
   (string \<times> string) option" where
  "optical_publication encS encD digest iv bootID =
     (case optical_summary encS encD digest iv bootID of Inl e \<Rightarrow> None | Inr (_, identity, hash) \<Rightarrow> Some (identity, hash))"

definition string_attribute :: "string \<Rightarrow> string \<Rightarrow> (string, attribute) gomap" where
  "string_attribute key v = (if v \<noteq> '''' then [(optical_attributeDomain @ key, AStr v)] else [])"

definition int_attribute :: "string \<Rightarrow> int \<Rightarrow> (string, attribute) gomap" where
  "int_attribute key v = (if v > 0 then [(optical_attributeDomain @ key, AInt v)] else [])"

definition optical_resourceDevice :: "optical_device \<Rightarrow> resource_device" where
  "optical_resourceDevice d = \<lparr>rd_Name = od_Name d, rd_Attributes =
     [(optical_attributeDomain @ ''kind'', AStr (od_Kind d)), (optical_attributeDomain @ ''numaNode'', AInt (od_NUMA d))]
     @ string_attribute ''model'' (od_Model d) @ string_attribute ''vendor'' (od_Vendor d)
     @ string_attribute ''partNumber'' (od_PartNumber d) @ string_attribute ''formFactor'' (od_FormFactor d)
     @ string_attribute ''protocol'' (od_Protocol d) @ string_attribute ''componentRole'' (od_ComponentRole d)
     @ string_attribute ''managementInterface'' (od_Management d) @ string_attribute ''sourceId'' (od_SourceID d)
     @ string_attribute ''linkId'' (od_LinkID d) @ string_attribute ''topology'' (od_Topology d)
     @ string_attribute ''location'' (od_Location d) @ int_attribute ''ports'' (od_Ports d)
     @ int_attribute ''bandwidthGbps'' (od_BandwidthGbps d) @ int_attribute ''wavelengthNm'' (od_WavelengthNM d)
     @ (if od_Kind d = kindPhysicalAsic then [(optical_attributeDomain @ ''fullDuplex'', ABool (od_FullDuplex d))] else [])
     @ int_attribute ''lanes'' (od_Lanes d) @ int_attribute ''reachMeters'' (od_ReachMeters d)
     @ int_attribute ''outputPowerDbm'' (od_OutputPowerDBm d),
     rd_Capacity = []\<rparr>"

definition optical_resources :: "nat \<Rightarrow> optical_inventory \<Rightarrow> resource_device list list" where
  "optical_resources max_devices iv = pool_slices max_devices (map optical_resourceDevice (sorted_devices iv))"

section \<open>Plugin configuration\<close>

definition claimedDevices :: "optical_inventory \<Rightarrow> alloc list \<Rightarrow> kube_device list" where
  "claimedDevices iv results = concat (map (\<lambda>a.
     case map_of (oi_devices iv) (al_Device a) of None \<Rightarrow> []
     | Some d \<Rightarrow> [\<lparr>kd_Requests = [al_Request a], kd_PoolName = al_Pool a, kd_DeviceName = od_Name d, kd_CDIDeviceIDs = []\<rparr>]) results)"

definition optical_config :: "(optical_device list \<Rightarrow> string) \<Rightarrow> optical_inventory \<Rightarrow> dra_cfg" where
  "optical_config jhd iv = \<lparr>cf_Version = 1, cf_DriverName = optical_driverName, cf_PoolName = oi_nodeName iv,
     cf_HasDevice = (\<lambda>name. map_of (oi_devices iv) name \<noteq> None),
     cf_InventoryHash = (\<lambda>names. jhd (map (gm_get optical_zero (oi_devices iv)) names)),
     cf_Prepare = None, cf_ClaimDevices = claimedDevices iv\<rparr>"

interpretation optical: dra_config "optical_config jhd iv" for jhd iv
  by unfold_locales (simp add: optical_config_def)

end
