(* ===== verification/Optical_Props.thy ===== *)
theory Optical_Props
  imports Optical_Driver
begin

text \<open>
  What the optical driver guarantees: the inventory is well formed and in normal form, devices belong to one
  claim, and restarts lose nothing.
\<close>

section \<open>The inventory\<close>

definition optional_normal :: "string \<Rightarrow> bool" where
  "optional_normal v \<longleftrightarrow> normalize v = v"

definition optical_ok :: "optical_device \<Rightarrow> bool" where
  "optical_ok d \<longleftrightarrow> od_Name d \<noteq> '''' \<and> trim_space (od_Name d) = od_Name d
     \<and> List.member [kindSwitch, kindCPOPhotonic, kindPhysicalAsic] (od_Kind d)
     \<and> 0 \<le> od_NUMA d \<and> od_Topology d \<noteq> '''' \<and> trim_space (od_Topology d) = od_Topology d
     \<and> 0 \<le> od_Ports d \<and> 0 \<le> od_BandwidthGbps d \<and> 0 \<le> od_Lanes d \<and> 0 \<le> od_ReachMeters d \<and> 0 \<le> od_OutputPowerDBm d
     \<and> list_all optional_normal [od_Vendor d, od_FormFactor d, od_Protocol d, od_ComponentRole d, od_Management d]
     \<and> list_all (\<lambda>v. trim_space v = v) [od_Model d, od_PartNumber d, od_SourceID d, od_LinkID d, od_Location d]
     \<and> (od_Kind d = kindSwitch \<longrightarrow> od_Location d \<noteq> '''') \<and> (od_Kind d = kindCPOPhotonic \<longrightarrow> 0 < od_WavelengthNM d)
     \<and> (od_Kind d = kindPhysicalAsic \<longrightarrow> od_FullDuplex d)"

lemma normalize_join: "normalize v = join_fields v"
  by (simp add: normalize_def join_fields_def)

lemma optical_kinds_differ [simp]:
  "kindSwitch \<noteq> kindCPOPhotonic" "kindSwitch \<noteq> kindPhysicalAsic" "kindCPOPhotonic \<noteq> kindPhysicalAsic"
  "kindCPOPhotonic \<noteq> kindSwitch" "kindPhysicalAsic \<noteq> kindSwitch" "kindPhysicalAsic \<noteq> kindCPOPhotonic"
  by (simp_all add: kindSwitch_def kindCPOPhotonic_def kindPhysicalAsic_def)

lemma parseKind_kinds: "parseKind raw = Inr k \<Longrightarrow> List.member [kindSwitch, kindCPOPhotonic, kindPhysicalAsic] k"
  unfolding parseKind_def Let_def by (simp split: if_split_asm)

lemma parseKind_kind [simp]:
  "parseKind kindSwitch = Inr kindSwitch" "parseKind kindCPOPhotonic = Inr kindCPOPhotonic"
  "parseKind kindPhysicalAsic = Inr kindPhysicalAsic"
  by code_simp+

lemma normalizeOptional_normal: "normalizeOptional name field raw = Inr v \<Longrightarrow> optional_normal v"
  unfolding normalizeOptional_def optional_normal_def Let_def normalize_join
  by (auto simp: fail_if_Inr split: if_split_asm) (simp add: join_fields_def to_lower_def fields_func_def)

lemma normalizeOptional_same: "optional_normal v \<Longrightarrow> normalizeOptional name field v = Inr v"
proof -
  assume v: "optional_normal v"
  then have "trim_space v = v" unfolding optional_normal_def normalize_join by (metis trim_join_fields)
  then show ?thesis using v by (simp add: normalizeOptional_def optional_normal_def fail_if_def Let_def)
qed

lemma kind_check_ok:
  "kind_check k n d = Inr x \<longleftrightarrow> (k = kindSwitch \<longrightarrow> trim_space (od_Location d) \<noteq> '''') \<and> (k = kindCPOPhotonic \<longrightarrow> 0 < od_WavelengthNM d)
     \<and> (k = kindPhysicalAsic \<longrightarrow> od_FullDuplex d)"
  by (simp add: kind_check_def fail_if_Inr not_le)

lemma optical_step_ok:
  assumes "optical_step d devs = Inr devs'"
  obtains d' where "devs' = devs @ [(od_Name d', d')]" "optical_ok d'" "map_of devs (od_Name d') = None"
proof -
  obtain kind vendor formFactor protocol componentRole management u where
    k: "parseKind (od_Kind d) = Inr kind" and
    g: "trim_space (od_Name d) \<noteq> []" "map_of devs (trim_space (od_Name d)) = None" "0 \<le> od_NUMA d"
      "trim_space (od_Topology d) \<noteq> []" "0 \<le> od_Ports d" "0 \<le> od_BandwidthGbps d" "0 \<le> od_Lanes d"
      "0 \<le> od_ReachMeters d" "0 \<le> od_OutputPowerDBm d" and
    n: "normalizeOptional (trim_space (od_Name d)) ''vendor'' (od_Vendor d) = Inr vendor"
      "normalizeOptional (trim_space (od_Name d)) ''formFactor'' (od_FormFactor d) = Inr formFactor"
      "normalizeOptional (trim_space (od_Name d)) ''protocol'' (od_Protocol d) = Inr protocol"
      "normalizeOptional (trim_space (od_Name d)) ''componentRole'' (od_ComponentRole d) = Inr componentRole"
      "normalizeOptional (trim_space (od_Name d)) ''managementInterface'' (od_Management d) = Inr management" and
    c: "kind_check kind (trim_space (od_Name d)) d = Inr u" and
    r: "gm_put (trim_space (od_Name d))
        (d\<lparr>od_Name := trim_space (od_Name d), od_Kind := kind, od_Model := trim_space (od_Model d), od_Vendor := vendor,
           od_PartNumber := trim_space (od_PartNumber d), od_FormFactor := formFactor, od_Protocol := protocol,
           od_ComponentRole := componentRole, od_Management := management, od_SourceID := trim_space (od_SourceID d),
           od_LinkID := trim_space (od_LinkID d), od_Topology := trim_space (od_Topology d),
           od_Location := trim_space (od_Location d)\<rparr>) devs = devs'"
    using assms unfolding optical_step_def Let_def bind_res_Inr fail_if_Inr not_less de_Morgan_disj not_not
    by (elim exE conjE, simp only: sum.inject) (rule that; assumption)
  let ?d' = "d\<lparr>od_Name := trim_space (od_Name d), od_Kind := kind, od_Model := trim_space (od_Model d), od_Vendor := vendor,
           od_PartNumber := trim_space (od_PartNumber d), od_FormFactor := formFactor, od_Protocol := protocol,
           od_ComponentRole := componentRole, od_Management := management, od_SourceID := trim_space (od_SourceID d),
           od_LinkID := trim_space (od_LinkID d), od_Topology := trim_space (od_Topology d),
           od_Location := trim_space (od_Location d)\<rparr>"
  have "optical_ok ?d'"
    using parseKind_kinds[OF k] g n[THEN normalizeOptional_normal] c[unfolded kind_check_ok] by (simp add: optical_ok_def)
  then show thesis using that[of ?d'] r gm_put_new[OF g(2)] g(2) by simp
qed

lemma optical_step_same:
  assumes "optical_ok d" "map_of devs (od_Name d) = None"
  shows "optical_step d devs = Inr (devs @ [(od_Name d, d)])"
proof -
  have k: "parseKind (od_Kind d) = Inr (od_Kind d)" "kind_check (od_Kind d) (od_Name d) d = Inr ()"
    using assms(1) by (auto simp: optical_ok_def kind_check_ok)
  have n: "normalizeOptional (od_Name d) f (od_Vendor d) = Inr (od_Vendor d)"
    "normalizeOptional (od_Name d) f (od_FormFactor d) = Inr (od_FormFactor d)"
    "normalizeOptional (od_Name d) f (od_Protocol d) = Inr (od_Protocol d)"
    "normalizeOptional (od_Name d) f (od_ComponentRole d) = Inr (od_ComponentRole d)"
    "normalizeOptional (od_Name d) f (od_Management d) = Inr (od_Management d)" for f
    using assms(1) by (simp_all add: optical_ok_def normalizeOptional_same)
  show ?thesis
    using assms unfolding optical_ok_def
    by (simp add: optical_step_def Let_def fail_if_def k n gm_put_new)
qed

lemma optical_loop:
  "for_each optical_step ds devs = Inr devs' \<Longrightarrow>
   \<exists>out. devs' = devs @ map (\<lambda>d. (od_Name d, d)) out \<and> list_all optical_ok out \<and> length out = length ds
     \<and> (gm_wf devs \<longrightarrow> gm_wf devs')"
proof (induction ds arbitrary: devs)
  case (Cons d ds)
  then obtain d1 where d1: "optical_step d devs = Inr d1" "for_each optical_step ds d1 = Inr devs'"
    by (auto split: sum.splits)
  obtain d' where d': "d1 = devs @ [(od_Name d', d')]" "optical_ok d'" "map_of devs (od_Name d') = None"
    by (rule optical_step_ok[OF d1(1)])
  obtain out where out: "devs' = d1 @ map (\<lambda>d. (od_Name d, d)) out" "list_all optical_ok out" "length out = length ds"
    "gm_wf d1 \<longrightarrow> gm_wf devs'" using Cons.IH[OF d1(2)] by blast
  have "gm_wf devs \<longrightarrow> gm_wf d1" using d'(1,3) by (simp add: gm_wf_def map_of_eq_None_iff)
  then show ?case using d' out by (intro exI[of _ "d' # out"]) simp
qed simp

lemma optical_loop_same:
  "list_all optical_ok ds \<Longrightarrow> gm_wf (devs @ map (\<lambda>d. (od_Name d, d)) ds) \<Longrightarrow>
   for_each optical_step ds devs = Inr (devs @ map (\<lambda>d. (od_Name d, d)) ds)"
proof (induction ds arbitrary: devs)
  case (Cons d ds)
  have "map_of devs (od_Name d) = None" using Cons.prems(2) by (auto simp: gm_wf_def map_of_eq_None_iff)
  then show ?case using Cons by (simp add: optical_step_same)
qed simp

lemma optical_discover_ok:
  assumes "optical_discover dec raw nodeName = Inr iv"
  shows "\<exists>out. oi_devices iv = map (\<lambda>d. (od_Name d, d)) out \<and> list_all optical_ok out \<and> gm_wf (oi_devices iv) \<and> oi_nodeName iv = nodeName"
proof (cases "trim_space raw = []")
  case True
  then show ?thesis using assms by (auto simp: optical_discover_def Let_def)
next
  case False
  then obtain t :: opticalTopology and devs where t: "for_each optical_step (tp_Devices t) [] = Inr devs" "iv = \<lparr>oi_nodeName = nodeName, oi_devices = devs\<rparr>"
    using assms by (auto simp: optical_discover_def Let_def res_ok split: option.splits)
  show ?thesis using optical_loop[OF t(1)] t(2) by auto
qed

section \<open>Properties\<close>

definition topology_of :: "optical_inventory \<Rightarrow> opticalTopology" where
  "topology_of iv = \<lparr>tp_Version = 1, tp_Devices = map snd (oi_devices iv)\<rparr>"

definition demo_switch :: optical_device where
  "demo_switch = optical_zero\<lparr>od_Name := '' ocs0 '', od_Kind := ''Optical Switch'', od_Vendor := ''Acme-Optics'',
     od_Topology := ''ring'', od_Location := ''rack 1'', od_Ports := 32\<rparr>"

definition demo_switch_normal :: optical_device where
  "demo_switch_normal = demo_switch\<lparr>od_Name := ''ocs0'', od_Kind := ''switch'', od_Vendor := ''acme_optics''\<rparr>"

definition demo_optical :: optical_inventory where
  "demo_optical = \<lparr>oi_nodeName = ''n'', oi_devices = [(''ocs0'', demo_switch_normal)]\<rparr>"

lemma demo_optical_discovered:
  "optical_discover (\<lambda>_. Some \<lparr>tp_Version = 0, tp_Devices = [demo_switch]\<rparr>) ''x'' ''n'' = Inr demo_optical"
  by code_simp



text \<open>
  C30. Normalisation is idempotent: when the devices of an accepted inventory are published as the topology
  annotation of the node, they are accepted and give the same inventory.
\<close>

theorem optical_discover_normal_form:
  assumes "optical_discover dec raw nodeName = Inr iv"
    and "trim_space raw2 \<noteq> []" "dec2 (trim_space raw2) = Some (topology_of iv)"
  shows "optical_discover dec2 raw2 nodeName = Inr iv"
proof -
  obtain out where out: "oi_devices iv = map (\<lambda>d. (od_Name d, d)) out" "list_all optical_ok out" "gm_wf (oi_devices iv)"
    "oi_nodeName iv = nodeName" using optical_discover_ok[OF assms(1)] by blast
  have "map snd (oi_devices iv) = out" by (simp add: out(1) comp_def)
  then have "for_each optical_step (map snd (oi_devices iv)) [] = Inr (oi_devices iv)"
    using optical_loop_same[OF out(2), of "[]"] out(1,3) by simp
  then show ?thesis using assms(2,3) out(4)
    by (simp add: optical_discover_def Let_def topology_of_def fail_if_def)
qed

theorem optical_discover_normal_form_witness:
  "optical_discover (\<lambda>_. Some (topology_of demo_optical)) ''x'' ''n'' = Inr demo_optical"
  by (rule optical_discover_normal_form[OF demo_optical_discovered]) (code_simp, simp)

text \<open>
  C31. In every state the optical plugin reaches, two prepared claims share no optical device, and a restart
  on the files it left restores exactly the prepared claims.
\<close>

theorem optical_exclusive_and_durable:
  assumes "plugin_reachable (optical_config jhd iv) jh p"
  shows "(\<forall>u v r s. (u, r) \<in> set (pl_prepared p) \<and> (v, s) \<in> set (pl_prepared p) \<and> u \<noteq> v \<longrightarrow> set (pc_Devices r) \<inter> set (pc_Devices s) = {})
    \<and> (\<exists>p'. plugin_New (optical_config jhd iv) (\<lambda>_. False) (pl_dir p) = Inr p' \<and> map_of (pl_prepared p') = map_of (pl_prepared p))"
  using optical.reachable_exclusive[OF assms] optical.reachable_restart[OF assms] by blast

definition optical_claim :: resource_claim where
  "optical_claim = \<lparr>rc_UID = ''a'', rc_Namespace = ''ns'', rc_Name = ''a'', rc_Allocation =
     Some [\<lparr>al_Request = ''r'', al_Driver = optical_driverName, al_Pool = ''n'', al_Device = ''ocs0'', al_Other = []\<rparr>]\<rparr>"

definition optical_prepared :: plugin where
  "optical_prepared = fst (PrepareResourceClaims (optical_config (\<lambda>_. ''d'') demo_optical) (\<lambda>_. ''h'') (\<lambda>_. True)
     [optical_claim] \<lparr>pl_prepared = [], pl_dir = []\<rparr>)"

lemma optical_prepared_reachable: "plugin_reachable (optical_config (\<lambda>_. ''d'') demo_optical) (\<lambda>_. ''h'') optical_prepared"
  unfolding optical_prepared_def
  by (rule plugin_reachable.step[OF plugin_reachable.start plugin_step.prepare])
    (simp_all add: plugin_New_def glob_json_def optical_claim_def)

theorem optical_exclusive_and_durable_witness:
  "map (pc_Devices \<circ> snd) (pl_prepared optical_prepared) = [[''ocs0'']]
    \<and> (\<exists>p'. plugin_New (optical_config (\<lambda>_. ''d'') demo_optical) (\<lambda>_. False) (pl_dir optical_prepared) = Inr p'
         \<and> map_of (pl_prepared p') = map_of (pl_prepared optical_prepared))"
proof
  show "map (pc_Devices \<circ> snd) (pl_prepared optical_prepared) = [[''ocs0'']]" by code_simp
qed (use optical_exclusive_and_durable[OF optical_prepared_reachable] in blast)

end
