(* ===== verification/Slurm_Client.thy ===== *)
theory Slurm_Client
  imports Go_Prelude
begin

text \<open>
  The client of the Slurm REST API, \<^verbatim>\<open>src/slurm-operator/internal/slurm/client.go\<close>: the decoded jobs and
  nodes, job states, host lists, and the handling of replies. JSON decoding, URL parsing, token signing and
  the HTTP exchange are arguments.
\<close>

section \<open>Data\<close>

definition maxResponseBytes :: nat where "maxResponseBytes = 8 * 2 ^ 20"
definition slurmUsername :: string where "slurmUsername = ''slurm''"

record pending_job =
  pj_ID :: nat
  pj_Partition :: string
  pj_Reason :: string
  pj_Requeued :: bool
  pj_Priority :: int
  pj_EligibleTime :: int
  pj_HetJobID :: nat
  pj_CPUs :: int
  pj_NodeCount :: int
  pj_Tasks :: int
  pj_CPUsPerTask :: int
  pj_TasksPerNode :: int
  pj_MemoryPerCPU :: int
  pj_MemoryPerNode :: int
  pj_CPUsPerTRES :: string
  pj_MemoryPerTRES :: string
  pj_TRESPerJob :: string
  pj_TRESPerNode :: string
  pj_TRESPerSocket :: string
  pj_TRESPerTask :: string
  pj_TRESRequested :: string
  pj_RequiredNodes :: string
  pj_Features :: string

text \<open>
  A job of the reply. The fields that \<^verbatim>\<open>PendingJobs\<close> copies are those of \<^typ>\<open>pending_job\<close> with the job id of
  the heterogeneous job still a 64-bit number; they are kept together in \<open>sj_fields\<close>.
\<close>

record slurm_job =
  sj_State :: "string list"
  sj_JobState :: "string list"
  sj_HetJobID :: int
  sj_Nodes :: string
  sj_fields :: pending_job

record api_error =
  ae_Description :: string
  ae_Error :: string

record job_info =
  jb_ID :: nat
  jb_HetJobID :: nat
  jb_State :: "string list"
  jb_Reason :: string
  jb_Nodes :: "string list"

record slurm_node =
  sn_Name :: string
  sn_State :: "string list"
  sn_Reservation :: string
  sn_AllocCPUs :: int
  sn_AllocMemory :: int
  sn_GRESUsed :: string

text \<open>
  \<^verbatim>\<open>slurmNumber\<close> and \<^verbatim>\<open>jobState\<close> decode a plain value, or a wrapped one; \<open>direct\<close> and \<open>wrapped\<close> are the two
  decodings of the JSON text.
\<close>

definition slurmNumber :: "('j \<Rightarrow> int option) \<Rightarrow> ('j \<Rightarrow> (int \<times> bool) option) \<Rightarrow> 'j \<Rightarrow> int option" where
  "slurmNumber direct wrapped json =
     (case direct json of Some v \<Rightarrow> Some v
      | None \<Rightarrow> (case wrapped json of None \<Rightarrow> None | Some (number, unlimited) \<Rightarrow> if unlimited then None else Some number))"

definition jobState :: "('j \<Rightarrow> string list option) \<Rightarrow> ('j \<Rightarrow> string list option) \<Rightarrow> 'j \<Rightarrow> string list option" where
  "jobState direct wrapped json = (case direct json of Some v \<Rightarrow> Some v | None \<Rightarrow> wrapped json)"

section \<open>Job states\<close>

definition equal_fold :: "string \<Rightarrow> string \<Rightarrow> bool" where
  "equal_fold a b \<longleftrightarrow> to_lower a = to_lower b"

definition requeuedState :: "string list \<Rightarrow> string \<Rightarrow> bool" where
  "requeuedState states reason =
     (if List.member states ''PENDING'' then False
      else List.member states ''REQUEUED'' \<or> List.member states ''REQUEUE_HOLD'' \<or> List.member states ''SPECIAL_EXIT''
           \<or> List.member states ''CANCELLED'' \<and> equal_fold reason ''job_requeued_in_held_state'')"

definition job_states :: "slurm_job \<Rightarrow> string list" where
  "job_states j = (if sj_State j = [] then sj_JobState j else sj_State j)"

definition uint32_of :: "int \<Rightarrow> nat" where
  "uint32_of v = nat (v mod 2 ^ 32)"

definition pending_of :: "slurm_job \<Rightarrow> bool \<Rightarrow> pending_job" where
  "pending_of j requeued = (sj_fields j)\<lparr>pj_Requeued := requeued, pj_HetJobID := uint32_of (sj_HetJobID j)\<rparr>"

definition PendingJobs :: "slurm_job list \<Rightarrow> pending_job list" where
  "PendingJobs response = concat (map (\<lambda>j.
     let states = job_states j; requeued = requeuedState states (pj_Reason (sj_fields j)) in
     if List.member states ''PENDING'' \<or> requeued then [pending_of j requeued] else []) response)"

definition RootID :: "job_info \<Rightarrow> nat" where
  "RootID j = (if jb_HetJobID j \<noteq> 0 then jb_HetJobID j else jb_ID j)"

definition job_Pending :: "job_info \<Rightarrow> bool" where
  "job_Pending j \<longleftrightarrow> List.member (jb_State j) ''PENDING'' \<or> requeuedState (jb_State j) (jb_Reason j)"

definition terminal_states :: "string list" where
  "terminal_states = [''BOOT_FAIL'', ''CANCELLED'', ''COMPLETED'', ''DEADLINE'', ''FAILED'', ''NODE_FAIL'', ''OUT_OF_MEMORY'',
     ''PREEMPTED'', ''REVOKED'', ''TIMEOUT'']"

definition job_Terminal :: "job_info \<Rightarrow> bool" where
  "job_Terminal j \<longleftrightarrow> list_ex (List.member terminal_states) (jb_State j) \<and> \<not> job_Pending j"

definition UsesAnyNode :: "job_info \<Rightarrow> string list \<Rightarrow> bool" where
  "UsesAnyNode j names \<longleftrightarrow> list_ex (List.member names) (jb_Nodes j)"

section \<open>Host lists\<close>

datatype hostlist_error = InvalidHostlist | UnclosedRange string | InvalidRange string | TooManyNodes | Diverges

text \<open>\<open>cur\<close> is what \<^verbatim>\<open>value[start:index]\<close> is in the code.\<close>

definition push_group :: "string \<Rightarrow> string list \<Rightarrow> string list" where
  "push_group cur out = (let grp = trim_space cur in if grp \<noteq> '''' then out @ [grp] else out)"

fun split_groups :: "nat \<Rightarrow> string \<Rightarrow> string list \<Rightarrow> string \<Rightarrow> hostlist_error + string list" where
  "split_groups depth cur out [] = fail_if (depth \<noteq> 0) InvalidHostlist (Inr (push_group cur out))"
| "split_groups depth cur out (c # rest) =
     (if c = CHR ''['' then split_groups (depth + 1) (cur @ [c]) out rest
      else if c = CHR '']'' then
        (if depth = 0 then Inl InvalidHostlist else split_groups (depth - 1) (cur @ [c]) out rest)
      else if (c = CHR '','' \<or> c = CHR '' '' \<or> c = CHR 0x09) \<and> depth = 0
        then split_groups depth [] (push_group cur out) rest
      else split_groups depth (cur @ [c]) out rest)"

definition splitHostlist :: "string \<Rightarrow> hostlist_error + string list" where
  "splitHostlist v = split_groups 0 [] [] v"

text \<open>
  The loop over the numbers of a range. Its counter is a 64-bit integer, so with the largest integer as the
  end it does not return, which is \<open>None\<close>.
\<close>

partial_function (option) range_values :: "nat \<Rightarrow> int \<Rightarrow> int \<Rightarrow> string list \<Rightarrow> string list option" where
  "range_values width number stop vals =
     (if number \<le> stop then range_values width (wrap_i64 (number + 1)) stop (vals @ [pad_nat width (nat number)]) else Some vals)"

declare range_values.simps [code]

definition option_values :: "int \<Rightarrow> string \<Rightarrow> string list \<Rightarrow> hostlist_error + string list" where
  "option_values limit opt vals =
     (let parts = split_on CHR ''-'' opt in
      if length parts = 1 \<and> parts ! 0 \<noteq> '''' then Inr (vals @ [parts ! 0])
      else if length parts \<noteq> 2 then Inl (InvalidRange opt)
      else (case (parse_int (parts ! 0), parse_int (parts ! 1)) of
              (Some start, Some stop) \<Rightarrow>
                if start > stop \<or> wrap_i64 (stop - start + 1) > limit then Inl (InvalidRange opt)
                else (case range_values (max (length (parts ! 0)) (length (parts ! 1))) start stop vals of
                        None \<Rightarrow> Inl Diverges | Some vals' \<Rightarrow> Inr vals')
            | _ \<Rightarrow> Inl (InvalidRange opt)))"

definition next_names :: "int \<Rightarrow> nat \<Rightarrow> string list \<Rightarrow> string \<Rightarrow> string list \<Rightarrow> hostlist_error + string list" where
  "next_names limit done_len expanded prefix vals =
     for_each (\<lambda>name next_list.
         fail_if (int (length next_list + 1 + done_len) > limit) TooManyNodes (Inr (next_list @ [name])))
       (concat (map (\<lambda>b. map (\<lambda>v. b @ prefix @ v) vals) expanded)) []"

function expand_group :: "int \<Rightarrow> nat \<Rightarrow> string \<Rightarrow> string list \<Rightarrow> hostlist_error + string list" where
  "expand_group limit done_len grp expanded =
     (if grp = '''' then Inr expanded
      else (case index_byte CHR ''['' grp of
              None \<Rightarrow> Inr (map (\<lambda>b. b @ grp) expanded)
            | Some open_at \<Rightarrow>
                (case index_byte CHR '']'' (drop open_at grp) of
                   None \<Rightarrow> Inl (UnclosedRange grp)
                 | Some off \<Rightarrow>
                     let close_at = off + open_at;
                         options = split_on CHR '','' (take (close_at - (open_at + 1)) (drop (open_at + 1) grp)) in
                     bind_res (for_each (option_values limit) options []) (\<lambda>vals.
                     bind_res (next_names limit done_len expanded (take open_at grp) vals) (\<lambda>next_list.
                     expand_group limit done_len (drop (close_at + 1) grp) next_list)))))"
  by pat_completeness auto
termination by (relation "measure (\<lambda>(l, d, g, e). length g)") auto

declare expand_group.simps [simp del]

definition group_step :: "int \<Rightarrow> string \<Rightarrow> string list \<Rightarrow> hostlist_error + string list" where
  "group_step limit grp out =
     bind_res (expand_group limit (length out) grp ['''']) (\<lambda>expanded.
     fail_if (int (length (out @ expanded)) > limit) TooManyNodes (Inr (out @ expanded)))"

definition expandHostlist :: "string \<Rightarrow> int \<Rightarrow> hostlist_error + string list" where
  "expandHostlist v limit = bind_res (splitHostlist v) (\<lambda>groups. for_each (group_step limit) groups [])"

definition job_step :: "slurm_job \<Rightarrow> job_info list \<Rightarrow> (nat \<times> hostlist_error) + job_info list" where
  "job_step item out =
     (case expandHostlist (sj_Nodes item) 10000 of
        Inl e \<Rightarrow> Inl (pj_ID (sj_fields item), e)
      | Inr nodes \<Rightarrow> Inr (out @ [\<lparr>jb_ID = pj_ID (sj_fields item), jb_HetJobID = uint32_of (sj_HetJobID item),
                             jb_State = job_states item, jb_Reason = pj_Reason (sj_fields item), jb_Nodes = nodes\<rparr>]))"

definition slurm_Jobs :: "slurm_job list \<Rightarrow> (nat \<times> hostlist_error) + job_info list" where
  "slurm_Jobs response = for_each job_step response []"

section \<open>Requests and replies\<close>

datatype client_error =
    BadURL | ShortKey | TokenFailed | BadPath | CallFailed | HttpStatus nat | BadBody | TrailingData | ResponseTooLarge
  | RestErrors string | NoCluster string | UnsupportedSignal string

definition NewClient :: "(string \<Rightarrow> (string \<times> string \<times> bool) option) \<Rightarrow> string \<Rightarrow> byte list \<Rightarrow> client_error + string \<times> byte list" where
  "NewClient parse baseURL key =
     (case parse baseURL of None \<Rightarrow> Inl BadURL
      | Some (scheme, host, has_user) \<Rightarrow>
          fail_if (host = '''' \<or> scheme \<noteq> ''http'' \<and> scheme \<noteq> ''https'' \<or> has_user) BadURL
          (fail_if (length key < 32) ShortKey (Inr (baseURL, key))))"

record rest_request =
  rq_Method :: string
  rq_Path :: string
  rq_Body :: "string option"
  rq_User :: string
  rq_Token :: string

text \<open>A reply: its status, the decoded body, whether data follows the body, and the length of the whole.\<close>

record 'o rest_reply =
  rr_Code :: nat
  rr_Decoded :: "'o option"
  rr_Trailing :: bool
  rr_Length :: nat

record path_ref =
  pr_Abs :: bool
  pr_Host :: string
  pr_Path :: string

text \<open>
  \<open>sign\<close> signs the token, \<open>parse_ref\<close> is \<^verbatim>\<open>url.Parse\<close> and \<open>http\<close> the exchange. \<open>wants\<close> is whether the caller
  passed an output.
\<close>

definition client_request ::
  "string option \<Rightarrow> (string \<Rightarrow> path_ref option) \<Rightarrow> (rest_request \<Rightarrow> 'o rest_reply option) \<Rightarrow> string \<Rightarrow> string \<Rightarrow> string option \<Rightarrow> bool \<Rightarrow>
   client_error + 'o option" where
  "client_request sign parse_ref http meth path body wants =
     (case sign of None \<Rightarrow> Inl TokenFailed
      | Some token \<Rightarrow>
     (case parse_ref path of None \<Rightarrow> Inl BadPath
      | Some ref \<Rightarrow>
          fail_if (pr_Abs ref \<or> pr_Host ref \<noteq> '''' \<or> \<not> has_prefix (pr_Path ref) ''/'') BadPath
          (case http \<lparr>rq_Method = meth, rq_Path = path, rq_Body = body, rq_User = slurmUsername, rq_Token = token\<rparr> of
             None \<Rightarrow> Inl CallFailed
           | Some reply \<Rightarrow>
               fail_if (rr_Code reply < 200 \<or> rr_Code reply \<ge> 300) (HttpStatus (rr_Code reply))
               (if \<not> wants \<or> rr_Code reply = 204 then Inr None
                else (case rr_Decoded reply of None \<Rightarrow> Inl BadBody
                      | Some out \<Rightarrow>
                          fail_if (rr_Trailing reply) TrailingData
                          (fail_if (rr_Length reply > maxResponseBytes) ResponseTooLarge (Inr (Some out))))))))"

definition responseError :: "api_error list \<Rightarrow> client_error option" where
  "responseError errs =
     (if errs = [] then None
      else Some (RestErrors (join_with ''; '' (map (\<lambda>e. if ae_Description e = '''' then ae_Error e else ae_Description e) errs))))"

text \<open>
  The calls; \<open>req\<close> is \<^verbatim>\<open>request\<close> with the client, \<open>esc\<close> is \<^verbatim>\<open>url.PathEscape\<close> and \<open>enc\<close> the encoding of the body of
  a drain request. A reply without content leaves the output at its zero value, so it has no errors and no
  items.
\<close>

type_synonym 'o requester = "string \<Rightarrow> string \<Rightarrow> string option \<Rightarrow> client_error + (api_error list \<times> 'o) option"

definition with_errors :: "client_error + (api_error list \<times> 'a) option \<Rightarrow> 'a \<Rightarrow> client_error + 'a" where
  "with_errors res zero =
     bind_res res (\<lambda>out. case out of None \<Rightarrow> Inr zero
       | Some (errs, v) \<Rightarrow> (case responseError errs of None \<Rightarrow> Inr v | Some e \<Rightarrow> Inl e))"

definition fetchJobs :: "slurm_job list requester \<Rightarrow> client_error + slurm_job list" where
  "fetchJobs req = with_errors (req ''GET'' ''/slurm/v0.0.45/jobs/'' None) []"

definition AccountingReady :: "string list requester \<Rightarrow> string \<Rightarrow> client_error + unit" where
  "AccountingReady req clusterName =
     bind_res (with_errors (req ''GET'' ''/slurmdb/v0.0.45/clusters/'' None) []) (\<lambda>clusters.
     fail_if (\<not> List.member clusters clusterName) (NoCluster clusterName) (Inr ()))"

definition client_Nodes :: "slurm_node list requester \<Rightarrow> client_error + slurm_node list" where
  "client_Nodes req = with_errors (req ''GET'' ''/slurm/v0.0.45/nodes/'' None) []"

definition DrainNode :: "(string \<Rightarrow> string) \<Rightarrow> (string list \<Rightarrow> string \<Rightarrow> string) \<Rightarrow> unit requester \<Rightarrow> string \<Rightarrow> string \<Rightarrow> client_error + unit" where
  "DrainNode esc enc req name reason =
     with_errors (req ''POST'' (''/slurm/v0.0.45/node/'' @ esc name) (Some (enc [''DRAIN''] reason))) ()"

definition DeleteNode :: "(string \<Rightarrow> string) \<Rightarrow> unit requester \<Rightarrow> string \<Rightarrow> client_error + unit" where
  "DeleteNode esc req name =
     (case req ''DELETE'' (''/slurm/v0.0.45/node/'' @ esc name) None of
        Inl e \<Rightarrow> if e = HttpStatus 404 then Inr () else Inl e | Inr _ \<Rightarrow> Inr ())"

definition SignalJob :: "unit requester \<Rightarrow> nat \<Rightarrow> string \<Rightarrow> client_error + unit" where
  "SignalJob req jid signal =
     fail_if (signal \<noteq> ''USR1'') (UnsupportedSignal signal)
     (with_errors (req ''DELETE'' (''/slurm/v0.0.45/job/'' @ show_nat jid @ ''?signal='' @ signal) None) ())"

definition RequeueJob :: "unit requester \<Rightarrow> nat \<Rightarrow> client_error + unit" where
  "RequeueJob req jid = with_errors (req ''GET'' (''/slurm/v0.0.45/job/'' @ show_nat jid @ ''/requeue'') None) ()"

end
