(* ===== verification/Slurm_Props.thy ===== *)
theory Slurm_Props
  imports Slurm_Client
begin

text \<open>
  Properties of the Slurm client: the bound on host lists, the names a range stands for, the range on which
  the expansion does not return, and the states of a job.
\<close>

section \<open>Ranges\<close>

lemma range_values_upto:
  assumes "stop < 2 ^ 63 - 1" "- (2 ^ 63) \<le> n" "n \<le> stop + 1"
  shows "range_values w n stop vals = Some (vals @ map (\<lambda>k. pad_nat w (nat k)) [n..stop])"
  using assms
proof (induction "nat (stop + 1 - n)" arbitrary: n vals)
  case 0
  then show ?case by (subst range_values.simps) simp
next
  case (Suc k)
  then have n: "n \<le> stop" by simp
  have w: "wrap_i64 (n + 1) = n + 1" using Suc.prems n by (simp add: wrap_i64_id in_i64_def)
  have "k = nat (stop + 1 - (n + 1))" using Suc.hyps(2) by simp
  from Suc.hyps(1)[OF this] Suc.prems n
  have "range_values w (n + 1) stop (vals @ [pad_nat w (nat n)])
    = Some ((vals @ [pad_nat w (nat n)]) @ map (\<lambda>k. pad_nat w (nat k)) [n + 1..stop])" by simp
  then show ?case using n w upto_rec1[OF n] by (subst range_values.simps) simp
qed

lemma range_values_Some:
  assumes "range_values w n stop vals = Some r" "in_i64 n"
  shows "stop < 2 ^ 63 - 1"
proof -
  have "in_i64 n \<longrightarrow> stop < 2 ^ 63 - 1"
  proof (rule range_values.raw_induct[where P = "\<lambda>w n stop vals r. in_i64 n \<longrightarrow> stop < 2 ^ 63 - 1", OF _ assms(1)])
    fix f w n stop vals and r :: "string list"
    assume ih: "\<And>w n stop vals r. f w n stop vals = Some r \<Longrightarrow> in_i64 n \<longrightarrow> stop < 2 ^ 63 - 1"
      and r: "(if n \<le> stop then f w (wrap_i64 (n + 1)) stop (vals @ [pad_nat w (nat n)]) else Some vals) = Some r"
    show "in_i64 n \<longrightarrow> stop < 2 ^ 63 - 1"
      using r ih[of w "wrap_i64 (n + 1)" stop] by (cases "n \<le> stop") (auto simp: in_i64_def[of n])
  qed
  then show ?thesis using assms(2) by blast
qed

lemma range_values_diverges: "in_i64 n \<Longrightarrow> range_values w n (2 ^ 63 - 1) vals = None"
  using range_values_Some[of w n "2 ^ 63 - 1" vals] by (cases "range_values w n (2 ^ 63 - 1) vals") auto

section \<open>Groups\<close>

definition host_char :: "char \<Rightarrow> bool" where
  "host_char c \<longleftrightarrow> \<not> is_space c \<and> c \<noteq> CHR ''['' \<and> c \<noteq> CHR '']'' \<and> c \<noteq> CHR '',''"

lemma split_groups_plain:
  "list_all host_char w \<Longrightarrow> split_groups d cur out (w @ rest) = split_groups d (cur @ w) out rest"
  by (induction w arbitrary: cur) (auto simp: host_char_def is_space_def)

lemma index_byte_append: "c \<notin> set w \<Longrightarrow> index_byte c (w @ c # s) = Some (length w)"
  by (induction w) auto

lemma index_byte_None: "c \<notin> set w \<Longrightarrow> index_byte c w = None"
  by (induction w) auto

lemma host_chars_not: "list_all host_char w \<Longrightarrow> c \<in> {CHR ''['', CHR '']'', CHR '',''} \<Longrightarrow> c \<notin> set w"
  by (auto simp: list_all_iff host_char_def)

lemma group_step_length: "group_step limit g out = Inr out' \<Longrightarrow> int (length out') \<le> limit"
  by (auto simp: group_step_def res_ok)

lemma groups_length: "for_each (group_step limit) gs out = Inr out' \<Longrightarrow> int (length out) \<le> limit \<Longrightarrow> int (length out') \<le> limit"
proof (induction gs arbitrary: out)
  case (Cons g gs)
  then obtain o1 where "group_step limit g out = Inr o1" "for_each (group_step limit) gs o1 = Inr out'"
    by (auto split: sum.splits)
  then show ?case using Cons.IH group_step_length by blast
qed simp

lemma names_loop:
  "int (length acc + length xs + done_len) \<le> limit \<Longrightarrow>
   for_each (\<lambda>name next_list. fail_if (int (length next_list + 1 + done_len) > limit) TooManyNodes (Inr (next_list @ [name]))) xs acc
     = Inr (acc @ xs)"
  by (induction xs arbitrary: acc) (simp_all add: fail_if_def)

lemma next_names_fit:
  assumes "int (length expanded * length vals + done_len) \<le> limit"
  shows "next_names limit done_len expanded prefix vals = Inr (concat (map (\<lambda>b. map (\<lambda>v. b @ prefix @ v) vals) expanded))"
proof -
  let ?xs = "concat (map (\<lambda>b. map (\<lambda>v. b @ prefix @ v) vals) expanded)"
  have "length ?xs = length expanded * length vals" by (simp add: length_concat comp_def sum_list_triv)
  then have "int (length ([] :: string list) + length ?xs + done_len) \<le> limit" using assms by simp
  from names_loop[OF this] show ?thesis by (simp only: next_names_def append_Nil)
qed

lemma digits_host: "list_all is_digit w \<Longrightarrow> list_all host_char w \<and> CHR ''-'' \<notin> set w"
  by (auto simp: list_all_iff is_digit_def host_char_def is_space_def code_of_def)


definition range_list :: "string \<Rightarrow> nat \<Rightarrow> nat \<Rightarrow> string" where
  "range_list prefix lo hi = prefix @ ''['' @ show_nat lo @ ''-'' @ show_nat hi @ '']''"

lemma split_range_list:
  assumes "list_all host_char prefix"
  shows "splitHostlist (range_list prefix lo hi) = Inr [range_list prefix lo hi]"
proof -
  have d: "list_all host_char (show_nat n)" for n using digits_host[OF show_nat_digits] by blast
  have m: "list_all host_char ''-''" by code_simp
  have "trim_space (range_list prefix lo hi) = range_list prefix lo hi"
    by (rule trim_no_space) (use assms d in \<open>auto simp: range_list_def list_all_iff host_char_def is_space_def\<close>)
  then show ?thesis
    by (simp add: splitHostlist_def range_list_def push_group_def split_groups_plain assms d fail_if_def
        split_groups_plain[OF m, simplified])
qed

lemma upto_int: "[int lo..int hi] = map int [lo..<Suc hi]"
proof (rule nth_equalityI)
  fix i assume "i < length [int lo..int hi]"
  then have "int lo + int i \<le> int hi" by simp
  then show "[int lo..int hi] ! i = map int [lo..<Suc hi] ! i" by (simp add: nth_upto del: upt_Suc)
qed (simp del: upt_Suc)

lemma option_values_range:
  assumes "lo \<le> hi" "int hi < 2 ^ 63 - 1" "int (hi - lo) + 1 \<le> limit"
  shows "option_values limit (show_nat lo @ ''-'' @ show_nat hi) vals
    = Inr (vals @ map (\<lambda>k. pad_nat (max (length (show_nat lo)) (length (show_nat hi))) k) [lo..<Suc hi])"
proof -
  have s: "split_on CHR ''-'' (show_nat lo @ ''-'' @ show_nat hi) = [show_nat lo, show_nat hi]"
    using digits_host[OF show_nat_digits] by (simp add: split_on_append split_on_word)
  have p: "parse_int (show_nat n) = Some (int n)" if "int n < 2 ^ 63" for n
    using parse_int_show[of "int n"] that by (simp add: show_int_def in_i64_def)
  have w: "wrap_i64 (int hi - int lo + 1) = int hi - int lo + 1"
    using assms by (intro wrap_i64_id) (simp add: in_i64_def)
  have r: "range_values w' (int lo) (int hi) vals = Some (vals @ map (\<lambda>k. pad_nat w' k) [lo..<Suc hi])" for w'
  proof -
    have "map (\<lambda>k. pad_nat w' (nat k)) [int lo..int hi] = map (\<lambda>k. pad_nat w' k) [lo..<Suc hi]"
      by (simp add: upto_int comp_def del: upt_Suc)
    then show ?thesis using range_values_upto[of "int hi" "int lo" w' vals] assms by simp
  qed
  show ?thesis
    unfolding option_values_def s using assms w by (simp add: p r)
qed


lemma expand_range_list:
  assumes "list_all host_char prefix" "lo \<le> hi" "int hi < 2 ^ 63 - 1" "int (hi - lo) + 1 \<le> limit"
  shows "expand_group limit 0 (range_list prefix lo hi) [[]]
    = Inr (map (\<lambda>k. prefix @ pad_nat (max (length (show_nat lo)) (length (show_nat hi))) k) [lo..<Suc hi])"
proof -
  let ?opt = "show_nat lo @ ''-'' @ show_nat hi" and ?w = "max (length (show_nat lo)) (length (show_nat hi))"
  let ?vals = "map (pad_nat ?w) [lo..<Suc hi]"
  have h: "list_all host_char ?opt" using digits_host[OF show_nat_digits] by (simp add: host_char_def is_space_def)
  have g: "range_list prefix lo hi = prefix @ CHR ''['' # ?opt @ CHR '']'' # []" by (simp add: range_list_def)
  have o: "index_byte CHR ''['' (range_list prefix lo hi) = Some (length prefix)"
    unfolding g using host_chars_not[OF assms(1)] by (simp add: index_byte_append)
  have d: "drop (length prefix) (range_list prefix lo hi) = (CHR ''['' # ?opt) @ CHR '']'' # []" by (simp add: g)
  have c: "index_byte CHR '']'' (drop (length prefix) (range_list prefix lo hi)) = Some (length ?opt + 1)"
    unfolding d using index_byte_append[of "CHR '']''" "CHR ''['' # ?opt" "[]"] host_chars_not[OF h, of "CHR '']''"] by simp
  have t: "take (length ?opt + 1 + length prefix - (length prefix + 1)) (drop (length prefix + 1) (range_list prefix lo hi)) = ?opt"
    unfolding g by simp
  have s: "split_on CHR '','' ?opt = [?opt]" using host_chars_not[OF h, of "CHR '',''"] by (intro split_on_word) simp
  have v: "for_each (option_values limit) [?opt] [] = Inr ?vals"
    using option_values_range[OF assms(2-4), of "[]"] by simp
  have n: "next_names limit 0 [[]] prefix ?vals = Inr (map (\<lambda>k. prefix @ pad_nat ?w k) [lo..<Suc hi])"
    using next_names_fit[of "[[]]" ?vals 0 limit prefix] assms(2,4) by (simp add: comp_def del: upt_Suc)
  have r: "drop (length ?opt + 1 + length prefix + 1) (range_list prefix lo hi) = []" by (simp add: g)
  have ne: "range_list prefix lo hi \<noteq> []" by (simp add: g)
  have p: "take (length prefix) (range_list prefix lo hi) = prefix" by (simp add: g)
  show ?thesis
    by (subst expand_group.simps)
      (simp only: ne o c t s v n r p Let_def if_False option.case bind_res_simps expand_group.simps[of _ _ "[]"] if_True refl simp_thms)
qed

lemma jobs_loop:
  "for_each job_step response out = Inr js \<Longrightarrow>
   \<exists>new. js = out @ new \<and> map (\<lambda>j. (jb_ID j, jb_State j, jb_Reason j)) new = map (\<lambda>j. (pj_ID (sj_fields j), job_states j, pj_Reason (sj_fields j))) response"
proof (induction response arbitrary: out)
  case (Cons x response)
  then obtain o1 where o1: "job_step x out = Inr o1" "for_each job_step response o1 = Inr js" by (auto split: sum.splits)
  obtain j where j: "o1 = out @ [j]" "(jb_ID j, jb_State j, jb_Reason j) = (pj_ID (sj_fields x), job_states x, pj_Reason (sj_fields x))"
    using o1(1) by (auto simp: job_step_def split: sum.splits)
  obtain new where "js = o1 @ new" "map (\<lambda>j. (jb_ID j, jb_State j, jb_Reason j)) new = map (\<lambda>j. (pj_ID (sj_fields j), job_states j, pj_Reason (sj_fields j))) response"
    using Cons.IH[OF o1(2)] by blast
  then show ?case using j by (intro exI[of _ "j # new"]) simp
qed simp

lemma pending_views:
  "map (\<lambda>j. (jb_ID j, jb_State j, jb_Reason j)) js = map (\<lambda>j. (pj_ID (sj_fields j), job_states j, pj_Reason (sj_fields j))) response \<Longrightarrow>
   map pj_ID (PendingJobs response) = map jb_ID (filter job_Pending js)"
  by (induction js response rule: list_induct2') (auto simp: PendingJobs_def pending_of_def job_Pending_def Let_def)

section \<open>Properties\<close>

text \<open>
  A host list is never expanded to more names than the limit, whatever ranges and nested products it has.
\<close>

theorem hostlist_bounded:
  assumes "expandHostlist v limit = Inr names" "0 \<le> limit"
  shows "int (length names) \<le> limit"
  using assms groups_length[of limit _ "[]" names] by (auto simp: expandHostlist_def bind_res_Inr)

theorem hostlist_bounded_witness:
  "int (length [''a1x3'', ''a1x4'', ''a2x3'', ''a2x4'']) \<le> 4"
proof (rule hostlist_bounded)
  show "expandHostlist ''a[1-2]x[3,4]'' 4 = Inr [''a1x3'', ''a1x4'', ''a2x3'', ''a2x4'']" by code_simp
qed simp

text \<open>
  A range of nodes stands for every number from its start to its end, in order, with the prefix in front
  and padded with zeros to the width of the range: no node of a job is lost or invented.
\<close>

theorem hostlist_range:
  assumes "list_all host_char prefix" "lo \<le> hi" "int hi < 2 ^ 63 - 1" "int (hi - lo) + 1 \<le> limit"
  shows "expandHostlist (range_list prefix lo hi) limit
    = Inr (map (\<lambda>k. prefix @ pad_nat (max (length (show_nat lo)) (length (show_nat hi))) k) [lo..<Suc hi])"
proof -
  let ?out = "map (\<lambda>k. prefix @ pad_nat (max (length (show_nat lo)) (length (show_nat hi))) k) [lo..<Suc hi]"
  have "\<not> int (length ?out) > limit" using assms(2,4) by (simp del: upt_Suc)
  then have "group_step limit (range_list prefix lo hi) [] = Inr ?out"
    unfolding group_step_def list.size expand_range_list[OF assms] by (simp only: bind_res_simps fail_if_simps append_Nil)
  then show ?thesis
    unfolding expandHostlist_def split_range_list[OF assms(1)] by (simp only: bind_res_simps for_each.simps sum.case)
qed

theorem hostlist_range_witness:
  "expandHostlist (range_list ''gpu'' 9 11) 10000
    = Inr (map (\<lambda>k. ''gpu'' @ pad_nat (max (length (show_nat 9)) (length (show_nat 11))) k) [9..<Suc 11])"
  by (rule hostlist_range) (code_simp, simp, simp, simp)

text \<open>
  C39. The limit on a range is checked with 64-bit arithmetic that wraps: the range from 0 to the largest
  integer passes the check for every limit, and its expansion does not return.
\<close>

theorem hostlist_range_diverges:
  assumes "0 \<le> limit"
  shows "expandHostlist ''n[0-9223372036854775807]'' limit = Inl Diverges"
proof -
  have s: "splitHostlist ''n[0-9223372036854775807]'' = Inr [''n[0-9223372036854775807]'']" by code_simp
  have "digits_val 0 ''9223372036854775807'' = 9223372036854775807" by (simp add: digit_val_def code_of_def)
  then have p: "parse_int ''0'' = Some 0" "parse_int ''9223372036854775807'' = Some (2 ^ 63 - 1)"
    by (simp_all add: parse_int_def has_prefix_def is_digit_def digit_val_def code_of_def in_i64_def)
  have sp: "split_on CHR ''-'' ''0-9223372036854775807'' = [''0'', ''9223372036854775807'']" by code_simp
  have w: "\<not> wrap_i64 (2 ^ 63 - 1 - 0 + 1) > limit" using assms by (simp add: wrap_i64_def)
  have r: "range_values n 0 (2 ^ 63 - 1) [] = None" for n by (rule range_values_diverges) (simp add: in_i64_def)
  have o: "option_values limit ''0-9223372036854775807'' [] = Inl Diverges"
    unfolding option_values_def sp Let_def using w by (simp only: p r list.size nth_Cons_0 nth_Cons_Suc One_nat_def prod.case option.case) simp
  have g: "index_byte CHR ''['' ''n[0-9223372036854775807]'' = Some 1"
    "index_byte CHR '']'' (drop 1 ''n[0-9223372036854775807]'') = Some 22"
    "split_on CHR '','' (take (22 + 1 - (1 + 1)) (drop (1 + 1) ''n[0-9223372036854775807]'')) = [''0-9223372036854775807'']"
    by code_simp+
  have "expand_group limit 0 ''n[0-9223372036854775807]'' [[]] = Inl Diverges"
    by (subst expand_group.simps) (simp only: g Let_def option.case for_each.simps o sum.case bind_res_simps list.distinct if_False)
  then show ?thesis
    by (simp only: expandHostlist_def s bind_res_simps for_each.simps group_step_def list.size sum.case)
qed

theorem hostlist_range_diverges_witness: "expandHostlist ''n[0-9223372036854775807]'' 10000 = Inl Diverges"
  by (rule hostlist_range_diverges) simp

text \<open>
  The two views of the queue agree: the jobs that \<^verbatim>\<open>PendingJobs\<close> returns are, in order, exactly the jobs
  of \<^verbatim>\<open>Jobs\<close> that report \<^verbatim>\<open>Pending\<close>, and none of those is terminal.
\<close>

theorem pending_views_agree:
  assumes "slurm_Jobs response = Inr js"
  shows "map pj_ID (PendingJobs response) = map jb_ID (filter job_Pending js) \<and> list_all (\<lambda>j. \<not> (job_Pending j \<and> job_Terminal j)) js"
proof -
  have "map (\<lambda>j. (jb_ID j, jb_State j, jb_Reason j)) js = map (\<lambda>j. (pj_ID (sj_fields j), job_states j, pj_Reason (sj_fields j))) response"
    using jobs_loop[OF assms[unfolded slurm_Jobs_def]] by auto
  then show ?thesis using pending_views by (auto simp: job_Terminal_def list_all_iff)
qed

definition demo_fields :: pending_job where
  "demo_fields = \<lparr>pj_ID = 7, pj_Partition = ''gpu'', pj_Reason = ''Resources'', pj_Requeued = False, pj_Priority = 10, pj_EligibleTime = 0,
     pj_HetJobID = 0, pj_CPUs = 8, pj_NodeCount = 2, pj_Tasks = 2, pj_CPUsPerTask = 4, pj_TasksPerNode = 1, pj_MemoryPerCPU = 0,
     pj_MemoryPerNode = 1024, pj_CPUsPerTRES = [], pj_MemoryPerTRES = [], pj_TRESPerJob = [], pj_TRESPerNode = ''gres/gpu:a100=1'',
     pj_TRESPerSocket = [], pj_TRESPerTask = [], pj_TRESRequested = [], pj_RequiredNodes = [], pj_Features = []\<rparr>"

definition demo_jobs :: "slurm_job list" where
  "demo_jobs = [\<lparr>sj_State = [], sj_JobState = [''PENDING''], sj_HetJobID = 0, sj_Nodes = [], sj_fields = demo_fields\<rparr>,
     \<lparr>sj_State = [''RUNNING''], sj_JobState = [], sj_HetJobID = 0, sj_Nodes = ''w[1-2]'', sj_fields = demo_fields\<lparr>pj_ID := 8\<rparr>\<rparr>]"

definition demo_infos :: "job_info list" where
  "demo_infos = [\<lparr>jb_ID = 7, jb_HetJobID = 0, jb_State = [''PENDING''], jb_Reason = ''Resources'', jb_Nodes = []\<rparr>,
     \<lparr>jb_ID = 8, jb_HetJobID = 0, jb_State = [''RUNNING''], jb_Reason = ''Resources'', jb_Nodes = [''w1'', ''w2'']\<rparr>]"

theorem pending_views_agree_witness:
  "map pj_ID (PendingJobs demo_jobs) = map jb_ID (filter job_Pending demo_infos)
    \<and> list_all (\<lambda>j. \<not> (job_Pending j \<and> job_Terminal j)) demo_infos"
proof (rule pending_views_agree)
  show "slurm_Jobs demo_jobs = Inr demo_infos" by code_simp
qed

end
