(* ===== verification/Cluster_API.thy ===== *)
theory Cluster_API
  imports Go_Prelude
begin

text \<open>
  The custom resource of the operator, \<^verbatim>\<open>src/slurm-operator/api/v1alpha1\<close>. Durations are nanoseconds and
  times are Unix times; the validation rules of the schema are predicates, since the API server enforces them
  before the operator sees an object.
\<close>

record worker_profile =
  wp_Name :: string
  wp_Gres :: string
  wp_DeviceClassName :: string

record scaling_spec =
  sc_MinReady :: int
  sc_MaxWorkers :: int
  sc_IdleTimeout :: int

record worker_pool =
  po_Name :: string
  po_Partition :: string
  po_NodeSelector :: "(string, string) gomap"
  po_MemoryUnit :: string
  po_Scaling :: scaling_spec
  po_Profiles :: "worker_profile list"

record checkpointing_spec =
  ck_ObjectStoreSecretRef :: string

record controllers_spec =
  cs_Image :: string
  cs_StateSaveClaim :: string

record accounting_spec =
  as_DatabaseSecretRef :: string

record login_spec =
  lo_Replicas :: int

record control_plane_spec =
  cp_Controllers :: controllers_spec
  cp_Accounting :: accounting_spec
  cp_Login :: login_spec

record authentication_spec =
  au_MungeKeySecretRef :: string
  au_JWTKeySecretRef :: string

record cluster_spec =
  sp_ControlPlane :: control_plane_spec
  sp_Authentication :: authentication_spec
  sp_Checkpointing :: "checkpointing_spec option"
  sp_WorkerPools :: "worker_pool list"

record pool_status =
  ps_Name :: string
  ps_Ready :: int
  ps_Pending :: int
  ps_Draining :: int

record cluster =
  cl_Name :: string
  cl_Namespace :: string
  cl_Spec :: cluster_spec

section \<open>Validation of the schema\<close>

definition is_dns_char :: "char \<Rightarrow> bool" where
  "is_dns_char c \<longleftrightarrow> is_lower_alnum c \<or> c = CHR ''-''"

definition is_lower_letter :: "char \<Rightarrow> bool" where
  "is_lower_letter c \<longleftrightarrow> 97 \<le> code_of c \<and> code_of c \<le> 122"

definition pool_name_ok :: "string \<Rightarrow> bool" where
  "pool_name_ok s \<longleftrightarrow> s \<noteq> '''' \<and> is_lower_letter (hd s) \<and> list_all is_dns_char s \<and> length s \<le> 63"

definition partition_ok :: "string \<Rightarrow> bool" where
  "partition_ok s \<longleftrightarrow> s \<noteq> '''' \<and> is_lower_letter (hd s) \<and> list_all (\<lambda>c. is_lower_alnum c \<or> c = CHR ''_'') s \<and> length s \<le> 64"

definition scaling_ok :: "scaling_spec \<Rightarrow> bool" where
  "scaling_ok s \<longleftrightarrow> 0 \<le> sc_MinReady s \<and> 1 \<le> sc_MaxWorkers s \<and> sc_MaxWorkers s \<le> 8191 \<and> sc_MinReady s \<le> sc_MaxWorkers s
     \<and> 0 < sc_IdleTimeout s"

definition pools_ok :: "worker_pool list \<Rightarrow> bool" where
  "pools_ok pools \<longleftrightarrow> 1 \<le> length pools \<and> length pools \<le> 8 \<and> distinct (map po_Name pools) \<and> distinct (map po_Partition pools)
     \<and> list_all (\<lambda>p. pool_name_ok (po_Name p) \<and> partition_ok (po_Partition p) \<and> scaling_ok (po_Scaling p)
                   \<and> length (po_Profiles p) \<le> 8 \<and> distinct (map wp_Gres (po_Profiles p))) pools"

end
