(* ===== verification/Demand.thy ===== *)
theory Demand
  imports Slurm_Client Cluster_API "HOL-Library.Product_Lexorder"
begin

text \<open>
  What pending jobs ask for, \<^verbatim>\<open>src/slurm-operator/internal/resources/demand.go\<close>: trackable resources are
  parsed, a job and its pool give the shape of a worker, and the demands are ordered by priority. \<open>pq\<close> is the
  value of \<^verbatim>\<open>resource.ParseQuantity\<close>. Arithmetic wraps at 64 bits as in the code.
\<close>

section \<open>Data\<close>

record footprint =
  fp_CPUs :: int
  fp_MemoryBytes :: int
  fp_SharedMemory :: int

record shape =
  sh_CPUs :: int
  sh_MemoryBytes :: int
  sh_SharedMemoryBytes :: int
  sh_GRES :: "(string, int) gomap"

record demand =
  de_JobID :: nat
  de_GroupID :: nat
  de_PoolName :: string
  de_Count :: int
  de_Shape :: shape

datatype demand_error =
    BadTRES string
  | BadTRESValue string string
  | NonPositiveGRES string
  | NoProfile string
  | BadCPUsPerTRES demand_error
  | BadMemoryPerTRES demand_error
  | BadPoolMemoryUnit string
  | RequiredNodesUnsupported
  | NoWorkerPool string
  | UnsupportedFeature string

section \<open>Trackable resources\<close>

definition divRoundUp :: "int \<Rightarrow> int \<Rightarrow> int" where
  "divRoundUp v divisor = (if v \<le> 0 then 0 else i64_div (wrap_i64 (v + divisor - 1)) divisor)"

definition parseTRESValue :: "(string \<Rightarrow> int option) \<Rightarrow> string \<Rightarrow> string \<Rightarrow> int option" where
  "parseTRESValue pq key raw =
     (if key \<noteq> ''mem'' then parse_int raw
      else if parse_int raw \<noteq> None then pq (raw @ ''Mi'')
      else if length raw < 2 then None
      else let suffix = to_upper [last raw] in
           if \<not> contains_str ''KMGT'' suffix then None else pq (butlast raw @ suffix @ ''i''))"

definition cut_tres :: "string \<Rightarrow> string \<times> string \<times> bool" where
  "cut_tres item =
     (case cut_at CHR ''='' item of
        (key, raw, True) \<Rightarrow> (key, raw, True)
      | (key, raw, False) \<Rightarrow>
          if has_prefix item ''gres/''
          then (case last_index CHR '':'' item of
                  Some i \<Rightarrow> if i > length ''gres/'' then (take i item, drop (i + 1) item, True) else (key, raw, False)
                | None \<Rightarrow> (key, raw, False))
          else (key, raw, False))"

definition tres_key :: "string \<Rightarrow> string" where
  "tres_key key0 =
     (let key = trim_space key0 in if has_prefix key ''gres:'' then ''gres/'' @ trim_prefix key ''gres:'' else key)"

definition tres_item :: "(string \<Rightarrow> int option) \<Rightarrow> string \<Rightarrow> (string, int) gomap \<Rightarrow> demand_error + (string, int) gomap" where
  "tres_item pq raw_item out =
     (let item = trim_space raw_item in
      if item = '''' then Inr out
      else case cut_tres item of (key0, valueRaw, ok) \<Rightarrow>
        if \<not> ok then Inl (BadTRES item)
        else let key = tres_key key0 in
          if key \<noteq> ''cpu'' \<and> key \<noteq> ''mem'' \<and> \<not> has_prefix key ''gres/'' then Inr out
          else (case parseTRESValue pq key (trim_space valueRaw) of
                  None \<Rightarrow> Inl (BadTRESValue key valueRaw)
                | Some v \<Rightarrow> Inr (gm_put key (wrap_i64 (gm_get 0 out key + v)) out)))"

definition parseTRES :: "(string \<Rightarrow> int option) \<Rightarrow> string \<Rightarrow> demand_error + (string, int) gomap" where
  "parseTRES pq raw = for_each (tres_item pq) (split_on CHR '','' raw) []"

section \<open>The shape of a worker\<close>

definition tres_source :: "pending_job \<Rightarrow> int \<Rightarrow> string \<times> int" where
  "tres_source j nodes =
     (if pj_TRESPerNode j \<noteq> '''' then (pj_TRESPerNode j, 1)
      else if pj_TRESPerTask j \<noteq> '''' then (pj_TRESPerTask j, max (max (pj_TasksPerNode j) (divRoundUp (pj_Tasks j) nodes)) 1)
      else if pj_TRESPerSocket j \<noteq> '''' then (pj_TRESPerSocket j, 1)
      else if pj_TRESPerJob j \<noteq> '''' then (pj_TRESPerJob j, - nodes)
      else (pj_TRESRequested j, - nodes))"

type_synonym acc = "int \<times> int \<times> (string, int) gomap"

definition tres_add :: "int \<Rightarrow> string \<times> int \<Rightarrow> acc \<Rightarrow> acc" where
  "tres_add multiplier = (\<lambda>(key, v) (cpus, memory, gres).
     let v' = (if multiplier > 0 then wrap_i64 (v * multiplier) else divRoundUp v (wrap_i64 (- multiplier))) in
     if key = ''cpu'' then (max cpus v', memory, gres)
     else if key = ''mem'' then (cpus, max memory v', gres)
     else if has_prefix key ''gres/'' then
       (let name = trim_prefix key ''gres/'' in (cpus, memory, gm_put name (wrap_i64 (gm_get 0 gres name + v')) gres))
     else (cpus, memory, gres))"

definition base_cpus :: "pending_job \<Rightarrow> int \<Rightarrow> int" where
  "base_cpus j nodes =
     (let cpus = max (max (divRoundUp (pj_CPUs j) nodes) (pj_CPUsPerTask j)) 1 in
      if pj_TasksPerNode j > 0 \<and> pj_CPUsPerTask j > 0 then max cpus (wrap_i64 (pj_TasksPerNode j * pj_CPUsPerTask j)) else cpus)"

definition base_memory :: "pending_job \<Rightarrow> int \<Rightarrow> int" where
  "base_memory j cpus =
     (let memory = wrap_i64 (pj_MemoryPerNode j * 2 ^ 20) in
      if memory = 0 \<and> pj_MemoryPerCPU j > 0 then wrap_i64 (pj_MemoryPerCPU j * cpus * 2 ^ 20) else memory)"

definition gres_step ::
  "worker_profile list \<Rightarrow> (string, footprint) gomap \<Rightarrow> string \<times> int \<Rightarrow> int \<times> int \<times> int \<Rightarrow> demand_error + int \<times> int \<times> int" where
  "gres_step profiles footprints = (\<lambda>(name, count) (cpus, memory, shared).
     fail_if (count < 1) (NonPositiveGRES name)
     (fail_if (\<not> list_ex (\<lambda>p. wp_Gres p = name) profiles) (NoProfile name)
     (case map_of footprints name of
        None \<Rightarrow> Inr (cpus, memory, shared)
      | Some f \<Rightarrow> Inr (max cpus (wrap_i64 (fp_CPUs f * count)),
                     max memory (wrap_i64 (wrap_i64 (fp_MemoryBytes f + fp_SharedMemory f) * count)),
                     wrap_i64 (shared + fp_SharedMemory f * count)))))"

definition constrain :: "(string, int) gomap \<Rightarrow> (string, int) gomap \<Rightarrow> int \<Rightarrow> int" where
  "constrain constraints gres start =
     fold (\<lambda>(name, count) acc. max acc (wrap_i64 (gm_get 0 constraints (''gres/'' @ name) * count))) gres start"

definition shapeFor ::
  "(string \<Rightarrow> int option) \<Rightarrow> pending_job \<Rightarrow> worker_pool \<Rightarrow> (string, footprint) gomap \<Rightarrow> demand_error + shape" where
  "shapeFor pq j pool footprints =
     (let nodes = max (pj_NodeCount j) 1;
          cpus0 = base_cpus j nodes;
          memory0 = base_memory j cpus0;
          (source, multiplier) = tres_source j nodes in
      bind_res (parseTRES pq source) (\<lambda>vals.
      let (cpus1, memory1, gres) = fold (tres_add multiplier) vals (cpus0, memory0, []) in
      bind_res (for_each (gres_step (po_Profiles pool) footprints) gres (cpus1, memory1, 0)) (\<lambda>(cpus2, memory2, shared).
      bind_res (case parseTRES pq (pj_CPUsPerTRES j) of Inl e \<Rightarrow> Inl (BadCPUsPerTRES e) | Inr c \<Rightarrow> Inr (constrain c gres cpus2)) (\<lambda>cpus3.
      bind_res (case parseTRES pq (pj_MemoryPerTRES j) of Inl e \<Rightarrow> Inl (BadMemoryPerTRES e) | Inr c \<Rightarrow> Inr (constrain c gres memory2)) (\<lambda>memory3.
      (case pq (po_MemoryUnit pool) of None \<Rightarrow> Inl (BadPoolMemoryUnit (po_MemoryUnit pool))
       | Some unit \<Rightarrow>
           fail_if (unit < 1) (BadPoolMemoryUnit (po_MemoryUnit pool))
           (Inr \<lparr>sh_CPUs = cpus3, sh_MemoryBytes = max memory3 unit, sh_SharedMemoryBytes = shared, sh_GRES = gres\<rparr>)))))))"

section \<open>Demands\<close>

definition demand_normalize :: "string \<Rightarrow> string" where
  "demand_normalize v = join_with ''_'' (fields_func (\<lambda>c. \<not> is_lower_alnum c) (to_lower v))"

definition job_key :: "pending_job \<Rightarrow> int \<times> int \<times> nat" where
  "job_key j = (- pj_Priority j, pj_EligibleTime j, pj_ID j)"

definition wants_workers :: "pending_job \<Rightarrow> bool" where
  "wants_workers j \<longleftrightarrow> pj_Requeued j \<or> List.member [''Resources'', ''ReqNodeNotAvail'', ''PartitionConfig''] (pj_Reason j)"

definition partition_pools :: "worker_pool list \<Rightarrow> (string, worker_pool) gomap" where
  "partition_pools pools = fold (\<lambda>p. gm_put (po_Partition p) p) pools []"

definition demand_of ::
  "(string \<Rightarrow> int option) \<Rightarrow> (string, worker_pool) gomap \<Rightarrow> (string, footprint) gomap \<Rightarrow> pending_job \<Rightarrow> demand_error + demand" where
  "demand_of pq byPartition footprints j =
     fail_if (pj_RequiredNodes j \<noteq> '''') RequiredNodesUnsupported
     (case map_of byPartition (pj_Partition j) of
        None \<Rightarrow> Inl (NoWorkerPool (pj_Partition j))
      | Some pool \<Rightarrow>
          fail_if (pj_Features j \<noteq> '''' \<and> pj_Features j \<noteq> ''pool_'' @ demand_normalize (po_Name pool)) (UnsupportedFeature (pj_Features j))
          (bind_res (shapeFor pq j pool footprints) (\<lambda>sh.
           Inr \<lparr>de_JobID = pj_ID j, de_GroupID = (if pj_HetJobID j = 0 then pj_ID j else pj_HetJobID j), de_PoolName = po_Name pool,
                de_Count = max (pj_NodeCount j) 1, de_Shape = sh\<rparr>)))"

definition demand_step ::
  "(string \<Rightarrow> int option) \<Rightarrow> (string, worker_pool) gomap \<Rightarrow> (string, footprint) gomap \<Rightarrow> pending_job \<Rightarrow>
   demand list \<times> (nat \<times> demand_error) list \<Rightarrow> demand list \<times> (nat \<times> demand_error) list" where
  "demand_step pq byPartition footprints j = (\<lambda>(out, rejected).
     if \<not> wants_workers j then (out, rejected)
     else (case demand_of pq byPartition footprints j of
             Inl e \<Rightarrow> (out, rejected @ [(pj_ID j, e)]) | Inr d \<Rightarrow> (out @ [d], rejected)))"

definition Demands ::
  "(string \<Rightarrow> int option) \<Rightarrow> pending_job list \<Rightarrow> worker_pool list \<Rightarrow> (string, footprint) gomap \<Rightarrow>
   demand list \<times> (nat \<times> demand_error) list" where
  "Demands pq jobs pools footprints =
     fold (demand_step pq (partition_pools pools) footprints) (sort_key job_key jobs) ([], [])"

end
