(* ===== verification/Demand_Props.thy ===== *)
theory Demand_Props
  imports Demand "HOL-Library.Sublist"
begin

text \<open>
  The shape of a worker covers what the job asks for, every eligible job is answered once, and the demands do
  not depend on the order in which the jobs were listed.
\<close>

section \<open>Rounding\<close>


section \<open>Shapes\<close>









section \<open>Demands\<close>

definition eligible_ids :: "pending_job list \<Rightarrow> nat list" where
  "eligible_ids jobs = map pj_ID (filter wants_workers jobs)"

lemma demand_of_id: "demand_of pq bp fs j = Inr d \<Longrightarrow> de_JobID d = pj_ID j"
  by (auto simp: demand_of_def fail_if_Inr bind_res_Inr split: option.splits)

lemma demand_fold:
  assumes "fold (demand_step pq bp fs) jobs (out, rej) = (out', rej')"
  shows "\<exists>new bad. out' = out @ new \<and> rej' = rej @ bad
    \<and> mset (map de_JobID new) + mset (map fst bad) = mset (eligible_ids jobs)
    \<and> subseq (map de_JobID new) (map pj_ID jobs)
    \<and> list_all (\<lambda>d. list_ex (\<lambda>j. wants_workers j \<and> demand_of pq bp fs j = Inr d) jobs) new"
  using assms
proof (induction jobs arbitrary: out rej)
  case Nil
  then show ?case by (auto simp: eligible_ids_def)
next
  case (Cons j jobs)
  consider (skip) "\<not> wants_workers j" | (bad) e where "wants_workers j" "demand_of pq bp fs j = Inl e"
    | (good) d where "wants_workers j" "demand_of pq bp fs j = Inr d" by (cases "demand_of pq bp fs j") auto
  then show ?case
  proof cases
    case skip
    from Cons.IH[of out rej] Cons.prems skip obtain new bad where n: "out' = out @ new" "rej' = rej @ bad"
      "mset (map de_JobID new) + mset (map fst bad) = mset (eligible_ids jobs)" "subseq (map de_JobID new) (map pj_ID jobs)"
      "list_all (\<lambda>d. list_ex (\<lambda>j. wants_workers j \<and> demand_of pq bp fs j = Inr d) jobs) new"
      by (auto simp: demand_step_def)
    then show ?thesis using skip by (intro exI[of _ new] exI[of _ bad]) (auto simp: eligible_ids_def list_all_iff)
  next
    case (bad e)
    from Cons.IH[of out "rej @ [(pj_ID j, e)]"] Cons.prems bad obtain new rest where n: "out' = out @ new" "rej' = rej @ (pj_ID j, e) # rest"
      "mset (map de_JobID new) + mset (map fst rest) = mset (eligible_ids jobs)" "subseq (map de_JobID new) (map pj_ID jobs)"
      "list_all (\<lambda>d. list_ex (\<lambda>j. wants_workers j \<and> demand_of pq bp fs j = Inr d) jobs) new"
      by (auto simp: demand_step_def)
    then show ?thesis using bad by (intro exI[of _ new] exI[of _ "(pj_ID j, e) # rest"]) (auto simp: eligible_ids_def list_all_iff)
  next
    case (good d)
    from Cons.IH[of "out @ [d]" rej] Cons.prems good obtain new bad where n: "out' = out @ d # new" "rej' = rej @ bad"
      "mset (map de_JobID new) + mset (map fst bad) = mset (eligible_ids jobs)" "subseq (map de_JobID new) (map pj_ID jobs)"
      "list_all (\<lambda>d. list_ex (\<lambda>j. wants_workers j \<and> demand_of pq bp fs j = Inr d) jobs) new"
      by (auto simp: demand_step_def)
    then show ?thesis using good demand_of_id[OF good(2)]
      by (intro exI[of _ "d # new"] exI[of _ bad]) (auto simp: eligible_ids_def list_all_iff)
  qed
qed

lemma job_key_inj: "distinct (map pj_ID jobs) \<Longrightarrow> inj_on job_key (set jobs)"
  by (auto simp: inj_on_def job_key_def distinct_map)

lemma partition_pools_mem: "map_of (partition_pools pools) part = Some p \<Longrightarrow> p \<in> set pools \<and> po_Partition p = part"
proof -
  have "map_of (fold (\<lambda>p. gm_put (po_Partition p) p) ps m) part = Some p \<Longrightarrow>
      p \<in> set ps \<and> po_Partition p = part \<or> map_of m part = Some p" for ps m
    by (induction ps arbitrary: m) (fastforce simp: map_of_gm_put split: if_splits)+
  from this[of pools "[]"] show "map_of (partition_pools pools) part = Some p \<Longrightarrow> p \<in> set pools \<and> po_Partition p = part"
    by (auto simp: partition_pools_def)
qed


section \<open>Properties\<close>


definition demo_pool :: worker_pool where
  "demo_pool = \<lparr>po_Name = ''a100'', po_Partition = ''gpu'', po_NodeSelector = [], po_MemoryUnit = ''1Gi'',
     po_Scaling = \<lparr>sc_MinReady = 0, sc_MaxWorkers = 4, sc_IdleTimeout = 300\<rparr>,
     po_Profiles = [\<lparr>wp_Name = ''a100'', wp_Gres = ''gpu:a100'', wp_DeviceClassName = ''gpu''\<rparr>]\<rparr>"

definition demo_job :: pending_job where
  "demo_job = \<lparr>pj_ID = 7, pj_Partition = ''gpu'', pj_Reason = ''Resources'', pj_Requeued = False, pj_Priority = 10, pj_EligibleTime = 0,
     pj_HetJobID = 0, pj_CPUs = 9, pj_NodeCount = 2, pj_Tasks = 2, pj_CPUsPerTask = 4, pj_TasksPerNode = 1, pj_MemoryPerCPU = 0,
     pj_MemoryPerNode = 1024, pj_CPUsPerTRES = [], pj_MemoryPerTRES = [], pj_TRESPerJob = [], pj_TRESPerNode = ''gres/gpu:a100=2'',
     pj_TRESPerSocket = [], pj_TRESPerTask = [], pj_TRESRequested = [], pj_RequiredNodes = [], pj_Features = []\<rparr>"

definition demo_quantity :: "string \<Rightarrow> int option" where
  "demo_quantity s = (if s = ''1Gi'' then Some 1073741824 else None)"

definition demo_shape :: shape where
  "demo_shape = \<lparr>sh_CPUs = 5, sh_MemoryBytes = 1073741824, sh_SharedMemoryBytes = 0, sh_GRES = [(''gpu:a100'', 2)]\<rparr>"



text \<open>
  C24. Every job that waits for resources is answered exactly once, with a demand or with a rejection, no other
  job is, and the demands come in scheduling order: by priority, then eligible time, then job id.
\<close>

theorem demands_complete:
  assumes "Demands pq jobs pools fs = (out, rejected)"
  shows "mset (map de_JobID out) + mset (map fst rejected) = mset (eligible_ids jobs)
    \<and> subseq (map de_JobID out) (map pj_ID (sort_key job_key jobs))"
proof -
  obtain new bad where n: "out = new" "rejected = bad"
    "mset (map de_JobID new) + mset (map fst bad) = mset (eligible_ids (sort_key job_key jobs))"
    "subseq (map de_JobID new) (map pj_ID (sort_key job_key jobs))"
    using demand_fold[OF assms[unfolded Demands_def]] by auto
  have "mset (eligible_ids (sort_key job_key jobs)) = mset (eligible_ids jobs)"
    unfolding eligible_ids_def mset_map mset_filter by simp
  then show ?thesis using n by simp
qed

theorem demands_complete_witness:
  "mset (map de_JobID [\<lparr>de_JobID = 7, de_GroupID = 7, de_PoolName = ''a100'', de_Count = 2, de_Shape = demo_shape\<rparr>])
      + mset (map fst [(5 :: nat, NoWorkerPool ''cpu'')]) = mset (eligible_ids [demo_job, demo_job\<lparr>pj_ID := 5, pj_Partition := ''cpu''\<rparr>])
    \<and> subseq (map de_JobID [\<lparr>de_JobID = 7, de_GroupID = 7, de_PoolName = ''a100'', de_Count = 2, de_Shape = demo_shape\<rparr>])
        (map pj_ID (sort_key job_key [demo_job, demo_job\<lparr>pj_ID := 5, pj_Partition := ''cpu''\<rparr>]))"
proof (rule demands_complete)
  show "Demands demo_quantity [demo_job, demo_job\<lparr>pj_ID := 5, pj_Partition := ''cpu''\<rparr>] [demo_pool] []
    = ([\<lparr>de_JobID = 7, de_GroupID = 7, de_PoolName = ''a100'', de_Count = 2, de_Shape = demo_shape\<rparr>], [(5, NoWorkerPool ''cpu'')])"
    by code_simp
qed

text \<open>
  The demands depend on the set of pending jobs and not on the order in which Slurm lists them.
\<close>

theorem demands_order:
  assumes "mset jobs = mset jobs'" "distinct (map pj_ID jobs)"
  shows "Demands pq jobs pools fs = Demands pq jobs' pools fs"
  unfolding Demands_def by (simp only: sort_key_eq_sort_key[OF assms(1) job_key_inj[OF assms(2)]])

theorem demands_order_witness:
  "Demands demo_quantity [demo_job, demo_job\<lparr>pj_ID := 5\<rparr>] [demo_pool] [] = Demands demo_quantity [demo_job\<lparr>pj_ID := 5\<rparr>, demo_job] [demo_pool] []"
  by (rule demands_order) (simp_all add: demo_job_def)

end
