(* ===== verification/Render.thy ===== *)
theory Render
  imports Demand
begin

text \<open>
  The Slurm configuration of a cluster, \<^verbatim>\<open>src/slurm-operator/internal/render/slurm.go\<close>, as the text the
  operator writes. \<open>pq\<close> is the value of \<^verbatim>\<open>resource.MustParse\<close>, which panics on \<open>None\<close>; \<open>maxSize\<close> is the limit
  \<^verbatim>\<open>AllocationResultsMaxSize\<close> of the resource API.
\<close>

definition SlurmctldPort :: nat where "SlurmctldPort = 6817"
definition SlurmdPort :: nat where "SlurmdPort = 6818"
definition SlurmdbdPort :: nat where "SlurmdbdPort = 6819"
definition SlurmRESTPort :: nat where "SlurmRESTPort = 6820"

record slurm_files =
  sf_SlurmConf :: string
  sf_GRESConf :: string
  sf_CgroupConf :: string

definition newline :: string where "newline = [CHR 0x0A]"

definition conf_line :: "string \<Rightarrow> string \<Rightarrow> string" where
  "conf_line key v = key @ ''='' @ v @ newline"

definition sorted_keys :: "string list \<Rightarrow> string list" where
  "sorted_keys ks = sorted_list_of_set (set ks)"

definition wrap_i32 :: "int \<Rightarrow> int" where
  "wrap_i32 n = (n + 2 ^ 31) mod 2 ^ 32 - 2 ^ 31"

definition max_nodes :: "worker_pool list \<Rightarrow> int" where
  "max_nodes pools = fold (\<lambda>p n. let n1 = wrap_i32 (n + sc_MaxWorkers (po_Scaling p)) in
     if po_Profiles p \<noteq> [] then wrap_i32 (n1 + 1) else n1) pools 0"

definition gres_kind :: "worker_profile \<Rightarrow> string" where
  "gres_kind p = fst (cut_at CHR '':'' (wp_Gres p))"

definition all_profiles :: "worker_pool list \<Rightarrow> worker_profile list" where
  "all_profiles pools = concat (map po_Profiles pools)"

definition host_line :: "string \<Rightarrow> string \<Rightarrow> nat \<Rightarrow> string" where
  "host_line name namespace ordinal =
     (let host = name @ ''-slurmctld-'' @ show_nat ordinal in
      conf_line ''SlurmctldHost'' (host @ ''('' @ host @ ''.'' @ name @ ''-slurmctld.'' @ namespace @ ''.svc)''))"

definition fixed_lines :: "string \<Rightarrow> string \<Rightarrow> int \<Rightarrow> string" where
  "fixed_lines name namespace maxNodes =
     conf_line ''SlurmctldPort'' (show_nat SlurmctldPort) @ conf_line ''SlurmctldTimeout'' ''30''
     @ conf_line ''SlurmdPort'' (show_nat SlurmdPort) @ conf_line ''SlurmUser'' ''slurm''
     @ conf_line ''StateSaveLocation'' ''/var/lib/slurmctld'' @ conf_line ''SlurmdSpoolDir'' ''/var/lib/slurmd''
     @ conf_line ''AuthType'' ''auth/munge'' @ conf_line ''AuthInfo'' ''/run/munge/munge.socket.2''
     @ conf_line ''AuthAltTypes'' ''auth/jwt''
     @ conf_line ''AuthAltParameters'' ''jwt_key=/run/secrets/slurm/jwt_hs256.key,disable_token_creation''
     @ conf_line ''CredType'' ''cred/munge'' @ conf_line ''SelectType'' ''select/cons_tres''
     @ conf_line ''SelectTypeParameters'' ''CR_Core_Memory'' @ conf_line ''TaskPlugin'' ''task/cgroup,task/affinity''
     @ conf_line ''TaskProlog'' ''/etc/slurm/task-prolog'' @ conf_line ''ProctrackType'' ''proctrack/cgroup''
     @ conf_line ''SchedulerType'' ''sched/backfill'' @ conf_line ''SchedulerParameters'' ''bf_hetjob_immediate,bf_hetjob_prio=min''
     @ conf_line ''SlurmctldParameters'' ''enable_configless,reconfig_on_restart''
     @ conf_line ''AccountingStorageType'' ''accounting_storage/slurmdbd''
     @ conf_line ''AccountingStorageHost'' (name @ ''-slurmdbd.'' @ namespace @ ''.svc'')
     @ conf_line ''AccountingStoragePort'' (show_nat SlurmdbdPort) @ conf_line ''JobAcctGatherType'' ''jobacct_gather/none''
     @ conf_line ''ReturnToService'' ''2'' @ conf_line ''TreeWidth'' ''65533'' @ conf_line ''MaxNodeCount'' (show_int maxNodes)"

definition gres_lines :: "worker_profile list \<Rightarrow> string" where
  "gres_lines profiles =
     (let types = sorted_keys (map gres_kind profiles) in
      if types \<noteq> [] then
        conf_line ''GresTypes'' (join_with '','' types)
        @ conf_line ''AccountingStorageTRES''
            (join_with '','' (sorted_keys (concat (map (\<lambda>p. [''gres/'' @ gres_kind p, ''gres/'' @ wp_Gres p]) profiles))))
      else '''')"

definition node_set :: "worker_pool \<Rightarrow> string" where
  "node_set p = ''pool_'' @ replace_all (po_Name p) ''-'' ''_''"

definition catalog_line :: "nat \<Rightarrow> worker_pool \<Rightarrow> string" where
  "catalog_line maxSize p =
     (if po_Profiles p \<noteq> [] then
        conf_line ''NodeName'' (''catalog_'' @ node_set p @ '' CPUs='' @ show_nat maxSize
          @ '' Boards=1 SocketsPerBoard=1 CoresPerSocket='' @ show_nat maxSize @ '' ThreadsPerCore=1 RealMemory=''
          @ show_nat ((2 ^ 63 - 1) div 2 ^ 20) @ '' Gres=''
          @ join_with '','' (sort (map (\<lambda>q. wp_Gres q @ '':'' @ show_nat maxSize) (po_Profiles p)))
          @ '' Feature='' @ node_set p @ '' State=FUTURE'')
      else '''')"

definition pool_lines :: "(string \<Rightarrow> int option) \<Rightarrow> nat \<Rightarrow> nat \<times> worker_pool \<Rightarrow> string option" where
  "pool_lines pq maxSize = (\<lambda>(i, p).
     case pq (po_MemoryUnit p) of None \<Rightarrow> None
     | Some unit \<Rightarrow> Some (catalog_line maxSize p @ conf_line ''NodeSet'' (node_set p @ '' Feature='' @ node_set p)
         @ conf_line ''PartitionName'' (po_Partition p @ '' Nodes='' @ node_set p @ '' State=UP DefMemPerNode=''
             @ show_int (unit div 2 ^ 20) @ (if i = 0 then '' Default=YES'' else ''''))))"

fun all_lines :: "('a \<Rightarrow> string option) \<Rightarrow> 'a list \<Rightarrow> string option" where
  "all_lines f [] = Some ''''"
| "all_lines f (x # xs) =
     (case f x of None \<Rightarrow> None | Some s \<Rightarrow> map_option (\<lambda>rest. s @ rest) (all_lines f xs))"

definition gres_conf_line :: "string \<Rightarrow> string" where
  "gres_conf_line profile = (case cut_at CHR '':'' profile of (name, profileType, found) \<Rightarrow>
     ''Name='' @ name @ '' Type='' @ profileType @ '' Count=0 Flags=CountOnly'' @ newline)"

definition render_Slurm :: "(string \<Rightarrow> int option) \<Rightarrow> nat \<Rightarrow> cluster \<Rightarrow> slurm_files option" where
  "render_Slurm pq maxSize c =
     (let name = cl_Name c; namespace = cl_Namespace c;
          pools = sort_key po_Partition (sp_WorkerPools (cl_Spec c));
          profiles = all_profiles pools in
      map_option (\<lambda>pool_text.
        \<lparr>sf_SlurmConf = conf_line ''ClusterName'' name @ host_line name namespace 0 @ host_line name namespace 1
             @ fixed_lines name namespace (max_nodes pools) @ gres_lines profiles @ pool_text,
         sf_GRESConf = concat (map gres_conf_line (sorted_keys (map wp_Gres profiles))),
         sf_CgroupConf = concat (map (\<lambda>l. l @ newline)
           [''CgroupPlugin=autodetect'', ''IgnoreSystemd=yes'', ''ConstrainCores=yes'', ''ConstrainRAMSpace=yes'', ''ConstrainDevices=yes''])\<rparr>)
        (all_lines (pool_lines pq maxSize) (enumerate 0 pools)))"

end
