(* ===== verification/Render_Props.thy ===== *)
theory Render_Props
  imports Render Demand_Props
begin

text \<open>
  The rendered configuration does not depend on the order of the pools, its node limit is exact and within
  the limit of Slurm, and the feature of a node set is the one that demands accept.
\<close>

section \<open>Node limit\<close>

definition pool_nodes :: "worker_pool \<Rightarrow> int" where
  "pool_nodes p = sc_MaxWorkers (po_Scaling p) + (if po_Profiles p \<noteq> [] then 1 else 0)"

definition small_pool :: "worker_pool \<Rightarrow> bool" where
  "small_pool p \<longleftrightarrow> 0 \<le> sc_MaxWorkers (po_Scaling p) \<and> sc_MaxWorkers (po_Scaling p) \<le> 8191"

lemma small_pool_nodes: "small_pool p \<Longrightarrow> 0 \<le> pool_nodes p \<and> pool_nodes p \<le> 8192"
  by (auto simp: small_pool_def pool_nodes_def)

lemma pool_nodes_sum: "list_all small_pool ps \<Longrightarrow> sum_list (map pool_nodes ps) \<le> 8192 * int (length ps)"
  using small_pool_nodes by (induction ps) fastforce+

lemma max_nodes_step:
  assumes "small_pool p" "0 \<le> n" "n \<le> 65536"
  shows "(let n1 = wrap_i32 (n + sc_MaxWorkers (po_Scaling p)) in if po_Profiles p \<noteq> [] then wrap_i32 (n1 + 1) else n1) = n + pool_nodes p"
  using assms by (simp add: small_pool_def pool_nodes_def wrap_i32_def Let_def)

lemma max_nodes_fold:
  "list_all small_pool ps \<Longrightarrow> 0 \<le> n \<Longrightarrow> n + 8192 * int (length ps) \<le> 65536 \<Longrightarrow>
   fold (\<lambda>p n. let n1 = wrap_i32 (n + sc_MaxWorkers (po_Scaling p)) in if po_Profiles p \<noteq> [] then wrap_i32 (n1 + 1) else n1) ps n
     = n + sum_list (map pool_nodes ps)"
proof (induction ps arbitrary: n)
  case (Cons p ps)
  have p: "small_pool p" "0 \<le> n + pool_nodes p" "n + pool_nodes p + 8192 * int (length ps) \<le> 65536"
    using Cons.prems small_pool_nodes[of p] by auto
  then show ?case using Cons.IH[OF _ p(2,3)] Cons.prems by (simp add: max_nodes_step)
qed simp

section \<open>Feature names\<close>

lemma replace_char: "replace_all s [c] [d] = join_with [d] (split_on c s)"
proof (induction s)
  case (Cons x s)
  obtain w ws where ws: "split_on c s = w # ws" by (cases "split_on c s") simp_all
  show ?case
  proof (cases "x = c")
    case True
    then show ?thesis using Cons by (simp add: ws has_prefix_def)
  next
    case False
    then show ?thesis using Cons by (cases ws) (simp_all add: ws has_prefix_def)
  qed
qed simp

lemma fields_aux_split:
  assumes "p c" "\<And>x. x \<in> set s \<Longrightarrow> p x \<longleftrightarrow> x = c"
  shows "fields_aux p acc s = filter (\<lambda>w. w \<noteq> []) ((rev acc @ hd (split_on c s)) # tl (split_on c s))"
  using assms(2)
proof (induction s arbitrary: acc)
  case (Cons x s)
  obtain w ws where ws: "split_on c s = w # ws" by (cases "split_on c s") simp_all
  show ?case
  proof (cases "x = c")
    case True
    then show ?thesis using Cons.IH[of "[]"] Cons.prems assms(1) by (simp add: ws)
  next
    case False
    then show ?thesis using Cons.IH[of "x # acc"] Cons.prems by (simp add: ws)
  qed
qed simp

lemma length_join: "ws \<noteq> [] \<Longrightarrow> length (join_with [d] ws) + 1 = sum_list (map length ws) + length ws"
  by (induction "[d]" ws rule: join_with.induct) simp_all

lemma join_filter_eq:
  assumes "ws \<noteq> []" "hd ws \<noteq> []"
  shows "join_with [d] (filter (\<lambda>w. w \<noteq> []) ws) = join_with [d] ws \<longleftrightarrow> [] \<notin> set ws"
proof
  assume e: "join_with [d] (filter (\<lambda>w. w \<noteq> []) ws) = join_with [d] ws"
  have n: "filter (\<lambda>w. w \<noteq> []) ws \<noteq> []" using assms by (cases ws) auto
  have "sum_list (map length (filter (\<lambda>w. w \<noteq> []) us)) = sum_list (map length us)" for us :: "string list" by (induction us) auto
  then have "length (filter (\<lambda>w. w \<noteq> []) ws) = length ws" using length_join[OF n, of d] length_join[OF assms(1), of d] e by simp
  then show "[] \<notin> set ws" using length_filter_less[of "[]" ws "\<lambda>w. w \<noteq> []"] by auto
next
  assume "[] \<notin> set ws"
  then have "filter (\<lambda>w. w \<noteq> []) ws = ws" by (auto simp: filter_id_conv)
  then show "join_with [d] (filter (\<lambda>w. w \<noteq> []) ws) = join_with [d] ws" by simp
qed

lemma dns_lower: "list_all is_dns_char s \<Longrightarrow> to_lower s = s"
  unfolding to_lower_def by (rule map_idI) (auto simp: list_all_iff is_dns_char_def is_lower_alnum_def lower_char_def code_of_def)

lemma feature_parts:
  assumes "pool_name_ok name"
  shows "demand_normalize name = join_with ''_'' (filter (\<lambda>w. w \<noteq> []) (split_on CHR ''-'' name))"
    "replace_all name ''-'' ''_'' = join_with ''_'' (split_on CHR ''-'' name)" "hd (split_on CHR ''-'' name) \<noteq> []"
proof -
  have d: "list_all is_dns_char name" and l: "name \<noteq> []" "is_lower_letter (hd name)" using assms by (simp_all add: pool_name_ok_def)
  have m: "\<not> is_lower_alnum (CHR ''-'')" by code_simp
  have "fields_func (\<lambda>c. \<not> is_lower_alnum c) name = filter (\<lambda>w. w \<noteq> []) (split_on CHR ''-'' name)"
    using fields_aux_split[of "\<lambda>c. \<not> is_lower_alnum c" "CHR ''-''" name "[]"] d m
    by (auto simp: fields_func_def list_all_iff is_dns_char_def)
  then show "demand_normalize name = join_with ''_'' (filter (\<lambda>w. w \<noteq> []) (split_on CHR ''-'' name))"
    by (simp add: demand_normalize_def dns_lower[OF d])
  show "replace_all name ''-'' ''_'' = join_with ''_'' (split_on CHR ''-'' name)" by (rule replace_char)
  have "hd name \<noteq> CHR ''-''" using l(2) by (auto simp: is_lower_letter_def code_of_def)
  then show "hd (split_on CHR ''-'' name) \<noteq> []" using l(1) by (cases name) (auto split: list.splits)
qed

section \<open>Properties\<close>

text \<open>
  The rendered files do not depend on the order in which the cluster lists its pools: pools with the same
  specifications give the same configuration, so a reordering does not restart the controllers.
\<close>

theorem render_order:
  assumes "mset (sp_WorkerPools (cl_Spec c)) = mset pools" "distinct (map po_Partition pools)"
  shows "render_Slurm pq maxSize (c\<lparr>cl_Spec := (cl_Spec c)\<lparr>sp_WorkerPools := pools\<rparr>\<rparr>) = render_Slurm pq maxSize c"
proof -
  have "inj_on po_Partition (set pools)" using assms(2) by (simp add: distinct_map)
  then have "sort_key po_Partition pools = sort_key po_Partition (sp_WorkerPools (cl_Spec c))"
    using sort_key_eq_sort_key[OF assms(1)[symmetric]] by blast
  then show ?thesis by (simp add: render_Slurm_def)
qed

definition demo_cluster :: cluster where
  "demo_cluster = \<lparr>cl_Name = ''c'', cl_Namespace = ''ns'', cl_Spec = \<lparr>sp_ControlPlane = \<lparr>cp_Controllers = \<lparr>cs_Image = ''i'', cs_StateSaveClaim = ''s''\<rparr>,
     cp_Accounting = \<lparr>as_DatabaseSecretRef = ''d''\<rparr>, cp_Login = \<lparr>lo_Replicas = 1\<rparr>\<rparr>,
     sp_Authentication = \<lparr>au_MungeKeySecretRef = ''m'', au_JWTKeySecretRef = ''j''\<rparr>, sp_Checkpointing = None,
     sp_WorkerPools = [demo_pool, demo_pool\<lparr>po_Name := ''cpu'', po_Partition := ''cpu''\<rparr>]\<rparr>\<rparr>"

theorem render_order_witness:
  "render_Slurm demo_quantity 32 (demo_cluster\<lparr>cl_Spec := (cl_Spec demo_cluster)\<lparr>sp_WorkerPools := [demo_pool\<lparr>po_Name := ''cpu'', po_Partition := ''cpu''\<rparr>, demo_pool]\<rparr>\<rparr>)
    = render_Slurm demo_quantity 32 demo_cluster"
  by (rule render_order) (simp_all add: demo_cluster_def demo_pool_def)

text \<open>
  C32. For a cluster that the schema admits, \<^verbatim>\<open>MaxNodeCount\<close> is exactly the sum of the worker limits plus one
  catalog node per pool with profiles, computed without overflow of the 32-bit counter, and is at most 65536.
\<close>

theorem max_nodes_exact:
  assumes "pools_ok pools"
  shows "max_nodes pools = sum_list (map pool_nodes pools) \<and> max_nodes pools \<le> 65536"
proof -
  have p: "list_all small_pool pools" "length pools \<le> 8"
    using assms by (auto simp: pools_ok_def scaling_ok_def small_pool_def list_all_iff)
  have "max_nodes pools = sum_list (map pool_nodes pools)" using max_nodes_fold[OF p(1), of 0] p(2) by (simp add: max_nodes_def)
  then show ?thesis using pool_nodes_sum[OF p(1)] p(2) by simp
qed

theorem max_nodes_exact_witness:
  "max_nodes [demo_pool] = sum_list (map pool_nodes [demo_pool]) \<and> max_nodes [demo_pool] \<le> 65536"
  by (rule max_nodes_exact) code_simp

text \<open>
  C33. A job may name the feature of its pool: the feature that the demand calculation accepts is the name of
  the node set that is rendered for the pool, exactly when no part of the pool name between dashes is empty.
  The schema also admits names such as \<^verbatim>\<open>a--b\<close> and \<^verbatim>\<open>a-\<close>, for which the two differ.
\<close>

theorem pool_feature_agrees:
  assumes "pool_name_ok (po_Name p)"
  shows "''pool_'' @ demand_normalize (po_Name p) = node_set p \<longleftrightarrow> [] \<notin> set (split_on CHR ''-'' (po_Name p))"
  using join_filter_eq[OF split_on_ne feature_parts(3)[OF assms], of "CHR ''_''"] feature_parts(1,2)[OF assms]
  by (simp add: node_set_def)

theorem pool_feature_agrees_witness:
  "''pool_'' @ demand_normalize (po_Name (demo_pool\<lparr>po_Name := ''a--b''\<rparr>)) = node_set (demo_pool\<lparr>po_Name := ''a--b''\<rparr>)
    \<longleftrightarrow> [] \<notin> set (split_on CHR ''-'' (po_Name (demo_pool\<lparr>po_Name := ''a--b''\<rparr>)))"
  by (rule pool_feature_agrees) code_simp

end
