(* ===== verification/Kube.thy ===== *)
theory Kube
  imports Cluster_API Render
begin

text \<open>
  The Kubernetes objects the operator writes, and the helpers of \<^verbatim>\<open>controllers/cluster_controller.go\<close> that
  build names, labels, volumes, containers and probes. Fields that the operator leaves at their zero value are
  not listed.
\<close>

section \<open>Objects\<close>

datatype env_source = EnvValue string | EnvField string | EnvSecret string string

record env_var =
  ev_Name :: string
  ev_From :: env_source

record volume_mount =
  vm_Name :: string
  vm_MountPath :: string
  vm_SubPath :: string
  vm_ReadOnly :: bool

datatype volume_source =
    EmptyDir
  | MemoryDir int
  | SecretVolume string "(string \<times> string \<times> nat) list"
  | ConfigMapVolume string
  | ClaimVolume string
  | HostPath string string

record volume =
  vo_Name :: string
  vo_Source :: volume_source

datatype probe_handler = ExecHandler "string list" | TcpHandler nat

record probe =
  pb_Handler :: probe_handler
  pb_InitialDelaySeconds :: nat
  pb_PeriodSeconds :: nat
  pb_TimeoutSeconds :: nat
  pb_FailureThreshold :: nat

datatype quantity = QInt int | QStr string
datatype container_security = DefaultSecurity | Privileged | Restricted
datatype pod_security = NoPodSecurity | FSGroup int | RunAs int int

record container =
  ct_Name :: string
  ct_Image :: string
  ct_Command :: "string list"
  ct_Args :: "string list"
  ct_Env :: "env_var list"
  ct_Ports :: "(string \<times> nat) list"
  ct_Mounts :: "volume_mount list"
  ct_Resources :: "(quantity \<times> quantity) option"
  ct_Claims :: "string list"
  ct_Probe :: "probe option"
  ct_Security :: container_security

record pod_spec =
  pk_Hostname :: string
  pk_ServiceAccountName :: string
  pk_RestartNever :: bool
  pk_NodeSelector :: "(string, string) gomap"
  pk_Tolerations :: "(string \<times> string) list"
  pk_ResourceClaims :: "(string \<times> string) list"
  pk_InitContainers :: "container list"
  pk_Containers :: "container list"
  pk_Volumes :: "volume list"
  pk_Security :: pod_security
  pk_AntiAffinity :: "(string, string) gomap option"
  pk_NoToken :: bool
  pk_GraceSeconds :: "nat option"

definition plain_container :: "string \<Rightarrow> string \<Rightarrow> string list \<Rightarrow> string list \<Rightarrow> container" where
  "plain_container name img command args = \<lparr>ct_Name = name, ct_Image = img, ct_Command = command, ct_Args = args, ct_Env = [],
     ct_Ports = [], ct_Mounts = [], ct_Resources = None, ct_Claims = [], ct_Probe = None, ct_Security = DefaultSecurity\<rparr>"

definition plain_pod_spec :: "container list \<Rightarrow> volume list \<Rightarrow> pod_security \<Rightarrow> pod_spec" where
  "plain_pod_spec containers volumes security = \<lparr>pk_Hostname = '''', pk_ServiceAccountName = '''', pk_RestartNever = False,
     pk_NodeSelector = [], pk_Tolerations = [], pk_ResourceClaims = [], pk_InitContainers = [], pk_Containers = containers,
     pk_Volumes = volumes, pk_Security = security, pk_AntiAffinity = None, pk_NoToken = False, pk_GraceSeconds = None\<rparr>"

definition env_value :: "string \<Rightarrow> string \<Rightarrow> env_var" where
  "env_value n v = \<lparr>ev_Name = n, ev_From = EnvValue v\<rparr>"

definition mount_at :: "string \<Rightarrow> string \<Rightarrow> volume_mount" where
  "mount_at n p = \<lparr>vm_Name = n, vm_MountPath = p, vm_SubPath = '''', vm_ReadOnly = False\<rparr>"

definition read_only :: "volume_mount \<Rightarrow> volume_mount" where
  "read_only m = m\<lparr>vm_ReadOnly := True\<rparr>"

definition volume_of :: "string \<Rightarrow> volume_source \<Rightarrow> volume" where
  "volume_of n s = \<lparr>vo_Name = n, vo_Source = s\<rparr>"

section \<open>Names and labels\<close>

definition controlPlaneReplicas :: int where "controlPlaneReplicas = 2"
definition mungeKey :: string where "mungeKey = ''munge.key''"
definition jwtKey :: string where "jwtKey = ''jwt_hs256.key''"
definition config_hash_annotation :: string where "config_hash_annotation = ''orchestration.gputpu.io/config-hash''"

definition object_name :: "cluster \<Rightarrow> string \<Rightarrow> string" where
  "object_name c component = cl_Name c @ ''-'' @ component"

definition labels :: "cluster \<Rightarrow> string \<Rightarrow> (string, string) gomap" where
  "labels c component = [(''app.kubernetes.io/name'', ''heterogeneous-cluster''), (''app.kubernetes.io/instance'', cl_Name c),
     (''app.kubernetes.io/component'', component), (''app.kubernetes.io/managed-by'', ''slurm-operator'')]"

definition slurmConfigServers :: "cluster \<Rightarrow> string" where
  "slurmConfigServers c =
     (let service = cl_Name c @ ''-slurmctld'';
          server = (\<lambda>n. service @ n @ ''.'' @ service @ ''.'' @ cl_Namespace c @ ''.svc:'' @ show_nat SlurmctldPort) in
      server ''-0'' @ '','' @ server ''-1'')"

section \<open>Volumes, probes and containers\<close>

definition jwtVolume :: "cluster \<Rightarrow> volume" where
  "jwtVolume c = volume_of ''jwt'' (SecretVolume (au_JWTKeySecretRef (sp_Authentication (cl_Spec c))) [(jwtKey, jwtKey, 288)])"

definition authVolumes :: "cluster \<Rightarrow> volume list" where
  "authVolumes c = [volume_of ''munge-key'' (SecretVolume (au_MungeKeySecretRef (sp_Authentication (cl_Spec c))) [(mungeKey, mungeKey, 256)]),
     volume_of ''munge-run'' EmptyDir]"

definition configVolume :: "cluster \<Rightarrow> volume" where
  "configVolume c = volume_of ''config'' (ConfigMapVolume (object_name c ''config''))"

definition commonVolumes :: "cluster \<Rightarrow> volume list" where
  "commonVolumes c = authVolumes c @ [configVolume c, jwtVolume c]"

definition execProbe :: "string list \<Rightarrow> probe" where
  "execProbe command = \<lparr>pb_Handler = ExecHandler command, pb_InitialDelaySeconds = 5, pb_PeriodSeconds = 5, pb_TimeoutSeconds = 3,
     pb_FailureThreshold = 6\<rparr>"

definition tcpProbe :: "nat \<Rightarrow> probe" where
  "tcpProbe port = \<lparr>pb_Handler = TcpHandler port, pb_InitialDelaySeconds = 5, pb_PeriodSeconds = 5, pb_TimeoutSeconds = 3,
     pb_FailureThreshold = 6\<rparr>"

definition munge_key_mount :: volume_mount where
  "munge_key_mount = \<lparr>vm_Name = ''munge-key'', vm_MountPath = ''/etc/munge/munge.key'', vm_SubPath = mungeKey, vm_ReadOnly = True\<rparr>"

definition jwt_mount :: volume_mount where
  "jwt_mount = \<lparr>vm_Name = ''jwt'', vm_MountPath = ''/run/secrets/slurm/jwt_hs256.key'', vm_SubPath = jwtKey, vm_ReadOnly = True\<rparr>"

definition cluster_image :: "cluster \<Rightarrow> string" where
  "cluster_image c = cs_Image (cp_Controllers (sp_ControlPlane (cl_Spec c)))"

definition mungeContainer :: "cluster \<Rightarrow> container" where
  "mungeContainer c =
     (plain_container ''munge'' (cluster_image c) [''munged'']
        [''--foreground'', ''--force'', ''--key-file=/etc/munge/munge.key'', ''--socket=/run/munge/munge.socket.2''])
     \<lparr>ct_Mounts := [munge_key_mount, mount_at ''munge-run'' ''/run/munge''], ct_Probe := Some (execProbe [''munge'', ''-n''])\<rparr>"

definition slurmMounts :: "volume_mount list" where
  "slurmMounts = [read_only (mount_at ''config'' ''/etc/slurm''), mount_at ''munge-run'' ''/run/munge'']"

definition db_suffix :: "(string, string) gomap" where
  "db_suffix = [(''host'', ''HOST''), (''port'', ''PORT''), (''database'', ''NAME''), (''username'', ''USER''), (''password'', ''PASSWORD'')]"

definition databaseEnv :: "cluster \<Rightarrow> env_var list" where
  "databaseEnv c = map (\<lambda>key. \<lparr>ev_Name = ''DB_'' @ gm_get '''' db_suffix key,
     ev_From = EnvSecret (as_DatabaseSecretRef (cp_Accounting (sp_ControlPlane (cl_Spec c)))) key\<rparr>)
     [''host'', ''port'', ''database'', ''username'', ''password'']"

definition podFSGroup :: "int \<Rightarrow> pod_security" where
  "podFSGroup g = FSGroup g"

section \<open>Well-formed pods\<close>

text \<open>Every mount names a volume of the pod, and no two volumes or containers share a name.\<close>

definition pod_spec_wf :: "pod_spec \<Rightarrow> bool" where
  "pod_spec_wf s \<longleftrightarrow> distinct (map vo_Name (pk_Volumes s)) \<and> distinct (map ct_Name (pk_InitContainers s @ pk_Containers s))
     \<and> list_all (\<lambda>c. list_all (\<lambda>m. List.member (map vo_Name (pk_Volumes s)) (vm_Name m)) (ct_Mounts c)
                    \<and> distinct (map vm_MountPath (ct_Mounts c))
                    \<and> list_all (List.member (map fst (pk_ResourceClaims s))) (ct_Claims c)) (pk_InitContainers s @ pk_Containers s)"

end
