(* ===== verification/Effects.thy ===== *)
theory Effects
  imports Go_Prelude
begin

text \<open>
  Code that calls the API server and Slurm. A computation returns an error or a value and appends every call
  it makes to a log; what each call answers is given by an argument, the \<open>world\<close>, from the position of the call
  in the log and the call itself. Statements about the log hold for every world, also for calls that fail.
\<close>

section \<open>Computations\<close>

datatype outcome = Done | NotFound | AlreadyExists | Failed

type_synonym ('c, 'e, 'a) io = "'c list \<Rightarrow> ('e + 'a) \<times> 'c list"
type_synonym 'c world = "nat \<Rightarrow> 'c \<Rightarrow> outcome"

definition io_ret :: "'a \<Rightarrow> ('c, 'e, 'a) io" where
  "io_ret x = (\<lambda>log. (Inr x, log))"

definition io_fail :: "'e \<Rightarrow> ('c, 'e, 'a) io" where
  "io_fail e = (\<lambda>log. (Inl e, log))"

definition io_bind :: "('c, 'e, 'a) io \<Rightarrow> ('a \<Rightarrow> ('c, 'e, 'b) io) \<Rightarrow> ('c, 'e, 'b) io" where
  "io_bind m f = (\<lambda>log. case m log of (Inl e, log') \<Rightarrow> (Inl e, log') | (Inr x, log') \<Rightarrow> f x log')"

definition io_res :: "'e + 'a \<Rightarrow> ('c, 'e, 'a) io" where
  "io_res r = (\<lambda>log. (r, log))"

definition io_call :: "'c world \<Rightarrow> 'c \<Rightarrow> ('c, 'e, outcome) io" where
  "io_call world c = (\<lambda>log. (Inr (world (length log) c), log @ [c]))"

text \<open>A call whose outcome must be one of a list, or the computation returns the error.\<close>

definition io_must :: "'c world \<Rightarrow> outcome list \<Rightarrow> 'e \<Rightarrow> 'c \<Rightarrow> ('c, 'e, unit) io" where
  "io_must world good e c = io_bind (io_call world c) (\<lambda>o'. if List.member good o' then io_ret () else io_fail e)"

fun io_each :: "('x \<Rightarrow> 's \<Rightarrow> ('c, 'e, 's) io) \<Rightarrow> 'x list \<Rightarrow> 's \<Rightarrow> ('c, 'e, 's) io" where
  "io_each f [] s = io_ret s"
| "io_each f (x # xs) s = io_bind (f x s) (io_each f xs)"

fun io_map :: "('x \<Rightarrow> ('c, 'e, 'y) io) \<Rightarrow> 'x list \<Rightarrow> ('c, 'e, 'y list) io" where
  "io_map f [] = io_ret []"
| "io_map f (x # xs) = io_bind (f x) (\<lambda>y. io_bind (io_map f xs) (\<lambda>ys. io_ret (y # ys)))"

definition map_error :: "('e \<Rightarrow> 'f) \<Rightarrow> 'e + 'a \<Rightarrow> 'f + 'a" where
  "map_error f r = (case r of Inl e \<Rightarrow> Inl (f e) | Inr x \<Rightarrow> Inr x)"

definition io_try :: "('c, 'e, 'a) io \<Rightarrow> ('e + 'a \<Rightarrow> ('c, 'e, 'b) io) \<Rightarrow> ('c, 'e, 'b) io" where
  "io_try m k = (\<lambda>log. case m log of (r, log') \<Rightarrow> k r log')"

definition io_lift :: "('c \<Rightarrow> 'd) \<Rightarrow> ('e \<Rightarrow> 'f) \<Rightarrow> 'd world \<Rightarrow> ('c world \<Rightarrow> ('c, 'e, 'a) io) \<Rightarrow> ('d, 'f, 'a) io" where
  "io_lift tag err world m = (\<lambda>log. case m (\<lambda>n c. world (length log + n) (tag c)) [] of
     (r, new) \<Rightarrow> (map_error err r, log @ map tag new))"

section \<open>Triples\<close>

text \<open>
  \<open>io_spec m Q\<close>: whatever the log, the computation only appends to it, and its result and the appended calls
  satisfy \<open>Q\<close>.
\<close>

definition io_spec :: "('c, 'e, 'a) io \<Rightarrow> ('e + 'a \<Rightarrow> 'c list \<Rightarrow> bool) \<Rightarrow> bool" where
  "io_spec m Q \<longleftrightarrow> (\<forall>log. \<exists>new. snd (m log) = log @ new \<and> Q (fst (m log)) new)"

lemma io_spec_ret: "Q (Inr x) [] \<Longrightarrow> io_spec (io_ret x) Q"
  by (simp add: io_spec_def io_ret_def)

lemma io_spec_fail: "Q (Inl e) [] \<Longrightarrow> io_spec (io_fail e) Q"
  by (simp add: io_spec_def io_fail_def)

lemma io_spec_res: "Q r [] \<Longrightarrow> io_spec (io_res r) Q"
  by (simp add: io_spec_def io_res_def)

lemma io_spec_call: "(\<And>o'. Q (Inr o') [c]) \<Longrightarrow> io_spec (io_call world c) Q"
  by (simp add: io_spec_def io_call_def)

lemma io_spec_weaken: "io_spec m P \<Longrightarrow> (\<And>r new. P r new \<Longrightarrow> Q r new) \<Longrightarrow> io_spec m Q"
  unfolding io_spec_def by blast

lemma io_spec_bind:
  assumes "io_spec m P" and "\<And>e new. P (Inl e) new \<Longrightarrow> Q (Inl e) new"
    and "\<And>x new. P (Inr x) new \<Longrightarrow> io_spec (f x) (\<lambda>r new'. Q r (new @ new'))"
  shows "io_spec (io_bind m f) Q"
  unfolding io_spec_def
proof
  fix log
  obtain r log' where m: "m log = (r, log')" by (cases "m log")
  obtain new where n: "log' = log @ new" "P r new" using assms(1) m unfolding io_spec_def by (metis fst_conv snd_conv)
  show "\<exists>new. snd (io_bind m f log) = log @ new \<and> Q (fst (io_bind m f log)) new"
  proof (cases r)
    case (Inl e)
    then show ?thesis using m n assms(2) by (auto simp: io_bind_def)
  next
    case (Inr x)
    obtain new' where "snd (f x log') = log' @ new'" "Q (fst (f x log')) (new @ new')"
      using assms(3) n Inr unfolding io_spec_def by blast
    then show ?thesis using m n Inr by (auto simp: io_bind_def)
  qed
qed

lemma io_spec_run: "io_spec m Q \<Longrightarrow> m [] = (r, log) \<Longrightarrow> Q r log"
  unfolding io_spec_def by (drule spec[of _ "[]"]) simp

text \<open>
  \<open>io_ok I m Q\<close>: every call that the computation makes satisfies \<open>I\<close>, and if it returns a value, the value
  satisfies \<open>Q\<close>.
\<close>

definition io_ok :: "('c \<Rightarrow> bool) \<Rightarrow> ('c, 'e, 'a) io \<Rightarrow> ('a \<Rightarrow> bool) \<Rightarrow> bool" where
  "io_ok I m Q \<longleftrightarrow> io_spec m (\<lambda>r new. list_all I new \<and> (case r of Inl e \<Rightarrow> True | Inr x \<Rightarrow> Q x))"

lemma io_ok_ret: "Q x \<Longrightarrow> io_ok I (io_ret x) Q"
  by (simp add: io_ok_def io_spec_ret)

lemma io_ok_fail: "io_ok I (io_fail e) Q"
  by (simp add: io_ok_def io_spec_fail)

lemma io_ok_bind:
  assumes "io_ok I m R" "\<And>x. R x \<Longrightarrow> io_ok I (f x) Q"
  shows "io_ok I (io_bind m f) Q"
  using assms unfolding io_ok_def by - (erule io_spec_bind, auto elim!: io_spec_weaken)

lemma io_ok_weaken: "io_ok I m R \<Longrightarrow> (\<And>x. R x \<Longrightarrow> Q x) \<Longrightarrow> io_ok I m Q"
  unfolding io_ok_def by (erule io_spec_weaken) (auto split: sum.splits)

lemma io_ok_mono: "io_ok I m Q \<Longrightarrow> (\<And>c. I c \<Longrightarrow> J c) \<Longrightarrow> io_ok J m Q"
  unfolding io_ok_def by (erule io_spec_weaken) (auto simp: list_all_iff)

lemma io_ok_res: "(\<And>x. r = Inr x \<Longrightarrow> Q x) \<Longrightarrow> io_ok I (io_res r) Q"
  unfolding io_ok_def by (rule io_spec_res) (auto split: sum.splits)

lemma io_ok_call: "I c \<Longrightarrow> io_ok I (io_call world c) (\<lambda>_. True)"
  by (simp add: io_ok_def io_spec_call)

lemma io_ok_must: "I c \<Longrightarrow> io_ok I (io_must world good e c) (\<lambda>_. True)"
  unfolding io_must_def by (rule io_ok_bind[OF io_ok_call]) (auto intro: io_ok_ret io_ok_fail)

lemma io_ok_if: "(b \<Longrightarrow> io_ok I m Q) \<Longrightarrow> (\<not> b \<Longrightarrow> io_ok I m' Q) \<Longrightarrow> io_ok I (if b then m else m') Q"
  by simp

lemma io_ok_each:
  assumes "\<And>x s. x \<in> set xs \<Longrightarrow> J s \<Longrightarrow> io_ok I (f x s) J" "J s"
  shows "io_ok I (io_each f xs s) J"
  using assms by (induction xs arbitrary: s) (auto intro!: io_ok_ret intro: io_ok_bind)

lemma io_ok_map:
  assumes "\<And>x. x \<in> set xs \<Longrightarrow> io_ok I (f x) (R x)"
  shows "io_ok I (io_map f xs) (\<lambda>ys. list_all2 R xs ys)"
  using assms
proof (induction xs)
  case (Cons x xs)
  show ?case
    by (simp, rule io_ok_bind[of _ _ "R x"], simp add: Cons.prems, rule io_ok_bind[OF Cons.IH])
      (auto simp: Cons.prems intro: io_ok_ret)
qed (simp add: io_ok_ret)

lemmas io_ok_rules = io_ok_ret io_ok_fail io_ok_must io_ok_call io_ok_if

lemma io_ok_log: "io_ok I m Q \<Longrightarrow> m [] = (r, log) \<Longrightarrow> list_all I log"
  unfolding io_ok_def by (drule io_spec_run) auto

lemma io_ok_value: "io_ok I m Q \<Longrightarrow> m [] = (Inr x, log) \<Longrightarrow> Q x"
  unfolding io_ok_def by (drule io_spec_run) auto

lemma io_spec_case_prod: "(\<And>a b. io_spec (f a b) Q) \<Longrightarrow> io_spec (case x of (a, b) \<Rightarrow> f a b) Q"
  by (cases x) simp

lemma io_ok_case_prod: "(\<And>a b. io_ok I (f a b) Q) \<Longrightarrow> io_ok I (case x of (a, b) \<Rightarrow> f a b) Q"
  by (cases x) simp

lemma io_ok_case_sum: "(\<And>a. io_ok I (f a) Q) \<Longrightarrow> (\<And>b. io_ok I (g b) Q) \<Longrightarrow> io_ok I (case x of Inl a \<Rightarrow> f a | Inr b \<Rightarrow> g b) Q"
  by (cases x) simp_all

lemma io_ok_case_option: "io_ok I f Q \<Longrightarrow> (\<And>b. io_ok I (g b) Q) \<Longrightarrow> io_ok I (case x of None \<Rightarrow> f | Some b \<Rightarrow> g b) Q"
  by (cases x) simp_all

lemmas io_ok_case = io_ok_case_prod io_ok_case_sum io_ok_case_option

lemma io_ok_try:
  assumes "io_ok I m R" "\<And>e. io_ok I (k (Inl e)) Q" "\<And>x. R x \<Longrightarrow> io_ok I (k (Inr x)) Q"
  shows "io_ok I (io_try m k) Q"
  unfolding io_ok_def io_spec_def
proof
  fix log
  obtain r log' where m: "m log = (r, log')" by (cases "m log")
  have "\<exists>new. snd (m log) = log @ new \<and> list_all I new \<and> (case fst (m log) of Inl e \<Rightarrow> True | Inr x \<Rightarrow> R x)"
    using assms(1) by (simp add: io_ok_def io_spec_def)
  then obtain new where n: "log' = log @ new" "list_all I new" "case r of Inl e \<Rightarrow> True | Inr x \<Rightarrow> R x"
    unfolding m fst_conv snd_conv by blast
  have "io_ok I (k r) Q" using assms(2,3) n(3) by (cases r) simp_all
  then have "\<exists>new'. snd (k r log') = log' @ new' \<and> list_all I new' \<and> (case fst (k r log') of Inl e \<Rightarrow> True | Inr x \<Rightarrow> Q x)"
    by (simp add: io_ok_def io_spec_def)
  then obtain new' where "snd (k r log') = log' @ new'" "list_all I new'" "case fst (k r log') of Inl e \<Rightarrow> True | Inr x \<Rightarrow> Q x"
    by blast
  then have "snd (k r log') = log @ (new @ new')" "list_all I (new @ new')" "case fst (k r log') of Inl e \<Rightarrow> True | Inr x \<Rightarrow> Q x"
    using n by simp_all
  then show "\<exists>new. snd (io_try m k log) = log @ new \<and> list_all I new \<and> (case fst (io_try m k log) of Inl e \<Rightarrow> True | Inr x \<Rightarrow> Q x)"
    unfolding io_try_def m prod.case by blast
qed

lemma io_ok_lift:
  fixes tag :: "'c \<Rightarrow> 'd"
  assumes "\<And>w. io_ok J (m w) Q" "\<And>c. J c \<Longrightarrow> I (tag c)"
  shows "io_ok I (io_lift tag err world m) Q"
  unfolding io_ok_def io_spec_def
proof
  fix log :: "'d list"
  let ?w = "\<lambda>n c. world (length log + n) (tag c)"
  obtain r new where m: "m ?w [] = (r, new)" by (cases "m ?w []")
  have "list_all J new" using io_ok_log[OF assms(1) m] .
  moreover have "case r of Inl e \<Rightarrow> True | Inr x \<Rightarrow> Q x" using io_ok_value[OF assms(1), of ?w] m by (cases r) auto
  ultimately have "io_lift tag err world m log = (map_error err r, log @ map tag new)" "list_all I (map tag new)"
    "case map_error err r of Inl e \<Rightarrow> True | Inr x \<Rightarrow> Q x"
    using assms(2) m by (auto simp: io_lift_def list_all_iff map_error_def split: sum.splits)
  then show "\<exists>new. snd (io_lift tag err world m log) = log @ new \<and> list_all I new
      \<and> (case fst (io_lift tag err world m log) of Inl e \<Rightarrow> True | Inr x \<Rightarrow> Q x)"
    by simp
qed

lemma io_ok_lift_any:
  assumes "\<And>c. I (tag c)" "\<And>w x new. m w [] = (Inr x, new) \<Longrightarrow> Q x"
  shows "io_ok I (io_lift tag err world m) Q"
  using assms by (auto simp: io_ok_def io_spec_def io_lift_def list_all_iff map_error_def split: prod.split sum.split)

end
