(* ===== verification/Workers.thy ===== *)
theory Workers
  imports Kube Dra_Driver Effects Demand
begin

text \<open>
  Elastic workers, \<^verbatim>\<open>src/slurm-operator/controllers/workers.go\<close>: claims, worker pods, the choice of a worker for
  a demand, removal of idle workers, and the whole pass \<^verbatim>\<open>reconcileWorkers\<close>. Reads of the API are arguments,
  collected with the fields of the reconciler in \<open>worker_env\<close>; every write is a call of the log. Events are left
  out.
\<close>

section \<open>Data\<close>

definition workerComponent :: string where "workerComponent = ''slurmd''"
definition workerFinalizer :: string where "workerFinalizer = ''orchestration.gputpu.io/slurm-node-cleanup''"
definition workerPoolLabel :: string where "workerPoolLabel = ''orchestration.gputpu.io/worker-pool''"
definition workerShapeAnnotation :: string where "workerShapeAnnotation = ''orchestration.gputpu.io/worker-shape''"
definition workerClaimAnnotation :: string where "workerClaimAnnotation = ''orchestration.gputpu.io/resource-claim''"
definition workerIdleAnnotation :: string where "workerIdleAnnotation = ''orchestration.gputpu.io/idle-since''"
definition workerDrainAnnotation :: string where "workerDrainAnnotation = ''orchestration.gputpu.io/draining''"
definition workerRecoveryAnnotation :: string where "workerRecoveryAnnotation = ''orchestration.gputpu.io/recovery-incident''"
definition operator_driverName :: string where "operator_driverName = ''orchestration.gputpu.io''"

record pod =
  pd_Name :: string
  pd_Namespace :: string
  pd_UID :: string
  pd_Controller :: "string option"
  pd_Labels :: "(string, string) gomap"
  pd_Annotations :: "(string, string) gomap"
  pd_Finalizers :: "string list"
  pd_Deleting :: bool
  pd_Failed :: bool
  pd_Conditions :: "(string \<times> string) list"
  pd_Spec :: pod_spec

record device_request =
  dr_Name :: string
  dr_Class :: string
  dr_Count :: int
  dr_Selector :: string

record claim_object =
  cm_Name :: string
  cm_Namespace :: string
  cm_Requests :: "device_request list"
  cm_Match :: string
  cm_Controller :: "string option"

datatype claim_read = ClaimReadError | ClaimMissing | ClaimRead "string option" bool

record rslice =
  rs_Driver :: string
  rs_PoolName :: string
  rs_Generation :: int
  rs_SliceCount :: int
  rs_Devices :: "resource_device list"

datatype call =
    DrainCall string string
  | DeleteNodeCall string
  | UpdatePod pod
  | DeletePod string
  | CreatePod pod
  | CreateClaim claim_object

datatype claim_error = BadClaimUnit string | NoClaimProfile string | TooManyDevices int

datatype slice_error = SlicesUnreadable | InconsistentCounts string | IncompletePool string | IncompleteFootprint string | InconsistentFootprints string

datatype worker_error =
    PodsUnreadable
  | NodesUnreadable
  | PodNotControlled string
  | CallError call
  | ClaimUnreadable string
  | NoClaimAnnotation string
  | ClaimNotControlled string
  | BadWorkerShape string
  | UnknownPool string
  | ClaimError claim_error
  | SliceError slice_error
  | NoWorkerImage

record worker_env =
  we_cluster :: cluster
  we_uid :: string
  we_image :: string
  we_headroom :: int
  we_maxSize :: int
  we_pq :: "string \<Rightarrow> int option"
  we_now :: int
  we_parseTime :: "string \<Rightarrow> int option"
  we_fmtTime :: "int \<Rightarrow> string"
  we_decShape :: "string \<Rightarrow> shape option"
  we_encShape :: "shape \<Rightarrow> string"
  we_rand :: "nat \<Rightarrow> string"
  we_podUID :: "string \<Rightarrow> string"
  we_readClaim :: "string \<Rightarrow> claim_read"
  we_getClaim :: "string \<Rightarrow> claim_read"
  we_slices :: "rslice list option"

definition pod_ann :: "pod \<Rightarrow> string \<Rightarrow> string" where
  "pod_ann p key = gm_get '''' (pd_Annotations p) key"

definition pod_pool :: "pod \<Rightarrow> string" where
  "pod_pool p = gm_get '''' (pd_Labels p) workerPoolLabel"

definition env_pools :: "worker_env \<Rightarrow> worker_pool list" where
  "env_pools env = sp_WorkerPools (cl_Spec (we_cluster env))"

section \<open>State of pods and nodes\<close>

definition podShape :: "worker_env \<Rightarrow> pod \<Rightarrow> shape option" where
  "podShape env p =
     (case we_decShape env (pod_ann p workerShapeAnnotation) of None \<Rightarrow> None
      | Some s \<Rightarrow> if sh_CPUs s < 1 \<or> sh_MemoryBytes s < 1 then None else Some s)"

definition podReady :: "pod \<Rightarrow> bool" where
  "podReady p = list_ex (\<lambda>(t, s). t = ''Ready'' \<and> s = ''True'') (pd_Conditions p)"

fun last_index_any :: "string \<Rightarrow> string \<Rightarrow> nat option" where
  "last_index_any cs [] = None"
| "last_index_any cs (x # xs) =
     (case last_index_any cs xs of Some i \<Rightarrow> Some (Suc i) | None \<Rightarrow> if List.member cs x then Some 0 else None)"

definition gres_item_idle :: "string \<Rightarrow> bool" where
  "gres_item_idle raw =
     (let item = fst (cut_at CHR ''('' (trim_space raw)) in
      case last_index_any '':='' item of
        None \<Rightarrow> False
      | Some i \<Rightarrow> parse_int (drop (i + 1) item) = Some 0)"

definition gresIdle :: "string \<Rightarrow> bool" where
  "gresIdle raw0 =
     (let raw = trim_space raw0 in
      if raw = '''' \<or> raw = ''(null)'' \<or> raw = ''N/A'' then True
      else list_all gres_item_idle (split_on CHR '','' raw))"

definition nodeIdle :: "slurm_node \<Rightarrow> bool" where
  "nodeIdle n \<longleftrightarrow> List.member (sn_State n) ''IDLE'' \<and> sn_Reservation n = '''' \<and> sn_AllocCPUs n = 0 \<and> sn_AllocMemory n = 0
     \<and> gresIdle (sn_GRESUsed n)"

definition zero_node :: slurm_node where
  "zero_node = \<lparr>sn_Name = '''', sn_State = [], sn_Reservation = '''', sn_AllocCPUs = 0, sn_AllocMemory = 0, sn_GRESUsed = ''''\<rparr>"

definition node_map :: "slurm_node list \<Rightarrow> (string, slurm_node) gomap" where
  "node_map nodes = fold (\<lambda>n. gm_put (sn_Name n) n) nodes []"

definition node_of :: "(string, slurm_node) gomap \<Rightarrow> pod \<Rightarrow> slurm_node" where
  "node_of nodeByName p = gm_get zero_node nodeByName (pd_Name p)"

definition managedWorkerNode :: "cluster \<Rightarrow> string \<Rightarrow> bool" where
  "managedWorkerNode c name =
     list_ex (\<lambda>p. has_prefix name (cl_Name c @ ''-'' @ po_Name p @ ''-'')) (sp_WorkerPools (cl_Spec c))"

definition poolStatus :: "worker_pool list \<Rightarrow> pool_status list" where
  "poolStatus pools =
     sort_key ps_Name (map (\<lambda>p. \<lparr>ps_Name = po_Name p, ps_Ready = 0, ps_Pending = 0, ps_Draining = 0\<rparr>) pools)"

definition count_pod :: "pod \<Rightarrow> pool_status \<Rightarrow> pool_status" where
  "count_pod p s =
     (if ps_Name s \<noteq> pod_pool p then s
      else if pd_Deleting p \<or> pod_ann p workerDrainAnnotation = ''true'' then s\<lparr>ps_Draining := ps_Draining s + 1\<rparr>
      else if podReady p then s\<lparr>ps_Ready := ps_Ready s + 1\<rparr>
      else s\<lparr>ps_Pending := ps_Pending s + 1\<rparr>)"

definition statuses :: "worker_pool list \<Rightarrow> pod list \<Rightarrow> pool_status list" where
  "statuses pools pods = fold (\<lambda>p. map (count_pod p)) pods (poolStatus pools)"

section \<open>Resource claims\<close>

text \<open>\<^verbatim>\<open>%q\<close> and \<^verbatim>\<open>strconv.Quote\<close> on printable ASCII text.\<close>

definition go_quote :: "string \<Rightarrow> string" where
  "go_quote s = [CHR 0x22] @ concat (map (\<lambda>c. if c = CHR 0x22 \<or> c = CHR 0x5C then [CHR 0x5C, c] else [c]) s) @ [CHR 0x22]"

definition kindSelector :: "string \<Rightarrow> string" where
  "kindSelector kind = ''device.driver == '' @ go_quote operator_driverName @ '' && device.attributes['' @ go_quote operator_driverName
     @ ''].kind == '' @ go_quote kind"

definition kindAndValueSelector :: "string \<Rightarrow> string \<Rightarrow> string \<Rightarrow> bool \<Rightarrow> string" where
  "kindAndValueSelector kind attribute v quote =
     ''device.driver == '' @ go_quote operator_driverName @ '' && device.attributes['' @ go_quote operator_driverName
     @ ''].kind == '' @ go_quote kind @ '' && device.attributes['' @ go_quote operator_driverName @ ''][''
     @ go_quote attribute @ ''] == '' @ (if quote then go_quote v else v)"

definition exactRequest :: "string \<Rightarrow> string \<Rightarrow> int \<Rightarrow> string \<Rightarrow> device_request" where
  "exactRequest name class_name amount selector = \<lparr>dr_Name = name, dr_Class = class_name, dr_Count = amount, dr_Selector = selector\<rparr>"

definition profile_for :: "worker_profile list \<Rightarrow> string \<Rightarrow> worker_profile option" where
  "profile_for profiles gres = List.find (\<lambda>p. wp_Gres p = gres) (rev profiles)"

definition accelerator_kind :: "string \<Rightarrow> string" where
  "accelerator_kind kind = gm_get '''' [(''gpu'', ''gpu''), (''tpu'', ''opentpu'')] kind"

definition accelerator_request :: "worker_profile \<Rightarrow> string \<Rightarrow> int \<Rightarrow> device_request" where
  "accelerator_request profile gres amount =
     (case cut_at CHR '':'' gres of (kind, model, found) \<Rightarrow>
        exactRequest (''accelerator-'' @ wp_Name profile) (wp_DeviceClassName profile) amount
          (kindAndValueSelector (accelerator_kind kind) (if kind = ''tpu'' then ''profile'' else ''model'') model True))"

definition claim_step ::
  "worker_profile list \<Rightarrow> (string, int) gomap \<Rightarrow> string \<Rightarrow> int \<times> device_request list \<Rightarrow> claim_error + int \<times> device_request list" where
  "claim_step profiles gres_map gres = (\<lambda>(n, requests).
     case profile_for profiles gres of
       None \<Rightarrow> Inl (NoClaimProfile gres)
     | Some profile \<Rightarrow>
         let count = gm_get 0 gres_map gres in
         Inr (wrap_i64 (n + count), requests @ [accelerator_request profile gres count]))"

definition claim_memory :: "shape \<Rightarrow> int \<Rightarrow> int \<Rightarrow> int" where
  "claim_memory sh headroom unit = i64_div (wrap_i64 (sh_MemoryBytes sh + headroom + unit - 1)) unit"

definition resourceClaim ::
  "(string \<Rightarrow> int option) \<Rightarrow> int \<Rightarrow> string \<Rightarrow> string \<Rightarrow> shape \<Rightarrow> worker_pool \<Rightarrow> int \<Rightarrow> claim_error + claim_object" where
  "resourceClaim pq maxSize namespace name sh pool headroom =
     (case pq (po_MemoryUnit pool) of None \<Rightarrow> Inl (BadClaimUnit (po_MemoryUnit pool))
      | Some unit \<Rightarrow>
          fail_if (unit < 1) (BadClaimUnit (po_MemoryUnit pool))
          (let memoryCount = claim_memory sh headroom unit;
               requests = [exactRequest ''cpu'' ''cpu.orchestration.gputpu.io'' (sh_CPUs sh) (kindSelector ''cpu''),
                           exactRequest ''memory'' ''memory.orchestration.gputpu.io'' memoryCount
                             (kindAndValueSelector ''memory'' ''unitBytes'' (show_int unit) False)] in
           bind_res (for_each (claim_step (po_Profiles pool) (sh_GRES sh)) (sorted_list_of_set (fst ` set (sh_GRES sh)))
                       (wrap_i64 (sh_CPUs sh + memoryCount), requests)) (\<lambda>(n, requests').
           fail_if (n > maxSize) (TooManyDevices n)
           (Inr \<lparr>cm_Name = name, cm_Namespace = namespace, cm_Requests = requests',
                 cm_Match = operator_driverName @ ''/numaNode'', cm_Controller = None\<rparr>))))"

section \<open>Footprints of OpenTPU profiles\<close>

definition stringAttr :: "resource_device \<Rightarrow> string \<Rightarrow> string option" where
  "stringAttr d name = (case map_of (rd_Attributes d) name of Some (AStr s) \<Rightarrow> Some s | _ \<Rightarrow> None)"

definition intAttr :: "resource_device \<Rightarrow> string \<Rightarrow> int option" where
  "intAttr d name = (case map_of (rd_Attributes d) name of Some (AInt i) \<Rightarrow> Some i | _ \<Rightarrow> None)"

definition capacityBytes :: "(string \<Rightarrow> int option) \<Rightarrow> resource_device \<Rightarrow> string \<Rightarrow> int option" where
  "capacityBytes pq d name =
     (case map_of (rd_Capacity d) name of None \<Rightarrow> None | Some (CapBytes n) \<Rightarrow> Some n | Some (CapQuantity q) \<Rightarrow> pq q)"

definition pool_generations :: "rslice list \<Rightarrow> (string, int) gomap" where
  "pool_generations slices = fold (\<lambda>s g.
     if rs_Driver s = operator_driverName \<and> rs_Generation s > gm_get 0 g (rs_PoolName s)
     then gm_put (rs_PoolName s) (rs_Generation s) g else g) slices []"

definition slices_by_pool :: "rslice list \<Rightarrow> (string, rslice list) gomap" where
  "slices_by_pool slices =
     (let generations = pool_generations slices in
      fold (\<lambda>s m. if rs_Driver s = operator_driverName \<and> rs_Generation s = gm_get 0 generations (rs_PoolName s)
                  then gm_put (rs_PoolName s) (gm_get [] m (rs_PoolName s) @ [s]) m else m) slices [])"

definition pool_complete :: "string \<times> rslice list \<Rightarrow> rslice list \<Rightarrow> slice_error + rslice list" where
  "pool_complete = (\<lambda>(pool, current) out.
     let expected = rs_SliceCount (hd current) in
     fail_if (list_ex (\<lambda>s. rs_SliceCount s \<noteq> expected) current) (InconsistentCounts pool)
     (fail_if (expected < 1 \<or> int (length current) \<noteq> expected) (IncompletePool pool) (Inr (out @ current))))"

definition completeDriverSlices :: "rslice list \<Rightarrow> slice_error + rslice list" where
  "completeDriverSlices slices = for_each pool_complete (slices_by_pool slices) []"

definition footprint_step ::
  "(string \<Rightarrow> int option) \<Rightarrow> resource_device \<Rightarrow> (string, footprint) gomap \<Rightarrow> slice_error + (string, footprint) gomap" where
  "footprint_step pq d out =
     (if stringAttr d (operator_driverName @ ''/kind'') \<noteq> Some ''opentpu'' then Inr out
      else (case (stringAttr d (operator_driverName @ ''/profile''), intAttr d (operator_driverName @ ''/cpuCores''),
                  capacityBytes pq d (operator_driverName @ ''/memory''), capacityBytes pq d (operator_driverName @ ''/sharedMemory'')) of
              (Some profile, Some cpus, Some memory, Some shared) \<Rightarrow>
                let key = ''tpu:'' @ profile;
                    f = \<lparr>fp_CPUs = cpus, fp_MemoryBytes = memory, fp_SharedMemory = shared\<rparr> in
                (case map_of out key of
                   Some old \<Rightarrow> fail_if (old \<noteq> f) (InconsistentFootprints profile) (Inr (gm_put key f out))
                 | None \<Rightarrow> Inr (gm_put key f out))
            | _ \<Rightarrow> Inl (IncompleteFootprint (rd_Name d))))"

definition openTPUFootprints :: "worker_env \<Rightarrow> slice_error + (string, footprint) gomap" where
  "openTPUFootprints env =
     (case we_slices env of None \<Rightarrow> Inl SlicesUnreadable
      | Some slices \<Rightarrow>
          bind_res (completeDriverSlices slices) (\<lambda>selected.
          for_each (footprint_step (we_pq env)) (concat (map rs_Devices selected)) []))"

section \<open>Calls on one worker\<close>

type_synonym 'a worker_io = "(call, worker_error, 'a) io"

definition done_call :: "call world \<Rightarrow> call \<Rightarrow> unit worker_io" where
  "done_call world c = io_must world [Done] (CallError c) c"

definition gone_call :: "call world \<Rightarrow> call \<Rightarrow> unit worker_io" where
  "gone_call world c = io_must world [Done, NotFound] (CallError c) c"

definition setWorkerAnnotation :: "call world \<Rightarrow> pod \<Rightarrow> string \<Rightarrow> string \<Rightarrow> pod worker_io" where
  "setWorkerAnnotation world p key v =
     (let p' = p\<lparr>pd_Annotations := (if v = '''' then gm_del key (pd_Annotations p) else gm_put key v (pd_Annotations p))\<rparr> in
      io_bind (done_call world (UpdatePod p')) (\<lambda>_. io_ret p'))"

definition release_pod :: "call world \<Rightarrow> pod \<Rightarrow> pod worker_io" where
  "release_pod world p =
     io_bind (if List.member (pd_Finalizers p) workerFinalizer
              then (let p' = p\<lparr>pd_Finalizers := filter (\<lambda>f. f \<noteq> workerFinalizer) (pd_Finalizers p)\<rparr> in
                    io_bind (gone_call world (UpdatePod p')) (\<lambda>_. io_ret p'))
              else io_ret p) (\<lambda>p1.
     if pd_Deleting p1 then io_ret p1
     else io_bind (gone_call world (DeletePod (pd_Name p1))) (\<lambda>_. io_ret p1))"

definition cleanupWorker :: "call world \<Rightarrow> slurm_node \<Rightarrow> pod \<Rightarrow> pod worker_io" where
  "cleanupWorker world node p =
     (if sn_Name node \<noteq> '''' then
        if pod_ann p workerDrainAnnotation \<noteq> ''true'' then
          io_bind (done_call world (DrainCall (pd_Name p) ''elastic worker removal'')) (\<lambda>_.
          setWorkerAnnotation world p workerDrainAnnotation ''true'')
        else if \<not> nodeIdle node \<or> \<not> List.member (sn_State node) ''DRAIN'' then io_ret p
        else io_bind (done_call world (DeleteNodeCall (pd_Name p))) (\<lambda>_. release_pod world p)
      else release_pod world p)"

definition ensureWorkerClaim :: "worker_env \<Rightarrow> call world \<Rightarrow> pod \<Rightarrow> unit worker_io" where
  "ensureWorkerClaim env world p =
     (let claimName = pod_ann p workerClaimAnnotation in
      if claimName = '''' then io_fail (NoClaimAnnotation (pd_Name p))
      else (case we_getClaim env claimName of
              ClaimRead owner allocated \<Rightarrow>
                if owner \<noteq> Some (pd_UID p) then io_fail (ClaimNotControlled claimName) else io_ret ()
            | ClaimReadError \<Rightarrow> io_fail (ClaimUnreadable claimName)
            | ClaimMissing \<Rightarrow>
                (case podShape env p of
                   None \<Rightarrow> io_fail (BadWorkerShape (pd_Name p))
                 | Some sh \<Rightarrow>
                     (case List.find (\<lambda>q. po_Name q = pod_pool p) (env_pools env) of
                        None \<Rightarrow> io_fail (UnknownPool (pd_Name p))
                      | Some pool \<Rightarrow>
                          (case resourceClaim (we_pq env) (we_maxSize env) (pd_Namespace p) claimName sh pool (we_headroom env) of
                             Inl e \<Rightarrow> io_fail (ClaimError e)
                           | Inr claim \<Rightarrow>
                               let owned = claim\<lparr>cm_Controller := Some (pd_UID p)\<rparr> in
                               io_must world [Done, AlreadyExists] (CallError (CreateClaim owned)) (CreateClaim owned))))))"

end
