(* ===== verification/Worker_Pass.thy ===== *)
theory Worker_Pass
  imports Workers
begin

text \<open>
  The pod of a new worker, the assignment of demands to workers, and the whole pass over the workers of a
  cluster, \<^verbatim>\<open>createWorker\<close>, \<^verbatim>\<open>reconcileWorkers\<close> and \<^verbatim>\<open>cleanupClusterWorkers\<close> of \<^verbatim>\<open>controllers/workers.go\<close>.
\<close>

section \<open>The pod of a worker\<close>

definition io_here :: "('c, 'e, nat) io" where
  "io_here = (\<lambda>log. (Inr (length log), log))"

definition workerResources :: "shape \<Rightarrow> int \<Rightarrow> (quantity \<times> quantity) option" where
  "workerResources sh headroom =
     (if sh_CPUs sh < 1 \<or> sh_MemoryBytes sh < 1 then None
      else Some (QInt (sh_CPUs sh), QInt (wrap_i64 (sh_MemoryBytes sh + headroom))))"

definition workerEnv :: "cluster \<Rightarrow> worker_pool \<Rightarrow> string \<Rightarrow> env_var list" where
  "workerEnv c pool claim = [\<lparr>ev_Name = ''POD_NAME'', ev_From = EnvField ''metadata.name''\<rparr>,
     \<lparr>ev_Name = ''POD_NAMESPACE'', ev_From = EnvField ''metadata.namespace''\<rparr>, \<lparr>ev_Name = ''POD_IP'', ev_From = EnvField ''status.podIP''\<rparr>,
     env_value ''RESOURCE_CLAIM'' claim, env_value ''WORKER_POOL'' (po_Name pool), env_value ''SLURM_CONF_SERVER'' (slurmConfigServers c)]"

definition workerMounts :: "volume_mount list" where
  "workerMounts = [mount_at ''worker-config'' ''/etc/slurm'', mount_at ''slurm-spool'' ''/var/lib/slurmd'', mount_at ''shared-memory'' ''/dev/shm'',
     munge_key_mount, mount_at ''munge-run'' ''/run/munge'', mount_at ''cgroup'' ''/sys/fs/cgroup'']"

definition munged_start :: string where
  "munged_start = ''munged --force --key-file=/etc/munge/munge.key --socket=/run/munge/munge.socket.2; ''"

definition double_quoted :: "string \<Rightarrow> string" where
  "double_quoted s = [CHR 0x22] @ s @ [CHR 0x22]"

definition gres_init_container :: "worker_env \<Rightarrow> worker_pool \<Rightarrow> string \<Rightarrow> quantity \<times> quantity \<Rightarrow> container" where
  "gres_init_container env pool claim resources =
     (plain_container ''gres-init'' (we_image env) [''/bin/sh'', ''-ec''] [munged_start @ ''exec /usr/local/bin/gres-init''])
     \<lparr>ct_Resources := Some resources, ct_Mounts := workerMounts, ct_Env := workerEnv (we_cluster env) pool claim,
       ct_Security := Privileged, ct_Claims := [''allocation'']\<rparr>"

definition slurmd_container :: "worker_env \<Rightarrow> worker_pool \<Rightarrow> string \<Rightarrow> quantity \<times> quantity \<Rightarrow> container" where
  "slurmd_container env pool claim resources =
     (plain_container ''slurmd'' (we_image env) [''/bin/sh'', ''-ec'']
        [munged_start @ ''. /etc/slurm/worker.env; exec slurmd -D -Z --conf '' @ double_quoted ''$SLURMD_CONF''])
     \<lparr>ct_Resources := Some resources, ct_Mounts := workerMounts, ct_Env := workerEnv (we_cluster env) pool claim,
       ct_Security := Privileged, ct_Claims := [''allocation''],
       ct_Probe := Some (execProbe [''/bin/sh'', ''-ec'', ''. /etc/slurm/worker.env; scontrol show node '' @ double_quoted ''$HOSTNAME'' @ '' >/dev/null''])\<rparr>"

definition checkpoint_mounts :: "volume_mount list" where
  "checkpoint_mounts = [mount_at ''checkpoint-socket'' ''/run/gputpu-checkpoint'', mount_at ''checkpoint-shm'' ''/dev/shm/ai-orch'',
     mount_at ''quantization-socket'' ''/run/gputpu-quantization'']"

definition flusher_container :: "worker_env \<Rightarrow> int \<Rightarrow> container" where
  "flusher_container env shared =
     (plain_container ''checkpoint-flusher'' (we_image env) [''/usr/local/bin/checkpoint-flusher''] [])
     \<lparr>ct_Env := [env_value ''CHECKPOINT_CLUSTER_UID'' (we_uid env), env_value ''CHECKPOINT_SHM_BUDGET_BYTES'' (show_int shared)],
       ct_Resources := Some (QStr ''100m'', QStr ''128Mi''),
       ct_Mounts := [mount_at ''checkpoint-socket'' ''/run/gputpu-checkpoint'', mount_at ''checkpoint-shm'' ''/dev/shm/ai-orch'',
         read_only (mount_at ''checkpoint-store'' ''/run/secrets/checkpoint-store'')],
       ct_Security := Restricted, ct_Probe := Some (execProbe [''test'', ''-S'', ''/run/gputpu-checkpoint/flusher.sock''])\<rparr>"

definition checkpoint_volumes :: "checkpointing_spec \<Rightarrow> volume list" where
  "checkpoint_volumes ck = [volume_of ''checkpoint-socket'' EmptyDir,
     volume_of ''checkpoint-shm'' (HostPath ''/dev/shm/ai-orch'' ''DirectoryOrCreate''),
     volume_of ''quantization-socket'' (HostPath ''/run/gputpu-quantization'' ''DirectoryOrCreate''),
     volume_of ''checkpoint-store'' (SecretVolume (ck_ObjectStoreSecretRef ck) [])]"

definition worker_volumes :: "worker_env \<Rightarrow> int \<Rightarrow> volume list" where
  "worker_volumes env shared = [volume_of ''worker-config'' EmptyDir, volume_of ''slurm-spool'' EmptyDir,
     volume_of ''munge-key'' (SecretVolume (au_MungeKeySecretRef (sp_Authentication (cl_Spec (we_cluster env)))) [(mungeKey, mungeKey, 256)]),
     volume_of ''munge-run'' EmptyDir, volume_of ''cgroup'' (HostPath ''/sys/fs/cgroup'' ''Directory''),
     volume_of ''shared-memory'' (MemoryDir shared)]"

definition worker_pod_spec :: "worker_env \<Rightarrow> worker_pool \<Rightarrow> demand \<Rightarrow> string \<Rightarrow> string \<Rightarrow> quantity \<times> quantity \<Rightarrow> pod_spec" where
  "worker_pod_spec env pool d podName claimName resources =
     (let shared = max (sh_SharedMemoryBytes (de_Shape d)) (64 * 2 ^ 20);
          slurmd = slurmd_container env pool claimName resources;
          ck = sp_Checkpointing (cl_Spec (we_cluster env)) in
      \<lparr>pk_Hostname = podName, pk_ServiceAccountName = ''slurm-worker'', pk_RestartNever = True,
        pk_NodeSelector = fold (\<lambda>(k, v). gm_put k v) (po_NodeSelector pool) [(''orchestration.gputpu.io/compute'', ''true'')],
        pk_Tolerations = [(''orchestration.gputpu.io/compute'', ''NoSchedule'')],
        pk_ResourceClaims = [(''allocation'', claimName)],
        pk_InitContainers = [gres_init_container env pool claimName resources],
        pk_Containers = (case ck of None \<Rightarrow> [slurmd]
          | Some _ \<Rightarrow> [slurmd\<lparr>ct_Mounts := ct_Mounts slurmd @ checkpoint_mounts\<rparr>, flusher_container env shared]),
        pk_Volumes = worker_volumes env shared @ (case ck of None \<Rightarrow> [] | Some s \<Rightarrow> checkpoint_volumes s),
        pk_Security = NoPodSecurity, pk_AntiAffinity = None, pk_NoToken = False, pk_GraceSeconds = None\<rparr>)"

definition worker_pod :: "worker_env \<Rightarrow> worker_pool \<Rightarrow> demand \<Rightarrow> string \<Rightarrow> quantity \<times> quantity \<Rightarrow> pod" where
  "worker_pod env pool d podName resources =
     (let claimName = podName @ ''-resources'' in
      \<lparr>pd_Name = podName, pd_Namespace = cl_Namespace (we_cluster env), pd_UID = we_podUID env podName, pd_Controller = Some (we_uid env),
        pd_Labels = gm_put workerPoolLabel (po_Name pool) (labels (we_cluster env) workerComponent),
        pd_Annotations = [(workerShapeAnnotation, we_encShape env (de_Shape d)), (workerClaimAnnotation, claimName)],
        pd_Finalizers = [workerFinalizer], pd_Deleting = False, pd_Failed = False, pd_Conditions = [],
        pd_Spec = worker_pod_spec env pool d podName claimName resources\<rparr>)"

definition createWorker :: "worker_env \<Rightarrow> call world \<Rightarrow> worker_pool \<Rightarrow> demand \<Rightarrow> pod worker_io" where
  "createWorker env world pool d =
     io_bind io_here (\<lambda>n.
     let podName = cl_Name (we_cluster env) @ ''-'' @ po_Name pool @ ''-'' @ to_lower (take 10 (we_rand env n)) in
     case workerResources (de_Shape d) (we_headroom env) of
       None \<Rightarrow> io_fail (BadWorkerShape podName)
     | Some resources \<Rightarrow>
         let p = worker_pod env pool d podName resources in
         io_bind (done_call world (CreatePod p)) (\<lambda>_.
         io_bind (ensureWorkerClaim env world p) (\<lambda>_. io_ret p)))"

section \<open>Choice of a worker\<close>

record candidate =
  ca_pod :: pod
  ca_shape :: shape

definition shapeFits :: "shape \<Rightarrow> shape \<Rightarrow> bool" where
  "shapeFits cand wanted \<longleftrightarrow>
     \<not> (sh_CPUs cand < sh_CPUs wanted \<or> sh_MemoryBytes cand < sh_MemoryBytes wanted \<or> length (sh_GRES cand) \<noteq> length (sh_GRES wanted))
     \<and> list_all (\<lambda>(name, n). gm_get 0 (sh_GRES cand) name = n) (sh_GRES wanted)"

definition lessWaste :: "candidate \<Rightarrow> candidate \<Rightarrow> shape \<Rightarrow> bool" where
  "lessWaste a b wanted =
     (let aWaste = wrap_i64 (sh_CPUs (ca_shape a) - sh_CPUs wanted); bWaste = wrap_i64 (sh_CPUs (ca_shape b) - sh_CPUs wanted);
          aMem = wrap_i64 (sh_MemoryBytes (ca_shape a) - sh_MemoryBytes wanted);
          bMem = wrap_i64 (sh_MemoryBytes (ca_shape b) - sh_MemoryBytes wanted) in
      if aWaste \<noteq> bWaste then aWaste < bWaste
      else if aMem \<noteq> bMem then aMem < bMem
      else pd_Name (ca_pod a) < pd_Name (ca_pod b))"

definition eligible :: "string list \<Rightarrow> string list \<Rightarrow> demand \<Rightarrow> candidate \<Rightarrow> bool" where
  "eligible used localUsed d c \<longleftrightarrow>
     \<not> (List.member used (pd_Name (ca_pod c)) \<or> List.member localUsed (pd_Name (ca_pod c)) \<or> pod_pool (ca_pod c) \<noteq> de_PoolName d
        \<or> \<not> shapeFits (ca_shape c) (de_Shape d))"

text \<open>\<^verbatim>\<open>bestCandidate\<close> returns the candidate itself where the code returns its index.\<close>

definition best_step :: "string list \<Rightarrow> string list \<Rightarrow> demand \<Rightarrow> candidate \<Rightarrow> candidate option \<Rightarrow> candidate option" where
  "best_step used localUsed d c best =
     (if \<not> eligible used localUsed d c then best
      else (case best of None \<Rightarrow> Some c | Some b \<Rightarrow> if lessWaste c b (de_Shape d) then Some c else best))"

definition bestCandidate :: "candidate list \<Rightarrow> string list \<Rightarrow> string list \<Rightarrow> demand \<Rightarrow> candidate option" where
  "bestCandidate candidates used localUsed d = fold (best_step used localUsed d) candidates None"

section \<open>Groups of demands\<close>

definition zero_pool :: worker_pool where
  "zero_pool = \<lparr>po_Name = '''', po_Partition = '''', po_NodeSelector = [], po_MemoryUnit = '''',
     po_Scaling = \<lparr>sc_MinReady = 0, sc_MaxWorkers = 0, sc_IdleTimeout = 0\<rparr>, po_Profiles = []\<rparr>"

definition pool_map :: "worker_pool list \<Rightarrow> (string, worker_pool) gomap" where
  "pool_map pools = fold (\<lambda>p. gm_put (po_Name p) p) pools []"

definition group_ids :: "demand list \<Rightarrow> nat list" where
  "group_ids demands = fold (\<lambda>d gs. if List.member gs (de_GroupID d) then gs else gs @ [de_GroupID d]) demands []"

definition demands_of :: "demand list \<Rightarrow> nat \<Rightarrow> demand list" where
  "demands_of demands g = filter (\<lambda>d. de_GroupID d = g) demands"

definition single_demands :: "demand list \<Rightarrow> demand list" where
  "single_demands ds = concat (map (\<lambda>d. replicate (nat (de_Count d)) d) ds)"

definition assign_one :: "candidate list \<Rightarrow> string list \<Rightarrow> demand \<Rightarrow> string list \<times> demand list \<Rightarrow> string list \<times> demand list" where
  "assign_one candidates used d = (\<lambda>(localUsed, creates).
     case bestCandidate candidates used localUsed d of
       Some c \<Rightarrow> (localUsed @ [pd_Name (ca_pod c)], creates)
     | None \<Rightarrow> (localUsed, creates @ [d\<lparr>de_Count := 1\<rparr>]))"

definition assign_group :: "candidate list \<Rightarrow> string list \<Rightarrow> demand list \<Rightarrow> string list \<times> demand list" where
  "assign_group candidates used ds = fold (assign_one candidates used) (single_demands ds) ([], [])"

definition create_counts :: "demand list \<Rightarrow> (string, int) gomap" where
  "create_counts creates = fold (\<lambda>d m. gm_put (de_PoolName d) (gm_get 0 m (de_PoolName d) + 1) m) creates []"

definition group_fits :: "worker_env \<Rightarrow> (string, worker_pool) gomap \<Rightarrow> (string, int) gomap \<Rightarrow> demand list \<Rightarrow> bool" where
  "group_fits env pools counts creates \<longleftrightarrow>
     list_all (\<lambda>d. is_ok (resourceClaim (we_pq env) (we_maxSize env) (cl_Namespace (we_cluster env)) ''validation'' (de_Shape d)
                    (gm_get zero_pool pools (de_PoolName d)) (we_headroom env))) creates
     \<and> list_all (\<lambda>(pool, n). \<not> gm_get 0 counts pool + n > sc_MaxWorkers (po_Scaling (gm_get zero_pool pools pool))) (create_counts creates)"

type_synonym assign_state = "(string, int) gomap \<times> string list"

definition create_step :: "worker_env \<Rightarrow> call world \<Rightarrow> (string, worker_pool) gomap \<Rightarrow> demand \<Rightarrow> (string, int) gomap \<Rightarrow> (string, int) gomap worker_io" where
  "create_step env world pools d counts =
     (if we_image env = '''' then io_fail NoWorkerImage
      else io_bind (createWorker env world (gm_get zero_pool pools (de_PoolName d)) d) (\<lambda>_.
           io_ret (gm_put (de_PoolName d) (gm_get 0 counts (de_PoolName d) + 1) counts)))"

text \<open>The maps \<^verbatim>\<open>used\<close> and \<^verbatim>\<open>assigned\<close> of the code always have the same keys; both are \<open>used\<close> here.\<close>

definition worker_group_step ::
  "worker_env \<Rightarrow> call world \<Rightarrow> (string, worker_pool) gomap \<Rightarrow> candidate list \<Rightarrow> demand list \<Rightarrow> assign_state \<Rightarrow> assign_state worker_io" where
  "worker_group_step env world pools candidates ds = (\<lambda>(counts, used).
     let (localUsed, creates) = assign_group candidates used ds in
     if \<not> group_fits env pools counts creates then io_ret (counts, used)
     else io_bind (io_each (create_step env world pools) creates counts) (\<lambda>counts'. io_ret (counts', used @ localUsed)))"

definition candidate_step ::
  "worker_env \<Rightarrow> (string, worker_pool) gomap \<Rightarrow> (string, slurm_node) gomap \<Rightarrow> pod \<Rightarrow> (string, int) gomap \<times> candidate list \<Rightarrow>
   worker_error + (string, int) gomap \<times> candidate list" where
  "candidate_step env pools nodeByName p = (\<lambda>(counts, candidates).
     let pool = pod_pool p in
     if map_of pools pool = None \<or> pd_Deleting p \<or> pd_Failed p \<or> pod_ann p workerRecoveryAnnotation \<noteq> '''' then Inr (counts, candidates)
     else (case podShape env p of None \<Rightarrow> Inl (BadWorkerShape (pd_Name p))
           | Some sh \<Rightarrow>
               let counts' = gm_put pool (gm_get 0 counts pool + 1) counts;
                   idle = podReady p \<and> (case map_of nodeByName (pd_Name p) of None \<Rightarrow> False | Some n \<Rightarrow> nodeIdle n) in
               if \<not> podReady p \<or> map_of nodeByName (pd_Name p) = None \<or> idle
               then Inr (counts', candidates @ [\<lparr>ca_pod = p, ca_shape = sh\<rparr>]) else Inr (counts', candidates)))"

section \<open>The pass\<close>

definition keep_pod :: "worker_env \<Rightarrow> call world \<Rightarrow> slurm_node \<Rightarrow> pod \<Rightarrow> pod worker_io" where
  "keep_pod env world node p =
     (let claimName = pod_ann p workerClaimAnnotation;
          got = (if claimName = '''' then ClaimMissing else we_readClaim env claimName);
          ensure = io_bind (ensureWorkerClaim env world p) (\<lambda>_. io_ret p) in
      if sn_Name node \<noteq> '''' then
        (case got of
           ClaimReadError \<Rightarrow> io_fail (ClaimUnreadable claimName)
         | ClaimMissing \<Rightarrow> cleanupWorker world node p
         | ClaimRead owner allocated \<Rightarrow>
             if \<not> allocated \<or> owner \<noteq> Some (pd_UID p) then cleanupWorker world node p else ensure)
      else ensure)"

definition pod_step :: "worker_env \<Rightarrow> call world \<Rightarrow> (string, slurm_node) gomap \<Rightarrow> pod \<Rightarrow> pod worker_io" where
  "pod_step env world nodeByName p =
     (if pd_Controller p \<noteq> Some (we_uid env) then io_fail (PodNotControlled (pd_Name p))
      else if pod_ann p workerRecoveryAnnotation \<noteq> '''' then io_ret p
      else if pd_Deleting p then cleanupWorker world (node_of nodeByName p) p
      else io_bind (if List.member (pd_Finalizers p) workerFinalizer then io_ret p
                    else (let p' = p\<lparr>pd_Finalizers := pd_Finalizers p @ [workerFinalizer]\<rparr> in
                          io_bind (done_call world (UpdatePod p')) (\<lambda>_. io_ret p'))) (\<lambda>p1.
           if pod_ann p1 workerDrainAnnotation = ''true'' \<or> pd_Failed p1 then cleanupWorker world (node_of nodeByName p1) p1
           else keep_pod env world (node_of nodeByName p1) p1))"

definition orphan_step :: "worker_env \<Rightarrow> call world \<Rightarrow> string list \<Rightarrow> slurm_node \<Rightarrow> unit \<Rightarrow> unit worker_io" where
  "orphan_step env world podNames n u =
     (if List.member podNames (sn_Name n) \<or> \<not> managedWorkerNode (we_cluster env) (sn_Name n) then io_ret ()
      else if List.member (sn_State n) ''DRAIN'' \<and> nodeIdle n then done_call world (DeleteNodeCall (sn_Name n))
      else done_call world (DrainCall (sn_Name n) ''orphaned elastic worker''))"

definition idle_pod ::
  "worker_env \<Rightarrow> call world \<Rightarrow> worker_pool \<Rightarrow> slurm_node option \<Rightarrow> pod \<Rightarrow> (string, int) gomap \<Rightarrow> (pod \<times> (string, int) gomap) worker_io" where
  "idle_pod env world pool node p ready =
     (let keep = (\<lambda>m. io_bind m (\<lambda>p'. io_ret (p', ready))) in
      if \<not> podReady p \<or> node = None then keep (cleanupWorker world (case node of None \<Rightarrow> zero_node | Some n \<Rightarrow> n) p)
      else if gm_get 0 ready (po_Name pool) \<le> sc_MinReady (po_Scaling pool) then io_ret (p, ready)
      else (case we_parseTime env (pod_ann p workerIdleAnnotation) of
              None \<Rightarrow> keep (setWorkerAnnotation world p workerIdleAnnotation (we_fmtTime env (we_now env)))
            | Some since \<Rightarrow>
                if we_now env - since \<ge> sc_IdleTimeout (po_Scaling pool)
                then io_bind (cleanupWorker world (the node) p) (\<lambda>p'.
                     io_ret (p', gm_put (po_Name pool) (gm_get 0 ready (po_Name pool) - 1) ready))
                else io_ret (p, ready)))"

definition idle_step ::
  "worker_env \<Rightarrow> call world \<Rightarrow> (string, worker_pool) gomap \<Rightarrow> (string, slurm_node) gomap \<Rightarrow> string list \<Rightarrow> pod \<Rightarrow>
   (string, int) gomap \<times> pod list \<Rightarrow> ((string, int) gomap \<times> pod list) worker_io" where
  "idle_step env world pools nodeByName assigned p = (\<lambda>(ready, out).
     case map_of pools (pod_pool p) of
       None \<Rightarrow> io_ret (ready, out @ [p])
     | Some pool \<Rightarrow>
         if pd_Deleting p \<or> pod_ann p workerDrainAnnotation = ''true'' \<or> pod_ann p workerRecoveryAnnotation \<noteq> '''' then io_ret (ready, out @ [p])
         else let ready1 = (if podReady p then gm_put (po_Name pool) (gm_get 0 ready (po_Name pool) + 1) ready else ready);
                  node = map_of nodeByName (pd_Name p);
                  idleCapacity = (\<not> List.member assigned (pd_Name p)
                                  \<and> (\<not> podReady p \<or> (case node of None \<Rightarrow> False | Some n \<Rightarrow> nodeIdle n))) in
              if \<not> idleCapacity then
                (if pod_ann p workerIdleAnnotation \<noteq> ''''
                 then io_bind (setWorkerAnnotation world p workerIdleAnnotation '''') (\<lambda>p'. io_ret (ready1, out @ [p']))
                 else io_ret (ready1, out @ [p]))
              else io_bind (idle_pod env world pool node p ready1) (\<lambda>(p', ready2). io_ret (ready2, out @ [p'])))"

record worker_result =
  wr_Status :: "pool_status list"
  wr_Ready :: bool
  wr_Reason :: string
  wr_Rejection :: "(nat \<times> demand_error) option"

definition assign_demands ::
  "worker_env \<Rightarrow> call world \<Rightarrow> (string, slurm_node) gomap \<Rightarrow> pod list \<Rightarrow> demand list \<Rightarrow> assign_state worker_io" where
  "assign_demands env world nodeByName pods demands =
     (let pools = pool_map (env_pools env) in
      io_bind (io_res (for_each (candidate_step env pools nodeByName) pods ([], []))) (\<lambda>(counts, candidates).
      io_each (\<lambda>g. worker_group_step env world pools candidates (demands_of demands g)) (group_ids demands) (counts, [])))"

definition reconcileWorkers ::
  "worker_env \<Rightarrow> call world \<Rightarrow> pod list option \<Rightarrow> slurm_node list option \<Rightarrow> pending_job list \<Rightarrow> worker_result worker_io" where
  "reconcileWorkers env world pods_read nodes_read jobs =
     (case pods_read of None \<Rightarrow> io_fail PodsUnreadable
      | Some pods0 \<Rightarrow>
     (case nodes_read of
        None \<Rightarrow> io_ret \<lparr>wr_Status = statuses (env_pools env) pods0, wr_Ready = False, wr_Reason = ''RESTUnavailable'', wr_Rejection = None\<rparr>
      | Some nodes \<Rightarrow>
          let nodeByName = node_map nodes in
          io_bind (io_map (pod_step env world nodeByName) pods0) (\<lambda>pods1.
          io_bind (io_each (orphan_step env world (map pd_Name pods0)) nodes ()) (\<lambda>_.
          case openTPUFootprints env of
            Inl e \<Rightarrow> io_fail (SliceError e)
          | Inr footprints \<Rightarrow>
              let (demands, rejected) = Demands (we_pq env) jobs (env_pools env) footprints in
              io_bind (assign_demands env world nodeByName pods1 demands) (\<lambda>(counts, assigned).
              io_bind (io_each (idle_step env world (pool_map (env_pools env)) nodeByName assigned) pods1 ([], [])) (\<lambda>(ready, pods2).
              io_ret \<lparr>wr_Status = statuses (env_pools env) pods2, wr_Ready = (rejected = []),
                     wr_Reason = (if rejected = [] then ''Ready'' else ''DemandRejected''),
                     wr_Rejection = (if rejected = [] then None else Some (hd rejected))\<rparr>))))))"

definition cleanup_step :: "worker_env \<Rightarrow> call world \<Rightarrow> (string, slurm_node) gomap \<Rightarrow> pod \<Rightarrow> unit \<Rightarrow> unit worker_io" where
  "cleanup_step env world byName p u =
     (if pd_Controller p \<noteq> Some (we_uid env) then io_fail (PodNotControlled (pd_Name p))
      else io_bind (cleanupWorker world (node_of byName p) p) (\<lambda>_. io_ret ()))"

definition cleanupClusterWorkers :: "worker_env \<Rightarrow> call world \<Rightarrow> pod list option \<Rightarrow> slurm_node list option \<Rightarrow> bool worker_io" where
  "cleanupClusterWorkers env world pods_read nodes_read =
     (case pods_read of None \<Rightarrow> io_fail PodsUnreadable
      | Some pods \<Rightarrow>
          if pods = [] then io_ret True
          else (case nodes_read of None \<Rightarrow> io_fail NodesUnreadable
                | Some nodes \<Rightarrow>
                    io_bind (io_each (cleanup_step env world (node_map nodes)) pods ()) (\<lambda>_. io_ret False)))"

end
