(* ===== verification/Control_Plane.thy ===== *)
theory Control_Plane
  imports Worker_Pass Slurm_Client
begin

text \<open>
  The objects of the control plane that \<^verbatim>\<open>src/slurm-operator/controllers/cluster_controller.go\<close> applies: the
  configuration, services, controllers, database daemon, REST daemon and login nodes. \<^verbatim>\<open>controllerutil.CreateOrUpdate\<close>
  with the mutation that the code passes to it is modelled by the object that results; fields of an existing object
  that the mutation does not set are not part of it.
\<close>

section \<open>Objects of the control plane\<close>

record object_meta =
  om_Name :: string
  om_Namespace :: string
  om_Labels :: "(string, string) gomap"
  om_Controller :: string

record pod_template =
  tp_Labels :: "(string, string) gomap"
  tp_Annotations :: "(string, string) gomap"
  tp_Spec :: pod_spec

record service_spec =
  sv_Headless :: bool
  sv_PublishNotReady :: bool
  sv_Selector :: "(string, string) gomap"
  sv_Ports :: "(string \<times> nat \<times> nat) list"

record statefulset_spec =
  ss_Replicas :: int
  ss_ServiceName :: string
  ss_Parallel :: bool
  ss_Selector :: "(string, string) gomap"
  ss_Template :: pod_template

record deployment_spec =
  dp_Replicas :: int
  dp_Selector :: "(string, string) gomap"
  dp_Template :: pod_template

record budget_spec =
  pdb_MinAvailable :: int
  pdb_Selector :: "(string, string) gomap"

datatype object_body =
    ConfigMapBody "(string, string) gomap"
  | ServiceBody service_spec
  | StatefulSetBody statefulset_spec
  | DeploymentBody deployment_spec
  | BudgetBody budget_spec

record kobject =
  ko_Meta :: object_meta
  ko_Body :: object_body

definition objectMeta :: "cluster \<Rightarrow> string \<Rightarrow> string \<Rightarrow> object_meta" where
  "objectMeta c uid component = \<lparr>om_Name = object_name c component, om_Namespace = cl_Namespace c, om_Labels = labels c component, om_Controller = uid\<rparr>"

definition requiredAntiAffinity :: "(string, string) gomap \<Rightarrow> (string, string) gomap option" where
  "requiredAntiAffinity matchLabels = Some matchLabels"

definition template :: "cluster \<Rightarrow> string \<Rightarrow> string \<Rightarrow> pod_spec \<Rightarrow> pod_template" where
  "template c component configHash spec =
     \<lparr>tp_Labels = labels c component, tp_Annotations = [(config_hash_annotation, configHash)], tp_Spec = spec\<rparr>"

definition config_object :: "cluster \<Rightarrow> string \<Rightarrow> slurm_files \<Rightarrow> kobject" where
  "config_object c uid files = \<lparr>ko_Meta = objectMeta c uid ''config'', ko_Body = ConfigMapBody
     [(''slurm.conf'', sf_SlurmConf files), (''gres.conf'', sf_GRESConf files), (''cgroup.conf'', sf_CgroupConf files)]\<rparr>"

definition controller_service :: "cluster \<Rightarrow> string \<Rightarrow> kobject" where
  "controller_service c uid = \<lparr>ko_Meta = objectMeta c uid ''slurmctld'', ko_Body = ServiceBody
     \<lparr>sv_Headless = True, sv_PublishNotReady = True, sv_Selector = labels c ''slurmctld'',
       sv_Ports = [(''slurmctld'', SlurmctldPort, SlurmctldPort)]\<rparr>\<rparr>"

definition state_init_container :: "cluster \<Rightarrow> container" where
  "state_init_container c =
     (plain_container ''state-permissions'' (cluster_image c) [''chown'', ''64030:64030'', ''/var/lib/slurmctld''] [])
     \<lparr>ct_Mounts := [mount_at ''state'' ''/var/lib/slurmctld'']\<rparr>"

definition slurmctld_container :: "cluster \<Rightarrow> container" where
  "slurmctld_container c =
     (plain_container ''slurmctld'' (cluster_image c) [''slurmctld''] [''-D'', ''-i'', ''-f'', ''/etc/slurm/slurm.conf''])
     \<lparr>ct_Env := [env_value ''SLURM_CONF'' ''/etc/slurm/slurm.conf''], ct_Ports := [(''slurmctld'', SlurmctldPort)],
       ct_Mounts := slurmMounts @ [mount_at ''state'' ''/var/lib/slurmctld'', jwt_mount, mount_at ''spool'' ''/var/lib/slurmd''],
       ct_Probe := Some (execProbe [''scontrol'', ''ping''])\<rparr>"

definition controllers_pod :: "cluster \<Rightarrow> pod_spec" where
  "controllers_pod c =
     (plain_pod_spec [mungeContainer c, slurmctld_container c]
        (commonVolumes c @ [volume_of ''state'' (ClaimVolume (cs_StateSaveClaim (cp_Controllers (sp_ControlPlane (cl_Spec c))))),
           volume_of ''spool'' EmptyDir]) (podFSGroup 64030))
     \<lparr>pk_InitContainers := [state_init_container c], pk_NoToken := True, pk_GraceSeconds := Some 30,
       pk_AntiAffinity := requiredAntiAffinity (labels c ''slurmctld'')\<rparr>"

definition controllers_object :: "cluster \<Rightarrow> string \<Rightarrow> string \<Rightarrow> kobject" where
  "controllers_object c uid configHash = \<lparr>ko_Meta = objectMeta c uid ''slurmctld'', ko_Body = StatefulSetBody
     \<lparr>ss_Replicas = controlPlaneReplicas, ss_ServiceName = object_name c ''slurmctld'', ss_Parallel = True,
       ss_Selector = labels c ''slurmctld'', ss_Template = template c ''slurmctld'' configHash (controllers_pod c)\<rparr>\<rparr>"

definition budget_object :: "cluster \<Rightarrow> string \<Rightarrow> kobject" where
  "budget_object c uid = \<lparr>ko_Meta = objectMeta c uid ''slurmctld'', ko_Body = BudgetBody
     \<lparr>pdb_MinAvailable = 1, pdb_Selector = labels c ''slurmctld''\<rparr>\<rparr>"

definition service_object :: "cluster \<Rightarrow> string \<Rightarrow> string \<Rightarrow> nat \<Rightarrow> kobject" where
  "service_object c uid component port = \<lparr>ko_Meta = objectMeta c uid component, ko_Body = ServiceBody
     \<lparr>sv_Headless = False, sv_PublishNotReady = False, sv_Selector = labels c component, sv_Ports = [(component, port, port)]\<rparr>\<rparr>"

definition deployment_object :: "cluster \<Rightarrow> string \<Rightarrow> string \<Rightarrow> int \<Rightarrow> string \<Rightarrow> pod_spec \<Rightarrow> kobject" where
  "deployment_object c uid component replicas configHash spec = \<lparr>ko_Meta = objectMeta c uid component, ko_Body = DeploymentBody
     \<lparr>dp_Replicas = replicas, dp_Selector = labels c component, dp_Template = template c component configHash spec\<rparr>\<rparr>"

definition single_quoted :: "string \<Rightarrow> string" where
  "single_quoted s = [CHR 0x27] @ s @ [CHR 0x27]"

definition slurmdbdCommand :: string where
  "slurmdbdCommand = join_with [CHR 0x0A] (
     [''umask 077'', ''cp /config/slurm.conf /etc/slurm/slurm.conf'', ''printf '' @ single_quoted (''%s'' @ [CHR 0x5C] @ ''n'') @ '' '' @ [CHR 0x5C]]
     @ map (\<lambda>l. ''  '' @ l @ '' '' @ [CHR 0x5C]) (
       map single_quoted [''AuthType=auth/munge'', ''AuthInfo=/run/munge/munge.socket.2'', ''AuthAltTypes=auth/jwt'',
         ''AuthAltParameters=jwt_key=/run/secrets/slurm/jwt_hs256.key,disable_token_creation'', ''DbdHost=slurmdbd'', ''DbdPort=6819'',
         ''SlurmUser=slurm'', ''StorageType=accounting_storage/mysql'']
       @ map double_quoted [''StorageHost=$DB_HOST'', ''StoragePort=$DB_PORT'', ''StorageLoc=$DB_NAME'', ''StorageUser=$DB_USER'',
         ''StoragePass=$DB_PASSWORD''])
     @ [''  '' @ single_quoted ''PidFile=/run/slurmdbd.pid'' @ '' > /etc/slurm/slurmdbd.conf'', ''exec slurmdbd -D''])"

definition slurmdbd_container :: "cluster \<Rightarrow> container" where
  "slurmdbd_container c =
     (plain_container ''slurmdbd'' (cluster_image c) [''/bin/sh'', ''-ec''] [slurmdbdCommand])
     \<lparr>ct_Env := databaseEnv c @ [env_value ''SLURM_CONF'' ''/etc/slurm/slurm.conf''], ct_Ports := [(''slurmdbd'', SlurmdbdPort)],
       ct_Mounts := [read_only (mount_at ''config'' ''/config''), mount_at ''munge-run'' ''/run/munge'', jwt_mount,
         mount_at ''slurmdbd-config'' ''/etc/slurm''],
       ct_Probe := Some (tcpProbe SlurmdbdPort)\<rparr>"

definition database_pod :: "cluster \<Rightarrow> pod_spec" where
  "database_pod c =
     (plain_pod_spec [mungeContainer c, slurmdbd_container c] (commonVolumes c @ [volume_of ''slurmdbd-config'' EmptyDir]) (podFSGroup 64030))
     \<lparr>pk_Hostname := ''slurmdbd''\<rparr>"

definition slurmrestd_container :: "cluster \<Rightarrow> container" where
  "slurmrestd_container c =
     (plain_container ''slurmrestd'' (cluster_image c) [''slurmrestd'']
        [''-a'', ''rest_auth/jwt'', ''-s'', ''slurmctld,slurmdbd'', ''-d'', ''v0.0.45'', ''0.0.0.0:'' @ show_nat SlurmRESTPort])
     \<lparr>ct_Env := [env_value ''SLURM_CONF'' ''/etc/slurm/slurm.conf'', env_value ''SLURM_JWT'' ''daemon''],
       ct_Ports := [(''http'', SlurmRESTPort)], ct_Mounts := [read_only (mount_at ''config'' ''/etc/slurm'')],
       ct_Probe := Some (tcpProbe SlurmRESTPort)\<rparr>"

definition rest_pod :: "cluster \<Rightarrow> pod_spec" where
  "rest_pod c = plain_pod_spec [slurmrestd_container c] [configVolume c] (RunAs 64031 64031)"

definition login_container :: "cluster \<Rightarrow> container" where
  "login_container c =
     (plain_container ''login'' (cluster_image c) [''sackd''] [''-D'', ''--conf-server'', slurmConfigServers c])
     \<lparr>ct_Env := [env_value ''RUNTIME_DIRECTORY'' ''/run/slurm'', env_value ''SLURM_CONF'' ''/run/slurm/conf/slurm.conf''],
       ct_Mounts := [mount_at ''munge-run'' ''/run/munge'', mount_at ''slurm-run'' ''/run/slurm''],
       ct_Probe := Some (execProbe [''squeue'', ''--noheader''])\<rparr>"

definition login_pod :: "cluster \<Rightarrow> pod_spec" where
  "login_pod c = plain_pod_spec [mungeContainer c, login_container c] (authVolumes c @ [volume_of ''slurm-run'' EmptyDir]) (podFSGroup 64030)"

definition database_object :: "cluster \<Rightarrow> string \<Rightarrow> string \<Rightarrow> kobject" where
  "database_object c uid configHash = deployment_object c uid ''slurmdbd'' 1 configHash (database_pod c)"

definition rest_object :: "cluster \<Rightarrow> string \<Rightarrow> string \<Rightarrow> kobject" where
  "rest_object c uid configHash = deployment_object c uid ''slurmrestd'' controlPlaneReplicas configHash (rest_pod c)"

definition login_object :: "cluster \<Rightarrow> string \<Rightarrow> string \<Rightarrow> kobject" where
  "login_object c uid configHash =
     deployment_object c uid ''login'' (lo_Replicas (cp_Login (sp_ControlPlane (cl_Spec c)))) configHash (login_pod c)"

text \<open>The objects in the order in which \<^verbatim>\<open>Reconcile\<close> applies them, before the login nodes.\<close>

definition control_objects :: "cluster \<Rightarrow> string \<Rightarrow> slurm_files \<Rightarrow> string \<Rightarrow> kobject list" where
  "control_objects c uid files configHash =
     [config_object c uid files, controller_service c uid, controllers_object c uid configHash, budget_object c uid,
      service_object c uid ''slurmdbd'' SlurmdbdPort, database_object c uid configHash,
      service_object c uid ''slurmrestd'' SlurmRESTPort, rest_object c uid configHash]"

end
