(* ===== verification/Checkpoint_Scan.thy ===== *)
theory Checkpoint_Scan
  imports Cluster_API
begin

text \<open>
  Reading committed checkpoints from the object store, \<^verbatim>\<open>controllers/recovery_checkpoint.go\<close>. The store is a listing
  and a read per key; the decoding of markers and times, the URL parser, the certificate pool and the constructor of
  the client are arguments. Times are nanoseconds since the zero time, which is 0.
\<close>

definition second :: int where "second = 10 ^ 9"

record store_object =
  so_Err :: bool
  so_Key :: string
  so_LastModified :: int
  so_UserMetadata :: "(string, string) gomap"

record commit_marker =
  mk_CheckpointVersion :: int
  mk_GlobalStep :: nat
  mk_ManifestSHA256 :: string
  mk_CommittedAt :: string
  mk_SlurmJobID :: nat

record url_parts =
  ur_Scheme :: string
  ur_Host :: string
  ur_Path :: string
  ur_User :: bool
  ur_RawQuery :: string
  ur_Fragment :: string

datatype object_read = GetFailed | ReadFailed | ReadData string

datatype scan_error =
    CheckpointingDisabled
  | StoreSecretUnreadable
  | StoreValue string
  | StoreEndpoint
  | StoreCertificates
  | StoreClient
  | ListingFailed
  | ListingTooLong
  | ObjectFailed

record scan_env =
  sc_secret :: "string \<Rightarrow> (string, string) gomap option"
  sc_parseURL :: "string \<Rightarrow> url_parts option"
  sc_certificates :: "string \<Rightarrow> bool"
  sc_newClient :: "string \<Rightarrow> string \<Rightarrow> string \<Rightarrow> bool"
  sc_listing :: "store_object list"
  sc_get :: "string \<Rightarrow> object_read"
  sc_marker :: "string \<Rightarrow> commit_marker option"
  sc_parseTime :: "string \<Rightarrow> int option"

section \<open>The client\<close>

definition store_value :: "(string, string) gomap \<Rightarrow> string \<Rightarrow> scan_error + string" where
  "store_value data name =
     (let v = trim_space (gm_get '''' data name) in fail_if (v = '''' \<or> length v > 4096) (StoreValue name) (Inr v))"

definition https_origin :: "url_parts option \<Rightarrow> bool" where
  "https_origin parsed \<longleftrightarrow> (case parsed of None \<Rightarrow> False
     | Some u \<Rightarrow> \<not> (ur_Scheme u \<noteq> ''https'' \<or> ur_Host u = '''' \<or> (ur_Path u \<noteq> '''' \<and> ur_Path u \<noteq> ''/'') \<or> ur_User u
         \<or> ur_RawQuery u \<noteq> '''' \<or> ur_Fragment u \<noteq> ''''))"

definition checkpointStore :: "scan_env \<Rightarrow> cluster \<Rightarrow> scan_error + string" where
  "checkpointStore env c =
     (case sp_Checkpointing (cl_Spec c) of None \<Rightarrow> Inl CheckpointingDisabled
      | Some ck \<Rightarrow>
     (case sc_secret env (ck_ObjectStoreSecretRef ck) of None \<Rightarrow> Inl StoreSecretUnreadable
      | Some data \<Rightarrow>
          bind_res (store_value data ''endpoint'') (\<lambda>endpoint.
          bind_res (store_value data ''bucket'') (\<lambda>bucket.
          bind_res (store_value data ''accessKey'') (\<lambda>accessKey.
          bind_res (store_value data ''secretKey'') (\<lambda>secretKey.
          let parsed = sc_parseURL env endpoint; ca = gm_get '''' data ''ca.crt'' in
          fail_if (\<not> https_origin parsed) StoreEndpoint
          (fail_if (ca \<noteq> '''' \<and> \<not> sc_certificates env ca) StoreCertificates
          (fail_if (\<not> sc_newClient env (ur_Host (the parsed)) accessKey secretKey) StoreClient (Inr bucket)))))))))"

section \<open>Commit markers\<close>

definition marker_limit :: nat where "marker_limit = 64 * 2 ^ 10"
definition listing_limit :: nat where "listing_limit = 10000"

definition marker_for :: "scan_env \<Rightarrow> string \<Rightarrow> nat \<Rightarrow> int \<Rightarrow> bool" where
  "marker_for env data jobID since \<longleftrightarrow> length data \<le> marker_limit \<and>
     (case sc_marker env data of None \<Rightarrow> False
      | Some mk \<Rightarrow> mk_CheckpointVersion mk = 2 \<and> mk_SlurmJobID mk = jobID \<and> length (mk_ManifestSHA256 mk) = 64
          \<and> (case sc_parseTime env (mk_CommittedAt mk) of None \<Rightarrow> False | Some t \<Rightarrow> \<not> t < since))"

fun scan_commits :: "scan_env \<Rightarrow> nat \<Rightarrow> int \<Rightarrow> nat \<Rightarrow> store_object list \<Rightarrow> scan_error + bool" where
  "scan_commits env jobID since n [] = Inr False"
| "scan_commits env jobID since n (x # xs) =
     (if so_Err x then Inl ListingFailed
      else if \<not> has_suffix (so_Key x) ''.complete'' then scan_commits env jobID since n xs
      else if n + 1 > listing_limit then Inl ListingTooLong
      else if so_LastModified x \<noteq> 0 \<and> so_LastModified x < since - second then scan_commits env jobID since (n + 1) xs
      else (case sc_get env (so_Key x) of
              GetFailed \<Rightarrow> Inl ObjectFailed
            | ReadFailed \<Rightarrow> scan_commits env jobID since (n + 1) xs
            | ReadData data \<Rightarrow> if marker_for env data jobID since then Inr True else scan_commits env jobID since (n + 1) xs))"

definition checkpointCommittedSince :: "scan_env \<Rightarrow> cluster \<Rightarrow> nat \<Rightarrow> int \<Rightarrow> scan_error + bool" where
  "checkpointCommittedSince env c jobID since =
     bind_res (checkpointStore env c) (\<lambda>bucket. scan_commits env jobID since 0 (sc_listing env))"

section \<open>The newest commit\<close>

definition commit_step :: "store_object \<Rightarrow> store_object list \<Rightarrow> scan_error + store_object list" where
  "commit_step x objects =
     (if so_Err x then Inl ListingFailed
      else if has_suffix (so_Key x) ''.complete''
      then fail_if (length objects + 1 > listing_limit) ListingTooLong (Inr (objects @ [x]))
      else Inr objects)"

definition newestCheckpointTime :: "store_object list \<Rightarrow> string \<Rightarrow> int option" where
  "newestCheckpointTime objects clusterUID =
     (let newest = fold (\<lambda>x t. if gm_get '''' (so_UserMetadata x) ''cluster-uid'' = clusterUID \<and> so_LastModified x > t
                              then so_LastModified x else t) objects 0 in
      if newest = 0 then None else Some newest)"

definition newestCommittedCheckpoint :: "scan_env \<Rightarrow> cluster \<Rightarrow> string \<Rightarrow> scan_error + int option" where
  "newestCommittedCheckpoint env c clusterUID =
     bind_res (checkpointStore env c) (\<lambda>bucket.
     bind_res (for_each commit_step (sc_listing env) []) (\<lambda>objects. Inr (newestCheckpointTime objects clusterUID)))"

section \<open>What a scan finds\<close>

text \<open>The markers within the listing that answer a question about a job.\<close>

definition commit_found :: "scan_env \<Rightarrow> nat \<Rightarrow> int \<Rightarrow> store_object \<Rightarrow> bool" where
  "commit_found env jobID since x \<longleftrightarrow> has_suffix (so_Key x) ''.complete''
     \<and> (\<exists>data. sc_get env (so_Key x) = ReadData data \<and> marker_for env data jobID since)"

lemma scan_commits_True: "scan_commits env jobID since n xs = Inr True \<Longrightarrow> \<exists>x\<in>set xs. commit_found env jobID since x"
  by (induction xs arbitrary: n) (auto simp: commit_found_def split: if_splits object_read.splits)

lemma scan_commits_False:
  "scan_commits env jobID since n xs = Inr False \<Longrightarrow> x \<in> set xs \<Longrightarrow> commit_found env jobID since x
     \<Longrightarrow> so_LastModified x \<noteq> 0 \<and> so_LastModified x < since - second"
  by (induction xs arbitrary: n) (auto simp: commit_found_def split: if_splits object_read.splits)

lemma newest_fold:
  fixes objects :: "store_object list" and init_t :: int and P :: "store_object \<Rightarrow> bool"
  defines "r \<equiv> fold (\<lambda>x t. if P x \<and> so_LastModified x > t then so_LastModified x else t) objects init_t"
  shows "init_t \<le> r \<and> (\<forall>x\<in>set objects. P x \<longrightarrow> so_LastModified x \<le> r) \<and> (r = init_t \<or> (\<exists>x\<in>set objects. P x \<and> so_LastModified x = r))"
  unfolding r_def
proof (induction objects arbitrary: init_t)
  case (Cons x xs)
  show ?case using Cons.IH[of "if P x \<and> so_LastModified x > init_t then so_LastModified x else init_t"]
    by (auto split: if_splits intro: order_trans)
qed simp

lemma newestCheckpointTime_Some:
  assumes "newestCheckpointTime objects uid = Some t"
  shows "(\<exists>x\<in>set objects. gm_get [] (so_UserMetadata x) ''cluster-uid'' = uid \<and> so_LastModified x = t)
    \<and> (\<forall>x\<in>set objects. gm_get [] (so_UserMetadata x) ''cluster-uid'' = uid \<longrightarrow> so_LastModified x \<le> t)"
  using newest_fold[where init_t = 0 and objects = objects and P = "\<lambda>x. gm_get [] (so_UserMetadata x) ''cluster-uid'' = uid"] assms
  by (auto simp: newestCheckpointTime_def Let_def split: if_splits)

end
