(* ===== verification/Controller.thy ===== *)
theory Controller
  imports Control_Plane Checkpoint_Scan
begin

text \<open>
  The controller of a cluster, \<^verbatim>\<open>src/slurm-operator/controllers/cluster_controller.go\<close>: validation, readiness, the
  status and the whole \<^verbatim>\<open>Reconcile\<close>. Reads of the API and of Slurm are arguments that may answer differently at
  each point of the log. The texts of errors, the bookkeeping of conditions by the API machinery, SHA-256 and the
  check of DNS labels are arguments as well. Events and metrics are left out.
\<close>

section \<open>State\<close>

definition clusterWorkerFinalizer :: string where "clusterWorkerFinalizer = ''orchestration.gputpu.io/worker-cleanup''"
definition requeueInterval :: int where "requeueInterval = 5 * second"
definition outageRequeue :: int where "outageRequeue = 30 * second"
definition checkpointScanInterval :: int where "checkpointScanInterval = 60 * second"
definition ConditionControlPlaneReady :: string where "ConditionControlPlaneReady = ''ControlPlaneReady''"
definition ConditionAccountingReady :: string where "ConditionAccountingReady = ''AccountingReady''"
definition ConditionWorkersReady :: string where "ConditionWorkersReady = ''WorkersReady''"
definition ConditionCheckpointReady :: string where "ConditionCheckpointReady = ''CheckpointStoreReady''"

datatype condition_value = CondTrue | CondFalse | CondUnknown

record condition =
  cn_Type :: string
  cn_Status :: condition_value
  cn_Reason :: string
  cn_Message :: string
  cn_Generation :: int

record cluster_status =
  st_ObservedGeneration :: int
  st_CheckpointObservedAt :: "int option"
  st_NewestCommittedCheckpoint :: "int option"
  st_Conditions :: "condition list"
  st_WorkerPools :: "pool_status list"

record cluster_object =
  co_Cluster :: cluster
  co_UID :: string
  co_Generation :: int
  co_Deleting :: bool
  co_Finalizers :: "string list"
  co_Status :: cluster_status

datatype control_call =
    ApplyObject kobject
  | UpdateCluster "string list"
  | UpdateStatus cluster_status
  | WorkerCall call

datatype control_error =
    ClusterUnreadable
  | DuplicateProfile string string
  | DuplicateGres string string string
  | StateClaimMissing string
  | StateClaimUnreadable
  | StateClaimNotShared string
  | SecretUnreadable string
  | SecretTooShort string
  | ObjectUnreadable string
  | ClientError client_error
  | ControlCall control_call
  | WorkerFailed worker_error
  | StoreUnavailable scan_error
  | RenderPanic

datatype volume_claim_read = VolumeClaimMissing | VolumeClaimError | VolumeClaim "string list"

record statefulset_state =
  sx_Generation :: int
  sx_ObservedGeneration :: int
  sx_CurrentRevision :: string
  sx_UpdateRevision :: string
  sx_UpdatedReplicas :: int
  sx_ReadyReplicas :: int

record deployment_state =
  dx_Generation :: int
  dx_ObservedGeneration :: int
  dx_UpdatedReplicas :: int
  dx_ReadyReplicas :: int

record control_env =
  rc_worker :: worker_env
  rc_volumeClaim :: "string \<Rightarrow> volume_claim_read"
  rc_secret :: "string \<Rightarrow> (string, byte list) gomap option"
  rc_statefulset :: "nat \<Rightarrow> string \<Rightarrow> statefulset_state option"
  rc_deployment :: "nat \<Rightarrow> string \<Rightarrow> deployment_state option"
  rc_restBaseURL :: "(cluster \<Rightarrow> string) option"
  rc_parseURL :: "string \<Rightarrow> (string \<times> string \<times> bool) option"
  rc_jobs :: "slurm_job list requester"
  rc_accounts :: "string list requester"
  rc_nodes :: "slurm_node list requester"
  rc_pods :: "pod list option"
  rc_scan :: scan_env
  rc_isLabel :: "string \<Rightarrow> bool"
  rc_sha256 :: "string \<Rightarrow> string"
  rc_text :: "control_error \<Rightarrow> string"
  rc_workerText :: "worker_result \<Rightarrow> string"
  rc_setCondition :: "condition \<Rightarrow> condition list \<Rightarrow> condition list"
  rc_removeCondition :: "string \<Rightarrow> condition list \<Rightarrow> condition list"
  rc_now :: int

type_synonym 'a control_io = "(control_call, control_error, 'a) io"

definition control_call :: "control_call world \<Rightarrow> control_call \<Rightarrow> unit control_io" where
  "control_call world c = io_must world [Done] (ControlCall c) c"

section \<open>Validation\<close>

definition profile_step ::
  "string \<Rightarrow> worker_profile \<Rightarrow> string list \<times> (string, string) gomap \<Rightarrow> control_error + string list \<times> (string, string) gomap" where
  "profile_step pool profile = (\<lambda>(names, gres).
     if List.member names (wp_Name profile) then Inl (DuplicateProfile pool (wp_Name profile))
     else (case map_of gres (wp_Gres profile) of
             Some owner \<Rightarrow> Inl (DuplicateGres (wp_Gres profile) owner (pool @ ''/'' @ wp_Name profile))
           | None \<Rightarrow> Inr (wp_Name profile # names, gm_put (wp_Gres profile) (pool @ ''/'' @ wp_Name profile) gres)))"

definition pool_validate :: "worker_pool \<Rightarrow> (string, string) gomap \<Rightarrow> control_error + (string, string) gomap" where
  "pool_validate pool gres =
     bind_res (for_each (profile_step (po_Name pool)) (po_Profiles pool) ([], gres)) (\<lambda>(names, gres'). Inr gres')"

definition validateSpec :: "cluster_spec \<Rightarrow> control_error + unit" where
  "validateSpec spec = bind_res (for_each pool_validate (sp_WorkerPools spec) []) (\<lambda>_. Inr ())"

definition validateStateClaim :: "control_env \<Rightarrow> cluster \<Rightarrow> control_error + unit" where
  "validateStateClaim env c =
     (let name = cs_StateSaveClaim (cp_Controllers (sp_ControlPlane (cl_Spec c))) in
      case rc_volumeClaim env name of
        VolumeClaimMissing \<Rightarrow> Inl (StateClaimMissing name)
      | VolumeClaimError \<Rightarrow> Inl StateClaimUnreadable
      | VolumeClaim modes \<Rightarrow> fail_if (\<not> List.member modes ''ReadWriteMany'') (StateClaimNotShared name) (Inr ()))"

definition jwt_key :: "control_env \<Rightarrow> cluster \<Rightarrow> control_error + byte list" where
  "jwt_key env c =
     (let name = au_JWTKeySecretRef (sp_Authentication (cl_Spec c)) in
      case rc_secret env name of
        None \<Rightarrow> Inl (SecretUnreadable name)
      | Some data \<Rightarrow> let v = gm_get [] data jwtKey in fail_if (length v < 32) (SecretTooShort name) (Inr v))"

definition restURL :: "control_env \<Rightarrow> cluster \<Rightarrow> string" where
  "restURL env c = (case rc_restBaseURL env of Some f \<Rightarrow> f c
     | None \<Rightarrow> ''http://'' @ cl_Name c @ ''-slurmrestd.'' @ cl_Namespace c @ ''.svc:'' @ show_nat SlurmRESTPort)"

definition slurm_client :: "control_env \<Rightarrow> cluster \<Rightarrow> byte list \<Rightarrow> control_error + string \<times> byte list" where
  "slurm_client env c key = map_error ClientError (NewClient (rc_parseURL env) (restURL env c) key)"

section \<open>Readiness\<close>

definition controllersReady :: "control_env \<Rightarrow> cluster \<Rightarrow> bool control_io" where
  "controllersReady env c = io_bind io_here (\<lambda>n.
     case rc_statefulset env n (object_name c ''slurmctld'') of
       None \<Rightarrow> io_fail (ObjectUnreadable (object_name c ''slurmctld''))
     | Some s \<Rightarrow> io_ret (\<not> (sx_ObservedGeneration s \<noteq> sx_Generation s \<or> sx_CurrentRevision s \<noteq> sx_UpdateRevision s
         \<or> sx_UpdatedReplicas s \<noteq> controlPlaneReplicas \<or> sx_ReadyReplicas s \<noteq> controlPlaneReplicas)))"

definition deployment_ready :: "control_env \<Rightarrow> cluster \<Rightarrow> string \<times> int \<Rightarrow> bool \<Rightarrow> bool control_io" where
  "deployment_ready env c = (\<lambda>(component, replicas) ready.
     if \<not> ready then io_ret False
     else io_bind io_here (\<lambda>n.
       case rc_deployment env n (object_name c component) of
         None \<Rightarrow> io_fail (ObjectUnreadable (object_name c component))
       | Some d \<Rightarrow> io_ret (\<not> (dx_ObservedGeneration d \<noteq> dx_Generation d \<or> dx_UpdatedReplicas d \<noteq> replicas \<or> dx_ReadyReplicas d \<noteq> replicas))))"

definition workloadsReady :: "control_env \<Rightarrow> cluster \<Rightarrow> bool control_io" where
  "workloadsReady env c = io_bind (controllersReady env c) (\<lambda>ready.
     if \<not> ready then io_ret ready
     else io_each (deployment_ready env c)
       [(''slurmdbd'', 1), (''slurmrestd'', controlPlaneReplicas), (''login'', lo_Replicas (cp_Login (sp_ControlPlane (cl_Spec c))))] True)"

section \<open>Status\<close>

definition setCondition :: "control_env \<Rightarrow> string \<Rightarrow> condition_value \<Rightarrow> string \<Rightarrow> string \<Rightarrow> int \<Rightarrow> cluster_status \<Rightarrow> cluster_status" where
  "setCondition env conditionType v reason message generation s =
     s\<lparr>st_Conditions := rc_setCondition env \<lparr>cn_Type = conditionType, cn_Status = v, cn_Reason = reason, cn_Message = message,
         cn_Generation = generation\<rparr> (st_Conditions s)\<rparr>"

definition updateStatus :: "control_call world \<Rightarrow> cluster_object \<Rightarrow> cluster_status \<Rightarrow> unit control_io" where
  "updateStatus world obj s = (if co_Status obj = s then io_ret () else control_call world (UpdateStatus s))"

definition not_ready_status :: "control_env \<Rightarrow> cluster_object \<Rightarrow> string \<Rightarrow> string \<Rightarrow> cluster_status" where
  "not_ready_status env obj reason message =
     setCondition env ConditionWorkersReady CondUnknown reason ''worker capacity is preserved until the control plane recovers'' (co_Generation obj)
     (setCondition env ConditionAccountingReady CondFalse reason message (co_Generation obj)
     (setCondition env ConditionControlPlaneReady CondFalse reason message (co_Generation obj)
     ((co_Status obj)\<lparr>st_ObservedGeneration := co_Generation obj,
        st_WorkerPools := poolStatus (sp_WorkerPools (cl_Spec (co_Cluster obj)))\<rparr>)))"

definition notReady ::
  "control_env \<Rightarrow> control_call world \<Rightarrow> cluster_object \<Rightarrow> string \<Rightarrow> string \<Rightarrow> control_error option \<Rightarrow> int control_io" where
  "notReady env world obj reason message reconcileError =
     io_bind (updateStatus world obj (not_ready_status env obj reason message)) (\<lambda>_.
     case reconcileError of
       Some e \<Rightarrow> io_fail e
     | None \<Rightarrow> io_ret (if reason = ''RESTUnavailable'' \<or> reason = ''JWTUnavailable'' then outageRequeue else requeueInterval))"

definition checkpoint_status :: "control_env \<Rightarrow> cluster_object \<Rightarrow> cluster_status \<Rightarrow> cluster_status" where
  "checkpoint_status env obj s =
     (if sp_Checkpointing (cl_Spec (co_Cluster obj)) = None
      then s\<lparr>st_CheckpointObservedAt := None, st_NewestCommittedCheckpoint := None,
             st_Conditions := rc_removeCondition env ConditionCheckpointReady (st_Conditions s)\<rparr>
      else if (case st_CheckpointObservedAt s of None \<Rightarrow> True | Some t \<Rightarrow> rc_now env - t \<ge> checkpointScanInterval)
      then let s1 = s\<lparr>st_CheckpointObservedAt := Some (rc_now env)\<rparr> in
           (case newestCommittedCheckpoint (rc_scan env) (co_Cluster obj) (co_UID obj) of
              Inr newest \<Rightarrow> setCondition env ConditionCheckpointReady CondTrue ''Ready'' ''checkpoint commit metadata is readable'' (co_Generation obj)
                (s1\<lparr>st_NewestCommittedCheckpoint := newest\<rparr>)
            | Inl e \<Rightarrow> setCondition env ConditionCheckpointReady CondFalse ''ObjectStoreUnavailable'' (rc_text env (StoreUnavailable e)) (co_Generation obj) s1)
      else s)"

definition ready_status :: "control_env \<Rightarrow> cluster_object \<Rightarrow> client_error + unit \<Rightarrow> worker_result \<Rightarrow> cluster_status" where
  "ready_status env obj accounting workers =
     (let gen = co_Generation obj;
          s1 = checkpoint_status env obj ((co_Status obj)\<lparr>st_ObservedGeneration := gen, st_WorkerPools := wr_Status workers\<rparr>);
          s2 = setCondition env ConditionControlPlaneReady CondTrue ''Ready'' ''Slurm controllers, REST, and login are ready'' gen s1;
          s3 = (case accounting of
                  Inr u \<Rightarrow> setCondition env ConditionAccountingReady CondTrue ''Ready'' ''Slurm accounting is ready'' gen s2
                | Inl e \<Rightarrow> setCondition env ConditionAccountingReady CondFalse ''AccountingUnavailable'' (rc_text env (ClientError e)) gen s2) in
      setCondition env ConditionWorkersReady (if wr_Ready workers then CondTrue else CondFalse) (wr_Reason workers) (rc_workerText env workers) gen s3)"

section \<open>The whole pass\<close>

definition cluster_workers :: "control_env \<Rightarrow> cluster_object \<Rightarrow> worker_env" where
  "cluster_workers env obj = (rc_worker env)\<lparr>we_cluster := co_Cluster obj, we_uid := co_UID obj\<rparr>"

definition listed_nodes :: "control_env \<Rightarrow> slurm_node list option" where
  "listed_nodes env = (case client_Nodes (rc_nodes env) of Inl e \<Rightarrow> None | Inr nodes \<Rightarrow> Some nodes)"

definition finalize_cluster :: "control_env \<Rightarrow> control_call world \<Rightarrow> cluster_object \<Rightarrow> int control_io" where
  "finalize_cluster env world obj =
     (if \<not> List.member (co_Finalizers obj) clusterWorkerFinalizer then io_ret 0
      else io_bind (io_res (jwt_key env (co_Cluster obj))) (\<lambda>key.
           io_bind (io_res (slurm_client env (co_Cluster obj) key)) (\<lambda>client.
           io_bind (io_lift WorkerCall WorkerFailed world
                      (\<lambda>w. cleanupClusterWorkers (cluster_workers env obj) w (rc_pods env) (listed_nodes env))) (\<lambda>finished.
           if \<not> finished then io_ret requeueInterval
           else io_bind (control_call world (UpdateCluster (filter (\<lambda>f. f \<noteq> clusterWorkerFinalizer) (co_Finalizers obj)))) (\<lambda>_. io_ret 0)))))"

definition apply_objects :: "control_call world \<Rightarrow> kobject list \<Rightarrow> unit control_io" where
  "apply_objects world objects = io_each (\<lambda>o' u. control_call world (ApplyObject o')) objects ()"

definition config_hash :: "control_env \<Rightarrow> slurm_files \<Rightarrow> string" where
  "config_hash env files = rc_sha256 env (sf_SlurmConf files @ [CHR 0x00] @ sf_GRESConf files @ [CHR 0x00] @ sf_CgroupConf files)"

definition serve_workers :: "control_env \<Rightarrow> control_call world \<Rightarrow> cluster_object \<Rightarrow> byte list \<Rightarrow> int control_io" where
  "serve_workers env world obj key =
     (case slurm_client env (co_Cluster obj) key of
        Inl e \<Rightarrow> notReady env world obj ''JWTUnavailable'' (rc_text env e) None
      | Inr client \<Rightarrow>
     (case fetchJobs (rc_jobs env) of
        Inl e \<Rightarrow> notReady env world obj ''RESTUnavailable'' (rc_text env (ClientError e)) None
      | Inr response \<Rightarrow>
          let accounting = AccountingReady (rc_accounts env) (cl_Name (co_Cluster obj)) in
          io_bind (io_lift WorkerCall WorkerFailed world
                     (\<lambda>w. reconcileWorkers (cluster_workers env obj) w (rc_pods env) (listed_nodes env) (PendingJobs response))) (\<lambda>workers.
          io_bind (updateStatus world obj (ready_status env obj accounting workers)) (\<lambda>_.
          io_ret (if \<not> is_ok accounting \<or> wr_Reason workers = ''RESTUnavailable'' then outageRequeue else requeueInterval)))))"

definition serve_login :: "control_env \<Rightarrow> control_call world \<Rightarrow> cluster_object \<Rightarrow> byte list \<Rightarrow> string \<Rightarrow> int control_io" where
  "serve_login env world obj key configHash =
     io_try (apply_objects world [login_object (co_Cluster obj) (co_UID obj) configHash]) (\<lambda>r.
     case r of
       Inl e \<Rightarrow> notReady env world obj ''ReconcileFailed'' (rc_text env e) (Some e)
     | Inr u \<Rightarrow>
         io_try (workloadsReady env (co_Cluster obj)) (\<lambda>r.
         case r of
           Inl e \<Rightarrow> notReady env world obj ''ReadinessCheckFailed'' (rc_text env e) (Some e)
         | Inr ready \<Rightarrow>
             if \<not> ready then notReady env world obj ''ResourcesNotReady'' ''Slurm control-plane workloads are not ready'' None
             else serve_workers env world obj key))"

definition serve_cluster :: "control_env \<Rightarrow> control_call world \<Rightarrow> cluster_object \<Rightarrow> byte list \<Rightarrow> int control_io" where
  "serve_cluster env world obj key =
     (case render_Slurm (we_pq (rc_worker env)) (nat (we_maxSize (rc_worker env))) (co_Cluster obj) of
        None \<Rightarrow> io_fail RenderPanic
      | Some files \<Rightarrow>
      let configHash = config_hash env files in
      io_try (apply_objects world (control_objects (co_Cluster obj) (co_UID obj) files configHash)) (\<lambda>r.
      case r of
        Inl e \<Rightarrow> notReady env world obj ''ReconcileFailed'' (rc_text env e) (Some e)
      | Inr u \<Rightarrow>
          io_try (controllersReady env (co_Cluster obj)) (\<lambda>r.
          case r of
            Inl e \<Rightarrow> notReady env world obj ''ReadinessCheckFailed'' (rc_text env e) (Some e)
          | Inr ready \<Rightarrow>
              if \<not> ready then notReady env world obj ''ResourcesNotReady'' ''Slurm controllers are not at the current revision'' None
              else serve_login env world obj key configHash)))"

definition add_finalizer :: "control_call world \<Rightarrow> cluster_object \<Rightarrow> cluster_object control_io" where
  "add_finalizer world obj =
     (if List.member (co_Finalizers obj) clusterWorkerFinalizer then io_ret obj
      else let obj' = obj\<lparr>co_Finalizers := co_Finalizers obj @ [clusterWorkerFinalizer]\<rparr> in
           io_bind (control_call world (UpdateCluster (co_Finalizers obj'))) (\<lambda>_. io_ret obj'))"

definition Reconcile :: "control_env \<Rightarrow> control_call world \<Rightarrow> control_error + cluster_object option \<Rightarrow> int control_io" where
  "Reconcile env world cluster_read =
     (case cluster_read of
        Inl e \<Rightarrow> io_fail e
      | Inr None \<Rightarrow> io_ret 0
      | Inr (Some obj) \<Rightarrow>
          let c = co_Cluster obj in
          if co_Deleting obj then finalize_cluster env world obj
          else if length (cl_Name c) > 50 \<or> \<not> rc_isLabel env (cl_Name c) then
            notReady env world obj ''InvalidSpec'' ''cluster name must be a DNS label starting with a letter and contain at most 50 characters'' None
          else (case validateSpec (cl_Spec c) of
                  Inl e \<Rightarrow> notReady env world obj ''InvalidSpec'' (rc_text env e) None
                | Inr u \<Rightarrow>
               (case validateStateClaim env c of
                  Inl e \<Rightarrow> notReady env world obj ''InvalidStateClaim'' (rc_text env e) None
                | Inr u \<Rightarrow>
               (case jwt_key env c of
                  Inl e \<Rightarrow> notReady env world obj ''JWTUnavailable'' (rc_text env e) None
                | Inr key \<Rightarrow> io_bind (add_finalizer world obj) (\<lambda>obj'. serve_cluster env world obj' key)))))"

end
