(* ===== verification/Recovery.thy ===== *)
theory Recovery
  imports Controller
begin

text \<open>
  The durable state of a hardware recovery and the isolation of a node, \<^verbatim>\<open>controllers/recovery.go\<close>. Reads of the API
  and the clock may answer differently at each point of the log. UUIDs, JSON and gzip are arguments; compression into a
  buffer does not fail. A saved object carries the bytes that are written, and next to them the state that they
  encode. The answer to a patch is the patched object. Heartbeat times of conditions, events and metrics are left out.
\<close>

section \<open>State\<close>

definition hardwareFaultCondition :: string where "hardwareFaultCondition = ''HardwareFaultDetected''"
definition hardwareDegradedCondition :: string where "hardwareDegradedCondition = ''HardwareDegraded''"
definition hardwareDegradedTaint :: string where "hardwareDegradedTaint = ''orchestration.gputpu.io/hardware-degraded''"
definition recoveryIncidentKey :: string where "recoveryIncidentKey = ''orchestration.gputpu.io/recovery-incident''"
definition recoveryPhaseKey :: string where "recoveryPhaseKey = ''orchestration.gputpu.io/recovery-phase''"
definition recoveryRequestKey :: string where "recoveryRequestKey = ''orchestration.gputpu.io/recovery-request''"
definition rebootRequestKey :: string where "rebootRequestKey = ''orchestration.gputpu.io/reboot-request''"
definition rebootAckKey :: string where "rebootAckKey = ''orchestration.gputpu.io/reboot-ack''"
definition inventoryKey :: string where "inventoryKey = ''orchestration.gputpu.io/inventory-v1''"
definition inventoryHashKey :: string where "inventoryHashKey = ''orchestration.gputpu.io/inventory-hash''"
definition inventoryBootIDKey :: string where "inventoryBootIDKey = ''orchestration.gputpu.io/inventory-boot-id''"
definition recoveryStateVersion :: int where "recoveryStateVersion = 1"
definition checkpointGrace :: int where "checkpointGrace = 120 * second"
definition readyStabilization :: int where "readyStabilization = 30 * second"
definition verifierTimeout :: int where "verifierTimeout = 120 * second"
definition recoveryRequeue :: int where "recoveryRequeue = 5 * second"
definition maxRecoveryStateBytes :: nat where "maxRecoveryStateBytes = 900 * 2 ^ 10"

datatype recovery_phase =
    PhaseIsolated | PhaseDraining | PhaseCheckpointing | PhaseRequeued | PhaseRebootRequested | PhaseRebooting | PhaseVerifying
  | PhaseManualRepair | PhaseOther string

fun phase_text :: "recovery_phase \<Rightarrow> string" where
  "phase_text PhaseIsolated = ''Isolated''"
| "phase_text PhaseDraining = ''Draining''"
| "phase_text PhaseCheckpointing = ''Checkpointing''"
| "phase_text PhaseRequeued = ''Requeued''"
| "phase_text PhaseRebootRequested = ''RebootRequested''"
| "phase_text PhaseRebooting = ''Rebooting''"
| "phase_text PhaseVerifying = ''Verifying''"
| "phase_text PhaseManualRepair = ''ManualRepair''"
| "phase_text (PhaseOther s) = s"

record recovery_cluster =
  yc_Namespace :: string
  yc_Name :: string
  yc_UID :: string

record recovery_worker =
  yw_ClusterNamespace :: string
  yw_ClusterName :: string
  yw_Namespace :: string
  yw_Name :: string
  yw_Claim :: string

record recovery_job =
  yj_ClusterNamespace :: string
  yj_ClusterName :: string
  yj_ID :: nat
  yj_SignalRequestedAt :: "int option"
  yj_SignalSent :: bool
  yj_CheckpointSeen :: bool
  yj_RequeueRequestedAt :: "int option"
  yj_RequeueSent :: bool
  yj_Evacuated :: bool

record recovery_state =
  ry_Version :: int
  ry_Incident :: string
  ry_NodeName :: string
  ry_NodeUID :: string
  ry_Phase :: recovery_phase
  ry_StartedAt :: int
  ry_PhaseStartedAt :: int
  ry_PreBootID :: string
  ry_PreInventory :: string
  ry_PreInventoryHash :: string
  ry_Clusters :: "recovery_cluster list"
  ry_Workers :: "recovery_worker list"
  ry_Jobs :: "recovery_job list"
  ry_RebootRequestedAt :: "int option"
  ry_NewBootID :: string
  ry_ReadySince :: "int option"
  ry_VerificationStarted :: "int option"
  ry_VerificationPassed :: bool
  ry_TerminalReason :: string
  ry_ManualRequest :: string

record node_condition =
  nc_Type :: string
  nc_Status :: string
  nc_Reason :: string
  nc_Message :: string

record knode =
  nd_Name :: string
  nd_UID :: string
  nd_Labels :: "(string, string) gomap"
  nd_Annotations :: "(string, string) gomap"
  nd_Taints :: "(string \<times> string \<times> string) list"
  nd_BootID :: string
  nd_Conditions :: "node_condition list"

record state_object =
  sb_Name :: string
  sb_Namespace :: string
  sb_Labels :: "(string, string) gomap"
  sb_Owner :: string
  sb_Data :: string

record verifier_claim =
  vc_Name :: string
  vc_Namespace :: string
  vc_Labels :: "(string, string) gomap"
  vc_Requests :: "device_request list"
  vc_Match :: string
  vc_Owner :: string

record verifier_job =
  vj_Name :: string
  vj_Namespace :: string
  vj_Labels :: "(string, string) gomap"
  vj_BackoffLimit :: int
  vj_ActiveDeadlineSeconds :: int
  vj_Spec :: pod_spec
  vj_Owner :: string

datatype recovery_call =
    SaveState state_object recovery_state
  | DeleteState string
  | PatchNode knode
  | PatchNodeStatus string "node_condition list"
  | MarkPod string string string
  | DrainWorker string string string
  | SignalWork string nat string
  | RequeueWork string nat
  | RemoveWorker string string
  | ReleasePod pod
  | DropPod string string
  | DropClaim string string
  | CreateVerifierClaim verifier_claim
  | CreateVerifierJob verifier_job
  | DropVerifierJob string
  | DropVerifierClaim string

datatype recovery_error =
    NodeUnreadable
  | StateUnreadable
  | StateUndecodable
  | StateTooLarge
  | StateForeign
  | NoIncident
  | RecoveryCall recovery_call
  | RecoveryPodsUnreadable
  | WorkerUnowned string string
  | WorkerClusterUnreadable string string
  | WorkerClusterReplaced string string
  | RecoveryPodUnreadable string string
  | InventoryMissing
  | InventoryInvalid int
  | VerifierProfile string
  | VerifierCPUs int
  | VerifierMemory int
  | VerifierUnreadable string
  | VerifierForeign string
  | UnsupportedPhase string

datatype config_read = ConfigError | ConfigMissing | ConfigFound string

text \<open>Decompression: no gzip header, an error while reading, or the data.\<close>

datatype gzip_read = GzipInvalid | GzipBroken | GzipData string

record owner_ref =
  ow_Kind :: string
  ow_APIVersion :: string
  ow_Name :: string
  ow_UID :: string

datatype pod_read = PodError | PodMissing | PodFound pod
datatype verifier_read = VerifierError | VerifierMissing | VerifierFound string bool int int

record recovery_env =
  rv_control :: "cluster \<Rightarrow> control_env"
  rv_Namespace :: string
  rv_RebootTimeout :: int
  rv_BootIDAnnotation :: string
  rv_now :: "nat \<Rightarrow> int"
  rv_uuid :: "string option"
  rv_parseUUID :: "string \<Rightarrow> string option"
  rv_config :: config_read
  rv_gunzip :: "string \<Rightarrow> gzip_read"
  rv_gzip :: "string \<Rightarrow> string"
  rv_decState :: "string \<Rightarrow> recovery_state option"
  rv_encState :: "recovery_state \<Rightarrow> string"
  rv_getNode :: "nat \<Rightarrow> knode option"
  rv_pods :: "(pod \<times> owner_ref option) list option"
  rv_cluster :: "string \<Rightarrow> string \<Rightarrow> cluster_object option"
  rv_getPod :: "nat \<Rightarrow> string \<Rightarrow> string \<Rightarrow> pod_read"
  rv_getJob :: "nat \<Rightarrow> string \<Rightarrow> verifier_read"
  rv_getClaim :: "nat \<Rightarrow> string \<Rightarrow> verifier_read"
  rv_decInventory :: "string \<Rightarrow> hw_inventory option"
  rv_encProfiles :: "opentpu list \<Rightarrow> string"
  rv_workerImage :: string
  rv_errorText :: "recovery_error \<Rightarrow> string"

type_synonym 'a recovery_io = "(recovery_call, recovery_error, 'a) io"

definition recovery_call :: "recovery_call world \<Rightarrow> recovery_call \<Rightarrow> unit recovery_io" where
  "recovery_call world c = io_must world [Done] (RecoveryCall c) c"

definition recovery_gone :: "recovery_call world \<Rightarrow> recovery_call \<Rightarrow> unit recovery_io" where
  "recovery_gone world c = io_must world [Done, NotFound] (RecoveryCall c) c"

definition recovery_now :: "recovery_env \<Rightarrow> int recovery_io" where
  "recovery_now env = io_bind io_here (\<lambda>n. io_ret (rv_now env n))"

definition node_ann :: "knode \<Rightarrow> string \<Rightarrow> string" where
  "node_ann node key = gm_get '''' (nd_Annotations node) key"

section \<open>Loading and saving\<close>

definition validIncident :: "recovery_env \<Rightarrow> string \<Rightarrow> bool" where
  "validIncident env v = (rv_parseUUID env v = Some v)"

definition newIncident :: "recovery_env \<Rightarrow> recovery_error + string" where
  "newIncident env = (case rv_uuid env of None \<Rightarrow> Inl NoIncident | Some v \<Rightarrow> Inr v)"

definition newRecoveryState :: "recovery_env \<Rightarrow> knode \<Rightarrow> recovery_state recovery_io" where
  "newRecoveryState env node =
     io_bind (recovery_now env) (\<lambda>stamp.
     io_bind (io_res (newIncident env)) (\<lambda>incident.
     io_ret \<lparr>ry_Version = recoveryStateVersion, ry_Incident = incident, ry_NodeName = nd_Name node, ry_NodeUID = nd_UID node,
       ry_Phase = PhaseIsolated, ry_StartedAt = stamp, ry_PhaseStartedAt = stamp, ry_PreBootID = nd_BootID node,
       ry_PreInventory = node_ann node inventoryKey, ry_PreInventoryHash = node_ann node inventoryHashKey,
       ry_Clusters = [], ry_Workers = [], ry_Jobs = [], ry_RebootRequestedAt = None, ry_NewBootID = '''', ry_ReadySince = None,
       ry_VerificationStarted = None, ry_VerificationPassed = False, ry_TerminalReason = '''', ry_ManualRequest = ''''\<rparr>))"

definition bootID :: "recovery_env \<Rightarrow> knode \<Rightarrow> string" where
  "bootID env node =
     (if rv_BootIDAnnotation env \<noteq> '''' \<and> node_ann node (rv_BootIDAnnotation env) \<noteq> '''' then node_ann node (rv_BootIDAnnotation env)
      else nd_BootID node)"

definition recoveryStateName :: "knode \<Rightarrow> string" where
  "recoveryStateName node = ''hardware-recovery-'' @ to_lower (nd_UID node)"

definition decode_state :: "recovery_env \<Rightarrow> knode \<Rightarrow> string \<Rightarrow> recovery_error + recovery_state" where
  "decode_state env node compressed =
     (case rv_gunzip env compressed of
        GzipInvalid \<Rightarrow> Inl StateUndecodable
      | GzipBroken \<Rightarrow> Inl StateTooLarge
      | GzipData data \<Rightarrow>
          fail_if (length data > maxRecoveryStateBytes) StateTooLarge
          (case rv_decState env data of None \<Rightarrow> Inl StateForeign
           | Some s \<Rightarrow> fail_if (ry_Version s \<noteq> recoveryStateVersion \<or> ry_NodeName s \<noteq> nd_Name node \<or> ry_NodeUID s \<noteq> nd_UID node
                         \<or> \<not> validIncident env (ry_Incident s)) StateForeign (Inr s)))"

definition loadState :: "recovery_env \<Rightarrow> knode \<Rightarrow> recovery_error + recovery_state option" where
  "loadState env node =
     (case rv_config env of
        ConfigMissing \<Rightarrow> Inr None
      | ConfigError \<Rightarrow> Inl StateUnreadable
      | ConfigFound compressed \<Rightarrow> bind_res (decode_state env node compressed) (\<lambda>s. Inr (Some s)))"

definition saveState :: "recovery_env \<Rightarrow> recovery_call world \<Rightarrow> knode \<Rightarrow> recovery_state \<Rightarrow> unit recovery_io" where
  "saveState env world node s =
     (let encoded = rv_encState env s; compressed = rv_gzip env encoded in
      if length encoded > maxRecoveryStateBytes \<or> length compressed > maxRecoveryStateBytes then io_fail StateTooLarge
      else recovery_call world (SaveState \<lparr>sb_Name = recoveryStateName node, sb_Namespace = rv_Namespace env,
             sb_Labels = [(''orchestration.gputpu.io/recovery-node'', nd_Name node), (''orchestration.gputpu.io/recovery-incident'', ry_Incident s)],
             sb_Owner = nd_UID node, sb_Data = compressed\<rparr> s))"

section \<open>Isolation\<close>

definition gm_equal :: "('k, 'v) gomap \<Rightarrow> ('k, 'v) gomap \<Rightarrow> bool" where
  "gm_equal a b \<longleftrightarrow> length a = length b \<and> list_all (\<lambda>(k, v). map_of b k = Some v) a"

definition nodeConditionStatus :: "node_condition list \<Rightarrow> string \<Rightarrow> string" where
  "nodeConditionStatus conditions conditionType =
     (case List.find (\<lambda>c. nc_Type c = conditionType) conditions of None \<Rightarrow> ''Unknown'' | Some c \<Rightarrow> nc_Status c)"

text \<open>The loop over the conditions; nothing results when the condition is already there.\<close>

fun condition_updates :: "string \<Rightarrow> string \<Rightarrow> string \<Rightarrow> node_condition list \<Rightarrow> node_condition list option" where
  "condition_updates status reason message [] = Some []"
| "condition_updates status reason message (c # cs) =
     (if nc_Type c \<noteq> hardwareDegradedCondition then map_option (\<lambda>cs'. c # cs') (condition_updates status reason message cs)
      else if nc_Status c = status \<and> nc_Reason c = reason \<and> nc_Message c = message then None
      else map_option (\<lambda>cs'. c\<lparr>nc_Status := status, nc_Reason := reason, nc_Message := message\<rparr> # cs') (condition_updates status reason message cs))"

definition setNodeCondition :: "recovery_env \<Rightarrow> recovery_call world \<Rightarrow> string \<Rightarrow> string \<Rightarrow> string \<Rightarrow> string \<Rightarrow> unit recovery_io" where
  "setNodeCondition env world name status reason message =
     io_bind io_here (\<lambda>n.
     case rv_getNode env n of
       None \<Rightarrow> io_fail NodeUnreadable
     | Some node \<Rightarrow>
         (case condition_updates status reason message (nd_Conditions node) of
            None \<Rightarrow> io_ret ()
          | Some cs \<Rightarrow>
              let cs' = (if list_ex (\<lambda>c. nc_Type c = hardwareDegradedCondition) (nd_Conditions node) then cs
                         else cs @ [\<lparr>nc_Type = hardwareDegradedCondition, nc_Status = status, nc_Reason = reason, nc_Message = message\<rparr>]) in
              recovery_call world (PatchNodeStatus name cs')))"

definition degraded_taint :: "string \<times> string \<times> string" where
  "degraded_taint = (hardwareDegradedTaint, ''true'', ''NoSchedule'')"

definition isolated_node :: "knode \<Rightarrow> recovery_state \<Rightarrow> knode" where
  "isolated_node node s =
     (let a1 = gm_put recoveryPhaseKey (phase_text (ry_Phase s)) (gm_put recoveryIncidentKey (ry_Incident s) (nd_Annotations node));
          a2 = (if ry_Phase s = PhaseRebootRequested \<or> ry_Phase s = PhaseRebooting then gm_put rebootRequestKey (ry_Incident s) a1 else a1) in
      node\<lparr>nd_Annotations := a2,
        nd_Taints := (if List.member (nd_Taints node) degraded_taint then nd_Taints node else nd_Taints node @ [degraded_taint])\<rparr>)"

definition patch_node :: "recovery_call world \<Rightarrow> knode \<Rightarrow> knode \<Rightarrow> knode recovery_io" where
  "patch_node world node node' =
     (if \<not> gm_equal (nd_Annotations node') (nd_Annotations node) \<or> nd_Taints node' \<noteq> nd_Taints node
      then io_bind (recovery_call world (PatchNode node')) (\<lambda>_. io_ret node') else io_ret node)"

definition isolation_message :: "recovery_state \<Rightarrow> string" where
  "isolation_message s = ''hardware recovery incident '' @ ry_Incident s @ '' is '' @ phase_text (ry_Phase s)"

definition ensureIsolation :: "recovery_env \<Rightarrow> recovery_call world \<Rightarrow> knode \<Rightarrow> recovery_state \<Rightarrow> knode recovery_io" where
  "ensureIsolation env world node s =
     io_bind (patch_node world node (isolated_node node s)) (\<lambda>node'.
     io_bind (if ry_Phase s = PhaseManualRepair then setNodeCondition env world (nd_Name node') ''True'' ''ManualRepair'' (ry_TerminalReason s)
              else setNodeCondition env world (nd_Name node') ''True'' ''RecoveryInProgress'' (isolation_message s)) (\<lambda>_.
     io_ret node'))"

definition healthy_node :: "knode \<Rightarrow> knode" where
  "healthy_node node = node\<lparr>nd_Taints := filter (\<lambda>(k, v, e). k \<noteq> hardwareDegradedTaint) (nd_Taints node),
     nd_Annotations := fold gm_del [recoveryIncidentKey, recoveryPhaseKey, recoveryRequestKey, rebootRequestKey, rebootAckKey] (nd_Annotations node)\<rparr>"

definition setHealthy :: "recovery_env \<Rightarrow> recovery_call world \<Rightarrow> knode \<Rightarrow> unit recovery_io" where
  "setHealthy env world node =
     io_bind (patch_node world node (healthy_node node)) (\<lambda>_.
     setNodeCondition env world (nd_Name node) ''False'' ''HardwareHealthy'' ''hardware recovery is not active'')"

definition setPhase :: "recovery_env \<Rightarrow> recovery_call world \<Rightarrow> knode \<Rightarrow> recovery_state \<Rightarrow> recovery_phase \<Rightarrow> recovery_state recovery_io" where
  "setPhase env world node s phase =
     io_bind (recovery_now env) (\<lambda>now.
     let s' = s\<lparr>ry_Phase := phase, ry_PhaseStartedAt := now\<rparr> in
     io_bind (saveState env world node s') (\<lambda>_.
     io_bind (ensureIsolation env world node s') (\<lambda>_. io_ret s')))"

definition enterManualRepair :: "recovery_env \<Rightarrow> recovery_call world \<Rightarrow> knode \<Rightarrow> recovery_state \<Rightarrow> string \<Rightarrow> int recovery_io" where
  "enterManualRepair env world node s reason =
     io_bind (setPhase env world node (s\<lparr>ry_TerminalReason := reason, ry_ManualRequest := node_ann node recoveryRequestKey\<rparr>) PhaseManualRepair)
       (\<lambda>_. io_ret 0)"

end
