(* ===== verification/Recovery_Evacuation.thy ===== *)
theory Recovery_Evacuation
  imports Recovery
begin

text \<open>
  The evacuation of a degraded node, \<^verbatim>\<open>controllers/recovery_evacuation.go\<close>: workers and jobs on the node are recorded
  in the durable state before anything is done to them, jobs are signalled and requeued, and the workers are removed.
  A call to Slurm is a logged call that names the cluster. \<^verbatim>\<open>strings.Compare\<close> is the order of character lists.
\<close>

section \<open>Discovery\<close>

definition clusterKey :: "string \<Rightarrow> string \<Rightarrow> string" where
  "clusterKey namespace name = namespace @ ''/'' @ name"

abbreviation cluster_key_of :: "recovery_cluster \<Rightarrow> string" where
  "cluster_key_of c \<equiv> clusterKey (yc_Namespace c) (yc_Name c)"

abbreviation worker_key :: "recovery_worker \<Rightarrow> string" where
  "worker_key w \<equiv> clusterKey (yw_ClusterNamespace w) (yw_ClusterName w)"

abbreviation work_key :: "recovery_job \<Rightarrow> string" where
  "work_key j \<equiv> clusterKey (yj_ClusterNamespace j) (yj_ClusterName j)"

record clusterSnapshot =
  zs_cluster :: "cluster option"
  zs_nodes :: "(string, slurm_node) gomap"
  zs_jobs :: "job_info list"

type_synonym snapshots = "(string, clusterSnapshot) gomap"

definition zero_snapshot :: clusterSnapshot where
  "zero_snapshot = \<lparr>zs_cluster = None, zs_nodes = [], zs_jobs = []\<rparr>"

definition recovery_worker_pod :: "pod \<Rightarrow> bool" where
  "recovery_worker_pod p \<longleftrightarrow> \<not> (gm_get '''' (pd_Labels p) ''app.kubernetes.io/component'' \<noteq> workerComponent
     \<or> gm_get '''' (pd_Labels p) ''app.kubernetes.io/managed-by'' \<noteq> ''slurm-operator'')"

definition pod_cluster :: "recovery_env \<Rightarrow> pod \<times> owner_ref option \<Rightarrow> recovery_error + cluster_object" where
  "pod_cluster env = (\<lambda>(p, owner).
     case owner of
       None \<Rightarrow> Inl (WorkerUnowned (pd_Namespace p) (pd_Name p))
     | Some ow \<Rightarrow>
         fail_if (ow_Kind ow \<noteq> ''HeterogeneousCluster'' \<or> ow_APIVersion ow \<noteq> ''orchestration.gputpu.io/v1alpha1'')
           (WorkerUnowned (pd_Namespace p) (pd_Name p))
         (case rv_cluster env (pd_Namespace p) (ow_Name ow) of
            None \<Rightarrow> Inl (WorkerClusterUnreadable (pd_Namespace p) (ow_Name ow))
          | Some co \<Rightarrow> fail_if (co_UID co \<noteq> ow_UID ow) (WorkerClusterReplaced (pd_Namespace p) (pd_Name p)) (Inr co)))"

definition record_worker :: "cluster_object \<Rightarrow> pod \<Rightarrow> recovery_state \<times> bool \<Rightarrow> recovery_state \<times> bool" where
  "record_worker co p = (\<lambda>(s, changed).
     let c = co_Cluster co;
         newCluster = \<not> list_ex (\<lambda>i. yc_Namespace i = cl_Namespace c \<and> yc_Name i = cl_Name c) (ry_Clusters s);
         newWorker = \<not> list_ex (\<lambda>i. yw_Namespace i = pd_Namespace p \<and> yw_Name i = pd_Name p) (ry_Workers s);
         worker = \<lparr>yw_ClusterNamespace = cl_Namespace c, yw_ClusterName = cl_Name c, yw_Namespace = pd_Namespace p, yw_Name = pd_Name p,
                   yw_Claim = pod_ann p workerClaimAnnotation\<rparr> in
     (s\<lparr>ry_Clusters := ry_Clusters s @ (if newCluster then [\<lparr>yc_Namespace = cl_Namespace c, yc_Name = cl_Name c, yc_UID = co_UID co\<rparr>] else []),
        ry_Workers := ry_Workers s @ (if newWorker then [worker] else [])\<rparr>,
      changed \<or> newCluster \<or> newWorker))"

definition discover_step ::
  "recovery_env \<Rightarrow> recovery_call world \<Rightarrow> pod \<times> owner_ref option \<Rightarrow> recovery_state \<times> bool \<Rightarrow> (recovery_state \<times> bool) recovery_io" where
  "discover_step env world po found =
     (if \<not> recovery_worker_pod (fst po) then io_ret found
      else io_bind (io_res (pod_cluster env po)) (\<lambda>co.
           let found' = record_worker co (fst po) found; incident = ry_Incident (fst found') in
           if pod_ann (fst po) workerRecoveryAnnotation \<noteq> incident
           then io_bind (recovery_gone world (MarkPod (pd_Namespace (fst po)) (pd_Name (fst po)) incident)) (\<lambda>_. io_ret found')
           else io_ret found'))"

definition sort_found :: "recovery_state \<Rightarrow> recovery_state" where
  "sort_found s = s\<lparr>ry_Clusters := sort_key cluster_key_of (ry_Clusters s),
     ry_Workers := sort_key (\<lambda>w. clusterKey (yw_Namespace w) (yw_Name w)) (ry_Workers s)\<rparr>"

definition discoverWorkers :: "recovery_env \<Rightarrow> recovery_call world \<Rightarrow> recovery_state \<Rightarrow> (recovery_state \<times> bool) recovery_io" where
  "discoverWorkers env world s =
     (case rv_pods env of
        None \<Rightarrow> io_fail RecoveryPodsUnreadable
      | Some pods \<Rightarrow> io_bind (io_each (discover_step env world) pods (s, False)) (\<lambda>(s', changed). io_ret (sort_found s', changed)))"

section \<open>Snapshots of Slurm\<close>

text \<open>The errors only decide that there are no snapshots, so they are not told apart.\<close>

definition snapshot_of :: "recovery_env \<Rightarrow> recovery_cluster \<Rightarrow> clusterSnapshot option" where
  "snapshot_of env ref =
     (case rv_cluster env (yc_Namespace ref) (yc_Name ref) of None \<Rightarrow> None
      | Some co \<Rightarrow>
          let c = co_Cluster co; ce = rv_control env c in
          if co_UID co \<noteq> yc_UID ref then None
          else (case jwt_key ce c of Inl e \<Rightarrow> None
                | Inr key \<Rightarrow>
               (case slurm_client ce c key of Inl e \<Rightarrow> None
                | Inr client \<Rightarrow>
               (case client_Nodes (rc_nodes ce) of Inl e \<Rightarrow> None
                | Inr nodes \<Rightarrow>
               (case fetchJobs (rc_jobs ce) of Inl e \<Rightarrow> None
                | Inr response \<Rightarrow>
               (case slurm_Jobs response of Inl e \<Rightarrow> None
                | Inr jobs \<Rightarrow> Some \<lparr>zs_cluster = Some c, zs_nodes = node_map nodes, zs_jobs = jobs\<rparr>))))))"

definition slurmSnapshots :: "recovery_env \<Rightarrow> recovery_cluster list \<Rightarrow> snapshots option" where
  "slurmSnapshots env refs =
     fold (\<lambda>ref acc. case acc of None \<Rightarrow> None | Some m \<Rightarrow>
       (case snapshot_of env ref of None \<Rightarrow> None | Some z \<Rightarrow> Some (gm_put (cluster_key_of ref) z m))) refs (Some [])"

definition workerNames :: "recovery_state \<Rightarrow> string \<Rightarrow> string list" where
  "workerNames s key = map yw_Name (filter (\<lambda>w. worker_key w = key) (ry_Workers s))"

definition new_work :: "string \<Rightarrow> nat \<Rightarrow> recovery_job" where
  "new_work key jid = (case cut_at (CHR ''/'') key of (namespace, name, found) \<Rightarrow>
     \<lparr>yj_ClusterNamespace = namespace, yj_ClusterName = name, yj_ID = jid, yj_SignalRequestedAt = None, yj_SignalSent = False,
      yj_CheckpointSeen = False, yj_RequeueRequestedAt = None, yj_RequeueSent = False, yj_Evacuated = False\<rparr>)"

definition affected_step :: "string \<Rightarrow> string list \<Rightarrow> job_info \<Rightarrow> recovery_job list \<times> bool \<Rightarrow> recovery_job list \<times> bool" where
  "affected_step key workers job = (\<lambda>(jobs, changed).
     if job_Terminal job \<or> \<not> UsesAnyNode job workers then (jobs, changed)
     else if list_ex (\<lambda>i. work_key i = key \<and> yj_ID i = RootID job) jobs then (jobs, changed)
     else (jobs @ [new_work key (RootID job)], True))"

definition addAffectedJobs :: "recovery_state \<Rightarrow> snapshots \<Rightarrow> recovery_state \<times> bool" where
  "addAffectedJobs s snaps =
     (case fold (\<lambda>(key, z). fold (affected_step key (workerNames s key)) (zs_jobs z)) snaps (ry_Jobs s, False) of
        (jobs, changed) \<Rightarrow> (s\<lparr>ry_Jobs := sort_key (\<lambda>j. (work_key j, yj_ID j)) jobs\<rparr>, changed))"

abbreviation snap :: "snapshots \<Rightarrow> string \<Rightarrow> clusterSnapshot" where
  "snap snaps key \<equiv> gm_get zero_snapshot snaps key"

definition drain_step :: "recovery_call world \<Rightarrow> recovery_state \<Rightarrow> snapshots \<Rightarrow> recovery_worker \<Rightarrow> unit \<Rightarrow> unit recovery_io" where
  "drain_step world s snaps w u =
     (case map_of (zs_nodes (snap snaps (worker_key w))) (yw_Name w) of
        None \<Rightarrow> io_ret ()
      | Some n \<Rightarrow> if List.member (sn_State n) ''DRAIN'' then io_ret ()
                  else recovery_call world (DrainWorker (worker_key w) (yw_Name w) (''hardware incident '' @ ry_Incident s)))"

definition drainRecoveryWorkers :: "recovery_call world \<Rightarrow> recovery_state \<Rightarrow> snapshots \<Rightarrow> unit recovery_io" where
  "drainRecoveryWorkers world s snaps = io_each (drain_step world s snaps) (ry_Workers s) ()"

section \<open>Signals and requeues\<close>

fun evacuated_scan :: "nat \<Rightarrow> string list \<Rightarrow> bool \<Rightarrow> job_info list \<Rightarrow> bool option" where
  "evacuated_scan jid wanted active [] = Some active"
| "evacuated_scan jid wanted active (current # rest) =
     (if RootID current \<noteq> jid then evacuated_scan jid wanted active rest
      else if job_Pending current \<or> job_Terminal current then evacuated_scan jid wanted active rest
      else if UsesAnyNode current wanted then None
      else evacuated_scan jid wanted True rest)"

definition jobEvacuated :: "recovery_job \<Rightarrow> recovery_state \<Rightarrow> job_info list \<Rightarrow> bool" where
  "jobEvacuated job s jobs =
     (case evacuated_scan (yj_ID job) (workerNames s (work_key job)) False jobs of
        None \<Rightarrow> False
      | Some active \<Rightarrow> yj_RequeueSent job \<or> \<not> active)"

definition put_work :: "nat \<Rightarrow> recovery_job \<Rightarrow> recovery_state \<Rightarrow> recovery_state" where
  "put_work i job s = s\<lparr>ry_Jobs := (ry_Jobs s)[i := job]\<rparr>"

definition save_work ::
  "recovery_env \<Rightarrow> recovery_call world \<Rightarrow> knode \<Rightarrow> nat \<Rightarrow> recovery_job \<Rightarrow> recovery_state \<Rightarrow> recovery_state recovery_io" where
  "save_work env world node i job s =
     (let s' = put_work i job s in io_bind (saveState env world node s') (\<lambda>_. io_ret s'))"

definition signal_step ::
  "recovery_env \<Rightarrow> recovery_call world \<Rightarrow> knode \<Rightarrow> snapshots \<Rightarrow> nat \<Rightarrow> recovery_state \<Rightarrow> recovery_state recovery_io" where
  "signal_step env world node snaps i s =
     (let job = ry_Jobs s ! i; z = snap snaps (work_key job) in
      if jobEvacuated job s (zs_jobs z) then save_work env world node i (job\<lparr>yj_Evacuated := True\<rparr>) s
      else if yj_SignalSent job then io_ret s
      else io_bind (if yj_SignalRequestedAt job = None
                    then io_bind (recovery_now env) (\<lambda>now. save_work env world node i (job\<lparr>yj_SignalRequestedAt := Some now\<rparr>) s)
                    else io_ret s) (\<lambda>s1.
           io_bind (recovery_call world (SignalWork (work_key job) (yj_ID job) ''USR1'')) (\<lambda>_.
           save_work env world node i ((ry_Jobs s1 ! i)\<lparr>yj_SignalSent := True\<rparr>) s1)))"

definition signalJobs ::
  "recovery_env \<Rightarrow> recovery_call world \<Rightarrow> knode \<Rightarrow> snapshots \<Rightarrow> recovery_state \<Rightarrow> recovery_state recovery_io" where
  "signalJobs env world node snaps s = io_each (signal_step env world node snaps) [0..<length (ry_Jobs s)] s"

text \<open>
  The scan for a commit is skipped when checkpointing is off. A cluster without a snapshot has no jobs, so the code never
  dereferences its missing cluster here.
\<close>

definition observe_commit ::
  "recovery_env \<Rightarrow> recovery_call world \<Rightarrow> knode \<Rightarrow> clusterSnapshot \<Rightarrow> nat \<Rightarrow> int \<Rightarrow> recovery_state \<Rightarrow> recovery_state recovery_io" where
  "observe_commit env world node z i since s =
     (let job = ry_Jobs s ! i in
      case zs_cluster z of
        None \<Rightarrow> io_ret s
      | Some c \<Rightarrow>
          if \<not> yj_CheckpointSeen job \<and> sp_Checkpointing (cl_Spec c) \<noteq> None
             \<and> checkpointCommittedSince (rc_scan (rv_control env c)) c (yj_ID job) since = Inr True
          then save_work env world node i (job\<lparr>yj_CheckpointSeen := True\<rparr>) s else io_ret s)"

definition requeue_work ::
  "recovery_env \<Rightarrow> recovery_call world \<Rightarrow> knode \<Rightarrow> nat \<Rightarrow> recovery_state \<Rightarrow> recovery_state recovery_io" where
  "requeue_work env world node i s =
     (let job = ry_Jobs s ! i in
      if yj_RequeueSent job then io_ret s
      else io_bind (if yj_RequeueRequestedAt job = None
                    then io_bind (recovery_now env) (\<lambda>now. save_work env world node i (job\<lparr>yj_RequeueRequestedAt := Some now\<rparr>) s)
                    else io_ret s) (\<lambda>s1.
           io_bind (recovery_call world (RequeueWork (work_key job) (yj_ID job))) (\<lambda>_.
           save_work env world node i ((ry_Jobs s1 ! i)\<lparr>yj_RequeueSent := True\<rparr>) s1)))"

text \<open>The loop stops at a job that was not signalled; otherwise it tells whether all jobs are evacuated.\<close>

datatype sweep = SweepAll bool | SweepStopped

definition requeue_step ::
  "recovery_env \<Rightarrow> recovery_call world \<Rightarrow> knode \<Rightarrow> snapshots \<Rightarrow> nat \<Rightarrow> recovery_state \<times> sweep \<Rightarrow> (recovery_state \<times> sweep) recovery_io" where
  "requeue_step env world node snaps i = (\<lambda>(s, sw).
     let job = ry_Jobs s ! i; z = snap snaps (work_key job) in
     if sw = SweepStopped then io_ret (s, sw)
     else if jobEvacuated job s (zs_jobs z) then
       (if yj_Evacuated job then io_ret (s, sw)
        else io_bind (save_work env world node i (job\<lparr>yj_Evacuated := True\<rparr>) s) (\<lambda>s1. io_ret (s1, sw)))
     else (case yj_SignalRequestedAt job of
             None \<Rightarrow> io_ret (s, SweepStopped)
           | Some since \<Rightarrow>
               if \<not> yj_SignalSent job then io_ret (s, SweepStopped)
               else io_bind (observe_commit env world node z i since s) (\<lambda>s1.
                    io_bind (recovery_now env) (\<lambda>now.
                    if \<not> yj_CheckpointSeen (ry_Jobs s1 ! i) \<and> now < since + checkpointGrace then io_ret (s1, SweepAll False)
                    else io_bind (requeue_work env world node i s1) (\<lambda>s2. io_ret (s2, SweepAll False))))))"

definition checkpointAndRequeue ::
  "recovery_env \<Rightarrow> recovery_call world \<Rightarrow> knode \<Rightarrow> snapshots \<Rightarrow> recovery_state \<Rightarrow> (recovery_state \<times> bool) recovery_io" where
  "checkpointAndRequeue env world node snaps s =
     io_bind (io_each (requeue_step env world node snaps) [0..<length (ry_Jobs s)] (s, SweepAll True)) (\<lambda>(s', sw).
     io_ret (s', sw = SweepAll True))"

section \<open>Removal of the workers\<close>

definition remove_step :: "recovery_call world \<Rightarrow> snapshots \<Rightarrow> recovery_worker \<Rightarrow> unit \<Rightarrow> unit recovery_io" where
  "remove_step world snaps w u =
     (if map_of (zs_nodes (snap snaps (worker_key w))) (yw_Name w) \<noteq> None
      then recovery_call world (RemoveWorker (worker_key w) (yw_Name w)) else io_ret ())"

definition release_step :: "recovery_call world \<Rightarrow> pod \<Rightarrow> unit recovery_io" where
  "release_step world p =
     io_bind (if List.member (pd_Finalizers p) workerFinalizer
              then recovery_gone world (ReleasePod (p\<lparr>pd_Finalizers := filter (\<lambda>f. f \<noteq> workerFinalizer) (pd_Finalizers p)\<rparr>))
              else io_ret ()) (\<lambda>_.
     if pd_Deleting p then io_ret () else recovery_gone world (DropPod (pd_Namespace p) (pd_Name p)))"

definition drop_claim :: "recovery_call world \<Rightarrow> recovery_worker \<Rightarrow> bool \<Rightarrow> bool recovery_io" where
  "drop_claim world w complete =
     (let c = DropClaim (yw_Namespace w) (yw_Claim w) in
      io_bind (io_call world c) (\<lambda>o'.
      if o' = Done then io_ret False else if o' = NotFound then io_ret complete else io_fail (RecoveryCall c)))"

definition gone_step :: "recovery_env \<Rightarrow> recovery_call world \<Rightarrow> recovery_worker \<Rightarrow> bool \<Rightarrow> bool recovery_io" where
  "gone_step env world w complete =
     io_bind io_here (\<lambda>n.
     case rv_getPod env n (yw_Namespace w) (yw_Name w) of
       PodFound p \<Rightarrow> io_bind (release_step world p) (\<lambda>_. io_ret False)
     | PodError \<Rightarrow> io_fail (RecoveryPodUnreadable (yw_Namespace w) (yw_Name w))
     | PodMissing \<Rightarrow> if yw_Claim w \<noteq> '''' then drop_claim world w complete else io_ret complete)"

definition cleanupEvacuatedWorkers :: "recovery_env \<Rightarrow> recovery_call world \<Rightarrow> snapshots \<Rightarrow> recovery_state \<Rightarrow> bool recovery_io" where
  "cleanupEvacuatedWorkers env world snaps s =
     (if \<not> list_all (\<lambda>job. jobEvacuated job s (zs_jobs (snap snaps (work_key job)))) (ry_Jobs s) then io_ret False
      else io_bind (io_each (remove_step world snaps) (ry_Workers s) ()) (\<lambda>_.
           io_each (gone_step env world) (ry_Workers s) True))"

section \<open>The evacuation pass\<close>

definition save_if :: "recovery_env \<Rightarrow> recovery_call world \<Rightarrow> knode \<Rightarrow> bool \<Rightarrow> recovery_state \<Rightarrow> unit recovery_io" where
  "save_if env world node b s = (if b then saveState env world node s else io_ret ())"

definition evacuation_phase ::
  "recovery_env \<Rightarrow> recovery_call world \<Rightarrow> knode \<Rightarrow> snapshots \<Rightarrow> recovery_state \<Rightarrow> recovery_state recovery_io" where
  "evacuation_phase env world node snaps s =
     (case ry_Phase s of
        PhaseIsolated \<Rightarrow> setPhase env world node s PhaseDraining
      | PhaseDraining \<Rightarrow>
          io_bind (signalJobs env world node snaps s) (\<lambda>s1.
          setPhase env world node s1 (if ry_Jobs s1 = [] then PhaseRequeued else PhaseCheckpointing))
      | PhaseCheckpointing \<Rightarrow>
          io_bind (checkpointAndRequeue env world node snaps s) (\<lambda>(s1, complete).
          if complete then setPhase env world node s1 PhaseRequeued else io_ret s1)
      | PhaseRequeued \<Rightarrow>
          io_bind (cleanupEvacuatedWorkers env world snaps s) (\<lambda>complete.
          if complete then io_bind (recovery_now env) (\<lambda>now.
            setPhase env world node (s\<lparr>ry_RebootRequestedAt := Some now\<rparr>) PhaseRebootRequested)
          else io_ret s)
      | _ \<Rightarrow> io_ret s)"

definition reconcileEvacuation :: "recovery_env \<Rightarrow> recovery_call world \<Rightarrow> knode \<Rightarrow> recovery_state \<Rightarrow> int recovery_io" where
  "reconcileEvacuation env world node s =
     io_bind (discoverWorkers env world s) (\<lambda>(s1, changed).
     io_bind (save_if env world node changed s1) (\<lambda>_.
     case slurmSnapshots env (ry_Clusters s1) of
       None \<Rightarrow> io_ret recoveryRequeue
     | Some snaps \<Rightarrow>
         (case addAffectedJobs s1 snaps of (s2, addedJobs) \<Rightarrow>
         io_bind (save_if env world node addedJobs s2) (\<lambda>_.
         io_bind (drainRecoveryWorkers world s2 snaps) (\<lambda>_.
         io_bind (if addedJobs \<and> ry_Phase s2 \<noteq> PhaseIsolated \<and> ry_Phase s2 \<noteq> PhaseDraining
                  then setPhase env world node s2 PhaseDraining
                  else evacuation_phase env world node snaps s2) (\<lambda>_.
         io_ret recoveryRequeue))))))"

end
