(* ===== verification/Recovery_Verifier.thy ===== *)
theory Recovery_Verifier
  imports Recovery_Evacuation
begin

text \<open>
  Reboot and verification of a degraded node, \<^verbatim>\<open>controllers/recovery_verifier.go\<close>, and the pass of the recovery
  controller, \<^verbatim>\<open>RecoveryReconciler.Reconcile\<close>. The sums of a verifier footprint are 64-bit and wrap.
\<close>

section \<open>Verifiers\<close>

definition decodeRecoveryInventory :: "recovery_env \<Rightarrow> string \<Rightarrow> string \<Rightarrow> recovery_error + hw_inventory" where
  "decodeRecoveryInventory env raw boot =
     (case rv_decInventory env raw of
        None \<Rightarrow> Inl InventoryMissing
      | Some hw \<Rightarrow>
          fail_if (hi_Version hw \<noteq> 1 \<or> hi_BootID hw \<noteq> boot \<or> hi_Cells hw = []) InventoryMissing
          (case List.find (\<lambda>c. ce_NUMA c < 0 \<or> ce_CPUs c < 1 \<or> ce_MemoryUnits c < 1 \<or> ce_MemoryUnitBytes c < 1) (hi_Cells hw) of
             Some c \<Rightarrow> Inl (InventoryInvalid (ce_NUMA c))
           | None \<Rightarrow> Inr hw))"

definition verifierName :: "string \<Rightarrow> int \<Rightarrow> string" where
  "verifierName incident numa = ''hardware-verify-'' @ filter (\<lambda>c. c \<noteq> CHR ''-'') (take 13 incident) @ ''-n'' @ show_int numa"

definition numa_clause :: "int \<Rightarrow> string" where
  "numa_clause numa = '' && device.attributes['' @ go_quote operator_driverName @ ''][\"numaNode\"] == '' @ show_int numa"

definition kindNUMASelector :: "string \<Rightarrow> int \<Rightarrow> string" where
  "kindNUMASelector kind numa = kindSelector kind @ numa_clause numa"

definition memoryNUMASelector :: "int \<Rightarrow> int \<Rightarrow> string" where
  "memoryNUMASelector numa unit = kindSelector ''memory'' @ numa_clause numa
     @ '' && device.attributes['' @ go_quote operator_driverName @ ''][\"unitBytes\"] == '' @ show_int unit"

definition openTPUNUMASelector :: "string \<Rightarrow> int \<Rightarrow> string" where
  "openTPUNUMASelector profile numa = kindSelector ''opentpu'' @ numa_clause numa
     @ '' && device.attributes['' @ go_quote operator_driverName @ ''][\"profile\"] == '' @ go_quote profile"

record verifier_need =
  vn_CPUs :: int
  vn_Memory :: int
  vn_Shared :: int

definition need_step :: "opentpu \<Rightarrow> verifier_need \<Rightarrow> recovery_error + verifier_need" where
  "need_step p need =
     fail_if (ot_Count p < 1 \<or> ot_CPUCores p < 1 \<or> ot_MemoryBytes p < 1 \<or> (ot_MatrixSize p \<noteq> 8 \<and> ot_MatrixSize p \<noteq> 16)) (VerifierProfile (ot_Profile p))
     (Inr \<lparr>vn_CPUs = wrap_i64 (vn_CPUs need + ot_CPUCores p), vn_Memory = wrap_i64 (vn_Memory need + ot_MemoryBytes p),
           vn_Shared = wrap_i64 (vn_Shared need + ot_SharedMemory p)\<rparr>)"

definition verifier_memory :: "int \<Rightarrow> cell \<Rightarrow> int" where
  "verifier_memory memoryBytes c = i64_div (wrap_i64 (wrap_i64 (memoryBytes + ce_MemoryUnitBytes c) - 1)) (ce_MemoryUnitBytes c)"

definition verifier_requests :: "cell \<Rightarrow> verifier_need \<Rightarrow> int \<Rightarrow> device_request list" where
  "verifier_requests c need memoryCount =
     [exactRequest ''cpu'' ''cpu.orchestration.gputpu.io'' (vn_CPUs need) (kindNUMASelector ''cpu'' (ce_NUMA c)),
      exactRequest ''memory'' ''memory.orchestration.gputpu.io'' memoryCount (memoryNUMASelector (ce_NUMA c) (ce_MemoryUnitBytes c))]
     @ (if ce_GPUs c \<noteq> [] then [exactRequest ''gpu'' ''nvidia.orchestration.gputpu.io'' (int (length (ce_GPUs c))) (kindNUMASelector ''gpu'' (ce_NUMA c))] else [])
     @ map (\<lambda>(i, p). exactRequest (''opentpu-'' @ show_nat i) ''opentpu.orchestration.gputpu.io'' 1 (openTPUNUMASelector (ot_Profile p) (ce_NUMA c)))
         (enumerate 0 (ce_OpenTPU c))"

definition verifier_container :: "recovery_env \<Rightarrow> cell \<Rightarrow> verifier_need \<Rightarrow> int \<Rightarrow> container" where
  "verifier_container env c need memoryCount =
     (plain_container ''verifier'' (rv_workerImage env) [''/usr/local/bin/hardware-verifier''] [])
     \<lparr>ct_Env := [env_value ''EXPECTED_GPU_UUIDS'' (join_with '','' (sort (map gp_UUID (ce_GPUs c)))),
         env_value ''OPENTPU_VERIFY_PROFILES'' (rv_encProfiles env (ce_OpenTPU c)),
         env_value ''MEMORY_CHECK_BYTES'' (show_int (min (vn_Memory need) (64 * 2 ^ 20))),
         env_value ''PYTHONDONTWRITEBYTECODE'' ''1''],
       ct_Resources := Some (QInt (vn_CPUs need), QInt (wrap_i64 (memoryCount * ce_MemoryUnitBytes c))),
       ct_Claims := [''verification''], ct_Security := Restricted, ct_Mounts := [mount_at ''shared-memory'' ''/dev/shm'']\<rparr>"

definition verifier_pod :: "recovery_env \<Rightarrow> knode \<Rightarrow> string \<Rightarrow> cell \<Rightarrow> verifier_need \<Rightarrow> int \<Rightarrow> pod_spec" where
  "verifier_pod env node name c need memoryCount =
     (plain_pod_spec [verifier_container env c need memoryCount] [volume_of ''shared-memory'' (MemoryDir (vn_Shared need))] NoPodSecurity)
     \<lparr>pk_RestartNever := True, pk_ServiceAccountName := ''slurm-worker'',
       pk_NodeSelector := [(''kubernetes.io/hostname'', nd_Name node), (''orchestration.gputpu.io/compute'', ''true'')],
       pk_Tolerations := [(''orchestration.gputpu.io/compute'', ''NoSchedule''), (hardwareDegradedTaint, ''NoSchedule'')],
       pk_ResourceClaims := [(''verification'', name)]\<rparr>"

definition verifierObjects :: "recovery_env \<Rightarrow> knode \<Rightarrow> recovery_state \<Rightarrow> cell \<Rightarrow> recovery_error + verifier_claim \<times> verifier_job" where
  "verifierObjects env node s c =
     bind_res (for_each need_step (ce_OpenTPU c) \<lparr>vn_CPUs = 1, vn_Memory = ce_MemoryUnitBytes c, vn_Shared = 64 * 2 ^ 20\<rparr>) (\<lambda>need.
     let name = verifierName (ry_Incident s) (ce_NUMA c); memoryCount = verifier_memory (vn_Memory need) c;
         labels = [(recoveryIncidentKey, ry_Incident s), (''orchestration.gputpu.io/recovery-node'', nd_Name node), (''orchestration.gputpu.io/verifier'', ''true'')] in
     fail_if (vn_CPUs need > ce_CPUs c) (VerifierCPUs (ce_NUMA c))
     (fail_if (memoryCount > ce_MemoryUnits c) (VerifierMemory (ce_NUMA c))
     (Inr (\<lparr>vc_Name = name, vc_Namespace = rv_Namespace env, vc_Labels = labels, vc_Requests = verifier_requests c need memoryCount,
            vc_Match = operator_driverName @ ''/numaNode'', vc_Owner = recoveryStateName node\<rparr>,
           \<lparr>vj_Name = name, vj_Namespace = rv_Namespace env, vj_Labels = labels, vj_BackoffLimit = 0,
            vj_ActiveDeadlineSeconds = verifierTimeout div second, vj_Spec = verifier_pod env node name c need memoryCount,
            vj_Owner = recoveryStateName node\<rparr>))))"

definition create_missing :: "recovery_call world \<Rightarrow> recovery_state \<Rightarrow> string \<Rightarrow> verifier_read \<Rightarrow> recovery_call \<Rightarrow> unit recovery_io" where
  "create_missing world s name got c =
     (case got of
        VerifierMissing \<Rightarrow> io_must world [Done, AlreadyExists] (RecoveryCall c) c
      | VerifierError \<Rightarrow> io_fail (VerifierUnreadable name)
      | VerifierFound incident controlled failed succeeded \<Rightarrow>
          if incident \<noteq> ry_Incident s \<or> \<not> controlled then io_fail (VerifierForeign name) else io_ret ())"

definition ensure_cell :: "recovery_env \<Rightarrow> recovery_call world \<Rightarrow> knode \<Rightarrow> recovery_state \<Rightarrow> cell \<Rightarrow> unit \<Rightarrow> unit recovery_io" where
  "ensure_cell env world node s c u =
     io_bind (io_res (verifierObjects env node s c)) (\<lambda>(claim, job).
     io_bind io_here (\<lambda>n.
     io_bind (create_missing world s (vc_Name claim) (rv_getClaim env n (vc_Name claim)) (CreateVerifierClaim claim)) (\<lambda>_.
     io_bind io_here (\<lambda>n.
     create_missing world s (vj_Name job) (rv_getJob env n (vj_Name job)) (CreateVerifierJob job)))))"

definition ensureVerifierResources :: "recovery_env \<Rightarrow> recovery_call world \<Rightarrow> knode \<Rightarrow> recovery_state \<Rightarrow> unit recovery_io" where
  "ensureVerifierResources env world node s =
     io_bind (io_res (decodeRecoveryInventory env (ry_PreInventory s) (ry_PreBootID s))) (\<lambda>hw.
     io_each (ensure_cell env world node s) (hi_Cells hw) ())"

definition drop_verifier :: "recovery_call world \<Rightarrow> recovery_call \<Rightarrow> bool \<Rightarrow> bool recovery_io" where
  "drop_verifier world c complete =
     io_bind (io_call world c) (\<lambda>o'.
     if o' = Done then io_ret False else if o' = NotFound then io_ret complete else io_fail (RecoveryCall c))"

definition delete_cell :: "recovery_call world \<Rightarrow> recovery_state \<Rightarrow> cell \<Rightarrow> bool \<Rightarrow> bool recovery_io" where
  "delete_cell world s c complete =
     (let name = verifierName (ry_Incident s) (ce_NUMA c) in
      io_bind (drop_verifier world (DropVerifierJob name) complete) (drop_verifier world (DropVerifierClaim name)))"

definition deleteVerifierResources :: "recovery_call world \<Rightarrow> recovery_state \<Rightarrow> hw_inventory \<Rightarrow> bool recovery_io" where
  "deleteVerifierResources world s hw = io_each (delete_cell world s) (hi_Cells hw) True"

section \<open>Reboot\<close>

definition start_verification :: "recovery_env \<Rightarrow> recovery_call world \<Rightarrow> knode \<Rightarrow> recovery_state \<Rightarrow> int recovery_io" where
  "start_verification env world current s =
     io_bind (if ry_VerificationStarted s = None
              then io_bind (recovery_now env) (\<lambda>now.
                   let s' = s\<lparr>ry_VerificationStarted := Some now\<rparr> in io_bind (saveState env world current s') (\<lambda>_. io_ret s'))
              else io_ret s) (\<lambda>s1.
     io_try (ensureVerifierResources env world current s1) (\<lambda>r.
     case r of
       Inl e \<Rightarrow> enterManualRepair env world current s1 (''create hardware verifiers: '' @ rv_errorText env e)
     | Inr u \<Rightarrow> io_bind (setPhase env world current s1 PhaseVerifying) (\<lambda>_. io_ret recoveryRequeue)))"

definition check_inventory :: "recovery_env \<Rightarrow> recovery_call world \<Rightarrow> knode \<Rightarrow> recovery_state \<Rightarrow> int \<Rightarrow> int recovery_io" where
  "check_inventory env world current s since =
     io_bind (recovery_now env) (\<lambda>now.
     if now - since < readyStabilization then io_ret recoveryRequeue
     else if node_ann current inventoryBootIDKey \<noteq> ry_NewBootID s \<or> node_ann current inventoryHashKey = '''' then
       (if now - since \<ge> verifierTimeout then enterManualRepair env world current s ''DRA did not publish inventory for the new boot''
        else io_ret recoveryRequeue)
     else if ry_PreInventoryHash s = '''' \<or> node_ann current inventoryHashKey \<noteq> ry_PreInventoryHash s then
       enterManualRepair env world current s ''post-reboot DRA inventory does not match the pre-fault inventory''
     else start_verification env world current s)"

definition check_ready :: "recovery_env \<Rightarrow> recovery_call world \<Rightarrow> knode \<Rightarrow> recovery_state \<Rightarrow> int recovery_io" where
  "check_ready env world current s =
     (if nodeConditionStatus (nd_Conditions current) ''Ready'' \<noteq> ''True'' then
        (if ry_ReadySince s \<noteq> None
         then io_try (saveState env world current (s\<lparr>ry_ReadySince := None\<rparr>)) (\<lambda>_. io_ret recoveryRequeue)
         else io_ret recoveryRequeue)
      else (case ry_ReadySince s of
              None \<Rightarrow> io_bind (recovery_now env) (\<lambda>now.
                io_bind (saveState env world current (s\<lparr>ry_ReadySince := Some now\<rparr>)) (\<lambda>_. io_ret recoveryRequeue))
            | Some since \<Rightarrow> check_inventory env world current s since))"

definition check_boot :: "recovery_env \<Rightarrow> recovery_call world \<Rightarrow> knode \<Rightarrow> recovery_state \<Rightarrow> int recovery_io" where
  "check_boot env world current s =
     (let currentBootID = bootID env current in
      if currentBootID = '''' \<or> currentBootID = ry_PreBootID s then io_ret recoveryRequeue
      else if ry_NewBootID s = '''' then
        (let s' = s\<lparr>ry_NewBootID := currentBootID, ry_ReadySince := None\<rparr> in
         io_bind (saveState env world current s') (\<lambda>_. check_ready env world current s'))
      else if ry_NewBootID s \<noteq> currentBootID then enterManualRepair env world current s ''node rebooted more than once during one incident''
      else check_ready env world current s)"

definition reconcileReboot :: "recovery_env \<Rightarrow> recovery_call world \<Rightarrow> recovery_state \<Rightarrow> int recovery_io" where
  "reconcileReboot env world s =
     io_bind io_here (\<lambda>n.
     case rv_getNode env n of
       None \<Rightarrow> io_fail NodeUnreadable
     | Some current \<Rightarrow>
         io_bind (recovery_now env) (\<lambda>now.
         let requestedAt = (case ry_RebootRequestedAt s of None \<Rightarrow> ry_PhaseStartedAt s | Some t \<Rightarrow> t) in
         if now - requestedAt \<ge> rv_RebootTimeout env then
           enterManualRepair env world current s ''node did not complete its reboot before the infrastructure timeout''
         else if ry_Phase s = PhaseRebootRequested then
           (if node_ann current rebootAckKey \<noteq> ry_Incident s then io_ret recoveryRequeue
            else io_bind (setPhase env world current s PhaseRebooting) (\<lambda>_. io_ret recoveryRequeue))
         else check_boot env world current s))"

section \<open>Verification\<close>

datatype cells_result = CellsAll bool | CellMissing | CellFailed int

definition cell_step :: "recovery_env \<Rightarrow> recovery_state \<Rightarrow> nat \<Rightarrow> cell \<Rightarrow> cells_result \<Rightarrow> recovery_error + cells_result" where
  "cell_step env s n c result =
     (case result of
        CellsAll allSucceeded \<Rightarrow>
          (case rv_getJob env n (verifierName (ry_Incident s) (ce_NUMA c)) of
             VerifierMissing \<Rightarrow> Inr CellMissing
           | VerifierError \<Rightarrow> Inl (VerifierUnreadable (verifierName (ry_Incident s) (ce_NUMA c)))
           | VerifierFound incident controlled failed succeeded \<Rightarrow>
               if failed \<noteq> 0 then Inr (CellFailed (ce_NUMA c)) else Inr (CellsAll (allSucceeded \<and> succeeded = 1)))
      | _ \<Rightarrow> Inr result)"

definition complete_recovery :: "recovery_env \<Rightarrow> recovery_call world \<Rightarrow> knode \<Rightarrow> recovery_state \<Rightarrow> hw_inventory \<Rightarrow> int recovery_io" where
  "complete_recovery env world node s hw =
     io_bind (deleteVerifierResources world s hw) (\<lambda>clean.
     if \<not> clean then io_ret recoveryRequeue
     else io_bind (setHealthy env world node) (\<lambda>_.
          io_bind (recovery_gone world (DeleteState (recoveryStateName node))) (\<lambda>_. io_ret 0)))"

definition await_verifiers ::
  "recovery_env \<Rightarrow> recovery_call world \<Rightarrow> knode \<Rightarrow> recovery_state \<Rightarrow> hw_inventory \<Rightarrow> string \<Rightarrow> int recovery_io" where
  "await_verifiers env world node s hw rawStatus =
     io_bind io_here (\<lambda>n.
     io_bind (io_res (for_each (cell_step env s n) (hi_Cells hw) (CellsAll True))) (\<lambda>result.
     case result of
       CellMissing \<Rightarrow> io_bind (ensureVerifierResources env world node s) (\<lambda>_. io_ret recoveryRequeue)
     | CellFailed numa \<Rightarrow> enterManualRepair env world node s (''hardware verifier for NUMA node '' @ show_int numa @ '' failed'')
     | CellsAll allSucceeded \<Rightarrow>
         if \<not> allSucceeded \<or> rawStatus \<noteq> ''False'' then io_ret recoveryRequeue
         else io_bind (saveState env world node (s\<lparr>ry_VerificationPassed := True\<rparr>)) (\<lambda>_. io_ret recoveryRequeue)))"

definition reconcileVerification ::
  "recovery_env \<Rightarrow> recovery_call world \<Rightarrow> knode \<Rightarrow> recovery_state \<Rightarrow> string \<Rightarrow> int recovery_io" where
  "reconcileVerification env world node s rawStatus =
     (case ry_VerificationStarted s of
        None \<Rightarrow> enterManualRepair env world node s ''verification start timestamp is missing''
      | Some started \<Rightarrow>
          io_bind (recovery_now env) (\<lambda>now.
          if now - started \<ge> verifierTimeout then enterManualRepair env world node s ''hardware verification timed out''
          else (case decodeRecoveryInventory env (ry_PreInventory s) (ry_PreBootID s) of
                  Inl e \<Rightarrow> enterManualRepair env world node s (rv_errorText env e)
                | Inr hw \<Rightarrow>
                    if \<not> ry_VerificationPassed s then await_verifiers env world node s hw rawStatus
                    else if rawStatus \<noteq> ''False'' then io_ret recoveryRequeue
                    else complete_recovery env world node s hw)))"

section \<open>The pass\<close>

definition open_incident :: "recovery_env \<Rightarrow> recovery_call world \<Rightarrow> knode \<Rightarrow> string \<Rightarrow> recovery_state option recovery_io" where
  "open_incident env world node rawStatus =
     (if rawStatus = ''True'' then
        io_bind (newRecoveryState env node) (\<lambda>s. io_bind (saveState env world node s) (\<lambda>_. io_ret (Some s)))
      else if node_ann node recoveryIncidentKey \<noteq> '''' then
        io_bind (newRecoveryState env node) (\<lambda>s0.
        let s = s0\<lparr>ry_Phase := PhaseManualRepair, ry_TerminalReason := ''durable recovery state is missing''\<rparr> in
        io_bind (saveState env world node s) (\<lambda>_. io_ret (Some s)))
      else io_bind (setHealthy env world node) (\<lambda>_. io_ret None))"

definition retry_requested :: "recovery_env \<Rightarrow> recovery_call world \<Rightarrow> knode \<Rightarrow> string \<Rightarrow> recovery_state \<Rightarrow> recovery_state recovery_io" where
  "retry_requested env world node rawStatus s =
     (let requestID = node_ann node recoveryRequestKey in
      if ry_Phase s = PhaseManualRepair \<and> rawStatus = ''False'' \<and> requestID \<noteq> '''' \<and> requestID \<noteq> ry_ManualRequest s \<and> validIncident env requestID
      then io_bind (newRecoveryState env node) (\<lambda>s0.
           let s' = s0\<lparr>ry_Incident := requestID, ry_ManualRequest := requestID\<rparr> in
           io_bind (saveState env world node s') (\<lambda>_. io_ret s'))
      else io_ret s)"

definition recovery_dispatch :: "recovery_env \<Rightarrow> recovery_call world \<Rightarrow> knode \<Rightarrow> string \<Rightarrow> recovery_state \<Rightarrow> int recovery_io" where
  "recovery_dispatch env world node rawStatus s =
     (case ry_Phase s of
        PhaseManualRepair \<Rightarrow> io_ret 0
      | PhaseIsolated \<Rightarrow> reconcileEvacuation env world node s
      | PhaseDraining \<Rightarrow> reconcileEvacuation env world node s
      | PhaseCheckpointing \<Rightarrow> reconcileEvacuation env world node s
      | PhaseRequeued \<Rightarrow> reconcileEvacuation env world node s
      | PhaseRebootRequested \<Rightarrow> reconcileReboot env world s
      | PhaseRebooting \<Rightarrow> reconcileReboot env world s
      | PhaseVerifying \<Rightarrow> reconcileVerification env world node s rawStatus
      | PhaseOther p \<Rightarrow> io_fail (UnsupportedPhase p))"

definition recovery_serve :: "recovery_env \<Rightarrow> recovery_call world \<Rightarrow> knode \<Rightarrow> string \<Rightarrow> recovery_state \<Rightarrow> int recovery_io" where
  "recovery_serve env world node rawStatus s =
     io_bind (retry_requested env world node rawStatus s) (\<lambda>s1.
     io_bind (ensureIsolation env world node s1) (\<lambda>node'.
     recovery_dispatch env world node' rawStatus s1))"

definition recovery_Reconcile ::
  "recovery_env \<Rightarrow> recovery_call world \<Rightarrow> recovery_error + knode option \<Rightarrow> int recovery_io" where
  "recovery_Reconcile env world node_read =
     (case node_read of
        Inl e \<Rightarrow> io_fail e
      | Inr None \<Rightarrow> io_ret 0
      | Inr (Some node) \<Rightarrow>
          io_bind (io_res (loadState env node)) (\<lambda>loaded.
          let rawStatus = nodeConditionStatus (nd_Conditions node) hardwareFaultCondition in
          if \<not> (gm_get '''' (nd_Labels node) ''orchestration.gputpu.io/compute'' = ''true'' \<or> loaded \<noteq> None \<or> node_ann node recoveryIncidentKey \<noteq> '''')
          then io_ret 0
          else io_bind (case loaded of Some s \<Rightarrow> io_ret (Some s) | None \<Rightarrow> open_incident env world node rawStatus) (\<lambda>opened.
               case opened of None \<Rightarrow> io_ret 0 | Some s \<Rightarrow> recovery_serve env world node rawStatus s)))"

end
