(* ===== verification/Protocol.thy ===== *)
theory Protocol
  imports Worker_Pass
begin

text \<open>
  Protocols over the calls of a computation. A protocol says which call may be made in which state, and how the state
  changes with the answer to a call. \<open>io_obeys\<close> is a triple over computations: whatever the log, the calls that the
  computation appends follow the protocol, also when it fails.
\<close>

section \<open>Runs\<close>

fun run_after :: "'c world \<Rightarrow> ('d \<Rightarrow> outcome \<Rightarrow> 'c \<Rightarrow> 'd) \<Rightarrow> nat \<Rightarrow> 'd \<Rightarrow> 'c list \<Rightarrow> 'd" where
  "run_after w eff n d [] = d"
| "run_after w eff n d (c # cs) = run_after w eff (Suc n) (eff d (w n c) c) cs"

fun run_follows :: "'c world \<Rightarrow> ('d \<Rightarrow> outcome \<Rightarrow> 'c \<Rightarrow> 'd) \<Rightarrow> ('d \<Rightarrow> 'c \<Rightarrow> bool) \<Rightarrow> nat \<Rightarrow> 'd \<Rightarrow> 'c list \<Rightarrow> bool" where
  "run_follows w eff ok n d [] = True"
| "run_follows w eff ok n d (c # cs) \<longleftrightarrow> ok d c \<and> run_follows w eff ok (Suc n) (eff d (w n c) c) cs"

lemma run_after_append: "run_after w eff n d (xs @ ys) = run_after w eff (n + length xs) (run_after w eff n d xs) ys"
  by (induction xs arbitrary: n d) auto

lemma run_follows_append:
  "run_follows w eff ok n d (xs @ ys) \<longleftrightarrow> run_follows w eff ok n d xs \<and> run_follows w eff ok (n + length xs) (run_after w eff n d xs) ys"
  by (induction xs arbitrary: n d) auto

lemma run_follows_member:
  "run_follows w eff ok n d cs \<Longrightarrow> c \<in> set cs \<Longrightarrow> \<exists>p q. cs = p @ c # q \<and> ok (run_after w eff n d p) c"
  by (metis in_set_conv_decomp run_follows.simps(2) run_follows_append)

locale protocol =
  fixes eff :: "'d \<Rightarrow> outcome \<Rightarrow> 'c \<Rightarrow> 'd" and ok :: "'d \<Rightarrow> 'c \<Rightarrow> bool" and inv :: "'d \<Rightarrow> bool"
  assumes step_keeps: "inv d \<Longrightarrow> ok d c \<Longrightarrow> inv (eff d o' c)"
begin

lemma run_keeps: "inv d \<Longrightarrow> run_follows w eff ok n d cs \<Longrightarrow> inv (run_after w eff n d cs)"
  by (induction cs arbitrary: n d) (auto intro: step_keeps)

lemma prefix_keeps: "inv d \<Longrightarrow> run_follows w eff ok n d (p @ q) \<Longrightarrow> inv (run_after w eff n d p)"
  by (simp add: run_follows_append run_keeps)

end

section \<open>Triples\<close>

definition io_obeys ::
  "'c world \<Rightarrow> ('d \<Rightarrow> outcome \<Rightarrow> 'c \<Rightarrow> 'd) \<Rightarrow> ('d \<Rightarrow> 'c \<Rightarrow> bool) \<Rightarrow> nat \<Rightarrow> 'd \<Rightarrow> ('c, 'e, 'a) io \<Rightarrow> ('d \<Rightarrow> bool) \<Rightarrow> ('a \<Rightarrow> nat \<Rightarrow> 'd \<Rightarrow> bool) \<Rightarrow> bool" where
  "io_obeys w eff ok n d m E Q \<longleftrightarrow> (\<forall>log. length log = n \<longrightarrow>
     (\<exists>new. snd (m log) = log @ new \<and> run_follows w eff ok n d new
        \<and> (case fst (m log) of Inl e \<Rightarrow> E (run_after w eff n d new) | Inr x \<Rightarrow> Q x (n + length new) (run_after w eff n d new))))"

lemma obeys_ret: "Q x n d \<Longrightarrow> io_obeys w eff ok n d (io_ret x) E Q"
  by (simp add: io_obeys_def io_ret_def)

lemma obeys_fail: "E d \<Longrightarrow> io_obeys w eff ok n d (io_fail e) E Q"
  by (simp add: io_obeys_def io_fail_def)

lemma obeys_res: "(\<And>x. r = Inr x \<Longrightarrow> Q x n d) \<Longrightarrow> E d \<Longrightarrow> io_obeys w eff ok n d (io_res r) E Q"
  by (cases r) (simp_all add: io_obeys_def io_res_def)

lemma obeys_here: "Q n n d \<Longrightarrow> io_obeys w eff ok n d io_here E Q"
  by (simp add: io_obeys_def io_here_def)

lemma obeys_call:
  fixes w :: "'c world"
  assumes "ok d c" "Q (w n c) (Suc n) (eff d (w n c) c)"
  shows "io_obeys w eff ok n d (io_call w c) E Q"
  unfolding io_obeys_def
proof (intro allI impI)
  fix log :: "'c list" assume "length log = n"
  then show "\<exists>new. snd (io_call w c log) = log @ new \<and> run_follows w eff ok n d new
      \<and> (case fst (io_call w c log) of Inl e \<Rightarrow> E (run_after w eff n d new) | Inr x \<Rightarrow> Q x (n + length new) (run_after w eff n d new))"
    using assms by (intro exI[of _ "[c]"]) (simp add: io_call_def)
qed

lemma obeys_weaken:
  fixes w :: "'c world"
  assumes "io_obeys w eff ok n d m E' Q'" "\<And>d'. E' d' \<Longrightarrow> E d'" "\<And>x n' d'. Q' x n' d' \<Longrightarrow> Q x n' d'"
  shows "io_obeys w eff ok n d m E Q"
  unfolding io_obeys_def
proof (intro allI impI)
  fix log :: "'c list" assume "length log = n"
  then obtain new where "snd (m log) = log @ new" "run_follows w eff ok n d new"
      "case fst (m log) of Inl e \<Rightarrow> E' (run_after w eff n d new) | Inr x \<Rightarrow> Q' x (n + length new) (run_after w eff n d new)"
    using assms(1) unfolding io_obeys_def by blast
  then show "\<exists>new. snd (m log) = log @ new \<and> run_follows w eff ok n d new
      \<and> (case fst (m log) of Inl e \<Rightarrow> E (run_after w eff n d new) | Inr x \<Rightarrow> Q x (n + length new) (run_after w eff n d new))"
    using assms(2,3) by (intro exI[of _ new]) (auto split: sum.splits)
qed

lemma obeys_try:
  fixes w :: "'c world"
  assumes m: "io_obeys w eff ok n d m E' Q'"
    and l: "\<And>e n' d'. E' d' \<Longrightarrow> io_obeys w eff ok n' d' (k (Inl e)) E Q"
    and r: "\<And>x n' d'. Q' x n' d' \<Longrightarrow> io_obeys w eff ok n' d' (k (Inr x)) E Q"
  shows "io_obeys w eff ok n d (io_try m k) E Q"
  unfolding io_obeys_def
proof (intro allI impI)
  fix log :: "'c list" assume n: "length log = n"
  obtain new where new: "snd (m log) = log @ new" "run_follows w eff ok n d new"
      "case fst (m log) of Inl e \<Rightarrow> E' (run_after w eff n d new) | Inr x \<Rightarrow> Q' x (n + length new) (run_after w eff n d new)"
    using m n unfolding io_obeys_def by blast
  have "io_obeys w eff ok (n + length new) (run_after w eff n d new) (k (fst (m log))) E Q"
    using new(3) l r by (cases "fst (m log)") simp_all
  then obtain new' where new': "snd (k (fst (m log)) (log @ new)) = (log @ new) @ new'"
      "run_follows w eff ok (n + length new) (run_after w eff n d new) new'"
      "case fst (k (fst (m log)) (log @ new)) of Inl e \<Rightarrow> E (run_after w eff (n + length new) (run_after w eff n d new) new')
         | Inr x \<Rightarrow> Q x (n + length new + length new') (run_after w eff (n + length new) (run_after w eff n d new) new')"
    using n unfolding io_obeys_def by (metis length_append)
  have t: "io_try m k log = k (fst (m log)) (log @ new)" using new(1) by (simp add: io_try_def split_beta)
  show "\<exists>new. snd (io_try m k log) = log @ new \<and> run_follows w eff ok n d new
      \<and> (case fst (io_try m k log) of Inl e \<Rightarrow> E (run_after w eff n d new) | Inr x \<Rightarrow> Q x (n + length new) (run_after w eff n d new))"
    using new' new(2) by (intro exI[of _ "new @ new'"]) (auto simp: t run_follows_append run_after_append add.assoc split: sum.splits)
qed

lemma bind_as_try: "io_bind m f = io_try m (\<lambda>r. case r of Inl e \<Rightarrow> io_fail e | Inr x \<Rightarrow> f x)"
  by (auto simp: io_bind_def io_try_def io_fail_def fun_eq_iff split: prod.splits sum.splits)

lemma obeys_bind:
  assumes "io_obeys w eff ok n d m E R" "\<And>x n' d'. R x n' d' \<Longrightarrow> io_obeys w eff ok n' d' (f x) E Q"
  shows "io_obeys w eff ok n d (io_bind m f) E Q"
  unfolding bind_as_try by (rule obeys_try, rule assms(1)) (simp_all add: obeys_fail assms(2))

lemma obeys_must:
  assumes "ok d c" "\<And>o'. List.member good o' \<Longrightarrow> Q () (Suc n) (eff d o' c)" "\<And>o'. \<not> List.member good o' \<Longrightarrow> E (eff d o' c)"
  shows "io_obeys w eff ok n d (io_must w good e c) E Q"
  unfolding io_must_def
  by (rule obeys_bind, rule obeys_call[where Q = "\<lambda>o' n' d'. n' = Suc n \<and> d' = eff d o' c"])
    (auto simp: assms intro: obeys_ret obeys_fail)

lemma obeys_if:
  "(b \<Longrightarrow> io_obeys w eff ok n d m E Q) \<Longrightarrow> (\<not> b \<Longrightarrow> io_obeys w eff ok n d m' E Q) \<Longrightarrow> io_obeys w eff ok n d (if b then m else m') E Q"
  by simp

lemma obeys_each:
  assumes "\<And>x s n' d'. x \<in> set xs \<Longrightarrow> J s d' \<Longrightarrow> io_obeys w eff ok n' d' (f x s) E (\<lambda>s _. J s)" "J s d"
  shows "io_obeys w eff ok n d (io_each f xs s) E (\<lambda>s _. J s)"
  using assms
proof (induction xs arbitrary: n d s)
  case Nil
  then show ?case by (simp add: obeys_ret)
next
  case (Cons x xs)
  have a: "io_obeys w eff ok n d (f x s) E (\<lambda>s _. J s)" using Cons.prems by (meson list.set_intros(1))
  show ?case by (simp, rule obeys_bind, rule a) (rule Cons.IH, use Cons.prems(1) in auto)
qed

lemma obeys_run:
  assumes "io_obeys w eff ok 0 d m E Q"
  shows "run_follows w eff ok 0 d (snd (m []))"
  using assms[unfolded io_obeys_def, rule_format, of "[]"] by auto

end
