(* ===== verification/Recovery_Protocol.thy ===== *)
theory Recovery_Protocol
  imports Recovery_Verifier Protocol
begin

text \<open>
  What hardware recovery promises, as a protocol over its durable state: which call may be made while which state is
  stored. A state is stored before the calls that it announces are made, phases follow a fixed graph, and a node is
  released only after its verification has passed.
\<close>

section \<open>States\<close>

definition evacuating :: "recovery_phase \<Rightarrow> bool" where
  "evacuating p \<longleftrightarrow> p = PhaseIsolated \<or> p = PhaseDraining \<or> p = PhaseCheckpointing \<or> p = PhaseRequeued"

definition rebooting :: "recovery_phase \<Rightarrow> bool" where
  "rebooting p \<longleftrightarrow> p = PhaseRebootRequested \<or> p = PhaseRebooting"

fun phase_edge :: "recovery_phase \<Rightarrow> recovery_phase \<Rightarrow> bool" where
  "phase_edge PhaseIsolated q \<longleftrightarrow> q = PhaseIsolated \<or> q = PhaseDraining"
| "phase_edge PhaseDraining q \<longleftrightarrow> q = PhaseDraining \<or> q = PhaseCheckpointing \<or> q = PhaseRequeued"
| "phase_edge PhaseCheckpointing q \<longleftrightarrow> q = PhaseCheckpointing \<or> q = PhaseRequeued \<or> q = PhaseDraining"
| "phase_edge PhaseRequeued q \<longleftrightarrow> q = PhaseRequeued \<or> q = PhaseRebootRequested \<or> q = PhaseDraining"
| "phase_edge PhaseRebootRequested q \<longleftrightarrow> q = PhaseRebooting \<or> q = PhaseManualRepair"
| "phase_edge PhaseRebooting q \<longleftrightarrow> q = PhaseRebooting \<or> q = PhaseVerifying \<or> q = PhaseManualRepair"
| "phase_edge PhaseVerifying q \<longleftrightarrow> q = PhaseVerifying \<or> q = PhaseManualRepair"
| "phase_edge _ q \<longleftrightarrow> False"

text \<open>A job is requeued only after it was signalled, and after its checkpoint was seen or the grace period is over.\<close>

definition work_ok :: "recovery_job \<Rightarrow> bool" where
  "work_ok j \<longleftrightarrow> (yj_SignalSent j \<longrightarrow> yj_SignalRequestedAt j \<noteq> None)
     \<and> (yj_CheckpointSeen j \<longrightarrow> yj_SignalSent j)
     \<and> (yj_RequeueSent j \<longrightarrow> yj_RequeueRequestedAt j \<noteq> None)
     \<and> (case yj_RequeueRequestedAt j of None \<Rightarrow> True
        | Some t \<Rightarrow> yj_SignalSent j \<and> (yj_CheckpointSeen j \<or> (case yj_SignalRequestedAt j of None \<Rightarrow> False | Some since \<Rightarrow> since + checkpointGrace \<le> t)))"

definition state_ok :: "recovery_state \<Rightarrow> bool" where
  "state_ok s \<longleftrightarrow> list_all work_ok (ry_Jobs s)
     \<and> (evacuating (ry_Phase s) \<or> rebooting (ry_Phase s) \<or> ry_Phase s = PhaseVerifying \<or> ry_Phase s = PhaseManualRepair)
     \<and> (rebooting (ry_Phase s) \<or> ry_Phase s = PhaseVerifying \<longrightarrow> ry_RebootRequestedAt s \<noteq> None)
     \<and> (ry_NewBootID s \<noteq> [] \<longrightarrow> ry_NewBootID s \<noteq> ry_PreBootID s \<and> \<not> evacuating (ry_Phase s) \<and> ry_Phase s \<noteq> PhaseRebootRequested)
     \<and> (ry_VerificationStarted s \<noteq> None \<longrightarrow> ry_NewBootID s \<noteq> [] \<and> ry_PreInventoryHash s \<noteq> [])
     \<and> (ry_Phase s = PhaseVerifying \<longrightarrow> ry_VerificationStarted s \<noteq> None)
     \<and> (ry_VerificationPassed s \<longrightarrow> ry_VerificationStarted s \<noteq> None \<and> (ry_Phase s = PhaseVerifying \<or> ry_Phase s = PhaseManualRepair))"

definition durable_ok :: "recovery_state option \<Rightarrow> bool" where
  "durable_ok d \<longleftrightarrow> (case d of None \<Rightarrow> True | Some s \<Rightarrow> state_ok s)"

definition fresh_state :: "recovery_state \<Rightarrow> bool" where
  "fresh_state s \<longleftrightarrow> ry_Clusters s = [] \<and> ry_Workers s = [] \<and> ry_Jobs s = [] \<and> ry_RebootRequestedAt s = None \<and> ry_NewBootID s = []
     \<and> ry_VerificationStarted s = None \<and> \<not> ry_VerificationPassed s \<and> (ry_Phase s = PhaseIsolated \<or> ry_Phase s = PhaseManualRepair)"

definition same_work :: "recovery_job \<Rightarrow> recovery_job \<Rightarrow> bool" where
  "same_work j j' \<longleftrightarrow> work_key j' = work_key j \<and> yj_ID j' = yj_ID j"

definition progress :: "recovery_job \<Rightarrow> recovery_job \<Rightarrow> bool" where
  "progress j j' \<longleftrightarrow> same_work j j'
     \<and> (yj_SignalRequestedAt j \<noteq> None \<longrightarrow> yj_SignalRequestedAt j' = yj_SignalRequestedAt j)
     \<and> (yj_SignalSent j \<longrightarrow> yj_SignalSent j') \<and> (yj_CheckpointSeen j \<longrightarrow> yj_CheckpointSeen j')
     \<and> (yj_RequeueRequestedAt j \<noteq> None \<longrightarrow> yj_RequeueRequestedAt j' = yj_RequeueRequestedAt j)
     \<and> (yj_RequeueSent j \<longrightarrow> yj_RequeueSent j') \<and> (yj_Evacuated j \<longrightarrow> yj_Evacuated j')"

definition same_incident :: "recovery_state \<Rightarrow> recovery_state \<Rightarrow> bool" where
  "same_incident s s' \<longleftrightarrow> ry_Incident s' = ry_Incident s \<and> ry_NodeName s' = ry_NodeName s \<and> ry_NodeUID s' = ry_NodeUID s
     \<and> ry_StartedAt s' = ry_StartedAt s \<and> ry_PreBootID s' = ry_PreBootID s \<and> ry_PreInventory s' = ry_PreInventory s
     \<and> ry_PreInventoryHash s' = ry_PreInventoryHash s"

definition advance :: "recovery_state \<Rightarrow> recovery_state \<Rightarrow> bool" where
  "advance s s' \<longleftrightarrow> same_incident s s' \<and> phase_edge (ry_Phase s) (ry_Phase s')
     \<and> set (ry_Clusters s) \<subseteq> set (ry_Clusters s') \<and> set (ry_Workers s) \<subseteq> set (ry_Workers s')
     \<and> (\<forall>j\<in>set (ry_Jobs s). \<exists>j'\<in>set (ry_Jobs s'). progress j j')
     \<and> (ry_NewBootID s \<noteq> [] \<longrightarrow> ry_NewBootID s' = ry_NewBootID s)
     \<and> (ry_VerificationStarted s \<noteq> None \<longrightarrow> ry_VerificationStarted s' = ry_VerificationStarted s)
     \<and> (ry_VerificationPassed s \<longrightarrow> ry_VerificationPassed s')"

text \<open>What must hold before a reboot is asked for: every affected job has left the node, and its workers are gone.\<close>

definition reboot_gate :: "recovery_env \<Rightarrow> recovery_call world \<Rightarrow> recovery_state \<Rightarrow> bool" where
  "reboot_gate env world s \<longleftrightarrow> (\<exists>snaps. slurmSnapshots env (ry_Clusters s) = Some snaps
     \<and> (\<forall>j\<in>set (ry_Jobs s). jobEvacuated j s (zs_jobs (snap snaps (work_key j)))))
     \<and> (\<forall>w\<in>set (ry_Workers s). (\<exists>n. rv_getPod env n (yw_Namespace w) (yw_Name w) = PodMissing)
          \<and> (yw_Claim w \<noteq> [] \<longrightarrow> (\<exists>n. world n (DropClaim (yw_Namespace w) (yw_Claim w)) = NotFound)))"

definition save_ok :: "recovery_env \<Rightarrow> recovery_call world \<Rightarrow> recovery_state option \<Rightarrow> recovery_state \<Rightarrow> bool" where
  "save_ok env world d s \<longleftrightarrow> state_ok s \<and> (ry_Phase s = PhaseRebootRequested \<longrightarrow> reboot_gate env world s)
     \<and> (case d of None \<Rightarrow> fresh_state s
        | Some old \<Rightarrow> advance old s \<or> ry_Phase old = PhaseManualRepair \<and> fresh_state s \<and> ry_Phase s = PhaseIsolated)"

definition released :: "recovery_state option \<Rightarrow> bool" where
  "released d \<longleftrightarrow> (case d of None \<Rightarrow> True | Some s \<Rightarrow> ry_Phase s = PhaseVerifying \<and> ry_VerificationPassed s)"

section \<open>The protocol\<close>

definition read_nodes :: "recovery_env \<Rightarrow> knode \<Rightarrow> knode set" where
  "read_nodes env node = insert node {b. \<exists>n. rv_getNode env n = Some b}"

text \<open>The patched node keeps a reboot request that some read of the node showed, or the stored phase asks for the reboot.\<close>

definition node_patch_ok :: "knode set \<Rightarrow> recovery_state option \<Rightarrow> knode \<Rightarrow> bool" where
  "node_patch_ok nodes d n \<longleftrightarrow>
     (if degraded_taint \<in> set (nd_Taints n)
      then (case d of None \<Rightarrow> False
            | Some s \<Rightarrow> rebooting (ry_Phase s) \<or> (\<exists>b\<in>nodes. node_ann n rebootRequestKey = node_ann b rebootRequestKey))
      else released d \<and> node_ann n rebootRequestKey = [])"

definition stored_work :: "recovery_state option \<Rightarrow> recovery_phase \<Rightarrow> string \<Rightarrow> nat \<Rightarrow> (recovery_job \<Rightarrow> bool) \<Rightarrow> bool" where
  "stored_work d p key jid P \<longleftrightarrow> (case d of None \<Rightarrow> False
     | Some s \<Rightarrow> ry_Phase s = p \<and> (\<exists>j\<in>set (ry_Jobs s). work_key j = key \<and> yj_ID j = jid \<and> P j))"

definition stored_worker :: "recovery_state option \<Rightarrow> (recovery_phase \<Rightarrow> bool) \<Rightarrow> (recovery_worker \<Rightarrow> bool) \<Rightarrow> bool" where
  "stored_worker d p P \<longleftrightarrow> (case d of None \<Rightarrow> False | Some s \<Rightarrow> p (ry_Phase s) \<and> (\<exists>w\<in>set (ry_Workers s). P w))"

fun recovery_ok :: "recovery_env \<Rightarrow> recovery_call world \<Rightarrow> knode set \<Rightarrow> recovery_state option \<Rightarrow> recovery_call \<Rightarrow> bool" where
  "recovery_ok env world nodes d (SaveState ob s) \<longleftrightarrow> save_ok env world d s"
| "recovery_ok env world nodes d (DeleteState name) \<longleftrightarrow> d \<noteq> None \<and> released d"
| "recovery_ok env world nodes d (PatchNode n) \<longleftrightarrow> node_patch_ok nodes d n"
| "recovery_ok env world nodes d (PatchNodeStatus name cs) \<longleftrightarrow>
     list_all (\<lambda>c. nc_Type c = hardwareDegradedCondition \<longrightarrow> (if nc_Status c = ''True'' then d \<noteq> None else released d)) cs"
| "recovery_ok env world nodes d (MarkPod ns name incident) \<longleftrightarrow>
     (case d of None \<Rightarrow> False | Some s \<Rightarrow> evacuating (ry_Phase s) \<and> incident = ry_Incident s)"
| "recovery_ok env world nodes d (DrainWorker key name reason) \<longleftrightarrow> stored_worker d evacuating (\<lambda>w. worker_key w = key \<and> yw_Name w = name)"
| "recovery_ok env world nodes d (SignalWork key jid sig) \<longleftrightarrow> sig = ''USR1''
     \<and> stored_work d PhaseDraining key jid (\<lambda>j. yj_SignalRequestedAt j \<noteq> None \<and> \<not> yj_SignalSent j)"
| "recovery_ok env world nodes d (RequeueWork key jid) \<longleftrightarrow>
     stored_work d PhaseCheckpointing key jid (\<lambda>j. yj_RequeueRequestedAt j \<noteq> None \<and> \<not> yj_RequeueSent j)"
| "recovery_ok env world nodes d (RemoveWorker key name) \<longleftrightarrow>
     stored_worker d (\<lambda>p. p = PhaseRequeued) (\<lambda>w. worker_key w = key \<and> yw_Name w = name)"
| "recovery_ok env world nodes d (ReleasePod p) \<longleftrightarrow> stored_worker d (\<lambda>p. p = PhaseRequeued) (\<lambda>w. True)"
| "recovery_ok env world nodes d (DropPod ns name) \<longleftrightarrow> stored_worker d (\<lambda>p. p = PhaseRequeued) (\<lambda>w. True)"
| "recovery_ok env world nodes d (DropClaim ns name) \<longleftrightarrow>
     stored_worker d (\<lambda>p. p = PhaseRequeued) (\<lambda>w. yw_Namespace w = ns \<and> yw_Claim w = name)"
| "recovery_ok env world nodes d (CreateVerifierClaim c) \<longleftrightarrow>
     (case d of None \<Rightarrow> False | Some s \<Rightarrow> (ry_Phase s = PhaseRebooting \<or> ry_Phase s = PhaseVerifying) \<and> ry_VerificationStarted s \<noteq> None)"
| "recovery_ok env world nodes d (CreateVerifierJob j) \<longleftrightarrow>
     (case d of None \<Rightarrow> False | Some s \<Rightarrow> (ry_Phase s = PhaseRebooting \<or> ry_Phase s = PhaseVerifying) \<and> ry_VerificationStarted s \<noteq> None)"
| "recovery_ok env world nodes d (DropVerifierJob name) \<longleftrightarrow> d \<noteq> None \<and> released d"
| "recovery_ok env world nodes d (DropVerifierClaim name) \<longleftrightarrow> d \<noteq> None \<and> released d"

fun durable_step :: "recovery_state option \<Rightarrow> outcome \<Rightarrow> recovery_call \<Rightarrow> recovery_state option" where
  "durable_step d o' (SaveState ob s) = (if o' = Done then Some s else d)"
| "durable_step d o' (DeleteState name) = (if o' = Done \<or> o' = NotFound then None else d)"
| "durable_step d o' _ = d"

interpretation recovery_protocol: protocol durable_step "recovery_ok env world nodes" durable_ok
  for env :: recovery_env and world :: "recovery_call world" and nodes :: "knode set"
proof
  fix d c o'
  assume "durable_ok d" "recovery_ok env world nodes d c"
  then show "durable_ok (durable_step d o' c)"
    by (cases c) (auto simp: durable_ok_def save_ok_def)
qed

section \<open>Facts about states\<close>

lemma progress_refl: "progress j j"
  by (simp add: progress_def same_work_def)

lemma same_incident_refl: "same_incident s s"
  by (simp add: same_incident_def)

lemma set_put_work:
  assumes "i < length (ry_Jobs s)"
  shows "j \<in> set (ry_Jobs s) \<Longrightarrow> progress (ry_Jobs s ! i) j' \<Longrightarrow> \<exists>k\<in>set (ry_Jobs (put_work i j' s)). progress j k"
proof -
  assume j: "j \<in> set (ry_Jobs s)" and p: "progress (ry_Jobs s ! i) j'"
  obtain k where k: "k < length (ry_Jobs s)" "ry_Jobs s ! k = j" using j by (auto simp: in_set_conv_nth)
  have m: "(ry_Jobs s)[i := j'] ! k \<in> set (ry_Jobs (put_work i j' s))" using k by (simp add: put_work_def)
  show ?thesis
  proof (cases "k = i")
    case True
    then show ?thesis using m k p by auto
  next
    case False
    then show ?thesis using m k progress_refl by auto
  qed
qed

lemma advance_put_work:
  assumes "i < length (ry_Jobs s)" "progress (ry_Jobs s ! i) j'" "phase_edge (ry_Phase s) (ry_Phase s)"
  shows "advance s (put_work i j' s)"
proof -
  have "\<forall>j\<in>set (ry_Jobs s). \<exists>k\<in>set (ry_Jobs (put_work i j' s)). progress j k" using set_put_work assms by blast
  then show ?thesis using assms(3) by (simp add: advance_def put_work_def same_incident_def)
qed

lemma state_ok_put_work: "state_ok s \<Longrightarrow> work_ok j' \<Longrightarrow> state_ok (put_work i j' s)"
  by (auto simp: state_ok_def put_work_def list_all_iff dest: set_update_subset_insert[THEN subsetD])

end
