(* ===== verification/Recovery_Refine.thy ===== *)
theory Recovery_Refine
  imports Recovery_Protocol
begin

text \<open>
  The pass of the recovery controller follows its protocol. Each operation has one triple; a state in memory may differ
  from the stored one only in the order of its lists.
\<close>

abbreviation obeys where
  "obeys env world nodes \<equiv> io_obeys world durable_step (recovery_ok env world nodes)"

section \<open>States in memory\<close>

definition near :: "recovery_state \<Rightarrow> recovery_state \<Rightarrow> bool" where
  "near s0 s \<longleftrightarrow> same_incident s0 s \<and> ry_Phase s = ry_Phase s0 \<and> set (ry_Clusters s) = set (ry_Clusters s0)
     \<and> set (ry_Workers s) = set (ry_Workers s0) \<and> set (ry_Jobs s) = set (ry_Jobs s0) \<and> ry_RebootRequestedAt s = ry_RebootRequestedAt s0
     \<and> ry_NewBootID s = ry_NewBootID s0 \<and> ry_VerificationStarted s = ry_VerificationStarted s0
     \<and> ry_VerificationPassed s = ry_VerificationPassed s0"

definition held :: "recovery_state option \<Rightarrow> recovery_state \<Rightarrow> bool" where
  "held d s \<longleftrightarrow> state_ok s \<and> (\<exists>s0. d = Some s0 \<and> near s0 s)"

lemma near_refl: "near s s"
  by (simp add: near_def same_incident_def)

lemma held_saved: "state_ok s \<Longrightarrow> held (Some s) s"
  by (auto simp: held_def near_refl)

lemma near_advance: "near s0 s \<Longrightarrow> advance s s' \<Longrightarrow> advance s0 s'"
  by (simp add: near_def advance_def same_incident_def)

lemma held_save_ok:
  assumes "held d s" "advance s s'" "state_ok s'" "ry_Phase s' = PhaseRebootRequested \<Longrightarrow> reboot_gate env world s'"
  shows "save_ok env world d s'"
proof -
  obtain s0 where s0: "d = Some s0" "near s0 s" using assms(1) by (auto simp: held_def)
  then show ?thesis using near_advance[OF s0(2) assms(2)] assms(3,4) by (simp add: save_ok_def)
qed

lemma near_ok: "near s0 s \<Longrightarrow> state_ok s \<longleftrightarrow> state_ok s0"
  by (simp add: near_def state_ok_def same_incident_def list_all_iff)

section \<open>Saving and isolating\<close>

lemma recovery_call_obeys:
  assumes "recovery_ok env world nodes d c" "Q () (Suc n) (durable_step d Done c)" "\<And>o'. o' \<noteq> Done \<Longrightarrow> E (durable_step d o' c)"
  shows "obeys env world nodes n d (recovery_call world c) E Q"
  unfolding recovery_call_def by (rule obeys_must) (use assms in auto)

lemma recovery_gone_obeys:
  assumes "recovery_ok env world nodes d c" "Q () (Suc n) (durable_step d Done c)" "Q () (Suc n) (durable_step d NotFound c)"
    "\<And>o'. o' \<noteq> Done \<Longrightarrow> o' \<noteq> NotFound \<Longrightarrow> E (durable_step d o' c)"
  shows "obeys env world nodes n d (recovery_gone world c) E Q"
  unfolding recovery_gone_def by (rule obeys_must) (use assms in auto)

lemma now_obeys: "Q (rv_now env n) n d \<Longrightarrow> obeys env world nodes n d (recovery_now env) E Q"
  unfolding recovery_now_def by (rule obeys_bind, rule obeys_here[where Q = "\<lambda>x n' d'. x = n \<and> n' = n \<and> d' = d"]) (auto intro: obeys_ret)

lemma save_obeys:
  assumes "save_ok env world d s"
  shows "obeys env world nodes n d (saveState env world node s) (\<lambda>d'. d' = d) (\<lambda>_ n' d'. n' = Suc n \<and> d' = Some s)"
  unfolding saveState_def Let_def by (intro obeys_if obeys_fail recovery_call_obeys) (use assms in simp_all)

lemma condition_updates_status:
  "condition_updates status reason message cs = Some cs' \<Longrightarrow> c \<in> set cs' \<Longrightarrow> nc_Type c = hardwareDegradedCondition \<Longrightarrow> nc_Status c = status"
  by (induction cs arbitrary: cs') (auto split: if_splits)

lemma condition_obeys:
  assumes "if status = ''True'' then d \<noteq> None else released d"
  shows "obeys env world nodes n d (setNodeCondition env world name status reason message) (\<lambda>d'. d' = d) (\<lambda>_ _ d'. d' = d)"
proof -
  have c: "obeys env world nodes n d (recovery_call world (PatchNodeStatus name cs)) (\<lambda>d'. d' = d) (\<lambda>_ _ d'. d' = d)"
    if "\<And>c. c \<in> set cs \<Longrightarrow> nc_Type c = hardwareDegradedCondition \<Longrightarrow> nc_Status c = status" for n cs
    using that assms by (intro recovery_call_obeys) (auto simp: list_all_iff)
  show ?thesis
    unfolding setNodeCondition_def Let_def
    by (rule obeys_bind, rule obeys_here[where Q = "\<lambda>_ _ d'. d' = d"])
      (auto intro!: obeys_ret obeys_fail c dest: condition_updates_status split: option.splits)
qed

lemma patch_obeys:
  assumes "node_patch_ok nodes d b'"
  shows "obeys env world nodes n d (patch_node world b b') (\<lambda>d'. d' = d) (\<lambda>x _ d'. d' = d \<and> (x = b \<or> x = b'))"
  unfolding patch_node_def
  by (intro obeys_if obeys_bind[where R = "\<lambda>_ _ d'. d' = d"] recovery_call_obeys) (use assms in \<open>auto intro: obeys_ret\<close>)

section \<open>Isolation\<close>

definition kept :: "knode set \<Rightarrow> recovery_phase \<Rightarrow> knode \<Rightarrow> bool" where
  "kept nodes p b \<longleftrightarrow> rebooting p \<or> (\<exists>b'\<in>nodes. node_ann b rebootRequestKey = node_ann b' rebootRequestKey)"

lemmas annotation_keys = recoveryIncidentKey_def recoveryPhaseKey_def recoveryRequestKey_def rebootRequestKey_def rebootAckKey_def

lemma request_key_differs: "rebootRequestKey \<noteq> recoveryIncidentKey" "rebootRequestKey \<noteq> recoveryPhaseKey"
  by (simp_all add: annotation_keys)

lemma isolated_request:
  "node_ann (isolated_node b s) rebootRequestKey = (if rebooting (ry_Phase s) then ry_Incident s else node_ann b rebootRequestKey)"
  by (simp add: isolated_node_def node_ann_def gm_get_put request_key_differs rebooting_def Let_def)

lemma isolated_taint: "degraded_taint \<in> set (nd_Taints (isolated_node b s))"
  by (simp add: isolated_node_def Let_def)

lemma isolated_patch: "kept nodes (ry_Phase s) b \<Longrightarrow> ry_Phase s0 = ry_Phase s \<Longrightarrow> node_patch_ok nodes (Some s0) (isolated_node b s)"
  by (auto simp: node_patch_ok_def isolated_taint isolated_request kept_def)

lemma isolate_obeys:
  assumes "kept nodes (ry_Phase s) b" "d = Some s0" "ry_Phase s0 = ry_Phase s"
  shows "obeys env world nodes n d (ensureIsolation env world b s) (\<lambda>d'. d' = d) (\<lambda>b' _ d'. d' = d \<and> kept nodes (ry_Phase s) b')"
  unfolding ensureIsolation_def
proof (rule obeys_bind)
  show "obeys env world nodes n d (patch_node world b (isolated_node b s)) (\<lambda>d'. d' = d) (\<lambda>x _ d'. d' = d \<and> (x = b \<or> x = isolated_node b s))"
    by (rule patch_obeys) (simp add: assms isolated_patch)
next
  fix x n' d' assume x: "d' = d \<and> (x = b \<or> x = isolated_node b s)"
  have "kept nodes (ry_Phase s) x" using x assms(1) by (auto simp: kept_def isolated_request)
  then show "obeys env world nodes n' d'
     (io_bind (if ry_Phase s = PhaseManualRepair then setNodeCondition env world (nd_Name x) ''True'' ''ManualRepair'' (ry_TerminalReason s)
               else setNodeCondition env world (nd_Name x) ''True'' ''RecoveryInProgress'' (isolation_message s)) (\<lambda>_. io_ret x))
     (\<lambda>d'. d' = d) (\<lambda>b' _ d'. d' = d \<and> kept nodes (ry_Phase s) b')"
    using x assms by (intro obeys_bind[where R = "\<lambda>_ _ d'. d' = d"] obeys_if) (auto intro: condition_obeys obeys_ret)
qed

lemma healthy_patch: "released d \<Longrightarrow> node_patch_ok nodes d (healthy_node b)"
  by (auto simp: node_patch_ok_def healthy_node_def degraded_taint_def node_ann_def gm_get_def map_of_gm_del annotation_keys)

lemma healthy_obeys:
  assumes "released d"
  shows "obeys env world nodes n d (setHealthy env world b) (\<lambda>d'. d' = d) (\<lambda>_ _ d'. d' = d)"
  unfolding setHealthy_def
  by (rule obeys_bind, rule patch_obeys, rule healthy_patch[OF assms]) (auto intro!: condition_obeys simp: assms)

section \<open>Phases\<close>

lemma setPhase_obeys:
  assumes "\<And>now. save_ok env world d (s\<lparr>ry_Phase := p, ry_PhaseStartedAt := now\<rparr>)" "kept nodes p b"
  shows "obeys env world nodes n d (setPhase env world b s p) (\<lambda>_. True)
     (\<lambda>s' _ d'. d' = Some s' \<and> (\<exists>now. s' = s\<lparr>ry_Phase := p, ry_PhaseStartedAt := now\<rparr>))"
  unfolding setPhase_def Let_def
proof (rule obeys_bind)
  show "obeys env world nodes n d (recovery_now env) (\<lambda>_. True) (\<lambda>_ _ d'. d' = d)" by (rule now_obeys) simp
next
  fix now n' d' assume d': "d' = d"
  let ?s = "s\<lparr>ry_Phase := p, ry_PhaseStartedAt := now\<rparr>"
  show "obeys env world nodes n' d' (io_bind (saveState env world b ?s) (\<lambda>_. io_bind (ensureIsolation env world b ?s) (\<lambda>_. io_ret ?s)))
     (\<lambda>_. True) (\<lambda>s' _ d'. d' = Some s' \<and> (\<exists>now. s' = s\<lparr>ry_Phase := p, ry_PhaseStartedAt := now\<rparr>))"
  proof (rule obeys_bind)
    show "obeys env world nodes n' d' (saveState env world b ?s) (\<lambda>_. True) (\<lambda>_ _ d'. d' = Some ?s)"
      by (rule obeys_weaken, rule save_obeys) (simp_all add: d' assms(1))
  next
    fix u n'' d'' assume d'': "d'' = Some ?s"
    have "obeys env world nodes n'' d'' (ensureIsolation env world b ?s) (\<lambda>_. True) (\<lambda>_ _ d'. d' = Some ?s)"
      by (rule obeys_weaken, rule isolate_obeys[where ?s0.0 = ?s]) (simp_all add: d'' assms(2))
    then show "obeys env world nodes n'' d'' (io_bind (ensureIsolation env world b ?s) (\<lambda>_. io_ret ?s))
       (\<lambda>_. True) (\<lambda>s' _ d'. d' = Some s' \<and> (\<exists>now. s' = s\<lparr>ry_Phase := p, ry_PhaseStartedAt := now\<rparr>))"
      by (rule obeys_bind) (auto intro!: obeys_ret)
  qed
qed

lemma advance_phase:
  assumes "phase_edge (ry_Phase s) p" "ry_Clusters s' = ry_Clusters s" "ry_Workers s' = ry_Workers s" "ry_Jobs s' = ry_Jobs s"
    "ry_NewBootID s' = ry_NewBootID s" "ry_VerificationStarted s' = ry_VerificationStarted s"
    "ry_VerificationPassed s' = ry_VerificationPassed s" "same_incident s s'" "ry_Phase s' = p"
  shows "advance s s'"
  using assms progress_refl by (auto simp: advance_def)

end
