(* ===== verification/Recovery_Refine_Evac.thy ===== *)
theory Recovery_Refine_Evac
  imports Recovery_Refine
begin

text \<open>
  The evacuation follows the protocol: workers and jobs are stored before they are drained, signalled or requeued, and
  a reboot is asked for only when the gate holds.
\<close>

section \<open>Discovery\<close>

text \<open>What discovery may do to a state: clusters and workers are added, and nothing changes when nothing was found.\<close>

definition found_from :: "recovery_state \<Rightarrow> recovery_state \<times> bool \<Rightarrow> bool" where
  "found_from s0 r \<longleftrightarrow> (\<exists>cs ws. fst r = s0\<lparr>ry_Clusters := ry_Clusters s0 @ cs, ry_Workers := ry_Workers s0 @ ws\<rparr> \<and> (\<not> snd r \<longrightarrow> cs = [] \<and> ws = []))"

lemma found_incident: "found_from s0 r \<Longrightarrow> ry_Incident (fst r) = ry_Incident s0"
  by (auto simp: found_from_def)

lemma record_worker_found:
  assumes "found_from s0 r"
  shows "found_from s0 (record_worker co p r)"
proof -
  obtain cs ws where r: "fst r = s0\<lparr>ry_Clusters := ry_Clusters s0 @ cs, ry_Workers := ry_Workers s0 @ ws\<rparr>"
      "\<not> snd r \<Longrightarrow> cs = [] \<and> ws = []" using assms by (auto simp: found_from_def)
  obtain s ch where sc: "r = (s, ch)" by (cases r)
  let ?c = "if list_ex (\<lambda>i. yc_Namespace i = cl_Namespace (co_Cluster co) \<and> yc_Name i = cl_Name (co_Cluster co)) (ry_Clusters s) then []
     else [\<lparr>yc_Namespace = cl_Namespace (co_Cluster co), yc_Name = cl_Name (co_Cluster co), yc_UID = co_UID co\<rparr>]"
  let ?w = "if list_ex (\<lambda>i. yw_Namespace i = pd_Namespace p \<and> yw_Name i = pd_Name p) (ry_Workers s) then []
     else [\<lparr>yw_ClusterNamespace = cl_Namespace (co_Cluster co), yw_ClusterName = cl_Name (co_Cluster co), yw_Namespace = pd_Namespace p,
            yw_Name = pd_Name p, yw_Claim = pod_ann p workerClaimAnnotation\<rparr>]"
  have "fst (record_worker co p r) = s0\<lparr>ry_Clusters := ry_Clusters s0 @ (cs @ ?c), ry_Workers := ry_Workers s0 @ (ws @ ?w)\<rparr>"
    using r(1) sc by (simp add: record_worker_def Let_def)
  moreover have "\<not> snd (record_worker co p r) \<longrightarrow> cs @ ?c = [] \<and> ws @ ?w = []"
    using r(2) sc by (simp add: record_worker_def Let_def)
  ultimately show ?thesis unfolding found_from_def by blast
qed

lemma discover_step_obeys:
  assumes "d = Some s0" "evacuating (ry_Phase s0)" "found_from s0 r"
  shows "obeys env world nodes n d (discover_step env world po r) (\<lambda>_. True) (\<lambda>r' _ d'. d' = Some s0 \<and> found_from s0 r')"
  unfolding discover_step_def Let_def
proof (intro obeys_if obeys_bind[where R = "\<lambda>co _ d'. d' = Some s0"] obeys_res)
  fix co n' d' assume d': "d' = Some s0"
  have f: "found_from s0 (record_worker co (fst po) r)" using assms(3) by (rule record_worker_found)
  note i = found_incident[OF f]
  show "obeys env world nodes n' d' (recovery_gone world (MarkPod (pd_Namespace (fst po)) (pd_Name (fst po)) (ry_Incident (fst (record_worker co (fst po) r)))))
     (\<lambda>_. True) (\<lambda>co _ d'. d' = Some s0)"
    by (rule recovery_gone_obeys) (simp_all add: d' assms(2) i)
  show "obeys env world nodes n' d' (io_ret (record_worker co (fst po) r)) (\<lambda>_. True) (\<lambda>r' _ d'. d' = Some s0 \<and> found_from s0 r')"
    by (rule obeys_ret) (simp add: d' f)
  show "obeys env world nodes n' d' (io_ret (record_worker co (fst po) r)) (\<lambda>_. True) (\<lambda>r' _ d'. d' = Some s0 \<and> found_from s0 r')"
    by (rule obeys_ret) (simp add: d' f)
qed (auto intro!: obeys_ret simp: assms)

lemma found_advance:
  assumes "found_from s0 (s, ch)" "evacuating (ry_Phase s0)"
  shows "advance s0 (sort_found s)" "\<not> ch \<Longrightarrow> near s0 (sort_found s)" "state_ok s0 \<Longrightarrow> state_ok (sort_found s)" "ry_Phase (sort_found s) = ry_Phase s0"
proof -
  obtain cs ws where f: "s = s0\<lparr>ry_Clusters := ry_Clusters s0 @ cs, ry_Workers := ry_Workers s0 @ ws\<rparr>" "\<not> ch \<longrightarrow> cs = [] \<and> ws = []"
    using assms(1) by (auto simp: found_from_def)
  have e: "phase_edge (ry_Phase s0) (ry_Phase s0)" using assms(2) by (auto simp: evacuating_def)
  have j: "\<forall>j\<in>set (ry_Jobs s0). \<exists>j'\<in>set (ry_Jobs s0). progress j j'" using progress_refl by blast
  show "advance s0 (sort_found s)" using e j by (simp add: f(1) sort_found_def advance_def same_incident_def)
  show "\<not> ch \<Longrightarrow> near s0 (sort_found s)" using f by (simp add: sort_found_def near_def same_incident_def)
  show "state_ok s0 \<Longrightarrow> state_ok (sort_found s)" by (simp add: f(1) sort_found_def state_ok_def)
  show "ry_Phase (sort_found s) = ry_Phase s0" by (simp add: f(1) sort_found_def)
qed

lemma discover_obeys:
  assumes "d = Some s0" "evacuating (ry_Phase s0)"
  shows "obeys env world nodes n d (discoverWorkers env world s0) (\<lambda>_. True)
     (\<lambda>r _ d'. d' = Some s0 \<and> (\<exists>s. fst r = sort_found s \<and> found_from s0 (s, snd r)))"
proof (cases "rv_pods env")
  case None
  then show ?thesis by (simp add: discoverWorkers_def obeys_fail)
next
  case (Some pods)
  have "obeys env world nodes n d (io_each (discover_step env world) pods (s0, False)) (\<lambda>_. True) (\<lambda>r _ d'. d' = Some s0 \<and> found_from s0 r)"
    by (rule obeys_each[where J = "\<lambda>r d'. d' = Some s0 \<and> found_from s0 r"])
      (use assms discover_step_obeys in \<open>auto simp: found_from_def\<close>)
  then show ?thesis
    unfolding discoverWorkers_def Some option.case by (rule obeys_bind) (auto intro!: obeys_ret split: prod.splits)
qed

section \<open>Affected jobs\<close>

definition added_from :: "recovery_job list \<Rightarrow> recovery_job list \<times> bool \<Rightarrow> bool" where
  "added_from jobs0 r \<longleftrightarrow> (\<exists>new. fst r = jobs0 @ new \<and> list_all work_ok new \<and> (\<not> snd r \<longrightarrow> new = []))"

lemma new_work_ok: "work_ok (new_work key jid)"
  by (simp add: new_work_def work_ok_def split: prod.split)

lemma affected_step_added: "added_from jobs0 r \<Longrightarrow> added_from jobs0 (affected_step key workers job r)"
  by (cases r) (auto simp: added_from_def affected_step_def new_work_ok)

lemma fold_keeps: "(\<And>x r. P r \<Longrightarrow> P (f x r)) \<Longrightarrow> P r \<Longrightarrow> P (fold f xs r)"
  by (induction xs arbitrary: r) auto

lemma add_affected:
  assumes "addAffectedJobs s snaps = (s2, added)"
  shows "\<exists>new. s2 = s\<lparr>ry_Jobs := sort_key (\<lambda>j. (work_key j, yj_ID j)) (ry_Jobs s @ new)\<rparr> \<and> list_all work_ok new \<and> (\<not> added \<longrightarrow> new = [])"
proof -
  let ?r = "fold (\<lambda>(key, z). fold (affected_step key (workerNames s key)) (zs_jobs z)) snaps (ry_Jobs s, False)"
  have "added_from (ry_Jobs s) ?r"
    by (rule fold_keeps[where P = "added_from (ry_Jobs s)"])
      (auto simp: added_from_def intro: fold_keeps[where P = "added_from (ry_Jobs s)", OF affected_step_added, unfolded added_from_def] split: prod.splits)
  then show ?thesis using assms by (auto simp: addAffectedJobs_def added_from_def split: prod.splits)
qed

lemma add_affected_advance:
  assumes "addAffectedJobs s snaps = (s2, added)" "state_ok s" "evacuating (ry_Phase s)"
  shows "advance s s2" "state_ok s2" "\<not> added \<Longrightarrow> near s s2" "ry_Phase s2 = ry_Phase s" "ry_Clusters s2 = ry_Clusters s"
proof -
  obtain new where n: "s2 = s\<lparr>ry_Jobs := sort_key (\<lambda>j. (work_key j, yj_ID j)) (ry_Jobs s @ new)\<rparr>" "list_all work_ok new" "\<not> added \<longrightarrow> new = []"
    using add_affected[OF assms(1)] by blast
  show "advance s s2" using n(1) assms(3) progress_refl by (auto simp: advance_def same_incident_def evacuating_def)
  show "state_ok s2" using n(1,2) assms(2) by (auto simp: state_ok_def list_all_iff)
  show "\<not> added \<Longrightarrow> near s s2" using n(1,3) by (simp add: near_def same_incident_def)
qed (use add_affected[OF assms(1)] in auto)

lemma near_trans: "near a b \<Longrightarrow> near b c \<Longrightarrow> near a c"
  by (simp add: near_def same_incident_def)

lemma held_near: "held d s \<Longrightarrow> near s s' \<Longrightarrow> held d s'"
  by (auto simp: held_def near_ok intro: near_trans)

lemma save_if_obeys:
  assumes "held d s" "advance s s'" "state_ok s'" "\<not> b \<Longrightarrow> near s s'" "ry_Phase s' \<noteq> PhaseRebootRequested"
  shows "obeys env world nodes n d (save_if env world node b s') (\<lambda>_. True) (\<lambda>_ _ d'. held d' s')"
proof (cases b)
  case True
  have "save_ok env world d s'" using assms by (intro held_save_ok) simp_all
  then show ?thesis using True assms(3)
    by (simp add: save_if_def) (rule obeys_weaken, rule save_obeys, auto intro: held_saved)
next
  case False
  then show ?thesis using assms(1,4) by (simp add: save_if_def obeys_ret held_near)
qed

lemma held_phase: "held d s \<Longrightarrow> \<exists>s0. d = Some s0 \<and> ry_Phase s0 = ry_Phase s \<and> set (ry_Workers s0) = set (ry_Workers s)
   \<and> set (ry_Jobs s0) = set (ry_Jobs s) \<and> ry_Incident s0 = ry_Incident s"
  by (auto simp: held_def near_def same_incident_def)

lemma stored_workerI: "held d s \<Longrightarrow> w \<in> set (ry_Workers s) \<Longrightarrow> p (ry_Phase s) \<Longrightarrow> P w \<Longrightarrow> stored_worker d p P"
  using held_phase by (fastforce simp: stored_worker_def)

lemma stored_workI:
  "held d s \<Longrightarrow> j \<in> set (ry_Jobs s) \<Longrightarrow> ry_Phase s = p \<Longrightarrow> work_key j = key \<Longrightarrow> yj_ID j = jid \<Longrightarrow> P j \<Longrightarrow> stored_work d p key jid P"
  using held_phase by (fastforce simp: stored_work_def)

lemma drain_obeys:
  assumes "held d s" "evacuating (ry_Phase s)"
  shows "obeys env world nodes n d (drainRecoveryWorkers world s snaps) (\<lambda>_. True) (\<lambda>_ _ d'. held d' s)"
  unfolding drainRecoveryWorkers_def
proof (rule obeys_each[where J = "\<lambda>_ d'. held d' s"])
  fix w u n' d' assume w: "w \<in> set (ry_Workers s)" "held d' s"
  have "stored_worker d' evacuating (\<lambda>v. worker_key v = worker_key w \<and> yw_Name v = yw_Name w)"
    by (rule stored_workerI[OF w(2,1)]) (simp_all add: assms)
  then show "obeys env world nodes n' d' (drain_step world s snaps w u) (\<lambda>_. True) (\<lambda>_ _ d'. held d' s)"
    using w(2) by (auto simp: drain_step_def intro!: obeys_ret recovery_call_obeys split: option.splits)
qed (use assms in simp)

end
