(* ===== verification/Recovery_Refine_Jobs.thy ===== *)
theory Recovery_Refine_Jobs
  imports Recovery_Refine_Evac
begin

text \<open>Signals, requeues and the removal of workers follow the protocol.\<close>

section \<open>Jobs\<close>

definition frame :: "recovery_state \<Rightarrow> recovery_state \<Rightarrow> bool" where
  "frame s s' \<longleftrightarrow> ry_Phase s' = ry_Phase s \<and> ry_Workers s' = ry_Workers s \<and> ry_Clusters s' = ry_Clusters s \<and> length (ry_Jobs s') = length (ry_Jobs s)"

lemma frame_refl: "frame s s"
  by (simp add: frame_def)

lemma frame_trans: "frame a b \<Longrightarrow> frame b c \<Longrightarrow> frame a c"
  by (simp add: frame_def)

lemma frame_put_work: "frame s (put_work i j s)"
  by (simp add: frame_def put_work_def)

lemma nth_put_work: "i < length (ry_Jobs s) \<Longrightarrow> ry_Jobs (put_work i j s) ! i = j"
  by (simp add: put_work_def)

lemma held_work: "held d s \<Longrightarrow> i < length (ry_Jobs s) \<Longrightarrow> work_ok (ry_Jobs s ! i)"
  by (auto simp: held_def state_ok_def list_all_iff)

text \<open>The updates that the code makes to a job are progress and keep a job well-formed.\<close>

lemma evacuated_update: "work_ok j \<Longrightarrow> progress j (j\<lparr>yj_Evacuated := True\<rparr>) \<and> work_ok (j\<lparr>yj_Evacuated := True\<rparr>)"
  by (auto simp: progress_def same_work_def work_ok_def split: option.splits)

lemma signal_update:
  "work_ok j \<Longrightarrow> yj_SignalRequestedAt j = None \<Longrightarrow> progress j (j\<lparr>yj_SignalRequestedAt := Some t\<rparr>) \<and> work_ok (j\<lparr>yj_SignalRequestedAt := Some t\<rparr>)"
  by (auto simp: progress_def same_work_def work_ok_def split: option.splits)

lemma sent_update:
  "work_ok j \<Longrightarrow> yj_SignalRequestedAt j \<noteq> None \<Longrightarrow> progress j (j\<lparr>yj_SignalSent := True\<rparr>) \<and> work_ok (j\<lparr>yj_SignalSent := True\<rparr>)"
  by (auto simp: progress_def same_work_def work_ok_def split: option.splits)

lemma seen_update:
  "work_ok j \<Longrightarrow> yj_SignalSent j \<Longrightarrow> progress j (j\<lparr>yj_CheckpointSeen := True\<rparr>) \<and> work_ok (j\<lparr>yj_CheckpointSeen := True\<rparr>)"
  by (auto simp: progress_def same_work_def work_ok_def split: option.splits)

lemma requeue_update:
  "work_ok j \<Longrightarrow> yj_RequeueRequestedAt j = None \<Longrightarrow> yj_SignalSent j \<Longrightarrow> yj_SignalRequestedAt j = Some since
   \<Longrightarrow> yj_CheckpointSeen j \<or> since + checkpointGrace \<le> t
   \<Longrightarrow> progress j (j\<lparr>yj_RequeueRequestedAt := Some t\<rparr>) \<and> work_ok (j\<lparr>yj_RequeueRequestedAt := Some t\<rparr>)"
  by (auto simp: progress_def same_work_def work_ok_def)

lemma requeued_update:
  "work_ok j \<Longrightarrow> yj_RequeueRequestedAt j \<noteq> None \<Longrightarrow> progress j (j\<lparr>yj_RequeueSent := True\<rparr>) \<and> work_ok (j\<lparr>yj_RequeueSent := True\<rparr>)"
  by (auto simp: progress_def same_work_def work_ok_def split: option.splits)

lemma save_work_obeys:
  assumes "held d s" "i < length (ry_Jobs s)" "progress (ry_Jobs s ! i) j" "work_ok j" "evacuating (ry_Phase s)"
  shows "obeys env world nodes n d (save_work env world node i j s) (\<lambda>_. True) (\<lambda>s' _ d'. s' = put_work i j s \<and> d' = Some s' \<and> held d' s')"
proof -
  have e: "phase_edge (ry_Phase s) (ry_Phase s)" "ry_Phase (put_work i j s) \<noteq> PhaseRebootRequested"
    using assms(5) by (auto simp: evacuating_def put_work_def)
  have k: "state_ok (put_work i j s)" using assms(1,4) by (auto simp: held_def intro: state_ok_put_work)
  have "save_ok env world d (put_work i j s)"
    by (rule held_save_ok[OF assms(1) advance_put_work[OF assms(2,3) e(1)] k]) (use e in simp)
  then show ?thesis
    unfolding save_work_def Let_def
    by (intro obeys_bind[where R = "\<lambda>_ _ d'. d' = Some (put_work i j s)"] obeys_weaken[OF save_obeys] obeys_ret) (auto intro: held_saved k)
qed

lemma signal_step_obeys:
  assumes h: "held d s" and i: "i < length (ry_Jobs s)" and p: "ry_Phase s = PhaseDraining"
  shows "obeys env world nodes n d (signal_step env world node snaps i s) (\<lambda>_. True) (\<lambda>s' _ d'. held d' s' \<and> frame s s')"
proof -
  let ?j = "ry_Jobs s ! i"
  note ok = held_work[OF h i]
  have e: "evacuating (ry_Phase s)" by (simp add: p evacuating_def)
  have a: "obeys env world nodes n d (save_work env world node i (?j\<lparr>yj_Evacuated := True\<rparr>) s) (\<lambda>_. True) (\<lambda>s' _ d'. held d' s' \<and> frame s s')"
    by (rule obeys_weaken, rule save_work_obeys[OF h i _ _ e]) (use evacuated_update[OF ok] in \<open>auto simp: frame_put_work\<close>)
  let ?Q = "\<lambda>s1 (_::nat) d1. held d1 s1 \<and> frame s s1 \<and> same_work ?j (ry_Jobs s1 ! i) \<and> yj_SignalRequestedAt (ry_Jobs s1 ! i) \<noteq> None \<and> \<not> yj_SignalSent (ry_Jobs s1 ! i)"
  have b: "obeys env world nodes n d (if yj_SignalRequestedAt ?j = None
        then io_bind (recovery_now env) (\<lambda>now. save_work env world node i (?j\<lparr>yj_SignalRequestedAt := Some now\<rparr>) s) else io_ret s) (\<lambda>_. True) ?Q"
    if u: "\<not> yj_SignalSent ?j"
  proof (intro obeys_if obeys_bind[where R = "\<lambda>_ _ d'. d' = d"] now_obeys)
    fix now n' d' assume none: "yj_SignalRequestedAt ?j = None" and d': "d' = d"
    show "obeys env world nodes n' d' (save_work env world node i (?j\<lparr>yj_SignalRequestedAt := Some now\<rparr>) s) (\<lambda>_. True) ?Q"
      unfolding d' by (rule obeys_weaken, rule save_work_obeys[OF h i _ _ e])
        (use signal_update[OF ok none] u in \<open>auto simp: same_work_def frame_put_work nth_put_work[OF i]\<close>)
  qed (use h u in \<open>auto intro!: obeys_ret simp: frame_refl same_work_def\<close>)
  have c: "obeys env world nodes n1 d1 (io_bind (recovery_call world (SignalWork (work_key ?j) (yj_ID ?j) ''USR1''))
      (\<lambda>_. save_work env world node i ((ry_Jobs s1 ! i)\<lparr>yj_SignalSent := True\<rparr>) s1)) (\<lambda>_. True) (\<lambda>s' _ d'. held d' s' \<and> frame s s')"
    if q: "?Q s1 n1 d1" for s1 n1 d1
  proof (rule obeys_bind)
    have i1: "i < length (ry_Jobs s1)" and p1: "ry_Phase s1 = PhaseDraining" using q i p by (auto simp: frame_def)
    have w: "stored_work d1 PhaseDraining (work_key ?j) (yj_ID ?j) (\<lambda>j. yj_SignalRequestedAt j \<noteq> None \<and> \<not> yj_SignalSent j)"
      by (rule stored_workI[where s = s1 and j = "ry_Jobs s1 ! i"]) (use q i1 p1 in \<open>auto simp: same_work_def\<close>)
    show "obeys env world nodes n1 d1 (recovery_call world (SignalWork (work_key ?j) (yj_ID ?j) ''USR1'')) (\<lambda>_. True) (\<lambda>_ _ d'. d' = d1)"
      by (rule recovery_call_obeys) (use w in auto)
    fix u n2 d2 assume "d2 = d1"
    then have h2: "held d2 s1" using q by simp
    have e1: "evacuating (ry_Phase s1)" by (simp add: p1 evacuating_def)
    show "obeys env world nodes n2 d2 (save_work env world node i ((ry_Jobs s1 ! i)\<lparr>yj_SignalSent := True\<rparr>) s1) (\<lambda>_. True) (\<lambda>s' _ d'. held d' s' \<and> frame s s')"
      by (rule obeys_weaken, rule save_work_obeys[OF h2 i1 _ _ e1])
        (use sent_update[OF held_work[OF h2 i1]] q in \<open>auto intro: frame_trans frame_put_work\<close>)
  qed
  show ?thesis
    unfolding signal_step_def Let_def
  proof (intro obeys_if a)
    assume "\<not> yj_SignalSent ?j"
    then show "obeys env world nodes n d (io_bind (if yj_SignalRequestedAt ?j = None
        then io_bind (recovery_now env) (\<lambda>now. save_work env world node i (?j\<lparr>yj_SignalRequestedAt := Some now\<rparr>) s) else io_ret s) (\<lambda>s1.
        io_bind (recovery_call world (SignalWork (work_key ?j) (yj_ID ?j) ''USR1'')) (\<lambda>_.
        save_work env world node i ((ry_Jobs s1 ! i)\<lparr>yj_SignalSent := True\<rparr>) s1))) (\<lambda>_. True) (\<lambda>s' _ d'. held d' s' \<and> frame s s')"
      by (intro obeys_bind[OF b] c)
  qed (use h frame_refl in \<open>auto intro!: obeys_ret\<close>)
qed

lemma signal_obeys:
  assumes "held d s" "ry_Phase s = PhaseDraining"
  shows "obeys env world nodes n d (signalJobs env world node snaps s) (\<lambda>_. True) (\<lambda>s' _ d'. held d' s' \<and> frame s s')"
  unfolding signalJobs_def
proof (rule obeys_each[where J = "\<lambda>s' d'. held d' s' \<and> frame s s'"])
  fix i s' n' d' assume "i \<in> set [0..<length (ry_Jobs s)]" "held d' s' \<and> frame s s'"
  then show "obeys env world nodes n' d' (signal_step env world node snaps i s') (\<lambda>_. True) (\<lambda>s' _ d'. held d' s' \<and> frame s s')"
    using assms(2) by (intro obeys_weaken[OF signal_step_obeys]) (auto simp: frame_def)
qed (use assms frame_refl in simp)

section \<open>Requeues\<close>

definition signalled :: "nat \<Rightarrow> int \<Rightarrow> recovery_state \<Rightarrow> bool" where
  "signalled i since s \<longleftrightarrow> i < length (ry_Jobs s) \<and> ry_Phase s = PhaseCheckpointing \<and> yj_SignalSent (ry_Jobs s ! i)
     \<and> yj_SignalRequestedAt (ry_Jobs s ! i) = Some since"

lemma checkpointing_evacuates: "ry_Phase s = PhaseCheckpointing \<Longrightarrow> evacuating (ry_Phase s)"
  by (simp add: evacuating_def)

lemma observe_obeys:
  assumes h: "held d s" and g: "signalled i since s"
  shows "obeys env world nodes n d (observe_commit env world node z i since s) (\<lambda>_. True) (\<lambda>s' _ d'. held d' s' \<and> frame s s' \<and> signalled i since s')"
proof -
  have i: "i < length (ry_Jobs s)" "evacuating (ry_Phase s)" "yj_SignalSent (ry_Jobs s ! i)"
    using g by (auto simp: signalled_def evacuating_def)
  have r: "obeys env world nodes n d (io_ret s) (\<lambda>_. True) (\<lambda>s' _ d'. held d' s' \<and> frame s s' \<and> signalled i since s')"
    by (rule obeys_ret) (simp add: h g frame_refl)
  have "obeys env world nodes n d (save_work env world node i ((ry_Jobs s ! i)\<lparr>yj_CheckpointSeen := True\<rparr>) s) (\<lambda>_. True)
      (\<lambda>s' _ d'. held d' s' \<and> frame s s' \<and> signalled i since s')"
    by (rule obeys_weaken, rule save_work_obeys[OF h i(1) _ _ i(2)])
      (use seen_update[OF held_work[OF h i(1)] i(3)] g in \<open>auto simp: frame_def signalled_def put_work_def\<close>)
  then show ?thesis
    unfolding observe_commit_def Let_def by (cases "zs_cluster z"; simp only: option.case) (intro obeys_if r; assumption | rule r)+
qed

lemma requeue_work_obeys:
  assumes h: "held d s" and g: "signalled i since s" and t: "yj_CheckpointSeen (ry_Jobs s ! i) \<or> since + checkpointGrace \<le> rv_now env n"
  shows "obeys env world nodes n d (requeue_work env world node i s) (\<lambda>_. True) (\<lambda>s' _ d'. held d' s' \<and> frame s s')"
proof -
  let ?j = "ry_Jobs s ! i"
  have i: "i < length (ry_Jobs s)" "evacuating (ry_Phase s)" "yj_SignalSent ?j" "yj_SignalRequestedAt ?j = Some since" "ry_Phase s = PhaseCheckpointing"
    using g by (auto simp: signalled_def evacuating_def)
  note ok = held_work[OF h i(1)]
  let ?Q = "\<lambda>s1 (_::nat) d1. held d1 s1 \<and> frame s s1 \<and> same_work ?j (ry_Jobs s1 ! i) \<and> yj_RequeueRequestedAt (ry_Jobs s1 ! i) \<noteq> None \<and> \<not> yj_RequeueSent (ry_Jobs s1 ! i)"
  have b: "obeys env world nodes n d (if yj_RequeueRequestedAt ?j = None
        then io_bind (recovery_now env) (\<lambda>now. save_work env world node i (?j\<lparr>yj_RequeueRequestedAt := Some now\<rparr>) s) else io_ret s) (\<lambda>_. True) ?Q"
    if u: "\<not> yj_RequeueSent ?j"
  proof (intro obeys_if obeys_bind[where R = "\<lambda>now _ d'. d' = d \<and> now = rv_now env n"] now_obeys)
    fix now n' d' assume none: "yj_RequeueRequestedAt ?j = None" and d': "d' = d \<and> now = rv_now env n"
    show "obeys env world nodes n' d' (save_work env world node i (?j\<lparr>yj_RequeueRequestedAt := Some now\<rparr>) s) (\<lambda>_. True) ?Q"
      unfolding conjunct1[OF d'] by (rule obeys_weaken, rule save_work_obeys[OF h i(1) _ _ i(2)])
        (use requeue_update[OF ok none i(3,4) t] d' u in \<open>auto simp: same_work_def frame_put_work nth_put_work[OF i(1)]\<close>)
  qed (use h u in \<open>auto intro!: obeys_ret simp: frame_refl same_work_def\<close>)
  have c: "obeys env world nodes n1 d1 (io_bind (recovery_call world (RequeueWork (work_key ?j) (yj_ID ?j)))
      (\<lambda>_. save_work env world node i ((ry_Jobs s1 ! i)\<lparr>yj_RequeueSent := True\<rparr>) s1)) (\<lambda>_. True) (\<lambda>s' _ d'. held d' s' \<and> frame s s')"
    if q: "?Q s1 n1 d1" for s1 n1 d1
  proof (rule obeys_bind)
    have i1: "i < length (ry_Jobs s1)" and p1: "ry_Phase s1 = PhaseCheckpointing" using q i by (auto simp: frame_def)
    have w: "stored_work d1 PhaseCheckpointing (work_key ?j) (yj_ID ?j) (\<lambda>j. yj_RequeueRequestedAt j \<noteq> None \<and> \<not> yj_RequeueSent j)"
      by (rule stored_workI[where s = s1 and j = "ry_Jobs s1 ! i"]) (use q i1 p1 in \<open>auto simp: same_work_def\<close>)
    show "obeys env world nodes n1 d1 (recovery_call world (RequeueWork (work_key ?j) (yj_ID ?j))) (\<lambda>_. True) (\<lambda>_ _ d'. d' = d1)"
      by (rule recovery_call_obeys) (use w in auto)
    fix u n2 d2 assume "d2 = d1"
    then have h2: "held d2 s1" using q by simp
    show "obeys env world nodes n2 d2 (save_work env world node i ((ry_Jobs s1 ! i)\<lparr>yj_RequeueSent := True\<rparr>) s1) (\<lambda>_. True) (\<lambda>s' _ d'. held d' s' \<and> frame s s')"
      by (rule obeys_weaken, rule save_work_obeys[OF h2 i1 _ _ checkpointing_evacuates[OF p1]])
        (use requeued_update[OF held_work[OF h2 i1]] q in \<open>auto intro: frame_trans frame_put_work\<close>)
  qed
  show ?thesis
    unfolding requeue_work_def Let_def
  proof (intro obeys_if)
    assume "\<not> yj_RequeueSent ?j"
    then show "obeys env world nodes n d (io_bind (if yj_RequeueRequestedAt ?j = None
        then io_bind (recovery_now env) (\<lambda>now. save_work env world node i (?j\<lparr>yj_RequeueRequestedAt := Some now\<rparr>) s) else io_ret s) (\<lambda>s1.
        io_bind (recovery_call world (RequeueWork (work_key ?j) (yj_ID ?j))) (\<lambda>_.
        save_work env world node i ((ry_Jobs s1 ! i)\<lparr>yj_RequeueSent := True\<rparr>) s1))) (\<lambda>_. True) (\<lambda>s' _ d'. held d' s' \<and> frame s s')"
      by (intro obeys_bind[OF b] c)
  qed (use h frame_refl in \<open>auto intro!: obeys_ret\<close>)
qed

lemma requeue_step_obeys:
  assumes h: "held d s" and i: "i < length (ry_Jobs s)" and p: "ry_Phase s = PhaseCheckpointing"
  shows "obeys env world nodes n d (requeue_step env world node snaps i (s, sw)) (\<lambda>_. True) (\<lambda>r _ d'. held d' (fst r) \<and> frame s (fst r))"
proof -
  let ?j = "ry_Jobs s ! i" and ?z = "snap snaps (work_key (ry_Jobs s ! i))"
  have r: "obeys env world nodes n d (io_ret (s, sw')) (\<lambda>_. True) (\<lambda>r _ d'. held d' (fst r) \<and> frame s (fst r))" for sw'
    by (rule obeys_ret) (simp add: h frame_refl)
  have a: "obeys env world nodes n d (io_bind (save_work env world node i (?j\<lparr>yj_Evacuated := True\<rparr>) s) (\<lambda>s1. io_ret (s1, sw)))
      (\<lambda>_. True) (\<lambda>r _ d'. held d' (fst r) \<and> frame s (fst r))"
    by (rule obeys_bind, rule save_work_obeys[OF h i _ _ checkpointing_evacuates[OF p]])
      (use evacuated_update[OF held_work[OF h i]] in \<open>auto intro!: obeys_ret simp: frame_put_work\<close>)
  have b: "obeys env world nodes n d (io_bind (observe_commit env world node ?z i since s) (\<lambda>s1.
      io_bind (recovery_now env) (\<lambda>now.
      if \<not> yj_CheckpointSeen (ry_Jobs s1 ! i) \<and> now < since + checkpointGrace then io_ret (s1, SweepAll False)
      else io_bind (requeue_work env world node i s1) (\<lambda>s2. io_ret (s2, SweepAll False)))))
      (\<lambda>_. True) (\<lambda>r _ d'. held d' (fst r) \<and> frame s (fst r))"
    if g: "signalled i since s" for since
  proof (rule obeys_bind, rule observe_obeys[OF h g])
    fix s1 n1 d1 assume 1: "held d1 s1 \<and> frame s s1 \<and> signalled i since s1"
    show "obeys env world nodes n1 d1 (io_bind (recovery_now env) (\<lambda>now.
      if \<not> yj_CheckpointSeen (ry_Jobs s1 ! i) \<and> now < since + checkpointGrace then io_ret (s1, SweepAll False)
      else io_bind (requeue_work env world node i s1) (\<lambda>s2. io_ret (s2, SweepAll False))))
      (\<lambda>_. True) (\<lambda>r _ d'. held d' (fst r) \<and> frame s (fst r))"
    proof (rule obeys_bind, rule now_obeys[where Q = "\<lambda>now n' d'. now = rv_now env n1 \<and> n' = n1 \<and> d' = d1"], simp, intro obeys_if)
      fix now n' d' assume 2: "now = rv_now env n1 \<and> n' = n1 \<and> d' = d1" and "\<not> (\<not> yj_CheckpointSeen (ry_Jobs s1 ! i) \<and> now < since + checkpointGrace)"
      then have t: "yj_CheckpointSeen (ry_Jobs s1 ! i) \<or> since + checkpointGrace \<le> rv_now env n1" by auto
      have "obeys env world nodes n1 d1 (requeue_work env world node i s1) (\<lambda>_. True) (\<lambda>s' _ d'. held d' s' \<and> frame s1 s')"
        using 1 t by (intro requeue_work_obeys) auto
      then show "obeys env world nodes n' d' (io_bind (requeue_work env world node i s1) (\<lambda>s2. io_ret (s2, SweepAll False)))
          (\<lambda>_. True) (\<lambda>r _ d'. held d' (fst r) \<and> frame s (fst r))"
        unfolding conjunct1[OF conjunct2[OF 2]] conjunct2[OF conjunct2[OF 2]]
        by (rule obeys_bind) (use 1 in \<open>auto intro!: obeys_ret intro: frame_trans\<close>)
    qed (use 1 in \<open>auto intro!: obeys_ret\<close>)
  qed
  show ?thesis
    unfolding requeue_step_def Let_def prod.case
    by (intro obeys_if r a; cases "yj_SignalRequestedAt ?j") (auto intro!: r b obeys_if simp: signalled_def i p)
qed

lemma requeue_obeys:
  assumes "held d s" "ry_Phase s = PhaseCheckpointing"
  shows "obeys env world nodes n d (checkpointAndRequeue env world node snaps s) (\<lambda>_. True) (\<lambda>r _ d'. held d' (fst r) \<and> frame s (fst r))"
  unfolding checkpointAndRequeue_def
proof (rule obeys_bind)
  show "obeys env world nodes n d (io_each (requeue_step env world node snaps) [0..<length (ry_Jobs s)] (s, SweepAll True)) (\<lambda>_. True)
      (\<lambda>r _ d'. held d' (fst r) \<and> frame s (fst r))"
  proof (rule obeys_each[where J = "\<lambda>r d'. held d' (fst r) \<and> frame s (fst r)"])
    fix i n' d' and r :: "recovery_state \<times> sweep" assume *: "i \<in> set [0..<length (ry_Jobs s)]" "held d' (fst r) \<and> frame s (fst r)"
    obtain s' sw where r: "r = (s', sw)" by (cases r)
    show "obeys env world nodes n' d' (requeue_step env world node snaps i r) (\<lambda>_. True) (\<lambda>r _ d'. held d' (fst r) \<and> frame s (fst r))"
      unfolding r using * assms(2) r by (intro obeys_weaken[OF requeue_step_obeys]) (auto simp: frame_def)
  qed (use assms frame_refl in simp)
qed (auto intro!: obeys_ret split: prod.splits)

section \<open>Removal\<close>

definition worker_gone :: "recovery_env \<Rightarrow> recovery_call world \<Rightarrow> recovery_worker \<Rightarrow> bool" where
  "worker_gone env world w \<longleftrightarrow> (\<exists>n. rv_getPod env n (yw_Namespace w) (yw_Name w) = PodMissing)
     \<and> (yw_Claim w \<noteq> [] \<longrightarrow> (\<exists>n. world n (DropClaim (yw_Namespace w) (yw_Claim w)) = NotFound))"

lemma gone_step_obeys:
  assumes h: "held d s" and w: "w \<in> set (ry_Workers s)" and p: "ry_Phase s = PhaseRequeued"
  shows "obeys env world nodes n d (gone_step env world w c) (\<lambda>_. True) (\<lambda>c' _ d'. d' = d \<and> (c' \<longrightarrow> c \<and> worker_gone env world w))"
  unfolding gone_step_def
proof (rule obeys_bind, rule obeys_here[where Q = "\<lambda>_ _ d'. d' = d"], simp)
  fix k n' d' assume d': "d' = d"
  have st: "stored_worker d (\<lambda>p. p = PhaseRequeued) (\<lambda>w. True)" by (rule stored_workerI[OF h w]) (simp_all add: p)
  have sc: "stored_worker d (\<lambda>p. p = PhaseRequeued) (\<lambda>v. yw_Namespace v = yw_Namespace w \<and> yw_Claim v = yw_Claim w)"
    by (rule stored_workerI[OF h w]) (simp_all add: p)
  have rel: "obeys env world nodes n' d (io_bind (release_step world q) (\<lambda>_. io_ret False)) (\<lambda>_. True) (\<lambda>c' _ d'. d' = d \<and> (c' \<longrightarrow> c \<and> worker_gone env world w))" for q
    unfolding release_step_def
    by (intro obeys_bind[where R = "\<lambda>_ _ d'. d' = d"] obeys_if recovery_gone_obeys) (use st in \<open>auto intro!: obeys_ret recovery_gone_obeys\<close>)
  have dc: "obeys env world nodes n' d (drop_claim world w c) (\<lambda>_. True) (\<lambda>c' _ d'. d' = d \<and> (c' \<longrightarrow> c \<and> worker_gone env world w))"
    if "rv_getPod env k (yw_Namespace w) (yw_Name w) = PodMissing"
    unfolding drop_claim_def Let_def
    by (rule obeys_bind, rule obeys_call[where Q = "\<lambda>o' _ d'. d' = d \<and> o' = world n' (DropClaim (yw_Namespace w) (yw_Claim w))"])
      (use sc that in \<open>auto intro!: obeys_if obeys_ret obeys_fail simp: worker_gone_def\<close>)
  show "obeys env world nodes n' d' (case rv_getPod env k (yw_Namespace w) (yw_Name w) of
       PodFound q \<Rightarrow> io_bind (release_step world q) (\<lambda>_. io_ret False)
     | PodError \<Rightarrow> io_fail (RecoveryPodUnreadable (yw_Namespace w) (yw_Name w))
     | PodMissing \<Rightarrow> if yw_Claim w \<noteq> '''' then drop_claim world w c else io_ret c)
     (\<lambda>_. True) (\<lambda>c' _ d'. d' = d \<and> (c' \<longrightarrow> c \<and> worker_gone env world w))"
    unfolding d' using rel dc by (auto intro!: obeys_fail obeys_ret simp: worker_gone_def split: pod_read.split)
qed

lemma gone_each_obeys:
  assumes "held d s" "set ws \<subseteq> set (ry_Workers s)" "ry_Phase s = PhaseRequeued"
  shows "obeys env world nodes n d (io_each (gone_step env world) ws c) (\<lambda>_. True) (\<lambda>c' _ d'. d' = d \<and> (c' \<longrightarrow> c \<and> (\<forall>w\<in>set ws. worker_gone env world w)))"
  using assms
proof (induction ws arbitrary: n c)
  case Nil
  then show ?case by (simp add: obeys_ret)
next
  case (Cons w ws)
  have g: "obeys env world nodes n d (gone_step env world w c) (\<lambda>_. True) (\<lambda>c' _ d'. d' = d \<and> (c' \<longrightarrow> c \<and> worker_gone env world w))"
    using Cons.prems by (intro gone_step_obeys[OF Cons.prems(1)]) auto
  show ?case
  proof (simp, rule obeys_bind, rule g)
    fix c1 n1 d1 assume 1: "d1 = d \<and> (c1 \<longrightarrow> c \<and> worker_gone env world w)"
    have "obeys env world nodes n1 d (io_each (gone_step env world) ws c1) (\<lambda>_. True)
        (\<lambda>c' _ d'. d' = d \<and> (c' \<longrightarrow> c1 \<and> (\<forall>w\<in>set ws. worker_gone env world w)))"
      using Cons.IH Cons.prems by simp
    then show "obeys env world nodes n1 d1 (io_each (gone_step env world) ws c1) (\<lambda>_. True)
        (\<lambda>c' _ d'. d' = d \<and> (c' \<longrightarrow> c \<and> worker_gone env world w \<and> (\<forall>w\<in>set ws. worker_gone env world w)))"
      unfolding conjunct1[OF 1] by (rule obeys_weaken) (use 1 in auto)
  qed
qed

lemma cleanup_obeys:
  assumes "held d s" "ry_Phase s = PhaseRequeued"
  shows "obeys env world nodes n d (cleanupEvacuatedWorkers env world snaps s) (\<lambda>_. True) (\<lambda>complete _ d'. d' = d \<and> (complete \<longrightarrow>
     (\<forall>j\<in>set (ry_Jobs s). jobEvacuated j s (zs_jobs (snap snaps (work_key j)))) \<and> (\<forall>w\<in>set (ry_Workers s). worker_gone env world w)))"
proof -
  have rem: "obeys env world nodes n d (io_each (remove_step world snaps) (ry_Workers s) ()) (\<lambda>_. True) (\<lambda>_ _ d'. d' = d)"
  proof (rule obeys_each[where J = "\<lambda>_ d'. d' = d"])
    fix w u n' d' assume w: "w \<in> set (ry_Workers s)" "d' = d"
    have "stored_worker d (\<lambda>p. p = PhaseRequeued) (\<lambda>v. worker_key v = worker_key w \<and> yw_Name v = yw_Name w)"
      by (rule stored_workerI[OF assms(1) w(1)]) (simp_all add: assms)
    then show "obeys env world nodes n' d' (remove_step world snaps w u) (\<lambda>_. True) (\<lambda>_ _ d'. d' = d)"
      unfolding remove_step_def using w(2) by (intro obeys_if recovery_call_obeys obeys_ret) auto
  qed simp
  show ?thesis
    unfolding cleanupEvacuatedWorkers_def
  proof (rule obeys_if)
    assume a: "\<not> \<not> list_all (\<lambda>job. jobEvacuated job s (zs_jobs (snap snaps (work_key job)))) (ry_Jobs s)"
    show "obeys env world nodes n d (io_bind (io_each (remove_step world snaps) (ry_Workers s) ()) (\<lambda>_. io_each (gone_step env world) (ry_Workers s) True))
       (\<lambda>_. True) (\<lambda>complete _ d'. d' = d \<and> (complete \<longrightarrow>
     (\<forall>j\<in>set (ry_Jobs s). jobEvacuated j s (zs_jobs (snap snaps (work_key j)))) \<and> (\<forall>w\<in>set (ry_Workers s). worker_gone env world w)))"
      by (rule obeys_bind, rule rem, rule obeys_weaken, simp, rule gone_each_obeys[OF assms(1) subset_refl assms(2)])
        (use a in \<open>auto simp: list_all_iff\<close>)
  qed (auto intro: obeys_ret)
qed

end
