(* ===== verification/Recovery_Refine_Pass.thy ===== *)
theory Recovery_Refine_Pass
  imports Recovery_Refine_Jobs
begin

text \<open>The evacuation, the reboot, the verification and the whole pass follow the protocol.\<close>

section \<open>Evacuation\<close>

definition asked :: "knode set \<Rightarrow> knode \<Rightarrow> bool" where
  "asked nodes b \<longleftrightarrow> (\<exists>b'\<in>nodes. node_ann b rebootRequestKey = node_ann b' rebootRequestKey)"

lemma asked_kept: "asked nodes b \<Longrightarrow> kept nodes p b"
  by (simp add: asked_def kept_def)

lemma kept_asked: "kept nodes p b \<Longrightarrow> \<not> rebooting p \<Longrightarrow> asked nodes b"
  by (simp add: asked_def kept_def)

lemma evac_state_ok:
  assumes "state_ok s" "evacuating (ry_Phase s)" "evacuating p"
  shows "state_ok (s\<lparr>ry_Phase := p, ry_PhaseStartedAt := t\<rparr>)"
proof -
  have "ry_NewBootID s = []" "ry_VerificationStarted s = None" "\<not> ry_VerificationPassed s"
    using assms(1,2) by (auto simp: state_ok_def evacuating_def)
  then show ?thesis using assms by (auto simp: state_ok_def evacuating_def rebooting_def)
qed

lemma evac_phase_obeys:
  assumes "held d s" "evacuating (ry_Phase s)" "evacuating p" "phase_edge (ry_Phase s) p" "asked nodes b"
  shows "obeys env world nodes n d (setPhase env world b s p) (\<lambda>_. True) (\<lambda>_ _ _. True)"
proof (rule obeys_weaken, rule setPhase_obeys)
  fix now
  show "save_ok env world d (s\<lparr>ry_Phase := p, ry_PhaseStartedAt := now\<rparr>)"
  proof (rule held_save_ok[OF assms(1)])
    show "state_ok (s\<lparr>ry_Phase := p, ry_PhaseStartedAt := now\<rparr>)"
      using assms by (intro evac_state_ok) (auto simp: held_def)
    show "advance s (s\<lparr>ry_Phase := p, ry_PhaseStartedAt := now\<rparr>)"
      by (rule advance_phase[OF assms(4)]) (simp_all add: same_incident_def)
  qed (use assms(3) in \<open>auto simp: evacuating_def\<close>)
qed (use assms(5) asked_kept in auto)

lemma workerNames_cong: "ry_Workers s' = ry_Workers s \<Longrightarrow> jobEvacuated j s' jobs = jobEvacuated j s jobs"
  by (simp add: jobEvacuated_def workerNames_def)

lemma reboot_request_obeys:
  assumes "held d s" "ry_Phase s = PhaseRequeued" "asked nodes b" "slurmSnapshots env (ry_Clusters s) = Some snaps"
    "\<forall>j\<in>set (ry_Jobs s). jobEvacuated j s (zs_jobs (snap snaps (work_key j)))" "\<forall>w\<in>set (ry_Workers s). worker_gone env world w"
  shows "obeys env world nodes n d (setPhase env world b (s\<lparr>ry_RebootRequestedAt := Some t\<rparr>) PhaseRebootRequested) (\<lambda>_. True) (\<lambda>_ _ _. True)"
proof (rule obeys_weaken, rule setPhase_obeys)
  fix now
  let ?s = "s\<lparr>ry_RebootRequestedAt := Some t, ry_Phase := PhaseRebootRequested, ry_PhaseStartedAt := now\<rparr>"
  show "save_ok env world d (s\<lparr>ry_RebootRequestedAt := Some t, ry_Phase := PhaseRebootRequested, ry_PhaseStartedAt := now\<rparr>)"
  proof (rule held_save_ok[OF assms(1)])
    have "ry_NewBootID s = []" "ry_VerificationStarted s = None" "\<not> ry_VerificationPassed s" "list_all work_ok (ry_Jobs s)"
      using assms(1,2) by (auto simp: held_def state_ok_def evacuating_def)
    then show "state_ok ?s" by (simp add: state_ok_def evacuating_def rebooting_def)
    show "advance s ?s" by (rule advance_phase) (simp_all add: assms(2) same_incident_def)
    have "\<forall>j\<in>set (ry_Jobs ?s). jobEvacuated j ?s (zs_jobs (snap snaps (work_key j)))"
      using assms(5) workerNames_cong[of ?s s] by simp
    then show "reboot_gate env world ?s" using assms(4,6) by (auto simp: reboot_gate_def worker_gone_def)
  qed
qed (use assms(3) asked_kept in auto)

lemma evacuation_phase_obeys:
  assumes h: "held d s" and e: "evacuating (ry_Phase s)" and k: "asked nodes b" and sn: "slurmSnapshots env (ry_Clusters s) = Some snaps"
  shows "obeys env world nodes n d (evacuation_phase env world b snaps s) (\<lambda>_. True) (\<lambda>_ _ _. True)"
proof -
  consider "ry_Phase s = PhaseIsolated" | "ry_Phase s = PhaseDraining" | "ry_Phase s = PhaseCheckpointing" | "ry_Phase s = PhaseRequeued"
    using e by (auto simp: evacuating_def)
  then show ?thesis
  proof cases
    case 1
    then show ?thesis using evac_phase_obeys[OF h e _ _ k, of PhaseDraining] by (simp add: evacuation_phase_def evacuating_def)
  next
    case 2
    have "obeys env world nodes n' d' (setPhase env world b s1 (if ry_Jobs s1 = [] then PhaseRequeued else PhaseCheckpointing)) (\<lambda>_. True) (\<lambda>_ _ _. True)"
      if "held d' s1 \<and> frame s s1" for s1 n' d'
      using that 2 k by (intro evac_phase_obeys) (auto simp: frame_def evacuating_def)
    then show ?thesis unfolding evacuation_phase_def 2 recovery_phase.case by (rule obeys_bind[OF signal_obeys[OF h 2]])
  next
    case 3
    have "obeys env world nodes n' d' (case r of (s1, complete) \<Rightarrow> if complete then setPhase env world b s1 PhaseRequeued else io_ret s1) (\<lambda>_. True) (\<lambda>_ _ _. True)"
      if "held d' (fst r) \<and> frame s (fst r)" for r n' d'
      using that 3 k by (cases r) (auto intro!: evac_phase_obeys obeys_ret simp: frame_def evacuating_def)
    then show ?thesis unfolding evacuation_phase_def 3 recovery_phase.case by (rule obeys_bind[OF requeue_obeys[OF h 3]])
  next
    case 4
    have "obeys env world nodes n' d' (if complete then io_bind (recovery_now env) (\<lambda>now.
            setPhase env world b (s\<lparr>ry_RebootRequestedAt := Some now\<rparr>) PhaseRebootRequested) else io_ret s) (\<lambda>_. True) (\<lambda>_ _ _. True)"
      if c: "d' = d \<and> (complete \<longrightarrow> (\<forall>j\<in>set (ry_Jobs s). jobEvacuated j s (zs_jobs (snap snaps (work_key j)))) \<and> (\<forall>w\<in>set (ry_Workers s). worker_gone env world w))"
      for complete n' d'
    proof (intro obeys_if obeys_bind[where R = "\<lambda>_ _ d'. d' = d"] now_obeys)
      fix now n'' d'' assume "complete" "d'' = d"
      then show "obeys env world nodes n'' d'' (setPhase env world b (s\<lparr>ry_RebootRequestedAt := Some now\<rparr>) PhaseRebootRequested) (\<lambda>_. True) (\<lambda>_ _ _. True)"
        using c reboot_request_obeys[OF h 4 k sn] by simp
    qed (use c in \<open>auto intro: obeys_ret\<close>)
    then show ?thesis unfolding evacuation_phase_def 4 recovery_phase.case by (rule obeys_bind[OF cleanup_obeys[OF h 4]])
  qed
qed

lemma evacuation_obeys:
  assumes h: "d = Some s" "state_ok s" and e: "evacuating (ry_Phase s)" and k: "asked nodes b"
  shows "obeys env world nodes n d (reconcileEvacuation env world b s) (\<lambda>_. True) (\<lambda>_ _ _. True)"
  unfolding reconcileEvacuation_def
proof (rule obeys_bind, rule discover_obeys[OF h(1) e])
  fix r n1 d1 assume r: "d1 = Some s \<and> (\<exists>s'. fst r = sort_found s' \<and> found_from s (s', snd r))"
  obtain s1 changed where sc: "r = (s1, changed)" by (cases r)
  obtain s' where s': "s1 = sort_found s'" "found_from s (s', changed)" using r sc by auto
  note f = found_advance[OF s'(2) e, folded s'(1)]
  have e1: "evacuating (ry_Phase s1)" "ry_Phase s1 \<noteq> PhaseRebootRequested" using f(4) e by (auto simp: evacuating_def)
  have h1: "held d1 s" using r h(2) held_saved by auto
  have rest: "obeys env world nodes n2 d2 (case slurmSnapshots env (ry_Clusters s1) of None \<Rightarrow> io_ret recoveryRequeue
     | Some snaps \<Rightarrow> (case addAffectedJobs s1 snaps of (s2, addedJobs) \<Rightarrow>
         io_bind (save_if env world b addedJobs s2) (\<lambda>_. io_bind (drainRecoveryWorkers world s2 snaps) (\<lambda>_.
         io_bind (if addedJobs \<and> ry_Phase s2 \<noteq> PhaseIsolated \<and> ry_Phase s2 \<noteq> PhaseDraining then setPhase env world b s2 PhaseDraining
                  else evacuation_phase env world b snaps s2) (\<lambda>_. io_ret recoveryRequeue))))) (\<lambda>_. True) (\<lambda>_ _ _. True)"
    if h2: "held d2 s1" for n2 d2
  proof (cases "slurmSnapshots env (ry_Clusters s1)")
    case None
    then show ?thesis by (simp add: obeys_ret)
  next
    case (Some snaps)
    obtain s2 added where a: "addAffectedJobs s1 snaps = (s2, added)" by (cases "addAffectedJobs s1 snaps")
    note g = add_affected_advance[OF a f(3)[OF h(2)] e1(1)]
    have e2: "evacuating (ry_Phase s2)" "ry_Phase s2 \<noteq> PhaseRebootRequested" using g(4) e1 by auto
    have sn: "slurmSnapshots env (ry_Clusters s2) = Some snaps" using g(5) Some by simp
    have last: "obeys env world nodes n3 d3 (if added \<and> ry_Phase s2 \<noteq> PhaseIsolated \<and> ry_Phase s2 \<noteq> PhaseDraining then setPhase env world b s2 PhaseDraining
                  else evacuation_phase env world b snaps s2) (\<lambda>_. True) (\<lambda>_ _ _. True)" if h3: "held d3 s2" for n3 d3
    proof (intro obeys_if)
      assume "added \<and> ry_Phase s2 \<noteq> PhaseIsolated \<and> ry_Phase s2 \<noteq> PhaseDraining"
      then have "phase_edge (ry_Phase s2) PhaseDraining" using e2 by (auto simp: evacuating_def)
      then show "obeys env world nodes n3 d3 (setPhase env world b s2 PhaseDraining) (\<lambda>_. True) (\<lambda>_ _ _. True)"
        by (intro evac_phase_obeys[OF h3 e2(1) _ _ k]) (simp_all add: evacuating_def)
    qed (rule evacuation_phase_obeys[OF h3 e2(1) k sn])
    show ?thesis
      unfolding Some a option.case prod.case
      by (rule obeys_bind, rule save_if_obeys[OF h2 g(1,2,3) e2(2)], assumption, rule obeys_bind, rule drain_obeys, assumption, rule e2(1),
          rule obeys_bind, rule last, assumption, rule obeys_ret, simp)
  qed
  show "obeys env world nodes n1 d1 (case r of (s1, changed) \<Rightarrow> io_bind (save_if env world b changed s1) (\<lambda>_.
     case slurmSnapshots env (ry_Clusters s1) of None \<Rightarrow> io_ret recoveryRequeue
     | Some snaps \<Rightarrow> (case addAffectedJobs s1 snaps of (s2, addedJobs) \<Rightarrow>
         io_bind (save_if env world b addedJobs s2) (\<lambda>_. io_bind (drainRecoveryWorkers world s2 snaps) (\<lambda>_.
         io_bind (if addedJobs \<and> ry_Phase s2 \<noteq> PhaseIsolated \<and> ry_Phase s2 \<noteq> PhaseDraining then setPhase env world b s2 PhaseDraining
                  else evacuation_phase env world b snaps s2) (\<lambda>_. io_ret recoveryRequeue)))))) (\<lambda>_. True) (\<lambda>_ _ _. True)"
    unfolding sc prod.case
    by (rule obeys_bind, rule save_if_obeys[OF h1 f(1) f(3)[OF h(2)] f(2) e1(2)], assumption, rule rest)
qed

section \<open>Reboot\<close>

lemma save_next:
  "advance s s' \<Longrightarrow> state_ok s' \<Longrightarrow> ry_Phase s' \<noteq> PhaseRebootRequested \<Longrightarrow> save_ok env world (Some s) s'"
  by (simp add: save_ok_def)

lemma save_next_obeys:
  assumes "d = Some s" "advance s s'" "state_ok s'" "ry_Phase s' \<noteq> PhaseRebootRequested"
  shows "obeys env world nodes n d (saveState env world b s') (\<lambda>_. True) (\<lambda>_ _ d'. d' = Some s')"
  by (rule obeys_weaken, rule save_obeys) (use assms save_next in auto)

lemma manual_obeys:
  assumes "d = Some s" "state_ok s" "rebooting (ry_Phase s) \<or> ry_Phase s = PhaseVerifying" "asked nodes b"
  shows "obeys env world nodes n d (enterManualRepair env world b s reason) (\<lambda>_. True) (\<lambda>_ _ _. True)"
proof -
  let ?s = "\<lambda>now. s\<lparr>ry_TerminalReason := reason, ry_ManualRequest := node_ann b recoveryRequestKey, ry_Phase := PhaseManualRepair, ry_PhaseStartedAt := now\<rparr>"
  have s: "save_ok env world d (?s now)" for now
    unfolding assms(1)
  proof (rule save_next)
    show "advance s (?s now)" by (rule advance_phase) (use assms(3) in \<open>auto simp: same_incident_def rebooting_def\<close>)
    show "state_ok (?s now)" using assms(2,3) by (auto simp: state_ok_def evacuating_def rebooting_def)
  qed simp
  show ?thesis
    unfolding enterManualRepair_def
    by (rule obeys_bind, rule setPhase_obeys) (use s assms(4) asked_kept in \<open>auto intro: obeys_ret\<close>)
qed

definition verifying :: "recovery_state option \<Rightarrow> bool" where
  "verifying d \<longleftrightarrow> (case d of None \<Rightarrow> False | Some s \<Rightarrow> (ry_Phase s = PhaseRebooting \<or> ry_Phase s = PhaseVerifying) \<and> ry_VerificationStarted s \<noteq> None)"

lemma create_missing_obeys:
  assumes "recovery_ok env world nodes d c" "\<And>o'. durable_step d o' c = d"
  shows "obeys env world nodes n d (create_missing world s name got c) (\<lambda>d'. d' = d) (\<lambda>_ _ d'. d' = d)"
  unfolding create_missing_def
  by (cases got) (use assms in \<open>auto intro!: obeys_must obeys_fail obeys_ret\<close>)

lemma verifiers_obeys:
  assumes "verifying d"
  shows "obeys env world nodes n d (ensureVerifierResources env world b s) (\<lambda>d'. d' = d) (\<lambda>_ _ d'. d' = d)"
  unfolding ensureVerifierResources_def
proof (rule obeys_bind, rule obeys_res[where Q = "\<lambda>_ _ d'. d' = d"])
  fix hw n' d' assume d': "d' = d"
  show "obeys env world nodes n' d' (io_each (ensure_cell env world b s) (hi_Cells hw) ()) (\<lambda>d'. d' = d) (\<lambda>_ _ d'. d' = d)"
  proof (rule obeys_each[where J = "\<lambda>_ d'. d' = d"])
    fix c u n1 d1 assume d1: "d1 = d"
    have j: "obeys env world nodes n' d (create_missing world s nm got (CreateVerifierJob jb)) (\<lambda>d'. d' = d) (\<lambda>_ _ d'. d' = d)" for n' nm got jb
      by (rule create_missing_obeys) (use assms in \<open>simp_all add: verifying_def\<close>)
    have cl: "obeys env world nodes n' d (create_missing world s nm got (CreateVerifierClaim cm)) (\<lambda>d'. d' = d) (\<lambda>_ _ d'. d' = d)" for n' nm got cm
      by (rule create_missing_obeys) (use assms in \<open>simp_all add: verifying_def\<close>)
    show "obeys env world nodes n1 d1 (ensure_cell env world b s c u) (\<lambda>d'. d' = d) (\<lambda>_ _ d'. d' = d)"
      unfolding ensure_cell_def d1
    proof (rule obeys_bind, rule obeys_res[where Q = "\<lambda>_ _ d'. d' = d"])
      fix x :: "verifier_claim \<times> verifier_job" and n2 d2 assume d2: "d2 = d"
      obtain claim job where x: "x = (claim, job)" by (cases x)
      show "obeys env world nodes n2 d2 (case x of (claim, job) \<Rightarrow> io_bind io_here (\<lambda>n.
         io_bind (create_missing world s (vc_Name claim) (rv_getClaim env n (vc_Name claim)) (CreateVerifierClaim claim)) (\<lambda>_.
         io_bind io_here (\<lambda>n. create_missing world s (vj_Name job) (rv_getJob env n (vj_Name job)) (CreateVerifierJob job))))) (\<lambda>d'. d' = d) (\<lambda>_ _ d'. d' = d)"
        unfolding x prod.case d2
        by (rule obeys_bind, rule obeys_here[where Q = "\<lambda>_ _ d'. d' = d"], simp, rule obeys_bind, simp, rule cl,
            rule obeys_bind, rule obeys_here[where Q = "\<lambda>_ _ d'. d' = d"], simp, simp, rule j)
    qed simp_all
  qed (simp add: d')
qed simp_all

text \<open>The state of a node that reboots: the stored state is the one in memory.\<close>

definition reboot_state :: "recovery_state option \<Rightarrow> recovery_state \<Rightarrow> bool" where
  "reboot_state d s \<longleftrightarrow> d = Some s \<and> state_ok s \<and> ry_Phase s = PhaseRebooting"

lemma reboot_manual: "reboot_state d s \<Longrightarrow> asked nodes b \<Longrightarrow> obeys env world nodes n d (enterManualRepair env world b s reason) (\<lambda>_. True) (\<lambda>_ _ _. True)"
  by (rule manual_obeys) (auto simp: reboot_state_def rebooting_def)

lemma start_obeys:
  assumes r: "reboot_state d s" and k: "asked nodes b" and i: "ry_NewBootID s \<noteq> []" "ry_PreInventoryHash s \<noteq> []"
  shows "obeys env world nodes n d (start_verification env world b s) (\<lambda>_. True) (\<lambda>_ _ _. True)"
  unfolding start_verification_def Let_def
proof (rule obeys_bind)
  let ?Q = "\<lambda>s1 (_::nat) d1. reboot_state d1 s1 \<and> ry_VerificationStarted s1 \<noteq> None"
  show "obeys env world nodes n d (if ry_VerificationStarted s = None then io_bind (recovery_now env) (\<lambda>now.
      io_bind (saveState env world b (s\<lparr>ry_VerificationStarted := Some now\<rparr>)) (\<lambda>_. io_ret (s\<lparr>ry_VerificationStarted := Some now\<rparr>))) else io_ret s) (\<lambda>_. True) ?Q"
  proof (rule obeys_if)
    assume v: "ry_VerificationStarted s = None"
    have sv: "obeys env world nodes n' d (io_bind (saveState env world b (s\<lparr>ry_VerificationStarted := Some now\<rparr>)) (\<lambda>_. io_ret (s\<lparr>ry_VerificationStarted := Some now\<rparr>)))
        (\<lambda>_. True) ?Q" for n' now
    proof -
      have ok: "state_ok (s\<lparr>ry_VerificationStarted := Some now\<rparr>)" using r i by (auto simp: reboot_state_def state_ok_def)
      have adv: "advance s (s\<lparr>ry_VerificationStarted := Some now\<rparr>)"
        using r v progress_refl by (auto simp: reboot_state_def advance_def same_incident_def)
      show ?thesis by (rule obeys_bind, rule save_next_obeys[OF _ adv ok]) (use r ok in \<open>auto simp: reboot_state_def intro!: obeys_ret\<close>)
    qed
    show "obeys env world nodes n d (io_bind (recovery_now env) (\<lambda>now. io_bind (saveState env world b (s\<lparr>ry_VerificationStarted := Some now\<rparr>))
        (\<lambda>_. io_ret (s\<lparr>ry_VerificationStarted := Some now\<rparr>)))) (\<lambda>_. True) ?Q"
      by (rule obeys_bind, rule now_obeys[where Q = "\<lambda>_ _ d'. d' = d"], simp, simp only: sv)
  qed (use r in \<open>auto intro!: obeys_ret\<close>)
next
  fix s1 n1 d1 assume 1: "reboot_state d1 s1 \<and> ry_VerificationStarted s1 \<noteq> None"
  have v: "verifying d1" using 1 by (auto simp: verifying_def reboot_state_def)
  have "save_ok env world d1 (s1\<lparr>ry_Phase := PhaseVerifying, ry_PhaseStartedAt := now\<rparr>)" for now
  proof -
    have "advance s1 (s1\<lparr>ry_Phase := PhaseVerifying, ry_PhaseStartedAt := now\<rparr>)"
      by (rule advance_phase) (use 1 in \<open>auto simp: reboot_state_def same_incident_def\<close>)
    moreover have "state_ok (s1\<lparr>ry_Phase := PhaseVerifying, ry_PhaseStartedAt := now\<rparr>)"
      using 1 by (auto simp: reboot_state_def state_ok_def evacuating_def rebooting_def)
    ultimately show ?thesis using 1 by (auto simp: reboot_state_def intro: save_next)
  qed
  then have ph: "obeys env world nodes n' d1 (io_bind (setPhase env world b s1 PhaseVerifying) (\<lambda>_. io_ret recoveryRequeue)) (\<lambda>_. True) (\<lambda>_ _ _. True)" for n'
    by (intro obeys_bind[OF setPhase_obeys]) (auto intro: obeys_ret asked_kept[OF k])
  show "obeys env world nodes n1 d1 (io_try (ensureVerifierResources env world b s1) (\<lambda>r. case r of
       Inl e \<Rightarrow> enterManualRepair env world b s1 (''create hardware verifiers: '' @ rv_errorText env e)
     | Inr u \<Rightarrow> io_bind (setPhase env world b s1 PhaseVerifying) (\<lambda>_. io_ret recoveryRequeue))) (\<lambda>_. True) (\<lambda>_ _ _. True)"
    by (rule obeys_try, rule verifiers_obeys[OF v]) (use ph 1 k in \<open>auto intro: reboot_manual\<close>)
qed

lemma inventory_obeys:
  assumes "reboot_state d s" "asked nodes b" "ry_NewBootID s \<noteq> []"
  shows "obeys env world nodes n d (check_inventory env world b s since) (\<lambda>_. True) (\<lambda>_ _ _. True)"
  unfolding check_inventory_def
  by (rule obeys_bind, rule now_obeys[where Q = "\<lambda>_ _ d'. d' = d"])
    (use assms in \<open>auto intro!: obeys_ret reboot_manual start_obeys\<close>)

lemma ready_obeys:
  assumes r: "reboot_state d s" and k: "asked nodes b" and i: "ry_NewBootID s \<noteq> []"
  shows "obeys env world nodes n d (check_ready env world b s) (\<lambda>_. True) (\<lambda>_ _ _. True)"
proof -
  have sv: "obeys env world nodes n' d (saveState env world b (s\<lparr>ry_ReadySince := v\<rparr>)) (\<lambda>_. True) (\<lambda>_ _ d'. True)" for n' v
  proof -
    have adv: "advance s (s\<lparr>ry_ReadySince := v\<rparr>)" using r progress_refl by (auto simp: reboot_state_def advance_def same_incident_def)
    have ok: "state_ok (s\<lparr>ry_ReadySince := v\<rparr>)" using r by (auto simp: reboot_state_def state_ok_def)
    show ?thesis by (rule obeys_weaken, rule save_next_obeys[OF _ adv ok]) (use r in \<open>auto simp: reboot_state_def\<close>)
  qed
  have nr: "obeys env world nodes n d (io_try (saveState env world b (s\<lparr>ry_ReadySince := None\<rparr>)) (\<lambda>_. io_ret recoveryRequeue)) (\<lambda>_. True) (\<lambda>_ _ _. True)"
    by (rule obeys_try, rule sv) (auto intro: obeys_ret)
  have rd: "obeys env world nodes n d (io_bind (recovery_now env) (\<lambda>now. io_bind (saveState env world b (s\<lparr>ry_ReadySince := Some now\<rparr>)) (\<lambda>_. io_ret recoveryRequeue)))
      (\<lambda>_. True) (\<lambda>_ _ _. True)"
    by (rule obeys_bind, rule now_obeys[where Q = "\<lambda>_ _ d'. d' = d"], simp, simp, rule obeys_bind, rule sv) (auto intro: obeys_ret)
  show ?thesis
    unfolding check_ready_def
    by (intro obeys_if nr; cases "ry_ReadySince s") (simp_all add: obeys_ret rd inventory_obeys[OF r k i])
qed

lemma boot_obeys:
  assumes r: "reboot_state d s" and k: "asked nodes b"
  shows "obeys env world nodes n d (check_boot env world b s) (\<lambda>_. True) (\<lambda>_ _ _. True)"
  unfolding check_boot_def Let_def
proof (intro obeys_if)
  let ?s = "s\<lparr>ry_NewBootID := bootID env b, ry_ReadySince := None\<rparr>"
  assume n: "\<not> (bootID env b = '''' \<or> bootID env b = ry_PreBootID s)" "ry_NewBootID s = ''''"
  have ok: "state_ok ?s" using r n by (auto simp: reboot_state_def state_ok_def evacuating_def)
  have adv: "advance s ?s" using r n progress_refl by (auto simp: reboot_state_def advance_def same_incident_def)
  show "obeys env world nodes n d (io_bind (saveState env world b ?s) (\<lambda>_. check_ready env world b ?s)) (\<lambda>_. True) (\<lambda>_ _ _. True)"
    by (rule obeys_bind, rule save_next_obeys[OF _ adv ok], use r in \<open>auto simp: reboot_state_def\<close>)
      (rule ready_obeys, use r n k ok in \<open>auto simp: reboot_state_def\<close>)
qed (use r k in \<open>auto intro!: obeys_ret reboot_manual ready_obeys\<close>)

lemma reboot_obeys:
  assumes d: "d = Some s" and ok: "state_ok s" and p: "rebooting (ry_Phase s)" and nodes: "\<And>m b. rv_getNode env m = Some b \<Longrightarrow> asked nodes b"
  shows "obeys env world nodes n d (reconcileReboot env world s) (\<lambda>_. True) (\<lambda>_ _ _. True)"
  unfolding reconcileReboot_def
proof (rule obeys_bind, rule obeys_here[where Q = "\<lambda>_ _ d'. d' = d"], simp)
  fix m n1 d1 assume d1: "d1 = d"
  have body: "obeys env world nodes n1 d (io_bind (recovery_now env) (\<lambda>now.
         let requestedAt = (case ry_RebootRequestedAt s of None \<Rightarrow> ry_PhaseStartedAt s | Some t \<Rightarrow> t) in
         if now - requestedAt \<ge> rv_RebootTimeout env then enterManualRepair env world b s ''node did not complete its reboot before the infrastructure timeout''
         else if ry_Phase s = PhaseRebootRequested then
           (if node_ann b rebootAckKey \<noteq> ry_Incident s then io_ret recoveryRequeue
            else io_bind (setPhase env world b s PhaseRebooting) (\<lambda>_. io_ret recoveryRequeue))
         else check_boot env world b s)) (\<lambda>_. True) (\<lambda>_ _ _. True)" if b: "rv_getNode env m = Some b" for b
  proof (rule obeys_bind, rule now_obeys[where Q = "\<lambda>_ _ d'. d' = d"], simp, unfold Let_def, intro obeys_if)
    fix now n2 d2 assume d2: "d2 = d"
    show "obeys env world nodes n2 d2 (enterManualRepair env world b s ''node did not complete its reboot before the infrastructure timeout'') (\<lambda>_. True) (\<lambda>_ _ _. True)"
      by (rule manual_obeys) (use d d2 ok p nodes[OF b] in auto)
    show "obeys env world nodes n2 d2 (io_ret recoveryRequeue) (\<lambda>_. True) (\<lambda>_ _ _. True)" by (simp add: obeys_ret)
    assume q: "ry_Phase s = PhaseRebootRequested"
    have "save_ok env world d2 (s\<lparr>ry_Phase := PhaseRebooting, ry_PhaseStartedAt := now\<rparr>)" for now
    proof -
      have "advance s (s\<lparr>ry_Phase := PhaseRebooting, ry_PhaseStartedAt := now\<rparr>)" by (rule advance_phase) (simp_all add: q same_incident_def)
      moreover have "state_ok (s\<lparr>ry_Phase := PhaseRebooting, ry_PhaseStartedAt := now\<rparr>)"
        using ok q by (auto simp: state_ok_def evacuating_def rebooting_def)
      ultimately show ?thesis using d d2 by (auto intro: save_next)
    qed
    then show "obeys env world nodes n2 d2 (io_bind (setPhase env world b s PhaseRebooting) (\<lambda>_. io_ret recoveryRequeue)) (\<lambda>_. True) (\<lambda>_ _ _. True)"
      by (intro obeys_bind[OF setPhase_obeys]) (auto intro: obeys_ret simp: kept_def rebooting_def)
  next
    fix now n2 d2 assume d2: "d2 = d" and q: "ry_Phase s \<noteq> PhaseRebootRequested"
    show "obeys env world nodes n2 d2 (check_boot env world b s) (\<lambda>_. True) (\<lambda>_ _ _. True)"
      by (rule boot_obeys) (use d d2 ok p q nodes[OF b] in \<open>auto simp: reboot_state_def rebooting_def\<close>)
  qed
  show "obeys env world nodes n1 d1 (case rv_getNode env m of None \<Rightarrow> io_fail NodeUnreadable
     | Some current \<Rightarrow> io_bind (recovery_now env) (\<lambda>now.
         let requestedAt = (case ry_RebootRequestedAt s of None \<Rightarrow> ry_PhaseStartedAt s | Some t \<Rightarrow> t) in
         if now - requestedAt \<ge> rv_RebootTimeout env then enterManualRepair env world current s ''node did not complete its reboot before the infrastructure timeout''
         else if ry_Phase s = PhaseRebootRequested then
           (if node_ann current rebootAckKey \<noteq> ry_Incident s then io_ret recoveryRequeue
            else io_bind (setPhase env world current s PhaseRebooting) (\<lambda>_. io_ret recoveryRequeue))
         else check_boot env world current s)) (\<lambda>_. True) (\<lambda>_ _ _. True)"
    unfolding d1 using body by (cases "rv_getNode env m") (simp_all only: option.case obeys_fail)
qed

end
