(* ===== verification/Recovery_Props.thy ===== *)
theory Recovery_Props
  imports Recovery_Refine_Pass
begin

text \<open>
  The pass of the recovery controller follows the protocol, and what follows from it: the invariant of stored states over
  passes that may stop after any call, the gate before a reboot, the grace period before a requeue and the conditions
  for the release of a node.
\<close>

section \<open>Verification\<close>

lemma drop_verifier_obeys:
  assumes "released d" "d \<noteq> None" "c = DropVerifierJob name \<or> c = DropVerifierClaim name"
  shows "obeys env world nodes n d (drop_verifier world c b) (\<lambda>_. True) (\<lambda>_ _ d'. d' = d)"
  unfolding drop_verifier_def
  by (rule obeys_bind, rule obeys_call[where Q = "\<lambda>_ _ d'. d' = d"]) (use assms in \<open>auto intro: obeys_ret obeys_fail\<close>)

lemma delete_verifiers_obeys:
  assumes "released d" "d \<noteq> None"
  shows "obeys env world nodes n d (deleteVerifierResources world s hw) (\<lambda>_. True) (\<lambda>_ _ d'. d' = d)"
  unfolding deleteVerifierResources_def
proof (rule obeys_each[where J = "\<lambda>_ d'. d' = d"])
  fix c b n' d' assume "d' = d"
  then show "obeys env world nodes n' d' (delete_cell world s c b) (\<lambda>_. True) (\<lambda>_ _ d'. d' = d)"
    unfolding delete_cell_def Let_def using assms
    by (intro obeys_bind[where R = "\<lambda>_ _ d'. d' = d"]) (auto intro: drop_verifier_obeys)
qed simp

lemma complete_obeys:
  assumes "d = Some s" "ry_Phase s = PhaseVerifying" "ry_VerificationPassed s"
  shows "obeys env world nodes n d (complete_recovery env world b s hw) (\<lambda>_. True) (\<lambda>_ _ _. True)"
proof -
  have r: "released d" "d \<noteq> None" using assms by (auto simp: released_def)
  have h: "obeys env world nodes n' d (setHealthy env world b) (\<lambda>_. True) (\<lambda>_ _ d'. d' = d)" for n'
    by (rule obeys_weaken, rule healthy_obeys) (use r in auto)
  have del: "obeys env world nodes n' d (io_bind (recovery_gone world (DeleteState (recoveryStateName b))) (\<lambda>_. io_ret 0)) (\<lambda>_. True) (\<lambda>_ _ _. True)" for n'
    by (rule obeys_bind, rule recovery_gone_obeys[where Q = "\<lambda>_ _ _. True"]) (use r in \<open>auto intro: obeys_ret\<close>)
  show ?thesis
    unfolding complete_recovery_def
    by (rule obeys_bind, rule delete_verifiers_obeys[OF r], rule obeys_if, rule obeys_ret, simp, rule obeys_bind, simp, rule h, simp add: del)
qed

lemma await_obeys:
  assumes d: "d = Some s" and ok: "state_ok s" and p: "ry_Phase s = PhaseVerifying" and k: "asked nodes b"
  shows "obeys env world nodes n d (await_verifiers env world b s hw raw) (\<lambda>_. True) (\<lambda>_ _ _. True)"
  unfolding await_verifiers_def
proof (rule obeys_bind, rule obeys_here[where Q = "\<lambda>_ _ d'. d' = d"], simp, rule obeys_bind, rule obeys_res[where Q = "\<lambda>_ _ d'. d' = d"])
  fix m n1 d1 and result :: cells_result and n2 d2 assume d2: "d2 = d"
  have v: "verifying d" using d ok p by (auto simp: verifying_def state_ok_def)
  have ev: "obeys env world nodes n2 d (io_bind (ensureVerifierResources env world b s) (\<lambda>_. io_ret recoveryRequeue)) (\<lambda>_. True) (\<lambda>_ _ _. True)"
    by (rule obeys_bind, rule obeys_weaken, rule verifiers_obeys[OF v]) (auto intro: obeys_ret)
  have mr: "obeys env world nodes n2 d (enterManualRepair env world b s reason) (\<lambda>_. True) (\<lambda>_ _ _. True)" for reason
    by (rule manual_obeys) (use d ok p k in auto)
  have sv: "obeys env world nodes n2 d (io_bind (saveState env world b (s\<lparr>ry_VerificationPassed := True\<rparr>)) (\<lambda>_. io_ret recoveryRequeue)) (\<lambda>_. True) (\<lambda>_ _ _. True)"
  proof -
    have ok': "state_ok (s\<lparr>ry_VerificationPassed := True\<rparr>)" using ok p by (auto simp: state_ok_def)
    have adv: "advance s (s\<lparr>ry_VerificationPassed := True\<rparr>)" using p progress_refl by (auto simp: advance_def same_incident_def)
    show ?thesis by (rule obeys_bind, rule save_next_obeys[OF d adv ok']) (use p in \<open>auto intro: obeys_ret\<close>)
  qed
  show "obeys env world nodes n2 d2 (case result of
       CellMissing \<Rightarrow> io_bind (ensureVerifierResources env world b s) (\<lambda>_. io_ret recoveryRequeue)
     | CellFailed numa \<Rightarrow> enterManualRepair env world b s (''hardware verifier for NUMA node '' @ show_int numa @ '' failed'')
     | CellsAll allSucceeded \<Rightarrow>
         if \<not> allSucceeded \<or> raw \<noteq> ''False'' then io_ret recoveryRequeue
         else io_bind (saveState env world b (s\<lparr>ry_VerificationPassed := True\<rparr>)) (\<lambda>_. io_ret recoveryRequeue)) (\<lambda>_. True) (\<lambda>_ _ _. True)"
    unfolding d2 by (cases result) (simp_all add: ev mr sv obeys_ret)
qed simp_all

lemma verification_obeys:
  assumes d: "d = Some s" and ok: "state_ok s" and p: "ry_Phase s = PhaseVerifying" and k: "asked nodes b"
  shows "obeys env world nodes n d (reconcileVerification env world b s raw) (\<lambda>_. True) (\<lambda>_ _ _. True)"
proof -
  have mr: "obeys env world nodes n' d (enterManualRepair env world b s reason) (\<lambda>_. True) (\<lambda>_ _ _. True)" for reason n'
    by (rule manual_obeys) (use d ok p k in auto)
  have co: "obeys env world nodes n' d (complete_recovery env world b s hw) (\<lambda>_. True) (\<lambda>_ _ _. True)" if "ry_VerificationPassed s" for n' hw
    by (rule complete_obeys[OF d p that])
  show ?thesis
    unfolding reconcileVerification_def
    by (cases "ry_VerificationStarted s"; simp only: option.case)
      (rule mr, rule obeys_bind, rule now_obeys[where Q = "\<lambda>_ _ d'. d' = d"], simp,
        auto intro!: mr co obeys_ret await_obeys[OF d ok p k] split: sum.split)
qed

section \<open>The pass\<close>

lemma fresh_ok: "fresh_state s \<Longrightarrow> state_ok s"
  by (auto simp: fresh_state_def state_ok_def evacuating_def rebooting_def)

lemma new_state_obeys:
  "obeys env world nodes n d (newRecoveryState env b) (\<lambda>_. True) (\<lambda>s _ d'. d' = d \<and> fresh_state s \<and> ry_Phase s = PhaseIsolated)"
  unfolding newRecoveryState_def
  by (rule obeys_bind, rule now_obeys[where Q = "\<lambda>_ _ d'. d' = d"], simp, rule obeys_bind, rule obeys_res[where Q = "\<lambda>_ _ d'. d' = d"])
    (auto intro!: obeys_ret simp: fresh_state_def)

lemma retry_obeys:
  assumes "d = Some s" "state_ok s"
  shows "obeys env world nodes n d (retry_requested env world b raw s) (\<lambda>_. True) (\<lambda>s1 _ d'. d' = Some s1 \<and> state_ok s1)"
proof -
  let ?r = "node_ann b recoveryRequestKey"
  have sv: "obeys env world nodes n' d (io_bind (saveState env world b (z\<lparr>ry_Incident := ?r, ry_ManualRequest := ?r\<rparr>)) (\<lambda>_. io_ret (z\<lparr>ry_Incident := ?r, ry_ManualRequest := ?r\<rparr>)))
      (\<lambda>_. True) (\<lambda>s1 _ d'. d' = Some s1 \<and> state_ok s1)"
    if z: "fresh_state z" "ry_Phase z = PhaseIsolated" and m: "ry_Phase s = PhaseManualRepair" for z n'
  proof -
    have f: "fresh_state (z\<lparr>ry_Incident := ?r, ry_ManualRequest := ?r\<rparr>)" using z by (simp add: fresh_state_def)
    have "save_ok env world d (z\<lparr>ry_Incident := ?r, ry_ManualRequest := ?r\<rparr>)" using f fresh_ok[OF f] z m assms(1) by (simp add: save_ok_def)
    then show ?thesis by (intro obeys_bind[OF obeys_weaken[OF save_obeys]]) (auto intro!: obeys_ret fresh_ok[OF f])
  qed
  show ?thesis
    unfolding retry_requested_def Let_def
    by (rule obeys_if, rule obeys_bind, rule new_state_obeys, use sv in auto) (use assms in \<open>auto intro: obeys_ret\<close>)
qed

lemma dispatch_obeys:
  assumes d: "d = Some s" and ok: "state_ok s" and k: "kept nodes (ry_Phase s) b" and nodes: "\<And>m b. rv_getNode env m = Some b \<Longrightarrow> asked nodes b"
  shows "obeys env world nodes n d (recovery_dispatch env world b raw s) (\<lambda>_. True) (\<lambda>_ _ _. True)"
proof -
  have ev: "evacuating (ry_Phase s) \<Longrightarrow> obeys env world nodes n d (reconcileEvacuation env world b s) (\<lambda>_. True) (\<lambda>_ _ _. True)"
    using kept_asked[OF k] by (intro evacuation_obeys[OF d ok]) (auto simp: evacuating_def rebooting_def)
  have rb: "rebooting (ry_Phase s) \<Longrightarrow> obeys env world nodes n d (reconcileReboot env world s) (\<lambda>_. True) (\<lambda>_ _ _. True)"
    by (rule reboot_obeys[OF d ok]) (auto intro: nodes)
  have ve: "ry_Phase s = PhaseVerifying \<Longrightarrow> obeys env world nodes n d (reconcileVerification env world b s raw) (\<lambda>_. True) (\<lambda>_ _ _. True)"
    using kept_asked[OF k] by (intro verification_obeys[OF d ok]) (auto simp: rebooting_def)
  show ?thesis
    using ev rb ve by (cases "ry_Phase s") (auto simp: recovery_dispatch_def evacuating_def rebooting_def intro: obeys_ret obeys_fail)
qed

lemma serve_obeys:
  assumes "d = Some s" "state_ok s" "asked nodes b" and nodes: "\<And>m b. rv_getNode env m = Some b \<Longrightarrow> asked nodes b"
  shows "obeys env world nodes n d (recovery_serve env world b raw s) (\<lambda>_. True) (\<lambda>_ _ _. True)"
  unfolding recovery_serve_def
proof (rule obeys_bind, rule retry_obeys[OF assms(1,2)])
  fix s1 n1 d1 assume 1: "d1 = Some s1 \<and> state_ok s1"
  have "obeys env world nodes n1 d1 (ensureIsolation env world b s1) (\<lambda>_. True) (\<lambda>b' _ d'. d' = d1 \<and> kept nodes (ry_Phase s1) b')"
    by (rule obeys_weaken, rule isolate_obeys[where ?s0.0 = s1]) (use 1 assms(3) asked_kept in auto)
  then show "obeys env world nodes n1 d1 (io_bind (ensureIsolation env world b s1) (\<lambda>node'. recovery_dispatch env world node' raw s1)) (\<lambda>_. True) (\<lambda>_ _ _. True)"
    by (rule obeys_bind) (use 1 nodes in \<open>auto intro: dispatch_obeys\<close>)
qed

lemma open_obeys:
  "obeys env world nodes n None (open_incident env world b raw) (\<lambda>_. True) (\<lambda>r _ d'. d' = r \<and> durable_ok d')"
proof -
  have sv: "obeys env world nodes n' None (io_bind (saveState env world b z) (\<lambda>_. io_ret (Some z))) (\<lambda>_. True) (\<lambda>r _ d'. d' = r \<and> durable_ok d')"
    if f: "fresh_state z" for z n'
  proof -
    have "save_ok env world None z" using f fresh_ok[OF f] by (auto simp: save_ok_def fresh_state_def)
    then show ?thesis by (intro obeys_bind[OF obeys_weaken[OF save_obeys]]) (auto intro!: obeys_ret simp: durable_ok_def fresh_ok[OF f])
  qed
  have h: "obeys env world nodes n None (io_bind (setHealthy env world b) (\<lambda>_. io_ret None)) (\<lambda>_. True) (\<lambda>r _ d'. d' = r \<and> durable_ok d')"
    by (rule obeys_bind, rule obeys_weaken, rule healthy_obeys) (auto simp: released_def durable_ok_def intro: obeys_ret)
  have m: "fresh_state s \<Longrightarrow> fresh_state (s\<lparr>ry_Phase := PhaseManualRepair, ry_TerminalReason := t\<rparr>)" for s t
    by (simp add: fresh_state_def)
  show ?thesis
    unfolding open_incident_def Let_def
    by (intro obeys_if h; rule obeys_bind, rule new_state_obeys) (auto intro!: sv m)
qed

lemma pass_obeys:
  assumes l: "loadState env node = Inr d" and ok: "durable_ok d"
  shows "obeys env world (read_nodes env node) 0 d (recovery_Reconcile env world (Inr (Some node))) (\<lambda>_. True) (\<lambda>_ _ _. True)"
proof -
  let ?nodes = "read_nodes env node" and ?raw = "nodeConditionStatus (nd_Conditions node) hardwareFaultCondition"
  have a: "asked ?nodes node" "\<And>m b. rv_getNode env m = Some b \<Longrightarrow> asked ?nodes b" by (auto simp: asked_def read_nodes_def)
  have o': "obeys env world ?nodes 0 d (case d of Some s \<Rightarrow> io_ret (Some s) | None \<Rightarrow> open_incident env world node ?raw)
      (\<lambda>_. True) (\<lambda>r _ d'. d' = r \<and> durable_ok d')"
    using ok by (cases d) (auto intro: obeys_ret open_obeys)
  have s: "obeys env world ?nodes n' d' (case r of None \<Rightarrow> io_ret 0 | Some s \<Rightarrow> recovery_serve env world node ?raw s) (\<lambda>_. True) (\<lambda>_ _ _. True)"
    if "d' = r \<and> durable_ok d'" for r n' d'
    using that a by (cases r) (auto intro!: obeys_ret serve_obeys simp: durable_ok_def)
  have b: "io_bind (io_res (Inr d)) f = f d" for f :: "recovery_state option \<Rightarrow> int recovery_io"
    by (simp add: io_bind_def io_res_def)
  show ?thesis
    unfolding recovery_Reconcile_def l sum.case option.case b Let_def
    by (rule obeys_if, rule obeys_ret, simp, rule obeys_bind, rule o', rule s)
qed

lemma pass_follows:
  "loadState env node = Inr d \<Longrightarrow> durable_ok d
   \<Longrightarrow> run_follows world durable_step (recovery_ok env world (read_nodes env node)) 0 d (snd (recovery_Reconcile env world (Inr (Some node)) []))"
  by (rule obeys_run, rule pass_obeys)

end
