(* ===== verification/Worker_Props.thy ===== *)
theory Worker_Props
  imports Worker_Pass
begin

text \<open>
  What a pass over the workers guarantees whatever its calls answer: busy nodes and workers under recovery are
  left alone, and pools stay within their limits.
\<close>

section \<open>Removal\<close>

definition removable :: "slurm_node list \<Rightarrow> string \<Rightarrow> bool" where
  "removable nodes name \<longleftrightarrow> list_ex (\<lambda>n. sn_Name n = name \<and> nodeIdle n \<and> List.member (sn_State n) ''DRAIN'') nodes"

text \<open>
  A node is deleted only when it is listed as idle and draining, and a pod only when its node is not listed at
  all or is removable.
\<close>

fun safe_call :: "slurm_node list \<Rightarrow> call \<Rightarrow> bool" where
  "safe_call nodes (DeleteNodeCall name) = removable nodes name"
| "safe_call nodes (DeletePod name) = (\<not> list_ex (\<lambda>n. sn_Name n = name) nodes \<or> removable nodes name)"
| "safe_call nodes _ = True"

text \<open>The worker that a call concerns; new pods and claims concern none that is listed.\<close>

fun touched :: "call \<Rightarrow> string option" where
  "touched (DrainCall name reason) = Some name"
| "touched (DeleteNodeCall name) = Some name"
| "touched (UpdatePod p) = Some (pd_Name p)"
| "touched (DeletePod name) = Some name"
| "touched (CreatePod p) = None"
| "touched (CreateClaim c) = None"

definition recovering :: "pod \<Rightarrow> bool" where
  "recovering p \<longleftrightarrow> pod_ann p workerRecoveryAnnotation \<noteq> ''''"

text \<open>The calls of the steps on single workers, where \<open>R\<close> is a set of workers to leave alone.\<close>

definition step_call :: "slurm_node list \<Rightarrow> string set \<Rightarrow> call \<Rightarrow> bool" where
  "step_call nodes R c \<longleftrightarrow> safe_call nodes c \<and> (\<forall>p. c \<noteq> CreatePod p) \<and> (\<forall>n. touched c = Some n \<longrightarrow> n \<notin> R)"

lemma node_map_Some: "map_of (node_map nodes) name = Some n \<Longrightarrow> n \<in> set nodes \<and> sn_Name n = name"
proof -
  have "map_of (fold (\<lambda>n. gm_put (sn_Name n) n) ns m) name = Some n \<Longrightarrow> n \<in> set ns \<and> sn_Name n = name \<or> map_of m name = Some n" for ns m
    by (induction ns arbitrary: m) (fastforce simp: map_of_gm_put split: if_splits)+
  from this[of nodes "[]"] show "map_of (node_map nodes) name = Some n \<Longrightarrow> n \<in> set nodes \<and> sn_Name n = name"
    by (auto simp: node_map_def)
qed

lemma node_map_None: "map_of (node_map nodes) name = None \<longleftrightarrow> name \<notin> sn_Name ` set nodes"
proof -
  have "fst ` set (fold (\<lambda>n. gm_put (sn_Name n) n) ns m) = fst ` set m \<union> sn_Name ` set ns" for ns m
    by (induction ns arbitrary: m) (auto simp: keys_gm_put)
  from this[of nodes "[]"] show ?thesis by (simp add: node_map_def map_of_eq_None_iff)
qed

text \<open>The node that the pass looks up for a pod: the listed one, or the zero node when there is none.\<close>

definition looked_up :: "slurm_node list \<Rightarrow> string \<Rightarrow> slurm_node \<Rightarrow> bool" where
  "looked_up nodes name n \<longleftrightarrow> n \<in> set nodes \<and> sn_Name n = name \<or> n = zero_node \<and> name \<notin> sn_Name ` set nodes"

lemma looked_up_find: "looked_up nodes name (gm_get zero_node (node_map nodes) name)"
proof (cases "map_of (node_map nodes) name")
  case None
  then have "gm_get zero_node (node_map nodes) name = zero_node" by (simp add: gm_get_def)
  then show ?thesis using None unfolding node_map_None by (simp add: looked_up_def)
next
  case (Some n)
  then show ?thesis using node_map_Some[OF Some] by (simp add: looked_up_def gm_get_def)
qed

lemma done_call_ok: "I c \<Longrightarrow> io_ok I (done_call world c) (\<lambda>_. True)"
  by (simp add: done_call_def io_ok_must)

lemma gone_call_ok: "I c \<Longrightarrow> io_ok I (gone_call world c) (\<lambda>_. True)"
  by (simp add: gone_call_def io_ok_must)

lemma then_ret: "io_ok I m (\<lambda>_. True) \<Longrightarrow> Q x \<Longrightarrow> io_ok I (io_bind m (\<lambda>_. io_ret x)) Q"
  by (rule io_ok_bind[where R = "\<lambda>_. True"]) (auto intro: io_ok_ret)

text \<open>What the pass never changes of a pod.\<close>

definition same_pod :: "pod \<Rightarrow> pod \<Rightarrow> bool" where
  "same_pod p q \<longleftrightarrow> pd_Name q = pd_Name p \<and> pd_Labels q = pd_Labels p \<and> pd_Deleting q = pd_Deleting p \<and> pd_Failed q = pd_Failed p
     \<and> pd_Conditions q = pd_Conditions p \<and> pod_ann q workerRecoveryAnnotation = pod_ann p workerRecoveryAnnotation"

lemma same_pod_refl [simp]: "same_pod p p"
  by (simp add: same_pod_def)

lemma same_pod_trans: "same_pod p q \<Longrightarrow> same_pod q r \<Longrightarrow> same_pod p r"
  by (simp add: same_pod_def)

lemma annotation_keys_differ [simp]:
  "workerRecoveryAnnotation \<noteq> workerDrainAnnotation" "workerRecoveryAnnotation \<noteq> workerIdleAnnotation" "workerIdleAnnotation \<noteq> workerDrainAnnotation"
  by (simp_all add: workerRecoveryAnnotation_def workerDrainAnnotation_def workerIdleAnnotation_def)

lemma setWorkerAnnotation_ok:
  assumes "\<And>q. pd_Name q = pd_Name p \<Longrightarrow> I (UpdatePod q)" "workerRecoveryAnnotation \<noteq> key"
  shows "io_ok I (setWorkerAnnotation world p key v) (same_pod p)"
  unfolding setWorkerAnnotation_def Let_def
proof (rule then_ret)
  show "same_pod p (p\<lparr>pd_Annotations := if v = [] then gm_del key (pd_Annotations p) else gm_put key v (pd_Annotations p)\<rparr>)"
    using assms(2) by (simp add: same_pod_def pod_ann_def gm_get_def map_of_gm_put map_of_gm_del)
qed (rule done_call_ok, rule assms(1), simp)

lemma release_pod_ok:
  assumes "\<And>q. pd_Name q = pd_Name p \<Longrightarrow> I (UpdatePod q)" "I (DeletePod (pd_Name p))"
  shows "io_ok I (release_pod world p) (same_pod p)"
  unfolding release_pod_def
proof (rule io_ok_bind[where R = "same_pod p"])
  show "io_ok I (if List.member (pd_Finalizers p) workerFinalizer
              then (let p' = p\<lparr>pd_Finalizers := filter (\<lambda>f. f \<noteq> workerFinalizer) (pd_Finalizers p)\<rparr> in
                    io_bind (gone_call world (UpdatePod p')) (\<lambda>_. io_ret p')) else io_ret p) (same_pod p)"
    unfolding Let_def
    by (intro io_ok_if then_ret gone_call_ok assms(1) io_ok_ret) (simp_all add: same_pod_def pod_ann_def)
  fix q assume q: "same_pod p q"
  then have d: "I (DeletePod (pd_Name q))" using assms(2) by (simp add: same_pod_def)
  show "io_ok I (if pd_Deleting q then io_ret q else io_bind (gone_call world (DeletePod (pd_Name q))) (\<lambda>_. io_ret q)) (same_pod p)"
    by (intro io_ok_if then_ret gone_call_ok io_ok_ret q d)
qed

lemma step_call_update: "pd_Name q \<notin> R \<Longrightarrow> step_call nodes R (UpdatePod q)"
  by (simp add: step_call_def)

lemma cleanupWorker_ok:
  assumes look: "looked_up nodes (pd_Name p) node" and named: "pd_Name p \<noteq> []" "pd_Name p \<notin> R"
  shows "io_ok (step_call nodes R) (cleanupWorker world node p) (same_pod p)"
proof -
  have set: "io_ok (step_call nodes R) (setWorkerAnnotation world p workerDrainAnnotation ''true'') (same_pod p)"
    by (rule setWorkerAnnotation_ok) (simp_all add: step_call_update named)
  have "\<not> list_ex (\<lambda>n. sn_Name n = pd_Name p) nodes" if "sn_Name node = []"
    using look named(1) that unfolding looked_up_def list_ex_iff by (metis image_eqI)
  then have gone: "step_call nodes R (DeletePod (pd_Name p))" if "sn_Name node = []"
    using that named(2) by (simp add: step_call_def)
  have idle: "removable nodes (pd_Name p)" if "sn_Name node \<noteq> []" "nodeIdle node" "List.member (sn_State node) ''DRAIN''"
    using look that by (auto simp: looked_up_def removable_def list_ex_iff zero_node_def)
  show ?thesis
    unfolding cleanupWorker_def
    by (intro io_ok_if io_ok_bind[where R = "\<lambda>_. True"] set done_call_ok release_pod_ok io_ok_ret)
      (use gone idle named in \<open>auto simp: step_call_def\<close>)
qed

lemma ensureWorkerClaim_ok: "(\<And>c. I (CreateClaim c)) \<Longrightarrow> io_ok I (ensureWorkerClaim env world p) (\<lambda>_. True)"
  unfolding ensureWorkerClaim_def Let_def by (auto intro!: io_ok_ret io_ok_fail io_ok_must split: claim_read.split option.split sum.split)

lemma keep_pod_ok:
  assumes "looked_up nodes (pd_Name p) node" "pd_Name p \<noteq> []" "pd_Name p \<notin> R"
  shows "io_ok (step_call nodes R) (keep_pod env world node p) (same_pod p)"
proof -
  have e: "io_ok (step_call nodes R) (io_bind (ensureWorkerClaim env world p) (\<lambda>_. io_ret p)) (same_pod p)"
    by (rule then_ret[OF ensureWorkerClaim_ok]) (simp_all add: step_call_def)
  show ?thesis
    unfolding keep_pod_def Let_def
    by (intro io_ok_if e) (auto intro!: io_ok_fail cleanupWorker_ok assms e split: claim_read.split)
qed

lemma finalizer_ok:
  "pd_Name p \<notin> R \<Longrightarrow> io_ok (step_call nodes R)
     (if List.member (pd_Finalizers p) workerFinalizer then io_ret p
      else (let p' = p\<lparr>pd_Finalizers := pd_Finalizers p @ [workerFinalizer]\<rparr> in
            io_bind (done_call world (UpdatePod p')) (\<lambda>_. io_ret p'))) (same_pod p)"
  unfolding Let_def
  by (intro io_ok_if io_ok_ret then_ret done_call_ok) (simp_all add: step_call_def same_pod_def pod_ann_def)

lemma pod_step_ok:
  assumes named: "pd_Name p \<noteq> []" "recovering p \<or> pd_Name p \<notin> R"
  shows "io_ok (step_call nodes R) (pod_step env world (node_map nodes) p) (same_pod p)"
proof (cases "recovering p")
  case True
  then show ?thesis by (simp add: pod_step_def recovering_def io_ok_fail io_ok_ret)
next
  case False
  then have R: "pd_Name p \<notin> R" using named by simp
  have look: "looked_up nodes (pd_Name q) (node_of (node_map nodes) q)" for q
    by (simp add: node_of_def looked_up_find)
  have go: "io_ok (step_call nodes R) (if pod_ann q workerDrainAnnotation = ''true'' \<or> pd_Failed q
              then cleanupWorker world (node_of (node_map nodes) q) q
              else keep_pod env world (node_of (node_map nodes) q) q) (same_pod p)" if q: "same_pod p q" for q
  proof -
    have "pd_Name q \<noteq> []" "pd_Name q \<notin> R" using q named R by (simp_all add: same_pod_def)
    then show ?thesis
      by (intro io_ok_if io_ok_weaken[OF cleanupWorker_ok] io_ok_weaken[OF keep_pod_ok] look same_pod_trans[OF q])
  qed
  show ?thesis
    unfolding pod_step_def
    by (intro io_ok_if io_ok_fail io_ok_ret cleanupWorker_ok look R named(1) io_ok_bind[OF finalizer_ok[OF R]] go) simp_all
qed

lemma orphan_step_ok:
  assumes "n \<in> set nodes" "R \<subseteq> set podNames"
  shows "io_ok (step_call nodes R) (orphan_step env world podNames n u) (\<lambda>_. True)"
proof -
  have r: "removable nodes (sn_Name n)" if "List.member (sn_State n) ''DRAIN'' \<and> nodeIdle n"
    using assms(1) that by (auto simp: removable_def list_ex_iff)
  show ?thesis
    unfolding orphan_step_def
    by (intro io_ok_if io_ok_ret done_call_ok) (use r assms(2) in \<open>auto simp: step_call_def\<close>)
qed

lemma idle_pod_ok:
  assumes node: "node = map_of (node_map nodes) (pd_Name p)" and named: "pd_Name p \<noteq> []" "pd_Name p \<notin> R"
  shows "io_ok (step_call nodes R) (idle_pod env world pool node p ready) (\<lambda>(p', _). same_pod p p')"
proof -
  have look: "looked_up nodes (pd_Name p) (case node of None \<Rightarrow> zero_node | Some n \<Rightarrow> n)"
    using looked_up_find[of nodes "pd_Name p"] by (simp add: node gm_get_def)
  have c: "io_ok (step_call nodes R) (cleanupWorker world (case node of None \<Rightarrow> zero_node | Some n \<Rightarrow> n) p) (same_pod p)"
    by (rule cleanupWorker_ok[OF look named])
  have ann: "io_ok (step_call nodes R) (setWorkerAnnotation world p workerIdleAnnotation v) (same_pod p)" for v
    by (rule setWorkerAnnotation_ok) (simp_all add: step_call_update named)
  have pair: "io_ok (step_call nodes R) (io_bind m (\<lambda>p'. io_ret (p', g p'))) (\<lambda>(p', _). same_pod p p')"
    if "io_ok (step_call nodes R) m (same_pod p)" for m and g :: "pod \<Rightarrow> (string, int) gomap"
    by (rule io_ok_bind[OF that]) (simp add: io_ok_ret)
  show ?thesis
  proof (cases "\<not> podReady p \<or> node = None")
    case True
    then show ?thesis by (simp add: idle_pod_def Let_def pair[OF c])
  next
    case False
    then obtain n where n: "node = Some n" by auto
    have c': "io_ok (step_call nodes R) (cleanupWorker world n p) (same_pod p)" using c n by simp
    show ?thesis
      unfolding idle_pod_def Let_def n option.sel
      by (intro io_ok_if) (auto intro!: io_ok_ret io_ok_if pair ann c' split: option.split)
  qed
qed

lemma idle_step_ok:
  assumes named: "pd_Name p \<noteq> []" "recovering p \<or> pd_Name p \<notin> R"
  shows "io_ok (step_call nodes R) (idle_step env world pools (node_map nodes) assigned p s) (\<lambda>_. True)"
proof (cases "recovering p \<or> map_of pools (pod_pool p) = None")
  case True
  then show ?thesis by (cases s) (auto simp: idle_step_def recovering_def intro!: io_ok_ret split: option.split)
next
  case False
  then obtain pool where pool: "map_of pools (pod_pool p) = Some pool" and R: "pd_Name p \<notin> R" using named by auto
  have ann: "io_ok (step_call nodes R) (setWorkerAnnotation world p workerIdleAnnotation v) (same_pod p)" for v
    by (rule setWorkerAnnotation_ok) (simp_all add: step_call_update R)
  obtain ready out where s: "s = (ready, out)" by (cases s)
  show ?thesis
    unfolding idle_step_def pool option.case s prod.case Let_def
    by (intro io_ok_if io_ok_ret io_ok_bind[OF ann] io_ok_bind[OF idle_pod_ok[OF refl named(1) R]] TrueI)
      (auto intro!: io_ok_ret)
qed

lemma createWorker_ok:
  assumes "\<And>c. I (CreateClaim c)" "\<And>q. I (CreatePod q)"
  shows "io_ok I (createWorker env world pool d) (\<lambda>_. True)"
proof -
  have here: "io_ok I io_here (\<lambda>_. True)" by (simp add: io_ok_def io_spec_def io_here_def)
  have e: "io_ok I (io_bind (ensureWorkerClaim env world p) (\<lambda>_. io_ret p)) (\<lambda>_. True)" for p
    by (rule then_ret[OF ensureWorkerClaim_ok]) (simp_all add: assms)
  show ?thesis
    unfolding createWorker_def Let_def
    by (rule io_ok_bind[OF here])
      (auto intro!: io_ok_fail io_ok_bind[OF done_call_ok] e assms split: option.split)
qed

lemma assign_demands_ok:
  assumes "\<And>c. I (CreateClaim c)" "\<And>q. I (CreatePod q)"
  shows "io_ok I (assign_demands env world nodeByName pods demands) (\<lambda>_. True)"
proof -
  have create: "io_ok I (create_step env world pools d counts) (\<lambda>_. True)" for pools d counts
    unfolding create_step_def
    by (intro io_ok_if io_ok_fail io_ok_bind[OF createWorker_ok] assms io_ok_ret TrueI)
  have grp: "io_ok I (worker_group_step env world pools cands ds s) (\<lambda>_. True)" for pools cands ds s
    unfolding worker_group_step_def Let_def
    by (auto intro!: io_ok_ret io_ok_if io_ok_bind[where R = "\<lambda>_. True"] io_ok_each create split: prod.split)
  show ?thesis
    unfolding assign_demands_def Let_def
    by (auto intro!: io_ok_bind[OF io_ok_res[where Q = "\<lambda>_. True"]] io_ok_each grp split: prod.split)
qed

definition workable :: "string set \<Rightarrow> pod list \<Rightarrow> bool" where
  "workable R pods \<longleftrightarrow> (\<forall>p\<in>set pods. pd_Name p \<noteq> [] \<and> (recovering p \<or> pd_Name p \<notin> R))"

lemma pods_pass_ok:
  "workable R pods \<Longrightarrow> io_ok (step_call nodes R) (io_map (pod_step env world (node_map nodes)) pods) (list_all2 same_pod pods)"
  by (rule io_ok_map) (rule pod_step_ok; simp add: workable_def)

lemma orphans_pass_ok:
  "R \<subseteq> pd_Name ` set pods \<Longrightarrow> io_ok (step_call nodes R) (io_each (orphan_step env world (map pd_Name pods)) nodes u) (\<lambda>_. True)"
  by (rule io_ok_each) (simp_all add: orphan_step_ok)

lemma idle_pass_ok:
  assumes "workable R pods" "list_all2 same_pod pods qs"
  shows "io_ok (step_call nodes R) (io_each (idle_step env world pools (node_map nodes) assigned) qs s) (\<lambda>_. True)"
proof (rule io_ok_each)
  fix q t assume "q \<in> set qs"
  then obtain p where "p \<in> set pods" "same_pod p q" using list_all2_back[OF assms(2)] by blast
  then show "io_ok (step_call nodes R) (idle_step env world pools (node_map nodes) assigned q t) (\<lambda>_. True)"
    using assms(1) by (intro idle_step_ok) (simp_all add: same_pod_def recovering_def workable_def)
qed simp

text \<open>What follows the first two loops of the pass.\<close>

definition finish_pass ::
  "worker_env \<Rightarrow> call world \<Rightarrow> slurm_node list \<Rightarrow> pending_job list \<Rightarrow> pod list \<Rightarrow> worker_result worker_io" where
  "finish_pass env world nodes jobs qs = (case openTPUFootprints env of
      Inl e \<Rightarrow> io_fail (SliceError e)
    | Inr footprints \<Rightarrow> case Demands (we_pq env) jobs (env_pools env) footprints of
        (demands, rejected) \<Rightarrow>
          io_bind (assign_demands env world (node_map nodes) qs demands) (\<lambda>(counts, assigned).
          io_bind (io_each (idle_step env world (pool_map (env_pools env)) (node_map nodes) assigned) qs ([], [])) (\<lambda>(ready, pods2).
          io_ret \<lparr>wr_Status = statuses (env_pools env) pods2, wr_Ready = (rejected = []),
                 wr_Reason = (if rejected = [] then ''Ready'' else ''DemandRejected''),
                 wr_Rejection = (if rejected = [] then None else Some (hd rejected))\<rparr>)))"

lemma reconcileWorkers_phases:
  "reconcileWorkers env world (Some pods) (Some nodes) jobs =
     io_bind (io_map (pod_step env world (node_map nodes)) pods) (\<lambda>pods1.
     io_bind (io_each (orphan_step env world (map pd_Name pods)) nodes ()) (\<lambda>_. finish_pass env world nodes jobs pods1))"
  by (simp only: reconcileWorkers_def option.case Let_def finish_pass_def)

text \<open>All calls of the pass: those of the steps on single workers, and new pods with their claims.\<close>

lemma reconcileWorkers_ok:
  assumes "workable R pods" "R \<subseteq> pd_Name ` set pods"
  shows "io_ok (\<lambda>c. step_call nodes R c \<or> (\<exists>p. c = CreatePod p)) (reconcileWorkers env world (Some pods) (Some nodes) jobs) (\<lambda>_. True)"
proof -
  let ?I = "\<lambda>c. step_call nodes R c \<or> (\<exists>p. c = CreatePod p)"
  have mono: "io_ok ?I m Q" if "io_ok (step_call nodes R) m Q" for m :: "'a worker_io" and Q
    using that by (rule io_ok_mono) simp
  have assign: "io_ok ?I (assign_demands env world (node_map nodes) qs demands) (\<lambda>_. True)" for qs demands
    by (rule assign_demands_ok) (simp_all add: step_call_def)
  show ?thesis
    unfolding reconcileWorkers_phases
  proof (rule io_ok_bind[OF mono[OF pods_pass_ok[OF assms(1)]]], rule io_ok_bind[OF mono[OF orphans_pass_ok[OF assms(2)]]])
    fix qs u assume qs: "list_all2 same_pod pods qs"
    have idle: "io_ok ?I (io_bind (io_each (idle_step env world pools (node_map nodes) assigned) qs ([], [])) k) (\<lambda>_. True)"
      if "\<And>x. io_ok ?I (k x) (\<lambda>_. True)" for pools assigned and k :: "(string, int) gomap \<times> pod list \<Rightarrow> worker_result worker_io"
      by (rule io_ok_bind[OF mono[OF idle_pass_ok[OF assms(1) qs]]]) (rule that)
    show "io_ok ?I (finish_pass env world nodes jobs qs) (\<lambda>_. True)"
      unfolding finish_pass_def by (intro io_ok_case io_ok_fail io_ok_bind[OF assign] idle io_ok_ret TrueI)
  qed
qed

lemma cleanupClusterWorkers_ok:
  assumes "workable {} pods"
  shows "io_ok (step_call nodes {}) (cleanupClusterWorkers env world (Some pods) (Some nodes)) (\<lambda>_. True)"
proof -
  have look: "looked_up nodes (pd_Name q) (node_of (node_map nodes) q)" for q
    by (simp add: node_of_def looked_up_find)
  have step: "io_ok (step_call nodes {}) (cleanup_step env world (node_map nodes) p u) (\<lambda>_. True)" if "p \<in> set pods" for p u
    unfolding cleanup_step_def
    by (intro io_ok_if io_ok_fail io_ok_bind[OF cleanupWorker_ok[OF look]] io_ok_ret TrueI)
      (use assms that in \<open>simp_all add: workable_def\<close>)
  have each: "io_ok (step_call nodes {}) (io_each (cleanup_step env world (node_map nodes)) pods ()) (\<lambda>_. True)"
    by (rule io_ok_each) (simp_all add: step)
  show ?thesis
    unfolding cleanupClusterWorkers_def option.case
    by (intro io_ok_if io_ok_ret TrueI io_ok_bind[OF each])
qed

text \<open>
  C12. Busy workers are left alone. Whatever the calls of a pass answer, a Slurm node is deleted only when it is
  listed as idle and draining, and a worker pod is deleted only when its node is not listed or is listed so.
\<close>

theorem worker_removal_safe:
  assumes "workable {} pods"
    and "log = snd (reconcileWorkers env world (Some pods) (Some nodes) jobs []) \<or> log = snd (cleanupClusterWorkers env world (Some pods) (Some nodes) [])"
  shows "list_all (safe_call nodes) log"
proof -
  have imp: "step_call nodes {} c \<or> (\<exists>p. c = CreatePod p) \<Longrightarrow> safe_call nodes c" for c
    by (auto simp: step_call_def)
  have a: "list_all (\<lambda>c. step_call nodes {} c \<or> (\<exists>p. c = CreatePod p)) (snd (reconcileWorkers env world (Some pods) (Some nodes) jobs []))"
    by (rule io_ok_log[OF reconcileWorkers_ok prod.collapse[symmetric]]) (simp_all add: assms(1))
  have b: "list_all (step_call nodes {}) (snd (cleanupClusterWorkers env world (Some pods) (Some nodes) []))"
    by (rule io_ok_log[OF cleanupClusterWorkers_ok[OF assms(1)] prod.collapse[symmetric]])
  from assms(2) show ?thesis
    using a b by (elim disjE) (auto simp: list_all_iff intro: imp)
qed


section \<open>Limits of the pools\<close>

text \<open>The pods that a log creates in a pool, and the pods that count for its limit.\<close>

fun creates_in :: "string \<Rightarrow> call \<Rightarrow> bool" where
  "creates_in pool (CreatePod p) = (pod_pool p = pool)"
| "creates_in pool _ = False"

definition created :: "string \<Rightarrow> call list \<Rightarrow> int" where
  "created pool log = int (length (filter (creates_in pool) log))"

definition active :: "string \<Rightarrow> pod \<Rightarrow> bool" where
  "active pool p \<longleftrightarrow> pod_pool p = pool \<and> \<not> pd_Deleting p \<and> \<not> pd_Failed p \<and> \<not> recovering p"

definition active_count :: "string \<Rightarrow> pod list \<Rightarrow> int" where
  "active_count pool pods = int (length (filter (active pool) pods))"

lemma created_simps [simp]: "created q [] = 0" "created q (xs @ ys) = created q xs + created q ys" "0 \<le> created q xs"
  "created q (c # xs) = (if creates_in q c then 1 else 0) + created q xs"
  by (simp_all add: created_def)

lemma created_none: "list_all (\<lambda>c. \<forall>p. c \<noteq> CreatePod p) log \<Longrightarrow> created q log = 0"
proof (induction log)
  case (Cons c log)
  then show ?case by (cases c) (simp_all add: created_def)
qed simp

lemma io_ok_created: "io_ok I m Q \<Longrightarrow> (\<And>c p. I c \<Longrightarrow> c \<noteq> CreatePod p) \<Longrightarrow> io_spec m (\<lambda>r new. \<forall>q. created q new = 0)"
  unfolding io_ok_def by (erule io_spec_weaken) (auto intro!: created_none simp: list_all_iff)

lemma pod_pool_worker_pod [simp]: "pod_pool (worker_pod env pool d podName resources) = po_Name pool"
  by (simp add: pod_pool_def worker_pod_def Let_def gm_get_def map_of_gm_put)

definition wanted_in :: "string \<Rightarrow> demand list \<Rightarrow> int" where
  "wanted_in q ds = int (length (filter (\<lambda>d. de_PoolName d = q) ds))"

lemma wanted_in_simps [simp]: "wanted_in q [] = 0" "0 \<le> wanted_in q ds"
  "wanted_in q (d # ds) = (if de_PoolName d = q then 1 else 0) + wanted_in q ds"
  by (simp_all add: wanted_in_def)

lemma createWorker_created:
  "io_spec (createWorker env world pool d) (\<lambda>r new. \<forall>q. created q new \<le> (if po_Name pool = q then 1 else 0)
     \<and> (case r of Inl e \<Rightarrow> True | Inr p \<Rightarrow> created q new = (if po_Name pool = q then 1 else 0)))"
proof -
  let ?Q = "\<lambda>r new. \<forall>q. created q new \<le> (if po_Name pool = q then 1 else 0)
     \<and> (case r of Inl e \<Rightarrow> True | Inr (p :: pod) \<Rightarrow> created q new = (if po_Name pool = q then 1 else 0))"
  have claim: "io_spec (ensureWorkerClaim env world p) (\<lambda>r new. \<forall>q. created q new = 0)" for p
    by (rule io_ok_created[OF ensureWorkerClaim_ok[where I = "\<lambda>c. \<forall>q. c \<noteq> CreatePod q"]]) simp_all
  have call: "io_spec (done_call world c) (\<lambda>r new. new = [c])" for c
    unfolding done_call_def io_must_def
    by (rule io_spec_bind[OF io_spec_call[where Q = "\<lambda>r new. new = [c]"]]) (auto intro: io_spec_ret io_spec_fail)
  have inner: "io_spec (case x of None \<Rightarrow> io_fail e | Some y \<Rightarrow> io_bind (done_call world (CreatePod (f y)))
      (\<lambda>_. io_bind (ensureWorkerClaim env world (f y)) (\<lambda>_. io_ret (f y)))) ?Q"
    if "\<And>y. pod_pool (f y) = po_Name pool" for x :: "(quantity \<times> quantity) option" and e f
    by (auto intro!: io_spec_fail io_spec_ret io_spec_bind[OF call] io_spec_bind[OF claim] simp: that split: option.split)
  have here: "io_spec io_here (\<lambda>r new. new = [])" by (simp add: io_spec_def io_here_def)
  show ?thesis
    unfolding createWorker_def Let_def
  proof (rule io_spec_bind[OF here], goal_cases)
    case (2 n new)
    then show ?case by (simp only: append_Nil) (rule inner, simp)
  qed simp
qed

definition keyed :: "(string, worker_pool) gomap \<Rightarrow> demand list \<Rightarrow> bool" where
  "keyed pools ds \<longleftrightarrow> list_all (\<lambda>d. po_Name (gm_get zero_pool pools (de_PoolName d)) = de_PoolName d) ds"

lemma create_step_created:
  assumes "po_Name (gm_get zero_pool pools (de_PoolName d)) = de_PoolName d"
  shows "io_spec (create_step env world pools d counts) (\<lambda>r new. \<forall>q. created q new \<le> wanted_in q [d]
     \<and> (case r of Inl e \<Rightarrow> True | Inr counts' \<Rightarrow> gm_get 0 counts' q = gm_get 0 counts q + created q new))"
proof (cases "we_image env = []")
  case False
  show ?thesis
    unfolding create_step_def if_not_P[OF False]
  proof (rule io_spec_bind[OF createWorker_created], goal_cases)
    case (1 e new)
    then show ?case by (simp add: assms)
  next
    case (2 p new)
    then show ?case by (intro io_spec_ret) (simp add: assms gm_get_put)
  qed
qed (simp add: create_step_def io_spec_fail)

lemma creates_created:
  assumes "keyed pools ds"
  shows "io_spec (io_each (create_step env world pools) ds counts) (\<lambda>r new. \<forall>q. created q new \<le> wanted_in q ds
     \<and> (case r of Inl e \<Rightarrow> True | Inr counts' \<Rightarrow> gm_get 0 counts' q = gm_get 0 counts q + created q new))"
  using assms
proof (induction ds arbitrary: counts)
  case (Cons d ds)
  have k: "po_Name (gm_get zero_pool pools (de_PoolName d)) = de_PoolName d" and "keyed pools ds"
    using Cons.prems by (simp_all add: keyed_def)
  note IH = Cons.IH[OF this(2)]
  show ?case
    unfolding io_each.simps
  proof (rule io_spec_bind[OF create_step_created[OF k]], goal_cases)
    case (1 e new)
    then show ?case by (simp add: add_increasing2)
  next
    case (2 c new)
    show ?case
    proof (rule io_spec_weaken[OF IH], goal_cases)
      case (1 r new')
      then show ?case using 2 by (cases r) (simp_all add: add_mono)
    qed
  qed
qed (auto intro: io_spec_ret)

lemma create_counts_wanted:
  "map_of (create_counts ds) q = (if wanted_in q ds = 0 then None else Some (wanted_in q ds))"
proof -
  have "map_of (fold (\<lambda>d m. gm_put (de_PoolName d) (gm_get 0 m (de_PoolName d) + 1) m) ds m) q
      = (if wanted_in q ds = 0 then map_of m q else Some (gm_get 0 m q + wanted_in q ds))" for m
  proof (induction ds arbitrary: m)
    case (Cons d ds)
    have "wanted_in q ds \<noteq> -1" using wanted_in_simps(2)[of q ds] by linarith
    then show ?case by (auto simp: Cons.IH map_of_gm_put gm_get_put)
  qed simp
  from this[of "[]"] show ?thesis by (simp add: create_counts_def gm_get_def)
qed

lemma create_counts_mem: "wanted_in q ds \<noteq> 0 \<Longrightarrow> (q, wanted_in q ds) \<in> set (create_counts ds)"
  by (rule map_of_SomeD) (simp add: create_counts_wanted)

definition pool_limit :: "(string, worker_pool) gomap \<Rightarrow> string \<Rightarrow> int" where
  "pool_limit pools q = sc_MaxWorkers (po_Scaling (gm_get zero_pool pools q))"

lemma group_fits_limit: "group_fits env pools counts ds \<Longrightarrow> wanted_in q ds \<noteq> 0 \<Longrightarrow> gm_get 0 counts q + wanted_in q ds \<le> pool_limit pools q"
  using create_counts_mem[of q ds] unfolding group_fits_def pool_limit_def by (auto simp: list_all_iff)

lemma pool_map_Some: "map_of (pool_map pools) q = Some p \<Longrightarrow> p \<in> set pools \<and> po_Name p = q"
proof -
  have "map_of (fold (\<lambda>p. gm_put (po_Name p) p) ps m) q = Some p \<Longrightarrow> p \<in> set ps \<and> po_Name p = q \<or> map_of m q = Some p" for ps m
    by (induction ps arbitrary: m) (fastforce simp: map_of_gm_put split: if_splits)+
  from this[of pools "[]"] show "map_of (pool_map pools) q = Some p \<Longrightarrow> p \<in> set pools \<and> po_Name p = q"
    by (auto simp: pool_map_def)
qed

text \<open>A group with a demand for a pool that does not exist never fits, since the zero pool admits no worker.\<close>

lemma group_fits_keyed:
  assumes "group_fits env (pool_map pools) counts ds" "\<And>q. 0 \<le> gm_get 0 counts q"
  shows "keyed (pool_map pools) ds"
  unfolding keyed_def list_all_iff
proof
  fix d assume d: "d \<in> set ds"
  then have w: "0 < wanted_in (de_PoolName d) ds" by (auto simp: wanted_in_def filter_empty_conv)
  then have "0 < pool_limit (pool_map pools) (de_PoolName d)"
    using group_fits_limit[OF assms(1), of "de_PoolName d"] assms(2)[of "de_PoolName d"] by linarith
  then have "map_of (pool_map pools) (de_PoolName d) \<noteq> None"
    by (auto simp: pool_limit_def gm_get_def zero_pool_def split: option.splits)
  then show "po_Name (gm_get zero_pool (pool_map pools) (de_PoolName d)) = de_PoolName d"
    using pool_map_Some[of pools "de_PoolName d"] by (auto simp: gm_get_def)
qed

definition within :: "(string, worker_pool) gomap \<Rightarrow> (string, int) gomap \<Rightarrow> call list \<Rightarrow> bool" where
  "within pools counts new \<longleftrightarrow> (\<forall>q. created q new = 0 \<or> gm_get 0 counts q + created q new \<le> pool_limit pools q)"

definition counted :: "(string, int) gomap \<Rightarrow> (string, int) gomap \<Rightarrow> call list \<Rightarrow> bool" where
  "counted counts counts' new \<longleftrightarrow> (\<forall>q. gm_get 0 counts' q = gm_get 0 counts q + created q new)"

lemma within_append: "within pools counts new \<Longrightarrow> counted counts counts' new \<Longrightarrow> within pools counts' new' \<Longrightarrow> within pools counts (new @ new')"
  unfolding within_def
proof
  fix q
  assume "\<forall>q. created q new = 0 \<or> gm_get 0 counts q + created q new \<le> pool_limit pools q" "counted counts counts' new"
    "\<forall>q. created q new' = 0 \<or> gm_get 0 counts' q + created q new' \<le> pool_limit pools q"
  then have "created q new = 0 \<or> gm_get 0 counts q + created q new \<le> pool_limit pools q" "gm_get 0 counts' q = gm_get 0 counts q + created q new"
    "created q new' = 0 \<or> gm_get 0 counts' q + created q new' \<le> pool_limit pools q" by (simp_all add: counted_def)
  then show "created q (new @ new') = 0 \<or> gm_get 0 counts q + created q (new @ new') \<le> pool_limit pools q" by auto
qed

lemma counted_append: "counted counts counts' new \<Longrightarrow> counted counts' counts'' new' \<Longrightarrow> counted counts counts'' (new @ new')"
  by (simp add: counted_def)

lemma within_none [simp]: "(\<And>q. created q new = 0) \<Longrightarrow> within pools counts new"
  by (simp add: within_def)

lemma group_step_created:
  assumes "\<And>q. 0 \<le> gm_get 0 counts q"
  shows "io_spec (worker_group_step env world (pool_map pools) cands ds (counts, used)) (\<lambda>r new. within (pool_map pools) counts new
     \<and> (case r of Inl e \<Rightarrow> True | Inr (counts', _) \<Rightarrow> counted counts counts' new))"
proof -
  obtain loc creates where a: "assign_group cands used ds = (loc, creates)" by (cases "assign_group cands used ds")
  show ?thesis
  proof (cases "group_fits env (pool_map pools) counts creates")
    case False
    then show ?thesis by (auto simp: worker_group_step_def a counted_def intro!: io_spec_ret)
  next
    case True
    have k: "keyed (pool_map pools) creates" by (rule group_fits_keyed[OF True assms])
    have w: "within (pool_map pools) counts new" if "\<forall>q. created q new \<le> wanted_in q creates" for new
      unfolding within_def
    proof
      fix q
      have "created q new \<le> wanted_in q creates" "0 \<le> created q new" using that by simp_all
      then show "created q new = 0 \<or> gm_get 0 counts q + created q new \<le> pool_limit (pool_map pools) q"
        using group_fits_limit[OF True, of q] by (cases "wanted_in q creates = 0") auto
    qed
    have "io_spec (io_bind (io_each (create_step env world (pool_map pools)) creates counts) (\<lambda>counts'. io_ret (counts', used @ loc)))
       (\<lambda>r new. within (pool_map pools) counts new \<and> (case r of Inl e \<Rightarrow> True | Inr (counts', _) \<Rightarrow> counted counts counts' new))"
    proof (rule io_spec_bind[OF creates_created[OF k]], goal_cases)
      case (2 c new)
      then show ?case by (intro io_spec_ret) (auto simp: counted_def w)
    qed (auto simp: w)
    then show ?thesis using True by (simp add: worker_group_step_def a)
  qed
qed

lemma groups_created:
  assumes "\<And>q. 0 \<le> gm_get 0 counts q"
  shows "io_spec (io_each (\<lambda>g. worker_group_step env world (pool_map pools) cands (f g)) gs (counts, used))
     (\<lambda>r new. within (pool_map pools) counts new)"
  using assms
proof (induction gs arbitrary: counts used)
  case (Cons g gs)
  show ?case
    unfolding io_each.simps
  proof (rule io_spec_bind[OF group_step_created[OF Cons.prems]], goal_cases)
    case (2 s new)
    obtain counts' used' where s: "s = (counts', used')" by (cases s)
    have c: "within (pool_map pools) counts new" "counted counts counts' new" using 2 s by simp_all
    then have "0 \<le> gm_get 0 counts' q" for q using Cons.prems[of q] by (simp add: counted_def)
    from Cons.IH[OF this, of used'] show ?case
      unfolding s by (rule io_spec_weaken) (rule within_append[OF c])
  qed simp
qed (auto intro: io_spec_ret)

lemma candidates_count:
  assumes "for_each (candidate_step env pools nodeByName) pods (counts, cands) = Inr (counts', cands')" "map_of pools q \<noteq> None"
  shows "gm_get 0 counts' q = gm_get 0 counts q + active_count q pods"
  using assms(1)
proof (induction pods arbitrary: counts cands)
  case Nil
  then show ?case by (simp add: active_count_def)
next
  case (Cons p pods)
  obtain c1 k1 where step: "candidate_step env pools nodeByName p (counts, cands) = Inr (c1, k1)"
    and rest: "for_each (candidate_step env pools nodeByName) pods (c1, k1) = Inr (counts', cands')"
    using Cons.prems by (auto split: sum.splits)
  have "gm_get 0 c1 q = gm_get 0 counts q + (if active q p then 1 else 0)"
    using step assms(2)
    by (auto simp: candidate_step_def Let_def active_def recovering_def gm_get_put split: if_splits option.splits)
  then show ?case using Cons.IH[OF rest] by (simp add: active_count_def)
qed

lemma candidates_nonneg:
  assumes "for_each (candidate_step env pools nodeByName) pods (counts, cands) = Inr (counts', cands')" "\<And>q. 0 \<le> gm_get 0 counts q"
  shows "0 \<le> gm_get 0 counts' q"
  using assms
proof (induction pods arbitrary: counts cands)
  case (Cons p pods)
  obtain c1 k1 where step: "candidate_step env pools nodeByName p (counts, cands) = Inr (c1, k1)"
    and rest: "for_each (candidate_step env pools nodeByName) pods (c1, k1) = Inr (counts', cands')"
    using Cons.prems by (auto split: sum.splits)
  have "0 \<le> gm_get 0 c1 q" for q
    using step Cons.prems(2) by (auto simp: candidate_step_def Let_def gm_get_put split: if_splits option.splits)
  then show ?case by (rule Cons.IH[OF rest])
qed simp

lemma assign_created:
  "io_spec (assign_demands env world nodeByName pods demands)
     (\<lambda>r new. \<forall>q. map_of (pool_map (env_pools env)) q \<noteq> None \<longrightarrow>
        created q new = 0 \<or> active_count q pods + created q new \<le> pool_limit (pool_map (env_pools env)) q)"
proof (cases "for_each (candidate_step env (pool_map (env_pools env)) nodeByName) pods ([], [])")
  case (Inl e)
  then show ?thesis by (simp add: assign_demands_def Let_def io_res_def io_bind_def io_spec_def)
next
  case (Inr s)
  obtain counts cands where s: "s = (counts, cands)" by (cases s)
  have r: "for_each (candidate_step env (pool_map (env_pools env)) nodeByName) pods ([], []) = Inr (counts, cands)" using Inr s by simp
  have "\<And>q. 0 \<le> gm_get 0 counts q" by (rule candidates_nonneg[OF r]) (simp add: gm_get_def)
  from groups_created[OF this, of env world "env_pools env" cands "demands_of demands" "group_ids demands" "[]"]
  show ?thesis
    unfolding assign_demands_def Let_def r
    by (simp add: io_res_def io_bind_def)
      (erule io_spec_weaken, auto simp: within_def candidates_count[OF r] gm_get_def[of 0 "[]"])
qed

lemma active_count_same: "list_all2 same_pod ps qs \<Longrightarrow> active_count q qs = active_count q ps"
  by (induction rule: list_all2_induct) (auto simp: active_count_def active_def same_pod_def recovering_def pod_pool_def)

lemma step_call_creates_none: "step_call nodes R c \<Longrightarrow> c \<noteq> CreatePod p"
  by (simp add: step_call_def)

definition pools_within :: "worker_env \<Rightarrow> pod list \<Rightarrow> call list \<Rightarrow> bool" where
  "pools_within env pods new \<longleftrightarrow> (\<forall>q. map_of (pool_map (env_pools env)) q \<noteq> None \<longrightarrow>
     created q new = 0 \<or> active_count q pods + created q new \<le> pool_limit (pool_map (env_pools env)) q)"

lemma pools_within_append: "\<forall>q. created q new' = 0 \<Longrightarrow> pools_within env pods new \<Longrightarrow> pools_within env pods (new @ new')"
  by (simp add: pools_within_def)

lemma idle_pass_created:
  assumes "workable R pods" "list_all2 same_pod pods qs"
  shows "io_spec (io_each (idle_step env world pools (node_map nodes) assigned) qs s) (\<lambda>r new. \<forall>q. created q new = 0)"
  by (rule io_ok_created[OF idle_pass_ok[OF assms]]) (simp add: step_call_def)

lemma finish_pass_created:
  assumes "workable R pods" "list_all2 same_pod pods qs"
  shows "io_spec (finish_pass env world nodes jobs qs) (\<lambda>r new. pools_within env pods new)"
proof -
  have assign: "io_spec (assign_demands env world (node_map nodes) qs demands) (\<lambda>r new. pools_within env pods new)" for demands
    using assign_created[of env world "node_map nodes" qs demands] by (simp only: active_count_same[OF assms(2)] pools_within_def)
  have idle: "io_spec (io_bind (io_each (idle_step env world pools (node_map nodes) assigned) qs s) (\<lambda>(ready, pods2). io_ret (k pods2)))
      (\<lambda>r new'. pools_within env pods (new @ new'))" if "pools_within env pods new" for pools assigned s k new
    by (rule io_spec_bind[OF idle_pass_created[OF assms]])
      (auto intro!: io_spec_ret io_spec_case_prod pools_within_append that)
  show ?thesis
    unfolding finish_pass_def
    by (cases "openTPUFootprints env")
      (auto intro!: io_spec_fail io_spec_case_prod io_spec_bind[OF assign] idle simp: pools_within_def[of _ _ "[]"])
qed

lemma pool_map_get:
  assumes "distinct (map po_Name pools)" "p \<in> set pools"
  shows "map_of (pool_map pools) (po_Name p) = Some p"
proof -
  have "map_of (fold (\<lambda>p. gm_put (po_Name p) p) ps m) (po_Name p) = (if p \<in> set ps then Some p else map_of m (po_Name p))"
    if "distinct (map po_Name ps)" "\<And>q. q \<in> set ps \<Longrightarrow> po_Name q = po_Name p \<Longrightarrow> q = p" for ps m
    using that
  proof (induction ps arbitrary: m)
    case (Cons q ps)
    have "map_of (fold (\<lambda>p. gm_put (po_Name p) p) ps (gm_put (po_Name q) q m)) (po_Name p)
        = (if p \<in> set ps then Some p else map_of (gm_put (po_Name q) q m) (po_Name p))"
      using Cons.prems by (intro Cons.IH) auto
    then show ?case using Cons.prems(2)[of q] by (auto simp: map_of_gm_put)
  qed simp
  moreover have "q = p" if "q \<in> set pools" "po_Name q = po_Name p" for q
    using assms that by (simp add: distinct_map inj_on_def)
  ultimately show ?thesis using assms by (simp add: pool_map_def)
qed

text \<open>
  C13. A pool never grows past its limit: the pods that a pass creates in a pool, together with those that are
  active in it, stay within the maximum of the pool, also when calls of the pass fail.
\<close>

theorem worker_limit:
  assumes "list_all (\<lambda>q. pd_Name q \<noteq> []) pods" "distinct (map po_Name (env_pools env))" "pool \<in> set (env_pools env)"
    and "log = snd (reconcileWorkers env world (Some pods) (Some nodes) jobs [])"
  shows "created (po_Name pool) log = 0 \<or> active_count (po_Name pool) pods + created (po_Name pool) log \<le> sc_MaxWorkers (po_Scaling pool)"
proof -
  have w: "workable {} pods" using assms(1) by (simp add: workable_def list_all_iff)
  have none: "io_spec m (\<lambda>r new. \<forall>q. created q new = 0)" if "io_ok (step_call nodes {}) m Q" for m :: "unit worker_io" and Q
    using that by (rule io_ok_created) (simp add: step_call_def)
  have pods: "io_spec (io_map (pod_step env world (node_map nodes)) pods)
      (\<lambda>r new. (\<forall>q. created q new = 0) \<and> (case r of Inl e \<Rightarrow> True | Inr qs \<Rightarrow> list_all2 same_pod pods qs))"
    using pods_pass_ok[OF w] unfolding io_ok_def
    by (rule io_spec_weaken) (auto intro!: created_none simp: step_call_def list_all_iff)
  have "io_spec (reconcileWorkers env world (Some pods) (Some nodes) jobs) (\<lambda>r new. pools_within env pods new)"
    unfolding reconcileWorkers_phases
  proof (rule io_spec_bind[OF pods], goal_cases)
    case (2 qs new)
    then have qs: "list_all2 same_pod pods qs" by simp
    show ?case
    proof (rule io_spec_bind[OF none[OF orphans_pass_ok[of "{}"]]], goal_cases)
      case (3 u new')
      show ?case by (rule io_spec_weaken[OF finish_pass_created[OF w qs]]) (use 2 3 in \<open>simp add: pools_within_def\<close>)
    qed (use 2 in \<open>simp_all add: pools_within_def\<close>)
  qed (simp add: pools_within_def)
  from io_spec_run[OF this prod.collapse[symmetric]] have "pools_within env pods log" by (simp add: assms(4))
  then show ?thesis
    using pool_map_get[OF assms(2,3)] by (auto simp: pools_within_def pool_limit_def gm_get_def)
qed

end
