(* ===== verification/Worker_Demo.thy ===== *)
theory Worker_Demo
  imports Worker_Choice Render_Props
begin

text \<open>A small cluster with three workers, on which the properties of the worker pass are applied.\<close>

definition demo_worker :: "string \<Rightarrow> (string, string) gomap \<Rightarrow> pod" where
  "demo_worker name annotations = \<lparr>pd_Name = name, pd_Namespace = ''ns'', pd_UID = name, pd_Controller = Some ''u'',
     pd_Labels = [(workerPoolLabel, ''a100'')], pd_Annotations = annotations, pd_Finalizers = [workerFinalizer], pd_Deleting = False,
     pd_Failed = False, pd_Conditions = [(''Ready'', ''True'')], pd_Spec = plain_pod_spec [] [] NoPodSecurity\<rparr>"

definition demo_node :: "string \<Rightarrow> string list \<Rightarrow> slurm_node" where
  "demo_node name state = \<lparr>sn_Name = name, sn_State = state, sn_Reservation = [], sn_AllocCPUs = 0, sn_AllocMemory = 0, sn_GRESUsed = []\<rparr>"

definition demo_small :: shape where
  "demo_small = \<lparr>sh_CPUs = 5, sh_MemoryBytes = 8, sh_SharedMemoryBytes = 0, sh_GRES = [(''gpu:a100'', 2)]\<rparr>"

definition demo_env :: worker_env where
  "demo_env = \<lparr>we_cluster = demo_cluster, we_uid = ''u'', we_image = ''worker'', we_headroom = 0, we_maxSize = 32, we_pq = (\<lambda>_. Some 8),
     we_now = 0, we_parseTime = (\<lambda>s. if s = ''t'' then Some (-300) else None), we_fmtTime = (\<lambda>_. ''now''), we_decShape = (\<lambda>_. Some demo_small), we_encShape = (\<lambda>_. ''shape''),
     we_rand = (\<lambda>_. ''ABCDEFGHIJKL''), we_podUID = (\<lambda>n. n), we_readClaim = (\<lambda>_. ClaimMissing), we_getClaim = (\<lambda>_. ClaimMissing),
     we_slices = Some []\<rparr>"

definition demo_pods :: "pod list" where
  "demo_pods = [demo_worker ''w1'' [(workerDrainAnnotation, ''true'')], demo_worker ''w2'' [(workerRecoveryAnnotation, ''i'')],
     demo_worker ''w3'' [(workerDrainAnnotation, ''true'')]]"

definition demo_nodes :: "slurm_node list" where
  "demo_nodes = [demo_node ''w1'' [''IDLE'', ''DRAIN''], demo_node ''w2'' [''DOWN''], demo_node ''w3'' [''ALLOCATED'', ''DRAIN'']]"

lemma demo_cleanup_log:
  "snd (cleanupClusterWorkers demo_env (\<lambda>_ _. Done) (Some demo_pods) (Some demo_nodes) []) =
   [DeleteNodeCall ''w1'', UpdatePod ((demo_worker ''w1'' [(workerDrainAnnotation, ''true'')])\<lparr>pd_Finalizers := []\<rparr>), DeletePod ''w1'',
    DrainCall ''w2'' ''elastic worker removal'',
    UpdatePod (demo_worker ''w2'' [(workerRecoveryAnnotation, ''i''), (workerDrainAnnotation, ''true'')])]"
  by code_simp

theorem worker_removal_safe_witness:
  "list_all (safe_call demo_nodes)
     [DeleteNodeCall ''w1'', UpdatePod ((demo_worker ''w1'' [(workerDrainAnnotation, ''true'')])\<lparr>pd_Finalizers := []\<rparr>), DeletePod ''w1'',
      DrainCall ''w2'' ''elastic worker removal'',
      UpdatePod (demo_worker ''w2'' [(workerRecoveryAnnotation, ''i''), (workerDrainAnnotation, ''true'')])]"
  by (rule worker_removal_safe[of demo_pods _ demo_env "\<lambda>_ _. Done" demo_nodes "[]"])
    (simp_all add: workable_def demo_pods_def demo_worker_def demo_cleanup_log[unfolded demo_worker_def demo_pods_def])







lemma demo_pools: "env_pools demo_env = [demo_pool, demo_pool\<lparr>po_Name := ''cpu'', po_Partition := ''cpu''\<rparr>]"
  by (simp add: demo_env_def env_pools_def demo_cluster_def)

lemma demo_pool_values: "po_Name demo_pool = ''a100''" "sc_MaxWorkers (po_Scaling demo_pool) = 4"
  by (simp_all add: demo_pool_def)

theorem worker_limit_witness:
  "created (po_Name demo_pool) (snd (reconcileWorkers demo_env (\<lambda>_ _. Done) (Some demo_pods) (Some demo_nodes) [demo_job] [])) = 0
   \<or> active_count (po_Name demo_pool) demo_pods + created (po_Name demo_pool) (snd (reconcileWorkers demo_env (\<lambda>_ _. Done) (Some demo_pods) (Some demo_nodes) [demo_job] []))
      \<le> sc_MaxWorkers (po_Scaling demo_pool)"
  by (rule worker_limit[OF _ _ _ refl]) (simp_all add: demo_pools demo_pool_values demo_pods_def demo_worker_def)



lemma demo_idle:
  "io_each (idle_step demo_env (\<lambda>_ _. Done) (pool_map (env_pools demo_env)) (node_map [demo_node ''w1'' [''IDLE''], demo_node ''w2'' [''IDLE'']]) [])
     [demo_worker ''w1'' [(workerIdleAnnotation, ''t'')], demo_worker ''w2'' []] ([], []) [] =
   (Inr ([(''a100'', 1)], [demo_worker ''w1'' [(workerIdleAnnotation, ''t''), (workerDrainAnnotation, ''true'')], demo_worker ''w2'' [(workerIdleAnnotation, ''now'')]]),
    [DrainCall ''w1'' ''elastic worker removal'', UpdatePod (demo_worker ''w1'' [(workerIdleAnnotation, ''t''), (workerDrainAnnotation, ''true'')]),
     UpdatePod (demo_worker ''w2'' [(workerIdleAnnotation, ''now'')])])"
  by code_simp

theorem idle_floor_witness:
  "min (sc_MinReady (po_Scaling demo_pool)) (ready_count (po_Name demo_pool) [demo_worker ''w1'' [(workerIdleAnnotation, ''t'')], demo_worker ''w2'' []])
   \<le> ready_count (po_Name demo_pool) [demo_worker ''w1'' [(workerIdleAnnotation, ''t''), (workerDrainAnnotation, ''true'')], demo_worker ''w2'' [(workerIdleAnnotation, ''now'')]]"
  by (rule idle_floor[OF _ _ _ demo_idle]) (simp_all add: demo_pools demo_pool_values demo_worker_def)

end
