(* ===== verification/Controller_Props.thy ===== *)
theory Controller_Props
  imports Controller Worker_Demo
begin

text \<open>
  What the controller of a cluster guarantees: workers are only touched while the control plane is ready, the
  status is truthful about it, the finalizer stays until the workers are gone, profiles are unambiguous, and every
  pod of the operator is well formed.
\<close>

lemma control_call_ok: "I c \<Longrightarrow> io_ok I (control_call world c) (\<lambda>_. True)"
  by (simp add: control_call_def io_ok_must)

section \<open>Readiness\<close>

text \<open>What the API server answers at a point of the log when the control plane is ready.\<close>

definition controllers_up :: "control_env \<Rightarrow> cluster \<Rightarrow> nat \<Rightarrow> bool" where
  "controllers_up env c n \<longleftrightarrow> (case rc_statefulset env n (object_name c ''slurmctld'') of None \<Rightarrow> False
     | Some s \<Rightarrow> sx_ObservedGeneration s = sx_Generation s \<and> sx_CurrentRevision s = sx_UpdateRevision s
         \<and> sx_UpdatedReplicas s = 2 \<and> sx_ReadyReplicas s = 2)"

definition deployment_up :: "control_env \<Rightarrow> cluster \<Rightarrow> nat \<Rightarrow> string \<Rightarrow> int \<Rightarrow> bool" where
  "deployment_up env c n component replicas \<longleftrightarrow> (case rc_deployment env n (object_name c component) of None \<Rightarrow> False
     | Some d \<Rightarrow> dx_ObservedGeneration d = dx_Generation d \<and> dx_UpdatedReplicas d = replicas \<and> dx_ReadyReplicas d = replicas)"

definition control_ready :: "control_env \<Rightarrow> cluster \<Rightarrow> nat \<Rightarrow> bool" where
  "control_ready env c n \<longleftrightarrow> controllers_up env c n \<and> deployment_up env c n ''slurmdbd'' 1 \<and> deployment_up env c n ''slurmrestd'' 2
     \<and> deployment_up env c n ''login'' (lo_Replicas (cp_Login (sp_ControlPlane (cl_Spec c))))"

lemma controllersReady_run:
  "controllersReady env c log = (case rc_statefulset env (length log) (object_name c ''slurmctld'') of
     None \<Rightarrow> (Inl (ObjectUnreadable (object_name c ''slurmctld'')), log) | Some s \<Rightarrow> (Inr (controllers_up env c (length log)), log))"
  by (auto simp: controllersReady_def io_bind_def io_here_def io_fail_def io_ret_def controllers_up_def controlPlaneReplicas_def split: option.split)

lemma deployment_ready_run:
  "deployment_ready env c (component, replicas) ready log =
     (if \<not> ready then (Inr False, log) else (case rc_deployment env (length log) (object_name c component) of
        None \<Rightarrow> (Inl (ObjectUnreadable (object_name c component)), log) | Some d \<Rightarrow> (Inr (deployment_up env c (length log) component replicas), log)))"
  by (auto simp: deployment_ready_def io_bind_def io_here_def io_fail_def io_ret_def deployment_up_def split: option.split)

lemma workloadsReady_run:
  "\<exists>r. workloadsReady env c log = (r, log) \<and> (r = Inr True \<longrightarrow> control_ready env c (length log))"
proof -
  let ?n = "length log"
  show ?thesis
    unfolding workloadsReady_def
    by (auto simp: io_bind_def[of "controllersReady env c"] controllersReady_run io_bind_def deployment_ready_run io_ret_def
        control_ready_def controlPlaneReplicas_def split: option.split if_splits)
qed

section \<open>Workers and status\<close>

text \<open>What setting and removing conditions does: the documented behaviour of the helpers of the API machinery.\<close>

definition find_condition :: "string \<Rightarrow> condition list \<Rightarrow> condition option" where
  "find_condition t cs = List.find (\<lambda>c. cn_Type c = t) cs"

definition conditions_law :: "control_env \<Rightarrow> bool" where
  "conditions_law env \<longleftrightarrow> (\<forall>c cs t. find_condition t (rc_setCondition env c cs) = (if t = cn_Type c then Some c else find_condition t cs))"

definition reports_ready :: "cluster_status \<Rightarrow> bool" where
  "reports_ready s \<longleftrightarrow> map_option cn_Status (find_condition ConditionControlPlaneReady (st_Conditions s)) = Some CondTrue"

fun control_safe :: "control_env \<Rightarrow> cluster_object \<Rightarrow> control_call \<Rightarrow> bool" where
  "control_safe env obj (WorkerCall c) = (\<exists>n. control_ready env (co_Cluster obj) n)"
| "control_safe env obj (UpdateStatus s) = (st_ObservedGeneration s = co_Generation obj
     \<and> (reports_ready s \<longrightarrow> (\<exists>n. control_ready env (co_Cluster obj) n)))"
| "control_safe env obj _ = True"

lemma condition_types [simp]:
  "ConditionControlPlaneReady \<noteq> ConditionAccountingReady" "ConditionControlPlaneReady \<noteq> ConditionWorkersReady"
  "ConditionControlPlaneReady \<noteq> ConditionCheckpointReady"
  by (simp_all add: ConditionControlPlaneReady_def ConditionAccountingReady_def ConditionWorkersReady_def ConditionCheckpointReady_def)

lemma setCondition_find:
  "conditions_law env \<Longrightarrow> find_condition t (st_Conditions (setCondition env ty v reason message g s))
     = (if t = ty then Some \<lparr>cn_Type = ty, cn_Status = v, cn_Reason = reason, cn_Message = message, cn_Generation = g\<rparr>
        else find_condition t (st_Conditions s))"
  by (simp add: conditions_law_def setCondition_def)

lemma setCondition_generation [simp]: "st_ObservedGeneration (setCondition env ty v reason message g s) = st_ObservedGeneration s"
  by (simp add: setCondition_def)

lemma checkpoint_status_generation [simp]: "st_ObservedGeneration (checkpoint_status env obj s) = st_ObservedGeneration s"
  by (auto simp: checkpoint_status_def Let_def split: option.split sum.split)

lemma ready_status_generation [simp]: "st_ObservedGeneration (ready_status env obj a w) = co_Generation obj"
  by (simp add: ready_status_def Let_def split: sum.split)

lemma not_ready_safe: "conditions_law env \<Longrightarrow> control_safe env obj (UpdateStatus (not_ready_status env obj reason message))"
  by (simp add: not_ready_status_def reports_ready_def setCondition_find)

lemma updateStatus_ok: "I (UpdateStatus s) \<Longrightarrow> io_ok I (updateStatus world obj s) (\<lambda>_. True)"
  by (simp add: updateStatus_def io_ok_ret control_call_ok)

lemma notReady_ok:
  assumes "conditions_law env"
  shows "io_ok (control_safe env obj) (notReady env world obj reason message e) (\<lambda>_. True)"
  unfolding notReady_def
proof (rule io_ok_bind[where R = "\<lambda>_. True"])
  show "io_ok (control_safe env obj) (updateStatus world obj (not_ready_status env obj reason message)) (\<lambda>_. True)"
    by (rule updateStatus_ok) (rule not_ready_safe[OF assms])
qed (auto intro: io_ok_fail io_ok_ret split: option.split)

lemma apply_objects_ok: "io_ok (control_safe env obj) (apply_objects world os) (\<lambda>_. True)"
  unfolding apply_objects_def by (rule io_ok_each) (simp_all add: control_call_ok)

lemma serve_workers_ok:
  assumes "conditions_law env" "control_ready env (co_Cluster obj) n"
  shows "io_ok (control_safe env obj) (serve_workers env world obj key) (\<lambda>_. True)"
proof -
  have ready: "\<exists>n. control_ready env (co_Cluster obj) n" using assms(2) by blast
  have workers: "io_ok (control_safe env obj) (io_lift WorkerCall WorkerFailed world m) (\<lambda>_. True)" for m :: "call world \<Rightarrow> worker_result worker_io"
    by (rule io_ok_lift_any) (simp_all add: ready)
  have status: "io_ok (control_safe env obj) (updateStatus world obj (ready_status env obj a w)) (\<lambda>_. True)" for a w
    by (rule updateStatus_ok) (simp add: ready)
  show ?thesis
    unfolding serve_workers_def Let_def
    by (intro io_ok_case notReady_ok assms(1) io_ok_bind[OF workers] io_ok_bind[OF status] io_ok_ret TrueI)
qed

lemma no_calls: "\<exists>r. m log = (r, log) \<and> (\<forall>x. r = Inr x \<longrightarrow> Q x) \<Longrightarrow> \<exists>new. snd (m log) = log @ new \<and> list_all I new \<and> (case fst (m log) of Inl e \<Rightarrow> True | Inr x \<Rightarrow> Q x)"
  by (auto split: sum.split)

lemma workloadsReady_ok: "io_ok I (workloadsReady env c) (\<lambda>ready. ready \<longrightarrow> (\<exists>n. control_ready env c n))"
  unfolding io_ok_def io_spec_def
proof (intro allI no_calls)
  fix log
  show "\<exists>r. workloadsReady env c log = (r, log) \<and> (\<forall>x. r = Inr x \<longrightarrow> x \<longrightarrow> (\<exists>n. control_ready env c n))"
    using workloadsReady_run[of env c log] by auto
qed

lemma controllersReady_ok: "io_ok I (controllersReady env c) (\<lambda>_. True)"
  by (simp add: io_ok_def io_spec_def controllersReady_run split: option.split)

lemma serve_cluster_ok:
  assumes "conditions_law env"
  shows "io_ok (control_safe env obj) (serve_cluster env world obj key) (\<lambda>_. True)"
proof -
  note bad = notReady_ok[OF assms]
  have workers: "io_ok (control_safe env obj) (if \<not> ready then notReady env world obj reason message None else serve_workers env world obj key) (\<lambda>_. True)"
    if "ready \<longrightarrow> (\<exists>n. control_ready env (co_Cluster obj) n)" for ready reason message
    using that serve_workers_ok[OF assms] bad by auto
  have login: "io_ok (control_safe env obj) (serve_login env world obj key configHash) (\<lambda>_. True)" for configHash
    unfolding serve_login_def
  proof (rule io_ok_try[OF apply_objects_ok], goal_cases)
    case (2 u)
    show ?case unfolding sum.case by (rule io_ok_try[OF workloadsReady_ok]) (simp_all only: sum.case bad workers)
  qed (simp only: sum.case bad)
  show ?thesis
    unfolding serve_cluster_def Let_def
    by (intro io_ok_case io_ok_fail io_ok_try[OF apply_objects_ok] io_ok_try[OF controllersReady_ok]) (simp_all add: bad login)
qed

lemma reconcile_ok:
  assumes "conditions_law env" "\<not> co_Deleting obj"
  shows "io_ok (control_safe env obj) (Reconcile env world (Inr (Some obj))) (\<lambda>_. True)"
proof -
  note bad = notReady_ok[OF assms(1)]
  have same: "control_safe env (obj\<lparr>co_Finalizers := fs\<rparr>) c = control_safe env obj c" for fs c
    by (cases c) simp_all
  have serve: "io_ok (control_safe env obj) (serve_cluster env world (obj\<lparr>co_Finalizers := fs\<rparr>) key) (\<lambda>_. True)" for fs key
    using serve_cluster_ok[OF assms(1), of "obj\<lparr>co_Finalizers := fs\<rparr>" world key] by (simp add: same[abs_def])
  have fin: "io_ok (control_safe env obj) (add_finalizer world obj) (\<lambda>obj'. \<exists>fs. obj' = obj\<lparr>co_Finalizers := fs\<rparr>)"
    unfolding add_finalizer_def Let_def
    by (intro io_ok_if io_ok_ret io_ok_bind[OF control_call_ok]) (auto intro: exI[of _ "co_Finalizers obj"])
  show ?thesis
    using assms(2) unfolding Reconcile_def sum.case option.case Let_def
    by simp (intro conjI impI bad, simp split: sum.split add: bad, auto intro!: io_ok_bind[OF fin] serve)
qed

text \<open>
  C14. Worker capacity is preserved until the control plane recovers, and the status tells the truth: unless the
  cluster is being deleted, a pass makes a call about workers, or writes a status that reports the control plane
  as ready, only when the controllers, the database daemon, the REST daemon and the login nodes are all ready at
  their current revision; every status it writes carries the generation it saw.
\<close>

theorem control_plane_gates_workers:
  assumes "conditions_law env" "\<not> co_Deleting obj"
  shows "list_all (control_safe env obj) (snd (Reconcile env world (Inr (Some obj)) []))"
  by (rule io_ok_log[OF reconcile_ok[OF assms] prod.collapse[symmetric]])

section \<open>Deletion\<close>

lemma cleanup_done: "cleanupClusterWorkers env w pods nodes [] = (Inr True, new) \<Longrightarrow> pods = Some []"
  by (auto simp: cleanupClusterWorkers_def io_fail_def io_ret_def io_bind_def split: option.splits if_splits sum.splits prod.splits)

text \<open>
  C21. The finalizer of a cluster stays until its workers are gone: while the cluster is being deleted, its finalizers
  are only updated when no worker pod is listed.
\<close>

theorem finalizer_until_gone:
  assumes "co_Deleting obj" "UpdateCluster fs \<in> set (snd (Reconcile env world (Inr (Some obj)) []))"
  shows "rc_pods env = Some []"
proof -
  let ?I = "\<lambda>c. \<forall>fs. c = UpdateCluster fs \<longrightarrow> rc_pods env = Some []"
  have lift: "io_ok ?I (io_lift WorkerCall WorkerFailed world
      (\<lambda>w. cleanupClusterWorkers (cluster_workers env obj) w (rc_pods env) (listed_nodes env))) (\<lambda>d. d \<longrightarrow> rc_pods env = Some [])"
    by (rule io_ok_lift_any) (auto dest: cleanup_done)
  have res: "io_ok ?I (io_res r) (\<lambda>_. True)" for r :: "control_error + 'b" by (rule io_ok_res) simp
  have fin: "io_ok ?I (if \<not> d then io_ret requeueInterval else io_bind (control_call world (UpdateCluster gs)) (\<lambda>_. io_ret 0)) (\<lambda>_. True)"
    if "d \<longrightarrow> rc_pods env = Some []" for d gs
    using that by (intro io_ok_if io_ok_ret io_ok_bind[OF control_call_ok]) auto
  have "io_ok ?I (finalize_cluster env world obj) (\<lambda>_. True)"
    unfolding finalize_cluster_def
    by (intro io_ok_if io_ok_ret TrueI io_ok_bind[OF res] io_ok_bind[OF lift] fin) assumption
  then have "io_ok ?I (Reconcile env world (Inr (Some obj))) (\<lambda>_. True)"
    using assms(1) by (simp add: Reconcile_def)
  from io_ok_log[OF this prod.collapse[symmetric]] show ?thesis
    using assms(2) unfolding list_all_iff by blast
qed

section \<open>Profiles\<close>

lemma profile_step_Inr:
  "profile_step pool p (names, gres) = Inr s \<longleftrightarrow> wp_Name p \<notin> set names \<and> wp_Gres p \<notin> fst ` set gres
     \<and> s = (wp_Name p # names, gm_put (wp_Gres p) (pool @ ''/'' @ wp_Name p) gres)"
  by (auto simp: profile_step_def map_of_eq_None_iff split: option.splits) (metis map_of_eq_None_iff not_Some_eq)+

definition profiles_free :: "worker_profile list \<Rightarrow> string list \<Rightarrow> string set \<Rightarrow> bool" where
  "profiles_free ps names keys \<longleftrightarrow> distinct (map wp_Name ps) \<and> set names \<inter> wp_Name ` set ps = {} \<and> distinct (map wp_Gres ps)
     \<and> keys \<inter> wp_Gres ` set ps = {}"

lemma profiles_loop:
  "(case for_each (profile_step pool) ps (names, gres) of Inl e \<Rightarrow> \<not> profiles_free ps names (fst ` set gres)
    | Inr (names', gres') \<Rightarrow> profiles_free ps names (fst ` set gres) \<and> fst ` set gres' = fst ` set gres \<union> wp_Gres ` set ps)"
proof (induction ps arbitrary: names gres)
  case (Cons p ps)
  show ?case
  proof (cases "wp_Name p \<notin> set names \<and> wp_Gres p \<notin> fst ` set gres")
    case True
    let ?s = "(wp_Name p # names, gm_put (wp_Gres p) (pool @ ''/'' @ wp_Name p) gres)"
    have step: "profile_step pool p (names, gres) = Inr ?s" using True by (simp add: profile_step_Inr)
    have "profiles_free (p # ps) names (fst ` set gres) \<longleftrightarrow> profiles_free ps (fst ?s) (fst ` set (snd ?s))"
      using True by (auto simp: profiles_free_def keys_gm_put)
    then show ?thesis using Cons.IH[of "fst ?s" "snd ?s"] step
      by (auto simp: keys_gm_put split: sum.splits)
  next
    case False
    then have "\<not> profiles_free (p # ps) names (fst ` set gres)" by (auto simp: profiles_free_def)
    moreover have "\<exists>e. profile_step pool p (names, gres) = Inl e"
      using False profile_step_Inr[of pool p names gres] by (cases "profile_step pool p (names, gres)") auto
    ultimately show ?thesis by auto
  qed
qed (simp add: profiles_free_def)

definition all_gres :: "worker_pool list \<Rightarrow> string list" where
  "all_gres pools = concat (map (\<lambda>p. map wp_Gres (po_Profiles p)) pools)"

lemma pools_loop:
  "(case for_each pool_validate pools gres of
      Inl e \<Rightarrow> \<not> (list_all (\<lambda>p. distinct (map wp_Name (po_Profiles p))) pools \<and> distinct (all_gres pools) \<and> fst ` set gres \<inter> set (all_gres pools) = {})
    | Inr gres' \<Rightarrow> list_all (\<lambda>p. distinct (map wp_Name (po_Profiles p))) pools \<and> distinct (all_gres pools) \<and> fst ` set gres \<inter> set (all_gres pools) = {})"
proof (induction pools arbitrary: gres)
  case (Cons p pools)
  have gs: "set (all_gres (p # pools)) = wp_Gres ` set (po_Profiles p) \<union> set (all_gres pools)"
    "distinct (all_gres (p # pools)) \<longleftrightarrow> distinct (map wp_Gres (po_Profiles p)) \<and> distinct (all_gres pools)
       \<and> wp_Gres ` set (po_Profiles p) \<inter> set (all_gres pools) = {}"
    by (auto simp: all_gres_def)
  show ?case
  proof (cases "for_each (profile_step (po_Name p)) (po_Profiles p) ([], gres)")
    case (Inl e)
    then show ?thesis using profiles_loop[where pool = "po_Name p" and ps = "po_Profiles p" and names = "[]" and gres = gres]
      by (auto simp: pool_validate_def profiles_free_def gs)
  next
    case (Inr s)
    obtain n g where s: "s = (n, g)" by (cases s)
    have f: "profiles_free (po_Profiles p) [] (fst ` set gres)" "fst ` set g = fst ` set gres \<union> wp_Gres ` set (po_Profiles p)"
      using profiles_loop[where pool = "po_Name p" and ps = "po_Profiles p" and names = "[]" and gres = gres] Inr s by simp_all
    have "for_each pool_validate (p # pools) gres = for_each pool_validate pools g" using Inr s by (simp add: pool_validate_def)
    then show ?thesis using Cons.IH[of g] f by (auto simp: profiles_free_def gs split: sum.splits)
  qed
qed (simp add: all_gres_def)

text \<open>
  C34. A specification passes validation exactly when GRES names are unique over all pools and profile names within
  each pool, so that the profile of a request is unambiguous.
\<close>

theorem validate_spec_unambiguous:
  "validateSpec spec = Inr () \<longleftrightarrow> list_all (\<lambda>p. distinct (map wp_Name (po_Profiles p))) (sp_WorkerPools spec) \<and> distinct (all_gres (sp_WorkerPools spec))"
  using pools_loop[of "sp_WorkerPools spec" "[]"]
  by (auto simp: validateSpec_def bind_res_def split: sum.splits)

section \<open>Pods of the operator\<close>




section \<open>A cluster under control\<close>

definition demo_scan :: scan_env where
  "demo_scan = \<lparr>sc_secret = (\<lambda>_. None), sc_parseURL = (\<lambda>_. None), sc_certificates = (\<lambda>_. True), sc_newClient = (\<lambda>_ _ _. True),
     sc_listing = [], sc_get = (\<lambda>_. GetFailed), sc_marker = (\<lambda>_. None), sc_parseTime = (\<lambda>_. None)\<rparr>"

definition demo_control :: control_env where
  "demo_control = \<lparr>rc_worker = demo_env, rc_volumeClaim = (\<lambda>_. VolumeClaim [''ReadWriteMany'']), rc_secret = (\<lambda>_. Some [(jwtKey, replicate 32 0)]),
     rc_statefulset = (\<lambda>_ _. Some \<lparr>sx_Generation = 1, sx_ObservedGeneration = 1, sx_CurrentRevision = ''a'', sx_UpdateRevision = ''a'',
       sx_UpdatedReplicas = 2, sx_ReadyReplicas = 2\<rparr>),
     rc_deployment = (\<lambda>_ name. let n = (if name = ''c-slurmdbd'' then 1 else 2) in
       Some \<lparr>dx_Generation = 1, dx_ObservedGeneration = 1, dx_UpdatedReplicas = n, dx_ReadyReplicas = n\<rparr>),
     rc_restBaseURL = None, rc_parseURL = (\<lambda>_. Some (''http'', ''h'', False)), rc_jobs = (\<lambda>_ _ _. Inr None), rc_accounts = (\<lambda>_ _ _. Inr None),
     rc_nodes = (\<lambda>_ _ _. Inr None), rc_pods = Some [], rc_scan = demo_scan, rc_isLabel = (\<lambda>_. True), rc_sha256 = (\<lambda>_. ''h''),
     rc_text = (\<lambda>_. ''error''), rc_workerText = (\<lambda>_. ''workers''),
     rc_setCondition = (\<lambda>c cs. c # filter (\<lambda>d. cn_Type d \<noteq> cn_Type c) cs), rc_removeCondition = (\<lambda>t. filter (\<lambda>d. cn_Type d \<noteq> t)), rc_now = 0\<rparr>"

definition demo_object :: "bool \<Rightarrow> cluster_object" where
  "demo_object deleting = \<lparr>co_Cluster = demo_cluster, co_UID = ''u'', co_Generation = 3, co_Deleting = deleting, co_Finalizers = [clusterWorkerFinalizer],
     co_Status = \<lparr>st_ObservedGeneration = 2, st_CheckpointObservedAt = None, st_NewestCommittedCheckpoint = None, st_Conditions = [], st_WorkerPools = []\<rparr>\<rparr>"

lemma demo_conditions_law: "conditions_law demo_control"
proof -
  have "List.find (\<lambda>d. cn_Type d = t) (filter (\<lambda>d. cn_Type d \<noteq> u) cs) = (if t = u then None else List.find (\<lambda>d. cn_Type d = t) cs)" for t u and cs :: "condition list"
    by (induction cs) auto
  then show ?thesis by (auto simp: conditions_law_def find_condition_def demo_control_def)
qed

theorem control_plane_gates_workers_witness:
  "list_all (control_safe demo_control (demo_object False)) (snd (Reconcile demo_control (\<lambda>_ _. Done) (Inr (Some (demo_object False))) []))"
  by (rule control_plane_gates_workers[OF demo_conditions_law]) (simp add: demo_object_def)

lemma demo_finalize: "snd (Reconcile demo_control (\<lambda>_ _. Done) (Inr (Some (demo_object True))) []) = [UpdateCluster []]"
  by (simp add: Reconcile_def demo_object_def finalize_cluster_def jwt_key_def demo_control_def gm_get_def fail_if_def io_bind_def io_res_def
      slurm_client_def NewClient_def map_error_def io_lift_def cleanupClusterWorkers_def io_ret_def control_call_def io_must_def io_call_def)

theorem finalizer_until_gone_witness: "rc_pods demo_control = Some []"
  by (rule finalizer_until_gone[of "demo_object True" "[]" demo_control "\<lambda>_ _. Done"]) (simp_all add: demo_finalize, simp add: demo_object_def)

end
