(* ===== verification/Recovery_Safety.thy ===== *)
theory Recovery_Safety
  imports Recovery_Props Controller_Props
begin

text \<open>The properties of hardware recovery.\<close>

section \<open>Stored states over many passes\<close>

text \<open>JSON keeps times at the precision of a second.\<close>

definition stored_time :: "int \<Rightarrow> int" where
  "stored_time t = second * (t div second)"

definition stored_job :: "recovery_job \<Rightarrow> recovery_job" where
  "stored_job j = j\<lparr>yj_SignalRequestedAt := map_option stored_time (yj_SignalRequestedAt j), yj_RequeueRequestedAt := map_option stored_time (yj_RequeueRequestedAt j)\<rparr>"

definition stored_state :: "recovery_state \<Rightarrow> recovery_state" where
  "stored_state s = s\<lparr>ry_StartedAt := stored_time (ry_StartedAt s), ry_PhaseStartedAt := stored_time (ry_PhaseStartedAt s),
     ry_Jobs := map stored_job (ry_Jobs s), ry_RebootRequestedAt := map_option stored_time (ry_RebootRequestedAt s),
     ry_ReadySince := map_option stored_time (ry_ReadySince s), ry_VerificationStarted := map_option stored_time (ry_VerificationStarted s)\<rparr>"

text \<open>
  The states that may be stored: a pass starts from what was stored, and may stop after any call. A save whose answer was
  an error, or was never seen, may still have been done.
\<close>

inductive recovery_reachable :: "recovery_state option \<Rightarrow> bool" where
  nothing: "recovery_reachable None"
| pass: "recovery_reachable d \<Longrightarrow> loadState env node = Inr (map_option stored_state d)
    \<Longrightarrow> snd (recovery_Reconcile env world (Inr (Some node)) []) = calls @ rest
    \<Longrightarrow> recovery_reachable (run_after world durable_step 0 (map_option stored_state d) calls)"
| unseen: "recovery_reachable d \<Longrightarrow> loadState env node = Inr (map_option stored_state d)
    \<Longrightarrow> snd (recovery_Reconcile env world (Inr (Some node)) []) = calls @ SaveState ob s # rest
    \<Longrightarrow> recovery_reachable (Some s)"

lemma stored_grace: "since + checkpointGrace \<le> t \<Longrightarrow> stored_time since + checkpointGrace \<le> stored_time t"
proof -
  assume a: "since + checkpointGrace \<le> t"
  have "since div second + 120 = (since + 120 * second) div second" by (simp add: second_def)
  also have "\<dots> \<le> t div second" using a by (intro zdiv_mono1) (simp_all add: checkpointGrace_def second_def)
  finally show ?thesis by (simp add: stored_time_def checkpointGrace_def second_def)
qed

lemma stored_job_ok: "work_ok j \<Longrightarrow> work_ok (stored_job j)"
  by (auto simp: work_ok_def stored_job_def stored_grace split: option.splits)

lemma stored_state_ok: "state_ok s \<Longrightarrow> state_ok (stored_state s)"
  by (auto simp: state_ok_def stored_state_def list_all_iff stored_job_ok)

lemma stored_durable_ok: "durable_ok d \<Longrightarrow> durable_ok (map_option stored_state d)"
  by (cases d) (auto simp: durable_ok_def stored_state_ok)

lemma reachable_ok: "recovery_reachable d \<Longrightarrow> durable_ok d"
proof (induction rule: recovery_reachable.induct)
  case nothing
  then show ?case by (simp add: durable_ok_def)
next
  case (pass d env node world calls rest)
  show ?case
    using recovery_protocol.prefix_keeps[OF stored_durable_ok[OF pass.IH]] pass_follows[OF pass.hyps(2) stored_durable_ok[OF pass.IH]] pass.hyps(3)
    by (metis run_follows_append recovery_protocol.run_keeps stored_durable_ok[OF pass.IH])
next
  case (unseen d env node world calls ob s rest)
  have "recovery_ok env world (read_nodes env node) (run_after world durable_step 0 (map_option stored_state d) calls) (SaveState ob s)"
    using pass_follows[OF unseen.hyps(2) stored_durable_ok[OF unseen.IH], of world] unseen.hyps(3) by (simp add: run_follows_append)
  then show ?case by (simp add: save_ok_def durable_ok_def)
qed

section \<open>Properties\<close>


text \<open>
  C5. Over any number of passes, each of which may stop after any call or lose the answer to a save, every stored state is
  well-formed: a job is requeued only after its signal and its checkpoint or grace period, verification has started only
  after a new boot with a known inventory, and it has passed only when it was started.
\<close>

theorem recovery_crash_safe:
  assumes "recovery_reachable (Some s)"
  shows "state_ok s"
  using reachable_ok[OF assms] by (simp add: durable_ok_def)

text \<open>
  C6. A pass stores the request for a reboot only when every recorded job has left the workers of the node according to
  the Slurm snapshots, and every recorded worker has neither a pod nor a claim.
\<close>

theorem recovery_reboot_gate:
  assumes "loadState env node = Inr d" "durable_ok d"
    "SaveState ob s \<in> set (snd (recovery_Reconcile env world (Inr (Some node)) []))" "ry_Phase s = PhaseRebootRequested"
  shows "(\<exists>snaps. slurmSnapshots env (ry_Clusters s) = Some snaps \<and> (\<forall>j\<in>set (ry_Jobs s). jobEvacuated j s (zs_jobs (snap snaps (work_key j)))))
    \<and> (\<forall>w\<in>set (ry_Workers s). (\<exists>n. rv_getPod env n (yw_Namespace w) (yw_Name w) = PodMissing)
         \<and> (yw_Claim w \<noteq> [] \<longrightarrow> (\<exists>n. world n (DropClaim (yw_Namespace w) (yw_Claim w)) = NotFound)))"
  using run_follows_member[OF pass_follows[OF assms(1,2)] assms(3)] assms(4) by (auto simp: save_ok_def reboot_gate_def)

text \<open>
  C9. A pass requeues a job only while the stored state records the request, the signal before it, and either the
  checkpoint that followed the signal or the end of the grace period before the request.
\<close>

theorem recovery_requeue_grace:
  assumes "loadState env node = Inr d" "durable_ok d"
    "snd (recovery_Reconcile env world (Inr (Some node)) []) = p @ RequeueWork key jid # q"
  shows "\<exists>s j since t. run_after world durable_step 0 d p = Some s \<and> j \<in> set (ry_Jobs s) \<and> work_key j = key \<and> yj_ID j = jid
    \<and> yj_RequeueRequestedAt j = Some t \<and> yj_SignalRequestedAt j = Some since \<and> yj_SignalSent j
    \<and> (yj_CheckpointSeen j \<or> since + checkpointGrace \<le> t)"
proof -
  let ?d = "run_after world durable_step 0 d p"
  have f: "run_follows world durable_step (recovery_ok env world (read_nodes env node)) 0 d (p @ RequeueWork key jid # q)"
    using pass_follows[OF assms(1,2), of world] assms(3) by simp
  then have "stored_work ?d PhaseCheckpointing key jid (\<lambda>j. yj_RequeueRequestedAt j \<noteq> None \<and> \<not> yj_RequeueSent j)"
    by (simp add: run_follows_append)
  then obtain s j where s: "?d = Some s" "j \<in> set (ry_Jobs s)" "work_key j = key" "yj_ID j = jid" "yj_RequeueRequestedAt j \<noteq> None"
    by (auto simp: stored_work_def split: option.splits)
  have "durable_ok ?d" by (rule recovery_protocol.prefix_keeps[OF assms(2) f])
  then have "work_ok j" using s by (auto simp: durable_ok_def state_ok_def list_all_iff)
  then show ?thesis using s by (auto simp: work_ok_def split: option.splits)
qed

text \<open>
  C10. A pass takes the taint of a degraded node away only when no incident is stored, or when the stored incident has passed
  its verification on a new boot.
\<close>

theorem recovery_release:
  assumes "loadState env node = Inr d" "durable_ok d"
    "snd (recovery_Reconcile env world (Inr (Some node)) []) = p @ PatchNode n # q" "degraded_taint \<notin> set (nd_Taints n)"
    "run_after world durable_step 0 d p = Some s"
  shows "ry_Phase s = PhaseVerifying \<and> ry_VerificationPassed s \<and> ry_VerificationStarted s \<noteq> None \<and> ry_RebootRequestedAt s \<noteq> None
    \<and> ry_NewBootID s \<noteq> [] \<and> ry_NewBootID s \<noteq> ry_PreBootID s \<and> ry_PreInventoryHash s \<noteq> []"
proof -
  have f: "run_follows world durable_step (recovery_ok env world (read_nodes env node)) 0 d (p @ PatchNode n # q)"
    using pass_follows[OF assms(1,2), of world] assms(3) by simp
  then have "released (Some s)" using assms(4,5) by (simp add: run_follows_append node_patch_ok_def)
  moreover have "durable_ok (Some s)" using recovery_protocol.prefix_keeps[OF assms(2) f] assms(5) by simp
  ultimately show ?thesis by (auto simp: released_def durable_ok_def state_ok_def)
qed

text \<open>
  A state that is saved is loaded again, with its times at the precision of a second, given the laws of gzip and JSON.
\<close>

theorem recovery_state_roundtrip:
  assumes "saveState env world node s [] = (r, [SaveState ob s'])" "rv_gunzip env (rv_gzip env (rv_encState env s)) = GzipData (rv_encState env s)"
    "rv_decState env (rv_encState env s) = Some (stored_state s)" "validIncident env (ry_Incident s)"
    "ry_Version s = recoveryStateVersion" "ry_NodeName s = nd_Name node" "ry_NodeUID s = nd_UID node"
  shows "loadState (env\<lparr>rv_config := ConfigFound (sb_Data ob)\<rparr>) node = Inr (Some (stored_state s)) \<and> sb_Name ob = recoveryStateName node"
proof -
  have o': "sb_Data ob = rv_gzip env (rv_encState env s)" "sb_Name ob = recoveryStateName node" "length (rv_encState env s) \<le> maxRecoveryStateBytes"
    using assms(1) by (auto simp: saveState_def Let_def recovery_call_def io_must_def io_bind_def io_call_def io_fail_def io_ret_def split: if_splits)
  show ?thesis
    using assms(2-) o' by (simp add: loadState_def decode_state_def fail_if_def bind_res_def stored_state_def validIncident_def)
qed

end
