(* ===== verification/Recovery_Demo.thy ===== *)
theory Recovery_Demo
  imports Recovery_Safety
begin

text \<open>Concrete passes of hardware recovery that apply its properties.\<close>

definition degraded_node :: "string \<Rightarrow> knode" where
  "degraded_node fault = \<lparr>nd_Name = ''n'', nd_UID = ''U'', nd_Labels = [(''orchestration.gputpu.io/compute'', ''true'')], nd_Annotations = [], nd_Taints = [], nd_BootID = ''b0'',
     nd_Conditions = [\<lparr>nc_Type = hardwareFaultCondition, nc_Status = fault, nc_Reason = [], nc_Message = []\<rparr>]\<rparr>"

definition incident_state :: "recovery_phase \<Rightarrow> recovery_job list \<Rightarrow> recovery_state" where
  "incident_state p jobs = \<lparr>ry_Version = 1, ry_Incident = ''0123456789abcdef'', ry_NodeName = ''n'', ry_NodeUID = ''U'', ry_Phase = p, ry_StartedAt = 0,
     ry_PhaseStartedAt = 0, ry_PreBootID = ''b0'', ry_PreInventory = ''i'', ry_PreInventoryHash = ''h'', ry_Clusters = [\<lparr>yc_Namespace = ''s'', yc_Name = ''c'', yc_UID = ''u''\<rparr>],
     ry_Workers = [\<lparr>yw_ClusterNamespace = ''s'', yw_ClusterName = ''c'', yw_Namespace = ''s'', yw_Name = ''w'', yw_Claim = ''k''\<rparr>], ry_Jobs = jobs,
     ry_RebootRequestedAt = None, ry_NewBootID = '''', ry_ReadySince = None, ry_VerificationStarted = None, ry_VerificationPassed = False,
     ry_TerminalReason = '''', ry_ManualRequest = ''''\<rparr>"

definition signalled_job :: recovery_job where
  "signalled_job = \<lparr>yj_ClusterNamespace = ''s'', yj_ClusterName = ''c'', yj_ID = 7, yj_SignalRequestedAt = Some 0, yj_SignalSent = True,
     yj_CheckpointSeen = False, yj_RequeueRequestedAt = None, yj_RequeueSent = False, yj_Evacuated = False\<rparr>"

definition running_job :: slurm_job where
  "running_job = \<lparr>sj_State = [''RUNNING''], sj_JobState = [], sj_HetJobID = 0, sj_Nodes = ''w'', sj_fields = demo_job\<lparr>pj_ID := 7\<rparr>\<rparr>"

definition recovery_control :: "slurm_job list \<Rightarrow> control_env" where
  "recovery_control jobs = demo_control\<lparr>rc_jobs := (\<lambda>_ _ _. Inr (Some ([], jobs)))\<rparr>"

definition recovery_demo :: "recovery_state option \<Rightarrow> slurm_job list \<Rightarrow> recovery_env" where
  "recovery_demo d jobs = \<lparr>rv_control = (\<lambda>_. recovery_control jobs), rv_Namespace = ''op'', rv_RebootTimeout = 600 * second, rv_BootIDAnnotation = '''',
     rv_now = (\<lambda>_. 500 * second), rv_uuid = Some ''0123456789abcdef'', rv_parseUUID = Some,
     rv_config = (if d = None then ConfigMissing else ConfigFound ''x''), rv_gunzip = GzipData, rv_gzip = id,
     rv_decState = (\<lambda>_. d), rv_encState = (\<lambda>_. ''x''), rv_getNode = (\<lambda>_. Some (degraded_node ''True'')), rv_pods = Some [],
     rv_cluster = (\<lambda>_ _. Some (demo_object False)), rv_getPod = (\<lambda>_ _ _. PodMissing), rv_getJob = (\<lambda>_ _. VerifierMissing),
     rv_getClaim = (\<lambda>_ _. VerifierMissing), rv_decInventory = (\<lambda>_. Some \<lparr>hi_Version = 1, hi_BootID = ''b0'', hi_Cells = [\<lparr>ce_NUMA = 0, ce_CPUs = 2, ce_MemoryUnits = 2,
       ce_MemoryUnitBytes = 8, ce_GPUs = [], ce_OpenTPU = []\<rparr>]\<rparr>), rv_encProfiles = (\<lambda>_. ''[]''), rv_workerImage = ''w'', rv_errorText = (\<lambda>_. ''error'')\<rparr>"

definition demo_answers :: "recovery_call world" where
  "demo_answers = (\<lambda>_ c. case c of DropClaim ns k \<Rightarrow> NotFound | DropVerifierJob n \<Rightarrow> NotFound | DropVerifierClaim n \<Rightarrow> NotFound | _ \<Rightarrow> Done)"

definition demo_pass :: "recovery_state option \<Rightarrow> slurm_job list \<Rightarrow> recovery_call list" where
  "demo_pass d jobs = snd (recovery_Reconcile (recovery_demo d jobs) demo_answers (Inr (Some (degraded_node ''True''))) [])"


lemmas io_defs = io_bind_def io_ret_def io_res_def io_fail_def io_call_def io_must_def io_here_def

lemma demo_snapshots: "slurmSnapshots (recovery_demo d jobs) (ry_Clusters (incident_state p w)) =
    (case slurm_Jobs jobs of Inl e \<Rightarrow> None | Inr js \<Rightarrow> Some [(''s/c'', \<lparr>zs_cluster = Some demo_cluster, zs_nodes = [], zs_jobs = js\<rparr>)])"
  by (simp add: slurmSnapshots_def incident_state_def snapshot_of_def recovery_demo_def recovery_control_def demo_control_def demo_object_def Let_def jwt_key_def
      gm_get_def fail_if_def slurm_client_def NewClient_def map_error_def client_Nodes_def with_errors_def bind_res_def fetchJobs_def responseError_def node_map_def
      clusterKey_def split: sum.split)

lemma demo_running: "slurm_Jobs [running_job] = Inr [\<lparr>jb_ID = 7, jb_HetJobID = 0, jb_State = [''RUNNING''], jb_Reason = pj_Reason demo_job, jb_Nodes = [''w'']\<rparr>]"
  by code_simp

lemma demo_load: "loadState (recovery_demo (Some (incident_state p w)) jobs) (degraded_node fault) = Inr (Some (incident_state p w))"
  by (simp add: loadState_def recovery_demo_def decode_state_def fail_if_def bind_res_def maxRecoveryStateBytes_def incident_state_def degraded_node_def
      recoveryStateVersion_def validIncident_def)

lemma demo_done [simp]:
  "demo_answers m (SaveState ob s) = Done" "demo_answers m (PatchNode b) = Done" "demo_answers m (PatchNodeStatus name cs) = Done"
  "demo_answers m (RequeueWork key jid) = Done" "demo_answers m (DropClaim ns k) = NotFound" "demo_answers m (DropVerifierJob name) = NotFound"
  "demo_answers m (DropVerifierClaim name) = NotFound"
  by (simp_all add: demo_answers_def)

lemma demo_save: "saveState (recovery_demo d jobs) demo_answers b s log =
    (Inr (), log @ [SaveState \<lparr>sb_Name = recoveryStateName b, sb_Namespace = ''op'',
       sb_Labels = [(''orchestration.gputpu.io/recovery-node'', nd_Name b), (''orchestration.gputpu.io/recovery-incident'', ry_Incident s)],
       sb_Owner = nd_UID b, sb_Data = ''x''\<rparr> s])"
  by (simp add: saveState_def recovery_demo_def maxRecoveryStateBytes_def recovery_call_def io_defs)

lemma demo_now: "recovery_now (recovery_demo d jobs) log = (Inr (500 * second), log)"
  by (simp add: recovery_now_def recovery_demo_def io_defs)

lemma demo_condition: "\<exists>cs. setNodeCondition (recovery_demo d jobs) demo_answers name status reason message log = (Inr (), log @ [PatchNodeStatus name cs])"
  by (simp add: setNodeCondition_def recovery_demo_def degraded_node_def hardwareDegradedCondition_def hardwareFaultCondition_def Let_def recovery_call_def io_defs)

definition quiet :: "recovery_call \<Rightarrow> bool" where
  "quiet c \<longleftrightarrow> (\<forall>d o'. durable_step d o' c = d)"

lemma quiet_run: "list_all quiet cs \<Longrightarrow> run_after w durable_step n d cs = d"
  by (induction cs arbitrary: n) (simp_all add: quiet_def)

lemma demo_isolate: "\<exists>b' new. ensureIsolation (recovery_demo d jobs) demo_answers b s log = (Inr b', log @ new) \<and> list_all quiet new
   \<and> (b' = b \<or> b' = isolated_node b s) \<and> (\<not> List.member (nd_Taints b) degraded_taint \<longrightarrow> b' = isolated_node b s)"
proof -
  have "patch_node demo_answers b (isolated_node b s) log \<in> {(Inr b, log @ []), (Inr (isolated_node b s), log @ [PatchNode (isolated_node b s)])}"
    by (auto simp: patch_node_def recovery_call_def io_defs)
  moreover have "\<not> List.member (nd_Taints b) degraded_taint \<Longrightarrow> patch_node demo_answers b (isolated_node b s) log = (Inr (isolated_node b s), log @ [PatchNode (isolated_node b s)])"
    by (simp add: patch_node_def recovery_call_def io_defs isolated_node_def Let_def)
  ultimately obtain b' new where p: "patch_node demo_answers b (isolated_node b s) log = (Inr b', log @ new)" and q: "list_all quiet new"
      "b' = b \<or> b' = isolated_node b s" "\<not> List.member (nd_Taints b) degraded_taint \<longrightarrow> b' = isolated_node b s"
    by (cases "List.member (nd_Taints b) degraded_taint") (auto simp: quiet_def)
  obtain cs1 where "setNodeCondition (recovery_demo d jobs) demo_answers (nd_Name b') ''True'' ''ManualRepair'' (ry_TerminalReason s) (log @ new) = (Inr (), (log @ new) @ [PatchNodeStatus (nd_Name b') cs1])"
    using demo_condition by blast
  moreover obtain cs2 where "setNodeCondition (recovery_demo d jobs) demo_answers (nd_Name b') ''True'' ''RecoveryInProgress'' (isolation_message s) (log @ new) = (Inr (), (log @ new) @ [PatchNodeStatus (nd_Name b') cs2])"
    using demo_condition by blast
  ultimately show ?thesis using q by (simp add: ensureIsolation_def io_bind_def p io_ret_def quiet_def)
qed

lemma demo_phase: "\<exists>ob new. setPhase (recovery_demo d jobs) demo_answers b s p log =
   (Inr (s\<lparr>ry_Phase := p, ry_PhaseStartedAt := 500 * second\<rparr>), log @ SaveState ob (s\<lparr>ry_Phase := p, ry_PhaseStartedAt := 500 * second\<rparr>) # new)"
proof -
  let ?s = "s\<lparr>ry_Phase := p, ry_PhaseStartedAt := 500 * second\<rparr>"
  obtain ob where o': "saveState (recovery_demo d jobs) demo_answers b ?s log = (Inr (), log @ [SaveState ob ?s])" using demo_save by blast
  obtain b' new where "ensureIsolation (recovery_demo d jobs) demo_answers b ?s (log @ [SaveState ob ?s]) = (Inr b', (log @ [SaveState ob ?s]) @ new)"
    using demo_isolate by blast
  then show ?thesis using o' by (simp add: setPhase_def io_bind_def demo_now Let_def io_ret_def)
qed

text \<open>A pass over a stored incident starts with the isolation of the node.\<close>

lemma demo_pass_from:
  assumes "p = PhaseCheckpointing \<or> p = PhaseRequeued"
  shows "\<exists>b' new. demo_pass (Some (incident_state p w)) jobs =
     snd (reconcileEvacuation (recovery_demo (Some (incident_state p w)) jobs) demo_answers b' (incident_state p w) new)"
proof -
  let ?s = "incident_state p w" and ?env = "recovery_demo (Some (incident_state p w)) jobs"
  obtain b' new where i: "ensureIsolation ?env demo_answers (degraded_node ''True'') ?s [] = (Inr b', [] @ new)" using demo_isolate by blast
  have ph: "ry_Phase ?s = p" by (simp add: incident_state_def)
  have "demo_pass (Some ?s) jobs = snd (reconcileEvacuation ?env demo_answers b' ?s new)"
    using assms i by (auto simp: demo_pass_def recovery_Reconcile_def demo_load io_bind_def io_res_def io_ret_def Let_def recovery_serve_def retry_requested_def
        ph recovery_dispatch_def)
  then show ?thesis by blast
qed

lemma demo_evacuation:
  assumes "slurm_Jobs jobs = Inr js" "addAffectedJobs (incident_state p w) [(''s/c'', \<lparr>zs_cluster = Some demo_cluster, zs_nodes = [], zs_jobs = js\<rparr>)] = (incident_state p w, False)"
  shows "snd (reconcileEvacuation (recovery_demo d jobs) demo_answers b (incident_state p w) log) =
    snd (evacuation_phase (recovery_demo d jobs) demo_answers b [(''s/c'', \<lparr>zs_cluster = Some demo_cluster, zs_nodes = [], zs_jobs = js\<rparr>)] (incident_state p w) log)"
proof -
  have "discoverWorkers (recovery_demo d jobs) demo_answers (incident_state p w) log = (Inr (incident_state p w, False), log)"
    by (simp add: discoverWorkers_def recovery_demo_def io_defs sort_found_def incident_state_def)
  moreover have "drainRecoveryWorkers demo_answers (incident_state p w) [(''s/c'', \<lparr>zs_cluster = Some demo_cluster, zs_nodes = [], zs_jobs = js\<rparr>)] log = (Inr (), log)"
    by (simp add: drainRecoveryWorkers_def incident_state_def drain_step_def clusterKey_def gm_get_def io_defs)
  ultimately show ?thesis
    by (simp add: reconcileEvacuation_def io_bind_def save_if_def io_ret_def demo_snapshots assms split: prod.split sum.split)
qed

section \<open>Witnesses\<close>

lemma demo_state_ok: "list_all work_ok w \<Longrightarrow> p = PhaseCheckpointing \<or> p = PhaseRequeued \<Longrightarrow> durable_ok (Some (incident_state p w))"
  by (auto simp: durable_ok_def state_ok_def incident_state_def evacuating_def rebooting_def)

lemma demo_job_ok: "work_ok signalled_job"
  by (simp add: work_ok_def signalled_job_def)

lemma demo_requeued_pass:
  "\<exists>ob t. SaveState ob ((incident_state PhaseRequeued [])\<lparr>ry_RebootRequestedAt := Some t, ry_Phase := PhaseRebootRequested, ry_PhaseStartedAt := 500 * second\<rparr>)
     \<in> set (demo_pass (Some (incident_state PhaseRequeued [])) [])"
proof -
  let ?s = "incident_state PhaseRequeued []" and ?env = "recovery_demo (Some (incident_state PhaseRequeued [])) []"
  let ?z = "[(''s/c'', \<lparr>zs_cluster = Some demo_cluster, zs_nodes = [], zs_jobs = []\<rparr>)]"
  obtain b log where p: "demo_pass (Some ?s) [] = snd (reconcileEvacuation ?env demo_answers b ?s log)" using demo_pass_from by blast
  have e: "demo_pass (Some ?s) [] = snd (evacuation_phase ?env demo_answers b ?z ?s log)"
    unfolding p by (rule demo_evacuation) (simp_all add: slurm_Jobs_def addAffectedJobs_def incident_state_def)
  have ph: "ry_Phase ?s = PhaseRequeued" by (simp add: incident_state_def)
  have c: "cleanupEvacuatedWorkers ?env demo_answers ?z ?s log = (Inr True, log @ [DropClaim ''s'' ''k''])"
    by (simp add: cleanupEvacuatedWorkers_def incident_state_def remove_step_def clusterKey_def gm_get_def gone_step_def recovery_demo_def drop_claim_def io_defs Let_def)
  obtain ob new where "setPhase ?env demo_answers b (?s\<lparr>ry_RebootRequestedAt := Some (500 * second)\<rparr>) PhaseRebootRequested (log @ [DropClaim ''s'' ''k'']) =
     (Inr (?s\<lparr>ry_RebootRequestedAt := Some (500 * second), ry_Phase := PhaseRebootRequested, ry_PhaseStartedAt := 500 * second\<rparr>),
      (log @ [DropClaim ''s'' ''k'']) @ SaveState ob (?s\<lparr>ry_RebootRequestedAt := Some (500 * second), ry_Phase := PhaseRebootRequested, ry_PhaseStartedAt := 500 * second\<rparr>) # new)"
    using demo_phase by blast
  then show ?thesis unfolding e by (auto simp: evacuation_phase_def ph io_bind_def c demo_now)
qed


theorem recovery_reboot_gate_witness:
  "\<exists>n. demo_answers n (DropClaim ''s'' ''k'') = NotFound"
proof -
  obtain ob t where "SaveState ob ((incident_state PhaseRequeued [])\<lparr>ry_RebootRequestedAt := Some t, ry_Phase := PhaseRebootRequested, ry_PhaseStartedAt := 500 * second\<rparr>)
     \<in> set (demo_pass (Some (incident_state PhaseRequeued [])) [])" using demo_requeued_pass by blast
  from recovery_reboot_gate[OF demo_load demo_state_ok this[unfolded demo_pass_def]] show ?thesis by (simp add: incident_state_def)
qed

text \<open>A job that was signalled 500 seconds ago is requeued.\<close>

lemma demo_affected:
  "addAffectedJobs (incident_state PhaseCheckpointing [signalled_job]) [(''s/c'', \<lparr>zs_cluster = Some demo_cluster, zs_nodes = [],
     zs_jobs = [\<lparr>jb_ID = 7, jb_HetJobID = 0, jb_State = [''RUNNING''], jb_Reason = pj_Reason demo_job, jb_Nodes = [''w'']\<rparr>]\<rparr>)]
   = (incident_state PhaseCheckpointing [signalled_job], False)"
  by (simp add: addAffectedJobs_def incident_state_def affected_step_def signalled_job_def clusterKey_def RootID_def)

lemma demo_requeue_pass: "RequeueWork ''s/c'' 7 \<in> set (demo_pass (Some (incident_state PhaseCheckpointing [signalled_job])) [running_job])"
proof -
  let ?s = "incident_state PhaseCheckpointing [signalled_job]" and ?env = "recovery_demo (Some (incident_state PhaseCheckpointing [signalled_job])) [running_job]"
  let ?js = "[\<lparr>jb_ID = 7, jb_HetJobID = 0, jb_State = [''RUNNING''], jb_Reason = pj_Reason demo_job, jb_Nodes = [''w'']\<rparr>]"
  let ?z = "[(''s/c'', \<lparr>zs_cluster = Some demo_cluster, zs_nodes = [], zs_jobs = ?js\<rparr>)]"
  obtain b log where p: "demo_pass (Some ?s) [running_job] = snd (reconcileEvacuation ?env demo_answers b ?s log)" using demo_pass_from by blast
  have e: "demo_pass (Some ?s) [running_job] = snd (evacuation_phase ?env demo_answers b ?z ?s log)"
    unfolding p by (rule demo_evacuation[OF demo_running demo_affected])
  have ph: "ry_Phase ?s = PhaseCheckpointing" and js: "ry_Jobs ?s = [signalled_job]" and k: "work_key signalled_job = ''s/c''"
    by (simp_all add: incident_state_def signalled_job_def clusterKey_def)
  have ev: "\<not> jobEvacuated signalled_job ?s ?js"
  proof -
    have "workerNames ?s ''s/c'' = [''w'']" by (simp add: workerNames_def incident_state_def clusterKey_def)
    moreover have "\<not> job_Pending (hd ?js)" "\<not> job_Terminal (hd ?js)" by code_simp+
    ultimately show ?thesis by (simp add: jobEvacuated_def signalled_job_def RootID_def UsesAnyNode_def k[unfolded signalled_job_def])
  qed
  have ob: "observe_commit ?env demo_answers b \<lparr>zs_cluster = Some demo_cluster, zs_nodes = [], zs_jobs = ?js\<rparr> 0 0 ?s log = (Inr ?s, log)"
    by (simp add: observe_commit_def js checkpointCommittedSince_def checkpointStore_def bind_res_def recovery_demo_def recovery_control_def demo_control_def
        demo_scan_def io_defs Let_def split: option.split)
  have f: "\<not> yj_RequeueSent signalled_job" "yj_RequeueRequestedAt signalled_job = None" "yj_ID signalled_job = 7" by (simp_all add: signalled_job_def)
  have "RequeueWork ''s/c'' 7 \<in> set (snd (requeue_work ?env demo_answers b 0 ?s log))"
    by (simp add: requeue_work_def js f k save_work_def put_work_def io_bind_def demo_now demo_save io_ret_def recovery_call_def io_must_def io_call_def Let_def)
  then obtain log1 r where rq: "requeue_work ?env demo_answers b 0 ?s log = (r, log1)" "RequeueWork ''s/c'' 7 \<in> set log1"
    by (cases "requeue_work ?env demo_answers b 0 ?s log") simp
  have st: "set log1 \<subseteq> set (snd (requeue_step ?env demo_answers b ?z 0 (?s, SweepAll True) log))"
  proof -
    have c: "yj_SignalRequestedAt signalled_job = Some 0" "yj_SignalSent signalled_job" "\<not> 500 * second < 0 + checkpointGrace"
      by (simp_all add: signalled_job_def checkpointGrace_def second_def)
    show ?thesis
      using c by (simp add: requeue_step_def js k gm_get_def ev Let_def io_bind_def ob demo_now rq(1) io_ret_def split: sum.split)
  qed
  have sp: "c \<in> set l \<Longrightarrow> c \<in> set (snd (setPhase ?env demo_answers b s' q l))" for s' q l c
    using demo_phase[of "Some ?s" "[running_job]" b s' q l] by auto
  show ?thesis
    unfolding e using st rq(2)
    by (auto simp: evacuation_phase_def ph checkpointAndRequeue_def js io_bind_def io_ret_def intro!: sp split: prod.splits sum.splits if_splits)
qed

theorem recovery_requeue_grace_witness:
  "\<exists>p s j since t. run_after demo_answers durable_step 0 (Some (incident_state PhaseCheckpointing [signalled_job])) p = Some s \<and> j \<in> set (ry_Jobs s)
     \<and> yj_ID j = 7 \<and> yj_RequeueRequestedAt j = Some t \<and> yj_SignalRequestedAt j = Some since \<and> (yj_CheckpointSeen j \<or> since + checkpointGrace \<le> t)"
proof -
  obtain p q where "demo_pass (Some (incident_state PhaseCheckpointing [signalled_job])) [running_job] = p @ RequeueWork ''s/c'' 7 # q"
    using demo_requeue_pass by (meson in_set_conv_decomp)
  moreover have "durable_ok (Some (incident_state PhaseCheckpointing [signalled_job]))" by (rule demo_state_ok) (simp_all add: demo_job_ok)
  ultimately show ?thesis using recovery_requeue_grace[OF demo_load] unfolding demo_pass_def by blast
qed

section \<open>Release\<close>

definition passed_state :: recovery_state where
  "passed_state = (incident_state PhaseVerifying [])\<lparr>ry_RebootRequestedAt := Some 0, ry_NewBootID := ''b1'', ry_VerificationStarted := Some (499 * second),
     ry_VerificationPassed := True\<rparr>"

lemma passed_load: "loadState (recovery_demo (Some passed_state) []) (degraded_node fault) = Inr (Some passed_state)"
  by (simp add: loadState_def recovery_demo_def decode_state_def fail_if_def bind_res_def maxRecoveryStateBytes_def incident_state_def degraded_node_def
      recoveryStateVersion_def validIncident_def passed_state_def)

lemma passed_ok: "durable_ok (Some passed_state)"
  by (simp add: durable_ok_def state_ok_def passed_state_def incident_state_def evacuating_def rebooting_def)

lemma passed_pass:
  "\<exists>p b q. snd (recovery_Reconcile (recovery_demo (Some passed_state) []) demo_answers (Inr (Some (degraded_node ''False''))) []) = p @ PatchNode (healthy_node b) # q
     \<and> list_all quiet p"
proof -
  let ?env = "recovery_demo (Some passed_state) []" and ?node = "degraded_node ''False''"
  have nt: "\<not> List.member (nd_Taints ?node) degraded_taint" by (simp add: degraded_node_def)
  obtain b new where i: "ensureIsolation ?env demo_answers ?node passed_state [] = (Inr b, [] @ new)" "list_all quiet new" "b = isolated_node ?node passed_state"
    using demo_isolate[of "Some passed_state" "[]" ?node passed_state "[]"] nt by blast
  have raw: "nodeConditionStatus (nd_Conditions ?node) hardwareFaultCondition = ''False''"
    by (simp add: nodeConditionStatus_def degraded_node_def)
  have ph: "ry_Phase passed_state = PhaseVerifying" "ry_VerificationStarted passed_state = Some (499 * second)" "ry_VerificationPassed passed_state"
    "ry_PreBootID passed_state = ''b0''"
    by (simp_all add: passed_state_def incident_state_def)
  have r: "snd (recovery_Reconcile ?env demo_answers (Inr (Some ?node)) []) = snd (reconcileVerification ?env demo_answers b passed_state ''False'' new)"
    using i ph by (simp add: recovery_Reconcile_def passed_load io_bind_def io_res_def io_ret_def Let_def recovery_serve_def retry_requested_def recovery_dispatch_def raw)
  obtain hw where hw: "decodeRecoveryInventory ?env (ry_PreInventory passed_state) ''b0'' = Inr hw"
    by (simp add: decodeRecoveryInventory_def recovery_demo_def fail_if_def)
  have v: "reconcileVerification ?env demo_answers b passed_state ''False'' new = complete_recovery ?env demo_answers b passed_state hw new"
    by (simp add: reconcileVerification_def ph hw io_bind_def demo_now verifierTimeout_def second_def)
  have dv: "\<exists>ds. io_each (delete_cell demo_answers passed_state) cs True l = (Inr True, l @ ds) \<and> list_all quiet ds" for cs l
  proof (induction cs arbitrary: l)
    case (Cons c cs)
    let ?n = "verifierName (ry_Incident passed_state) (ce_NUMA c)"
    have dc: "delete_cell demo_answers passed_state c True l = (Inr True, l @ [DropVerifierJob ?n, DropVerifierClaim ?n])"
      by (simp add: io_bind_def delete_cell_def drop_verifier_def io_call_def io_ret_def Let_def)
    obtain ds where "io_each (delete_cell demo_answers passed_state) cs True (l @ [DropVerifierJob ?n, DropVerifierClaim ?n])
        = (Inr True, (l @ [DropVerifierJob ?n, DropVerifierClaim ?n]) @ ds)" "list_all quiet ds" using Cons.IH by blast
    moreover have "quiet (DropVerifierJob ?n)" "quiet (DropVerifierClaim ?n)" by (simp_all add: quiet_def)
    ultimately show ?case by (simp add: io_bind_def dc)
  qed (simp add: io_ret_def)
  obtain ds where ds: "deleteVerifierResources demo_answers passed_state hw new = (Inr True, new @ ds)" "list_all quiet ds"
    using dv by (auto simp: deleteVerifierResources_def)
  have tn: "nd_Taints (healthy_node b) \<noteq> nd_Taints b"
    unfolding i(3) by (simp add: healthy_node_def isolated_node_def degraded_node_def degraded_taint_def Let_def)
  have sh: "\<exists>t. snd (setHealthy ?env demo_answers b l) = l @ PatchNode (healthy_node b) # t \<and> fst (setHealthy ?env demo_answers b l) = Inr ()" for l
    using demo_condition[of "Some passed_state" "[]" "nd_Name b" "''False''" "''HardwareHealthy''" "''hardware recovery is not active''" "l @ [PatchNode (healthy_node b)]"] tn
    by (auto simp: setHealthy_def patch_node_def recovery_call_def io_defs)
  then obtain t where t: "setHealthy ?env demo_answers b (new @ ds) = (Inr (), (new @ ds) @ PatchNode (healthy_node b) # t)"
    by (metis prod.collapse)
  have "snd (complete_recovery ?env demo_answers b passed_state hw new) = (new @ ds) @ PatchNode (healthy_node b) # t @ [DeleteState (recoveryStateName b)]"
    by (simp add: complete_recovery_def io_bind_def ds(1) t recovery_gone_def io_must_def io_call_def io_ret_def io_fail_def)
  then show ?thesis unfolding r v using i(2) ds(2) by (metis list_all_append)
qed

theorem recovery_release_witness: "ry_VerificationPassed passed_state \<and> ry_NewBootID passed_state \<noteq> ry_PreBootID passed_state"
proof -
  obtain p b q where p: "snd (recovery_Reconcile (recovery_demo (Some passed_state) []) demo_answers (Inr (Some (degraded_node ''False''))) []) = p @ PatchNode (healthy_node b) # q"
      "list_all quiet p" using passed_pass by blast
  have "degraded_taint \<notin> set (nd_Taints (healthy_node b))" by (auto simp: healthy_node_def degraded_taint_def)
  from recovery_release[OF passed_load passed_ok p(1) this quiet_run[OF p(2)]] show ?thesis by simp
qed

section \<open>Storage\<close>

lemma demo_first_save: "\<exists>ob s. snd (recovery_Reconcile (recovery_demo None []) (\<lambda>_ _. Failed) (Inr (Some (degraded_node ''True''))) []) = [] @ SaveState ob s # []
    \<and> ry_Phase s = PhaseIsolated"
proof -
  have l: "loadState (recovery_demo None []) (degraded_node ''True'') = Inr None" by (simp add: loadState_def recovery_demo_def)
  have raw: "nodeConditionStatus (nd_Conditions (degraded_node ''True'')) hardwareFaultCondition = ''True''"
    by (simp add: nodeConditionStatus_def degraded_node_def)
  have lb: "gm_get [] (nd_Labels (degraded_node ''True'')) ''orchestration.gputpu.io/compute'' = ''true''" by (simp add: degraded_node_def gm_get_def)
  have "\<exists>e ob s. open_incident (recovery_demo None []) (\<lambda>_ _. Failed) (degraded_node ''True'') ''True'' [] = (Inl e, [SaveState ob s]) \<and> ry_Phase s = PhaseIsolated"
    by (simp add: io_defs open_incident_def newRecoveryState_def recovery_now_def recovery_demo_def newIncident_def saveState_def
        maxRecoveryStateBytes_def recovery_call_def Let_def)
  then obtain e ob s where "open_incident (recovery_demo None []) (\<lambda>_ _. Failed) (degraded_node ''True'') ''True'' [] = (Inl e, [SaveState ob s])" "ry_Phase s = PhaseIsolated"
    by blast
  then show ?thesis by (simp add: recovery_Reconcile_def l raw lb io_bind_def io_res_def Let_def)
qed

theorem recovery_crash_safe_witness: "\<exists>s. recovery_reachable (Some s) \<and> ry_Phase s = PhaseIsolated \<and> state_ok s"
proof -
  obtain ob s where s: "snd (recovery_Reconcile (recovery_demo None []) (\<lambda>_ _. Failed) (Inr (Some (degraded_node ''True''))) []) = [] @ SaveState ob s # []"
    "ry_Phase s = PhaseIsolated" using demo_first_save by blast
  have "loadState (recovery_demo None []) (degraded_node ''True'') = Inr (map_option stored_state None)" by (simp add: loadState_def recovery_demo_def)
  then have "recovery_reachable (Some s)" using s(1) by (rule recovery_reachable.unseen[OF recovery_reachable.nothing])
  then show ?thesis using recovery_crash_safe s(2) by blast
qed

theorem recovery_state_roundtrip_witness:
  "\<exists>ob :: state_object. loadState ((recovery_demo (Some (incident_state PhaseRequeued [])) [])\<lparr>rv_config := ConfigFound (sb_Data ob)\<rparr>) (degraded_node ''True'')
     = Inr (Some (stored_state (incident_state PhaseRequeued []))) \<and> sb_Name ob = recoveryStateName (degraded_node ''True'')"
proof -
  let ?s = "incident_state PhaseRequeued []" and ?env = "recovery_demo (Some (incident_state PhaseRequeued [])) []"
  obtain ob where o': "saveState ?env demo_answers (degraded_node ''True'') ?s [] = (Inr (), [SaveState ob ?s])" using demo_save[where log = "[]"] by auto
  have st: "stored_state ?s = ?s" by (simp add: stored_state_def incident_state_def stored_time_def)
  show ?thesis
    by (rule exI[of _ ob], rule recovery_state_roundtrip[OF o'], unfold st)
      (simp_all add: recovery_demo_def validIncident_def incident_state_def degraded_node_def recoveryStateVersion_def)
qed

end
