(* ===== verification/Watchdog.thy ===== *)
theory Watchdog
  imports Recovery
begin

text \<open>
  The watchdog of a node, \<^verbatim>\<open>src/watchdog-daemon\<close>: the hardware check with its counter of failures, kernel events, the replies of
  the local server and of the probe, and the reboot on request of the operator. Files under \<^verbatim>\<open>/sys\<close>, \<^verbatim>\<open>nvidia-smi\<close>, JSON, SHA-256
  and the behaviour of memory are arguments. The goroutines share no data but the last result and the last kernel event,
  which are read and written under a lock, so each check sees one value of the event.
\<close>

section \<open>Kernel events\<close>

definition event_patterns :: "(string \<times> string) list" where
  "event_patterns = [(''nvrm: xid'', ''NVIDIA Xid event detected''), (''machine check'', ''CPU machine-check event detected''),
     (''mce:'', ''CPU MCE event detected''), (''uncorrectable'', ''uncorrectable hardware event detected'')]"

definition criticalKernelEvent :: "string \<Rightarrow> string" where
  "criticalKernelEvent line =
     (case List.find (\<lambda>(pattern, reason). contains_str (to_lower line) pattern) event_patterns of
        None \<Rightarrow> '''' | Some (pattern, reason) \<Rightarrow> reason)"

definition kernel_watch :: "string \<Rightarrow> string list \<Rightarrow> string" where
  "kernel_watch current lines = fold (\<lambda>line now. let reason = criticalKernelEvent line in if reason \<noteq> '''' then reason else now) lines current"

section \<open>Hardware checks\<close>

datatype health_error =
    OwnNodeUnreadable
  | KernelEvent string
  | EDACUnreadable
  | EDACErrors int
  | BootInventoryUnavailable
  | BootInventoryInvalid
  | BootInventoryHash
  | TopologyUnavailable
  | SocketUnreadable
  | CoreUnreadable
  | LostCores int
  | NUMAMemoryUnreadable
  | LostMemory int
  | BindUnsupported int
  | BindFailed int
  | ChecksumMismatch int nat
  | NvidiaQuery
  | NvidiaParse
  | NvidiaRow
  | NvidiaChanged

datatype bind_result = BindOK | BindRefused | BindError

record health_env =
  hv_node :: "knode option"
  hv_event :: string
  hv_sys :: sysfs
  hv_edac :: "string list"
  hv_dec :: "string \<Rightarrow> hw_inventory option"
  hv_encCells :: "cell list \<Rightarrow> string"
  hv_sha :: "string \<Rightarrow> string"
  hv_memoryBytes :: nat
  hv_mbind :: "int \<Rightarrow> bind_result"
  hv_readback :: "int \<Rightarrow> nat \<Rightarrow> int"

record health_result =
  hr_Status :: string
  hr_Reason :: string
  hr_BootID :: string
  hr_Inventory :: string
  hr_InventoryHash :: string

definition healthHealthy :: string where "healthHealthy = ''Healthy''"
definition healthUnhealthy :: string where "healthUnhealthy = ''Unhealthy''"
definition healthUnknown :: string where "healthUnknown = ''Unknown''"

definition edac_step :: "sysfs \<Rightarrow> string \<Rightarrow> int \<Rightarrow> health_error + int" where
  "edac_step fs path errors = (case readInt fs path of None \<Rightarrow> Inl EDACUnreadable | Some v \<Rightarrow> Inr (wrap_i64 (errors + v)))"

definition uncorrectableEDAC :: "sysfs \<Rightarrow> string list \<Rightarrow> health_error + int" where
  "uncorrectableEDAC fs paths = for_each (edac_step fs) paths 0"

definition core_step :: "sysfs \<Rightarrow> string \<Rightarrow> core_key list \<Rightarrow> health_error + core_key list" where
  "core_step fs path cores =
     (if \<not> onlineCPU fs path then Inr cores
      else (case readInt fs (path_join path ''topology/physical_package_id'') of
              None \<Rightarrow> Inl SocketUnreadable
            | Some socket \<Rightarrow>
           (case readInt fs (path_join path ''topology/core_id'') of
              None \<Rightarrow> Inl CoreUnreadable
            | Some core \<Rightarrow> Inr (List.insert (cpuNUMA fs path, socket, core) cores))))"

definition physicalCores :: "sysfs \<Rightarrow> health_error + (int, int) gomap" where
  "physicalCores fs =
     (if sf_cpus fs = [] then Inl TopologyUnavailable
      else bind_res (for_each (core_step fs) (sf_cpus fs) []) (\<lambda>cores.
           Inr (fold (\<lambda>(numa, socket, core) m. gm_put numa (gm_get 0 m numa + 1) m) cores [])))"

definition numaMemoryBytes :: "sysfs \<Rightarrow> int \<Rightarrow> health_error + int" where
  "numaMemoryBytes fs numa =
     (case nodeMemoryBytes fs (''/sys/devices/system/node/node'' @ show_int numa @ ''/meminfo'') of
        None \<Rightarrow> Inl NUMAMemoryUnreadable | Some v \<Rightarrow> Inr v)"

definition memory_pattern :: "int \<Rightarrow> nat \<Rightarrow> int" where
  "memory_pattern numa i = ((int i * 131 + numa * 17) mod 251) mod 256"

definition memoryChecksum :: "health_env \<Rightarrow> int \<Rightarrow> health_error + unit" where
  "memoryChecksum env numa =
     (case hv_mbind env numa of
        BindRefused \<Rightarrow> Inl (BindUnsupported numa)
      | BindError \<Rightarrow> Inl (BindFailed numa)
      | BindOK \<Rightarrow>
          (case List.find (\<lambda>i. hv_readback env numa i \<noteq> memory_pattern numa i) [0..<hv_memoryBytes env] of
             None \<Rightarrow> Inr () | Some i \<Rightarrow> Inl (ChecksumMismatch numa i)))"

definition expected_gpus :: "hw_inventory \<Rightarrow> (string, gpu) gomap" where
  "expected_gpus hw = fold (\<lambda>c m. fold (\<lambda>g. gm_put (gp_UUID g) g) (ce_GPUs c) m) (hi_Cells hw) []"

definition gpu_row :: "string list \<Rightarrow> (string, gpu) gomap \<Rightarrow> health_error + (string, gpu) gomap" where
  "gpu_row row actual =
     fail_if (length row \<noteq> 3) NvidiaRow
     (let g = \<lparr>gp_UUID = trim_space (row ! 0), gp_Model = NormalizeGPU (row ! 1), gp_PCI = to_lower (trim_space (row ! 2))\<rparr> in
      Inr (gm_put (gp_UUID g) g actual))"

definition checkNVIDIA :: "smi_output \<Rightarrow> hw_inventory \<Rightarrow> health_error + unit" where
  "checkNVIDIA smi hw =
     (let expected = expected_gpus hw in
      if expected = [] then Inr ()
      else (case smi of
              SmiMissing \<Rightarrow> Inl NvidiaQuery
            | SmiFailed \<Rightarrow> Inl NvidiaQuery
            | SmiBadCSV \<Rightarrow> Inl NvidiaParse
            | SmiRows rows \<Rightarrow> bind_res (for_each gpu_row rows []) (\<lambda>actual. fail_if (\<not> gm_equal expected actual) NvidiaChanged (Inr ()))))"

text \<open>The result of one check: an error is hard or not. \<^verbatim>\<open>MemoryUnits * MemoryUnitBytes\<close> is computed at 64 bits.\<close>

type_synonym check_outcome = "(bool \<times> health_error) option"

definition hard :: "health_error + 'a \<Rightarrow> (bool \<times> health_error) + 'a" where
  "hard r = map_error (\<lambda>e. (True, e)) r"

definition soft :: "health_error + 'a \<Rightarrow> (bool \<times> health_error) + 'a" where
  "soft r = map_error (\<lambda>e. (False, e)) r"

definition check_cell :: "health_env \<Rightarrow> (int, int) gomap \<Rightarrow> cell \<Rightarrow> unit \<Rightarrow> (bool \<times> health_error) + unit" where
  "check_cell env cores c u =
     fail_if (gm_get 0 cores (ce_NUMA c) < ce_CPUs c) (True, LostCores (ce_NUMA c))
     (bind_res (soft (numaMemoryBytes (hv_sys env) (ce_NUMA c))) (\<lambda>memory.
      fail_if (memory < wrap_i64 (ce_MemoryUnits c * ce_MemoryUnitBytes c)) (True, LostMemory (ce_NUMA c))
      (soft (memoryChecksum env (ce_NUMA c)))))"

definition check_inventory_of :: "health_env \<Rightarrow> knode \<Rightarrow> (bool \<times> health_error) + unit" where
  "check_inventory_of env node =
     (let boot = nd_BootID node; raw = node_ann node inventoryKey; hash = node_ann node inventoryHashKey in
      fail_if (hv_event env \<noteq> '''') (True, KernelEvent (hv_event env))
      (bind_res (soft (uncorrectableEDAC (hv_sys env) (hv_edac env))) (\<lambda>failures.
      fail_if (failures \<noteq> 0) (True, EDACErrors failures)
      (fail_if (boot = '''' \<or> node_ann node inventoryBootIDKey \<noteq> boot \<or> raw = '''' \<or> hash = '''') (False, BootInventoryUnavailable)
      (case hv_dec env raw of None \<Rightarrow> Inl (False, BootInventoryInvalid)
       | Some hw \<Rightarrow>
           fail_if (hi_Version hw \<noteq> 1 \<or> hi_BootID hw \<noteq> boot \<or> hi_Cells hw = []) (False, BootInventoryInvalid)
           (fail_if (hv_sha env (hv_encCells env (hi_Cells hw)) \<noteq> hash) (False, BootInventoryHash)
           (bind_res (soft (physicalCores (hv_sys env))) (\<lambda>cores.
            bind_res (for_each (check_cell env cores) (hi_Cells hw) ()) (\<lambda>_.
            hard (checkNVIDIA (sf_smi (hv_sys env)) hw))))))))))"

definition checkOnce :: "health_env \<Rightarrow> health_result \<times> check_outcome" where
  "checkOnce env =
     (case hv_node env of
        None \<Rightarrow> (\<lparr>hr_Status = '''', hr_Reason = '''', hr_BootID = '''', hr_Inventory = '''', hr_InventoryHash = ''''\<rparr>, Some (False, OwnNodeUnreadable))
      | Some node \<Rightarrow>
          (\<lparr>hr_Status = '''', hr_Reason = '''', hr_BootID = nd_BootID node, hr_Inventory = node_ann node inventoryKey,
            hr_InventoryHash = node_ann node inventoryHashKey\<rparr>,
           case check_inventory_of env node of Inl e \<Rightarrow> Some e | Inr u \<Rightarrow> None))"

fun unsupported :: "health_error \<Rightarrow> bool" where
  "unsupported (BindUnsupported numa) \<longleftrightarrow> True"
| "unsupported _ \<longleftrightarrow> False"

record health_checker =
  hk_failures :: nat
  hk_current :: health_result

definition newHealthChecker :: health_checker where
  "newHealthChecker = \<lparr>hk_failures = 0, hk_current = \<lparr>hr_Status = healthUnknown, hr_Reason = ''health has not run'', hr_BootID = '''',
     hr_Inventory = '''', hr_InventoryHash = ''''\<rparr>\<rparr>"

definition memory_check_bytes :: "string \<Rightarrow> int option" where
  "memory_check_bytes raw =
     (if raw = '''' then Some (64 * 2 ^ 20)
      else (case parse_int raw of None \<Rightarrow> None | Some v \<Rightarrow> if v < 2 ^ 20 \<or> v > 2 ^ 30 then None else Some v))"

definition health_check :: "(health_error \<Rightarrow> string) \<Rightarrow> health_result \<times> check_outcome \<Rightarrow> health_checker \<Rightarrow> health_checker" where
  "health_check text = (\<lambda>(result, outcome) hk.
     case outcome of
       None \<Rightarrow> \<lparr>hk_failures = 0, hk_current = result\<lparr>hr_Status := healthHealthy, hr_Reason := ''all hardware checks passed''\<rparr>\<rparr>
     | Some (hardError, e) \<Rightarrow>
         if unsupported e then hk\<lparr>hk_current := result\<lparr>hr_Status := healthUnknown, hr_Reason := text e\<rparr>\<rparr>
         else if hardError then \<lparr>hk_failures = 3, hk_current = result\<lparr>hr_Status := healthUnhealthy, hr_Reason := text e\<rparr>\<rparr>
         else (let failures = hk_failures hk + 1 in
               \<lparr>hk_failures = failures,
                hk_current = result\<lparr>hr_Status := (if failures \<ge> 3 then healthUnhealthy else healthUnknown), hr_Reason := text e\<rparr>\<rparr>))"

section \<open>Replies\<close>

definition inventory_reply :: "health_checker \<Rightarrow> (string, string) gomap" where
  "inventory_reply hk = [(''bootID'', hr_BootID (hk_current hk)), (''inventory'', hr_Inventory (hk_current hk)), (''hash'', hr_InventoryHash (hk_current hk))]"

text \<open>The exit code and the output of the probe, from the reply of the server.\<close>

datatype probe_reply = NoReply | BadReply | HealthReply health_result

definition runProbe :: "probe_reply \<Rightarrow> string \<times> nat" where
  "runProbe reply =
     (case reply of
        NoReply \<Rightarrow> (''watchdog unavailable'', 2)
      | BadReply \<Rightarrow> (''watchdog response invalid'', 2)
      | HealthReply r \<Rightarrow> (hr_Reason r, if hr_Status r = healthHealthy then 0 else if hr_Status r = healthUnhealthy then 1 else 2))"

section \<open>Reboot\<close>

text \<open>
  The calls of \<^verbatim>\<open>rebootOnce\<close>. \<^verbatim>\<open>retry.RetryOnConflict\<close> runs its function again while it returns a conflict, at most five times.
\<close>

datatype watchdog_call = AckReboot knode | SyncHost | RebootHost

datatype watchdog_error = WatchedNodeUnreadable | WorkerPodsUnreadable | AckFailed | RebootFailed

record reboot_env =
  wb_node :: "knode option"
  wb_getAgain :: "nat \<Rightarrow> knode option"
  wb_pods :: "nat option"
  wb_conflict :: "nat \<Rightarrow> bool"
  wb_dryRun :: string

definition conditionTrue :: "node_condition list \<Rightarrow> string \<Rightarrow> bool" where
  "conditionTrue conditions conditionType =
     (case List.find (\<lambda>c. nc_Type c = conditionType) conditions of None \<Rightarrow> False | Some c \<Rightarrow> nc_Status c = ''True'')"

definition reboot_asked :: "knode \<Rightarrow> bool" where
  "reboot_asked node \<longleftrightarrow> \<not> (node_ann node rebootRequestKey = '''' \<or> node_ann node rebootRequestKey = node_ann node rebootAckKey
     \<or> node_ann node rebootRequestKey \<noteq> node_ann node recoveryIncidentKey \<or> node_ann node recoveryPhaseKey \<noteq> ''RebootRequested''
     \<or> \<not> conditionTrue (nd_Conditions node) hardwareDegradedCondition)"

fun acknowledge :: "reboot_env \<Rightarrow> watchdog_call world \<Rightarrow> string \<Rightarrow> nat \<Rightarrow> (watchdog_call, watchdog_error, unit) io" where
  "acknowledge env world request 0 = io_fail AckFailed"
| "acknowledge env world request (Suc attempts) =
     io_bind io_here (\<lambda>n.
     case wb_getAgain env n of
       None \<Rightarrow> io_fail AckFailed
     | Some current \<Rightarrow>
         if node_ann current rebootRequestKey \<noteq> request \<or> node_ann current rebootAckKey = request then io_ret ()
         else io_bind (io_call world (AckReboot (current\<lparr>nd_Annotations := gm_put rebootAckKey request (nd_Annotations current)\<rparr>))) (\<lambda>o'.
              if o' = Done then io_ret ()
              else if wb_conflict env n then acknowledge env world request attempts
              else io_fail AckFailed))"

definition rebootOnce :: "reboot_env \<Rightarrow> watchdog_call world \<Rightarrow> (watchdog_call, watchdog_error, unit) io" where
  "rebootOnce env world =
     (case wb_node env of
       None \<Rightarrow> io_fail WatchedNodeUnreadable
     | Some node \<Rightarrow>
         if \<not> reboot_asked node then io_ret ()
         else (case wb_pods env of
                 None \<Rightarrow> io_fail WorkerPodsUnreadable
               | Some pods \<Rightarrow>
                   if pods \<noteq> 0 then io_ret ()
                   else io_bind (acknowledge env world (node_ann node rebootRequestKey) 5) (\<lambda>_.
                        if equal_fold (wb_dryRun env) ''true'' then io_ret ()
                        else io_bind (io_call world SyncHost) (\<lambda>_.
                             io_must world [Done] RebootFailed RebootHost))))"

end
