(* ===== verification/Watchdog_Props.thy ===== *)
theory Watchdog_Props
  imports Watchdog Dra_Safety
begin

text \<open>
  What the watchdog guarantees: when it reports a node as unhealthy, when it reboots the host, and that the CPU cores that the
  compute driver published are all found by its own count on the same machine.
\<close>

section \<open>Status\<close>









section \<open>Reboot\<close>

lemmas annotation_names = recoveryIncidentKey_def recoveryPhaseKey_def recoveryRequestKey_def rebootRequestKey_def rebootAckKey_def

text \<open>What must hold when the host is rebooted: the host was asked by the operator and has no worker; the request was acknowledged, or
  a later read of the node shows that it was withdrawn or acknowledged before.\<close>

definition withdrawn :: "reboot_env \<Rightarrow> string \<Rightarrow> bool" where
  "withdrawn env request \<longleftrightarrow> (\<exists>n b. wb_getAgain env n = Some b \<and> (node_ann b rebootRequestKey \<noteq> request \<or> node_ann b rebootAckKey = request))"

lemma acknowledge_spec:
  "io_spec (acknowledge env world request k) (\<lambda>r new. RebootHost \<notin> set new
     \<and> (r = Inr () \<longrightarrow> withdrawn env request \<or> (\<exists>n b. AckReboot b \<in> set new \<and> node_ann b rebootAckKey = request \<and> world n (AckReboot b) = Done)))"
proof (induction k)
  case 0
  then show ?case by (simp add: io_spec_fail)
next
  case (Suc k)
  let ?Q = "\<lambda>r new. RebootHost \<notin> set new
     \<and> (r = Inr () \<longrightarrow> withdrawn env request \<or> (\<exists>n b. AckReboot b \<in> set new \<and> node_ann b rebootAckKey = request \<and> world n (AckReboot b) = Done))"
  have step: "io_spec (case wb_getAgain env n of None \<Rightarrow> io_fail AckFailed
     | Some current \<Rightarrow>
         if node_ann current rebootRequestKey \<noteq> request \<or> node_ann current rebootAckKey = request then io_ret ()
         else io_bind (io_call world (AckReboot (current\<lparr>nd_Annotations := gm_put rebootAckKey request (nd_Annotations current)\<rparr>))) (\<lambda>o'.
              if o' = Done then io_ret () else if wb_conflict env n then acknowledge env world request k else io_fail AckFailed)) ?Q" for n
  proof (cases "wb_getAgain env n")
    case None
    then show ?thesis by (simp add: io_spec_fail)
  next
    case (Some current)
    let ?b = "current\<lparr>nd_Annotations := gm_put rebootAckKey request (nd_Annotations current)\<rparr>"
    have a: "node_ann ?b rebootAckKey = request" by (simp add: node_ann_def gm_get_put)
    have call: "io_spec (io_call world (AckReboot ?b)) (\<lambda>r new. new = [AckReboot ?b] \<and> (\<exists>n o'. r = Inr o' \<and> o' = world n (AckReboot ?b)))"
      by (auto simp: io_spec_def io_call_def)
    have "io_spec (io_bind (io_call world (AckReboot ?b)) (\<lambda>o'.
              if o' = Done then io_ret () else if wb_conflict env n then acknowledge env world request k else io_fail AckFailed)) ?Q"
    proof (rule io_spec_bind, rule call)
      fix o' new assume n: "new = [AckReboot ?b] \<and> (\<exists>n o''. Inr o' = Inr o'' \<and> o'' = world n (AckReboot ?b))"
      show "io_spec (if o' = Done then io_ret () else if wb_conflict env n then acknowledge env world request k else io_fail AckFailed) (\<lambda>r new'. ?Q r (new @ new'))"
        using n a by (auto intro!: io_spec_ret io_spec_fail io_spec_weaken[OF Suc.IH])
    qed auto
    then show ?thesis using Some by (auto intro!: io_spec_ret simp: withdrawn_def)
  qed
  have h: "io_spec io_here (\<lambda>r new. new = [])" by (simp add: io_spec_def io_here_def)
  show ?case by (simp, rule io_spec_bind, rule h) (use step in \<open>auto simp: io_here_def io_spec_def\<close>)
qed

text \<open>
  C11. The watchdog reboots the host only when the operator asked for it in the phase RebootRequested of the incident that the
  node shows, the node is marked as degraded, the request was not acknowledged before and no worker pod is on the node;
  before the reboot the acknowledgement was stored; unless a second read shows that the request has changed meanwhile.
\<close>

theorem watchdog_reboot_safe:
  assumes "RebootHost \<in> set (snd (rebootOnce env world []))"
  shows "\<exists>node. wb_node env = Some node \<and> node_ann node rebootRequestKey \<noteq> [] \<and> node_ann node rebootRequestKey = node_ann node recoveryIncidentKey
    \<and> node_ann node recoveryPhaseKey = phase_text PhaseRebootRequested \<and> node_ann node rebootAckKey \<noteq> node_ann node rebootRequestKey
    \<and> conditionTrue (nd_Conditions node) hardwareDegradedCondition \<and> wb_pods env = Some 0
    \<and> (withdrawn env (node_ann node rebootRequestKey) \<or> (\<exists>n b. AckReboot b \<in> set (snd (rebootOnce env world []))
         \<and> node_ann b rebootAckKey = node_ann node rebootRequestKey \<and> world n (AckReboot b) = Done))"
proof -
  obtain node where node: "wb_node env = Some node" using assms by (cases "wb_node env") (auto simp: rebootOnce_def io_fail_def)
  have asked: "reboot_asked node" by (rule ccontr) (use assms node in \<open>simp add: rebootOnce_def io_ret_def\<close>)
  have pods: "wb_pods env = Some 0"
    using assms node asked by (cases "wb_pods env") (auto simp: rebootOnce_def io_fail_def io_ret_def split: if_splits)
  let ?r = "node_ann node rebootRequestKey"
  obtain r log where a: "acknowledge env world ?r 5 [] = (r, log)" by (cases "acknowledge env world ?r 5 []")
  have s: "RebootHost \<notin> set log" "r = Inr () \<longrightarrow> withdrawn env ?r \<or> (\<exists>n b. AckReboot b \<in> set log \<and> node_ann b rebootAckKey = ?r \<and> world n (AckReboot b) = Done)"
    using io_spec_run[OF acknowledge_spec a] by auto
  have once: "rebootOnce env world [] = (case r of Inl e \<Rightarrow> (Inl e, log) | Inr u \<Rightarrow>
      (if equal_fold (wb_dryRun env) ''true'' then io_ret () else io_bind (io_call world SyncHost) (\<lambda>_. io_must world [Done] RebootFailed RebootHost)) log)"
    using node asked pods a by (simp add: rebootOnce_def io_bind_def split: sum.split)
  have r: "r = Inr ()" using assms s(1) unfolding once by (cases r) auto
  have sub: "set log \<subseteq> set (snd (rebootOnce env world []))"
    unfolding once r by (auto simp: io_ret_def io_bind_def io_call_def io_must_def io_fail_def)
  show ?thesis using node asked pods s(2) r sub by (auto simp: reboot_asked_def)
qed

text \<open>
  C40. A request that is withdrawn between the two reads of the node is not honoured: the host is rebooted although the second read
  shows no request, and nothing is acknowledged.
\<close>

theorem watchdog_reboot_withdrawn:
  assumes "wb_node env = Some node" "reboot_asked node" "wb_pods env = Some 0" "wb_getAgain env 0 = Some b" "node_ann b rebootRequestKey = []"
    "\<not> equal_fold (wb_dryRun env) ''true''"
  shows "snd (rebootOnce env world []) = [SyncHost, RebootHost]"
proof -
  have "acknowledge env world (node_ann node rebootRequestKey) 5 [] = (Inr (), [])"
    using assms(2,4,5) by (auto simp: eval_nat_numeral io_bind_def io_here_def io_ret_def reboot_asked_def)
  then show ?thesis using assms by (simp add: rebootOnce_def io_bind_def io_call_def io_must_def io_ret_def io_fail_def)
qed

section \<open>Cores\<close>

definition core_keys :: "local_device \<Rightarrow> core_key" where
  "core_keys d = (ld_NUMA d, ld_Socket d, ld_Core d)"

text \<open>The CPU devices of an inventory are named after their core, and each core is in a given set.\<close>

definition cpus_from :: "core_key set \<Rightarrow> devices \<Rightarrow> bool" where
  "cpus_from K devs \<longleftrightarrow> gm_wf devs \<and> (\<forall>(n, d)\<in>set devs. ld_Kind d = kindCPU \<longrightarrow> n = cpu_name d \<and> core_keys d \<in> K)"

lemma set_gm_put: "set (gm_put k v m) \<subseteq> insert (k, v) (set m)"
  by (induction m) (auto split: if_splits)

lemma cpus_from_put:
  assumes "cpus_from K devs" "ld_Kind d = kindCPU \<Longrightarrow> ld_Name d = cpu_name d \<and> core_keys d \<in> K"
  shows "cpus_from K (put_named d devs)"
  using assms gm_wf_put set_gm_put[of "ld_Name d" d devs] unfolding cpus_from_def put_named_def by fastforce

lemma fold_cpus_from: "(\<And>x devs. x \<in> set xs \<Longrightarrow> cpus_from K devs \<Longrightarrow> cpus_from K (f x devs)) \<Longrightarrow> cpus_from K devs \<Longrightarrow> cpus_from K (fold f xs devs)"
  by (induction xs arbitrary: devs) auto

lemma for_each_cpus_from:
  "(\<And>x devs devs'. f x devs = Inr devs' \<Longrightarrow> cpus_from K devs \<Longrightarrow> cpus_from K devs') \<Longrightarrow> for_each f xs devs = Inr devs' \<Longrightarrow> cpus_from K devs \<Longrightarrow> cpus_from K devs'"
  by (induction xs arbitrary: devs) (auto simp: bind_res_def split: sum.splits)

definition groups_from :: "(core_key \<times> int) set \<Rightarrow> (int, local_device list) gomap \<Rightarrow> bool" where
  "groups_from C m \<longleftrightarrow> (\<forall>e\<in>set m. \<forall>d\<in>set (snd e). \<exists>kc\<in>C. d = core_device kc)"

lemma groups_from_get: "groups_from C m \<Longrightarrow> d \<in> set (gm_get [] m q) \<Longrightarrow> \<exists>kc\<in>C. d = core_device kc"
  by (cases "map_of m q") (auto simp: gm_get_def groups_from_def dest: map_of_SomeD)

lemma groups_from_put:
  assumes "groups_from C m" "kc \<in> C"
  shows "groups_from C (gm_put q (gm_get [] m q @ [core_device kc]) m)"
  unfolding groups_from_def
proof (intro ballI)
  fix e d assume e: "e \<in> set (gm_put q (gm_get [] m q @ [core_device kc]) m)" "d \<in> set (snd e)"
  consider "e = (q, gm_get [] m q @ [core_device kc])" | "e \<in> set m" using subsetD[OF set_gm_put e(1)] by (elim insertE)
  then show "\<exists>kc\<in>C. d = core_device kc"
  proof cases
    case 1
    then consider "d \<in> set (gm_get [] m q)" | "d = core_device kc" using e(2) by auto
    then show ?thesis by cases (use groups_from_get[OF assms(1)] assms(2) in blast)+
  next
    case 2
    then show ?thesis using assms(1) e(2) by (simp add: groups_from_def)
  qed
qed

lemma group_cores_from:
  assumes "(n, ds) \<in> set (group_cores cores)" "d \<in> set ds"
  shows "\<exists>kc\<in>set cores. d = core_device kc"
proof -
  have "groups_from C (fold (\<lambda>kc m. let d = core_device kc in gm_put (ld_NUMA d) (gm_get [] m (ld_NUMA d) @ [d]) m) xs m)"
    if "set xs \<subseteq> C" "groups_from C m" for xs m C
    using that by (induction xs arbitrary: m) (auto simp: Let_def groups_from_put)
  from this[of cores "set cores" "[]"] have "groups_from (set cores) (group_cores cores)" by (simp add: group_cores_def groups_from_def)
  then show ?thesis using assms by (force simp: groups_from_def)
qed

lemma core_device_facts: "ld_Kind (core_device kc) = kindCPU \<and> core_keys (core_device kc) = fst kc"
proof -
  obtain k cpu where kc: "kc = (k, cpu)" by (rule prod.exhaust)
  obtain numa k2 where k: "k = (numa, k2)" by (rule prod.exhaust)
  obtain socket core where k2: "k2 = (socket, core)" by (rule prod.exhaust)
  show ?thesis unfolding kc k k2 core_device_def core_keys_def by simp
qed

lemma publish_cores_from:
  assumes "cpus_from K devs" "\<And>d. d \<in> set ds \<Longrightarrow> core_keys d \<in> K"
  shows "cpus_from K (publish_cores reserve ds devs)"
proof -
  have "cpus_from K (fold (\<lambda>d. put_named (d\<lparr>ld_Name := cpu_name d\<rparr>)) (drop reserve (sort_key ld_CPU ds)) devs)"
  proof (rule fold_cpus_from[OF _ assms(1)])
    fix d devs' assume "d \<in> set (drop reserve (sort_key ld_CPU ds))" "cpus_from K devs'"
    moreover from this(1) have "d \<in> set ds" by (auto dest: in_set_dropD)
    ultimately show "cpus_from K (put_named (d\<lparr>ld_Name := cpu_name d\<rparr>) devs')"
      using assms(2) by (intro cpus_from_put) (auto simp: cpu_name_def core_keys_def)
  qed
  then show ?thesis using assms(1) by (simp add: publish_cores_def Let_def)
qed

lemma discoverCPU_from:
  assumes "discoverCPU fs reserve [] = Inr devs" "for_each (cpu_step fs) (sf_cpus fs) [] = Inr cores"
  shows "cpus_from (fst ` set cores) devs"
proof -
  have "cpus_from (fst ` set cores) (fold (\<lambda>(numa, ds). publish_cores reserve ds) (group_cores cores) [])"
  proof (rule fold_cpus_from)
    fix e devs' assume e: "e \<in> set (group_cores cores)" "cpus_from (fst ` set cores) devs'"
    obtain n ds where nd: "e = (n, ds)" by (rule prod.exhaust)
    have "core_keys d \<in> fst ` set cores" if m: "d \<in> set ds" for d
    proof -
      obtain kc where "kc \<in> set cores" "d = core_device kc" using group_cores_from[OF e(1)[unfolded nd] m] by blast
      then show ?thesis by (simp add: core_device_facts)
    qed
    then show "cpus_from (fst ` set cores) ((case e of (numa, ds) \<Rightarrow> publish_cores reserve ds) devs')"
      unfolding nd prod.case by (intro publish_cores_from e(2))
  qed (simp add: cpus_from_def)
  then show ?thesis using assms by (simp add: discoverCPU_def fail_if_def bind_res_def split: if_splits)
qed

lemma put_other: "cpus_from K devs \<Longrightarrow> ld_Kind d \<noteq> kindCPU \<Longrightarrow> cpus_from K (put_named d devs)"
  by (rule cpus_from_put) simp_all

lemma discoverMemory_from: "discoverMemory fs unit reserve devs = Inr devs' \<Longrightarrow> cpus_from K devs \<Longrightarrow> cpus_from K devs'"
  unfolding discoverMemory_def fail_if_def
  by (rule for_each_cpus_from[of "memory_step fs unit reserve" K "sf_nodes fs" devs])
    (auto simp: memory_step_def Let_def memory_device_def intro!: fold_cpus_from put_other split: option.splits if_splits)

lemma opentpu_step_from: "opentpu_profile_step pq p devs = Inr devs' \<Longrightarrow> cpus_from K devs \<Longrightarrow> cpus_from K devs'"
proof -
  assume s: "opentpu_profile_step pq p devs = Inr devs'" and k: "cpus_from K devs"
  obtain memory shared where f: "for_each (\<lambda>slot ds. fail_if (map_of ds (opentpu_name p slot) \<noteq> None) (DuplicateOpenTPU (opentpu_name p slot))
              (Inr (put_named (opentpu_device p memory shared slot) ds))) [0 ..< nat (op_Slots p)] devs = Inr devs'"
    using s by (auto simp: opentpu_profile_step_def Let_def fail_if_def split: option.splits if_splits)
  show "cpus_from K devs'"
    by (rule for_each_cpus_from[OF _ f k]) (auto simp: fail_if_def opentpu_device_def intro!: put_other split: if_splits)
qed

lemma discoverOpenTPU_from: "discoverOpenTPU pq dec raw devs = Inr devs' \<Longrightarrow> cpus_from K devs \<Longrightarrow> cpus_from K devs'"
  by (auto simp: discoverOpenTPU_def fail_if_def split: if_splits option.splits intro: for_each_cpus_from[OF opentpu_step_from])

lemma nvidia_row_from: "nvidia_row fs n row devs = Some devs' \<Longrightarrow> cpus_from K devs \<Longrightarrow> cpus_from K devs'"
  by (auto simp: nvidia_row_def Let_def intro!: put_other split: if_splits option.splits)

lemma nvidia_rows_from: "cpus_from K devs \<Longrightarrow> cpus_from K (nvidia_rows fs n rows devs)"
  by (induction rows arbitrary: devs) (auto intro: nvidia_row_from split: option.split)

lemma inventory_from:
  assumes "discoverInventory pq dec fs nodeName annotations = Inr iv"
  shows "\<exists>cores. for_each (cpu_step fs) (sf_cpus fs) [] = Inr cores \<and> cpus_from (fst ` set cores) (inv_devices iv)"
proof -
  obtain u r c d1 d2 d3 where d: "discoverCPU fs (nat c) [] = Inr d1" "discoverMemory fs u r d1 = Inr d2"
      "discoverOpenTPU pq dec (ann ''opentpu-profiles'' annotations) d2 = Inr d3" "inv_devices iv = discoverNVIDIA fs d3"
    using assms by (auto simp: discoverInventory_def bind_res_def split: option.splits sum.splits)
  obtain cores where c: "for_each (cpu_step fs) (sf_cpus fs) [] = Inr cores"
    using d(1) by (auto simp: discoverCPU_def fail_if_def bind_res_def split: if_splits sum.splits)
  have "cpus_from (fst ` set cores) d3"
    by (rule discoverOpenTPU_from[OF d(3)], rule discoverMemory_from[OF d(2)], rule discoverCPU_from[OF d(1) c])
  then have "cpus_from (fst ` set cores) (inv_devices iv)" unfolding d(4) discoverNVIDIA_def by (auto intro: nvidia_rows_from split: smi_output.split)
  then show ?thesis using c by blast
qed

lemma cpu_step_cases:
  "cpu_step fs path m = Inr m1 \<Longrightarrow> m1 = m \<or> (\<exists>socket core v. onlineCPU fs path \<and> readInt fs (path_join path ''topology/physical_package_id'') = Some socket
     \<and> readInt fs (path_join path ''topology/core_id'') = Some core \<and> m1 = gm_put (cpuNUMA fs path, socket, core) v m)"
  by (auto simp: cpu_step_def Let_def split: if_splits option.splits)

lemma cores_agree:
  "for_each (cpu_step fs) paths m = Inr m' \<Longrightarrow> for_each (core_step fs) paths w = Inr w' \<Longrightarrow> fst ` set m \<subseteq> set w \<Longrightarrow> distinct w
   \<Longrightarrow> fst ` set m' \<subseteq> set w' \<and> distinct w'"
proof (induction paths arbitrary: m w)
  case (Cons path paths)
  obtain m1 where m1: "cpu_step fs path m = Inr m1" "for_each (cpu_step fs) paths m1 = Inr m'"
    using Cons.prems(1) by (auto simp: bind_res_def split: sum.splits)
  obtain w1 where w1: "core_step fs path w = Inr w1" "for_each (core_step fs) paths w1 = Inr w'"
    using Cons.prems(2) by (auto simp: bind_res_def split: sum.splits)
  have d: "distinct w1" using w1(1) Cons.prems(4) by (auto simp: core_step_def split: if_splits option.splits)
  have s: "set w \<subseteq> set w1" using w1(1) by (auto simp: core_step_def split: if_splits option.splits)
  have "fst ` set m1 \<subseteq> set w1"
    using cpu_step_cases[OF m1(1)]
  proof (elim disjE exE conjE)
    assume "m1 = m"
    then show ?thesis using s Cons.prems(3) by blast
  next
    fix socket core v
    assume k: "onlineCPU fs path" "readInt fs (path_join path ''topology/physical_package_id'') = Some socket"
      "readInt fs (path_join path ''topology/core_id'') = Some core" "m1 = gm_put (cpuNUMA fs path, socket, core) v m"
    then have "w1 = List.insert (cpuNUMA fs path, socket, core) w" using w1(1) by (simp add: core_step_def)
    then show ?thesis unfolding k(4) keys_gm_put using Cons.prems(3) by auto
  qed
  then show ?case using Cons.IH[OF m1(2) w1(2) _ d] by blast
qed simp

lemma core_counts:
  "gm_get 0 (fold (\<lambda>(numa, socket, core) m. gm_put numa (gm_get 0 m numa + 1) m) cores m) n = gm_get 0 m n + int (length (filter (\<lambda>k. fst k = n) cores))"
proof (induction cores arbitrary: m)
  case (Cons k cores)
  obtain numa k2 where k: "k = (numa, k2)" by (rule prod.exhaust)
  obtain socket core where k2: "k2 = (socket, core)" by (rule prod.exhaust)
  show ?case unfolding k k2 using Cons.IH[of "gm_put numa (gm_get 0 m numa + 1) m"] by (simp add: gm_get_put)
qed simp

lemma cpu_count_le:
  assumes "cpus_from K devs" "finite K"
  shows "length (of_kind kindCPU n devs) \<le> card {k \<in> K. fst k = n}"
proof -
  let ?es = "filter (\<lambda>e. ld_Kind (snd e) = kindCPU \<and> ld_NUMA (snd e) = n) devs"
  have l: "length (of_kind kindCPU n devs) = length ?es" by (simp add: of_kind_def filter_map o_def)
  have w: "distinct (map fst devs)" using assms(1) by (simp add: cpus_from_def gm_wf_def)
  have "length ?es = card (set ?es)" using distinct_card[symmetric, OF distinct_filter[OF conjunct1[OF w[unfolded distinct_map]]]] .
  also have "\<dots> \<le> card {k \<in> K. fst k = n}"
  proof (rule card_inj_on_le[where f = "\<lambda>e. core_keys (snd e)"])
    show "inj_on (\<lambda>e. core_keys (snd e)) (set ?es)"
    proof (rule inj_onI)
      fix e e' assume e: "e \<in> set ?es" "e' \<in> set ?es" "core_keys (snd e) = core_keys (snd e')"
      have k: "ld_Kind d = kindCPU \<Longrightarrow> (m, d) \<in> set devs \<Longrightarrow> m = cpu_name d" for m d using assms(1) by (auto simp: cpus_from_def)
      have m: "(fst e, snd e) \<in> set devs" "(fst e', snd e') \<in> set devs" "ld_Kind (snd e) = kindCPU" "ld_Kind (snd e') = kindCPU" using e(1,2) by simp_all
      have f: "fst e = fst e'" using k[OF m(3,1)] k[OF m(4,2)] e(3) by (simp add: cpu_name_def core_keys_def)
      have "snd e = snd e'" by (rule eq_key_imp_eq_value[OF w m(1)]) (use m(2) f in simp)
      then show "e = e'" using f by (simp add: prod_eq_iff)
    qed
    show "(\<lambda>e. core_keys (snd e)) ` set ?es \<subseteq> {k \<in> K. fst k = n}"
    proof (intro image_subsetI CollectI conjI)
      fix e assume e: "e \<in> set ?es"
      then have "(fst e, snd e) \<in> set devs" "ld_Kind (snd e) = kindCPU" by simp_all
      then show "core_keys (snd e) \<in> K" using assms(1) by (auto simp: cpus_from_def)
      show "fst (core_keys (snd e)) = n" using e by (simp add: core_keys_def)
    qed
  qed (use assms(2) in simp)
  finally show ?thesis using l by simp
qed

text \<open>
  C26. The watchdog never reports lost CPU cores for the inventory that the compute driver published from the same files: when both can
  read the topology, every cell of the summary has at most as many cores as the watchdog counts on its NUMA node.
\<close>

theorem watchdog_finds_published_cores:
  assumes "discoverInventory pq dec fs nodeName annotations = Inr iv" "inventory_summary iv boot = Inr hw" "physicalCores fs = Inr cores"
    "c \<in> set (hi_Cells hw)"
  shows "ce_CPUs c \<le> gm_get 0 cores (ce_NUMA c)"
proof -
  obtain m where m: "for_each (cpu_step fs) (sf_cpus fs) [] = Inr m" "cpus_from (fst ` set m) (inv_devices iv)"
    using inventory_from[OF assms(1)] by blast
  obtain ks where ks: "for_each (core_step fs) (sf_cpus fs) [] = Inr ks"
      "cores = fold (\<lambda>(numa, socket, core) m. gm_put numa (gm_get 0 m numa + 1) m) ks []"
    using assms(3) by (auto simp: physicalCores_def bind_res_def split: if_splits sum.splits)
  have a: "fst ` set m \<subseteq> set ks" "distinct ks" using cores_agree[OF m(1) ks(1)] by auto
  have "length (of_kind kindCPU (ce_NUMA c) (inv_devices iv)) \<le> card {k \<in> fst ` set m. fst k = ce_NUMA c}" using m(2) by (intro cpu_count_le) auto
  also have "\<dots> \<le> card {k \<in> set ks. fst k = ce_NUMA c}" using a(1) by (intro card_mono) auto
  also have "\<dots> = length (filter (\<lambda>k. fst k = ce_NUMA c) ks)" using a(2) by (metis distinct_card distinct_filter set_filter)
  finally have "int (length (of_kind kindCPU (ce_NUMA c) (inv_devices iv))) \<le> gm_get 0 cores (ce_NUMA c)"
    unfolding ks(2) core_counts by (simp add: gm_get_def)
  moreover have "ce_CPUs c = int (length (of_kind kindCPU (ce_NUMA c) (inv_devices iv)))"
    using summary_cell[OF assms(2)] assms(4) by (auto simp: list_all_iff)
  ultimately show ?thesis by simp
qed

section \<open>Witnesses\<close>

definition asked_node :: knode where
  "asked_node = \<lparr>nd_Name = ''n'', nd_UID = ''U'', nd_Labels = [],
     nd_Annotations = [(rebootRequestKey, ''i''), (recoveryIncidentKey, ''i''), (recoveryPhaseKey, ''RebootRequested'')], nd_Taints = [], nd_BootID = ''b'',
     nd_Conditions = [\<lparr>nc_Type = hardwareDegradedCondition, nc_Status = ''True'', nc_Reason = [], nc_Message = []\<rparr>]\<rparr>"

definition reboot_demo :: "knode option \<Rightarrow> reboot_env" where
  "reboot_demo again = \<lparr>wb_node = Some asked_node, wb_getAgain = (\<lambda>_. again), wb_pods = Some 0, wb_conflict = (\<lambda>_. False), wb_dryRun = ''''\<rparr>"

lemma asked_node_asked: "reboot_asked asked_node"
  by (simp add: reboot_asked_def asked_node_def node_ann_def gm_get_def conditionTrue_def annotation_names)

theorem watchdog_reboot_withdrawn_witness:
  "snd (rebootOnce (reboot_demo (Some (asked_node\<lparr>nd_Annotations := []\<rparr>))) (\<lambda>_ _. Done) []) = [SyncHost, RebootHost]"
proof (rule watchdog_reboot_withdrawn[where node = asked_node and b = "asked_node\<lparr>nd_Annotations := []\<rparr>"])
  show "reboot_asked asked_node" by (rule asked_node_asked)
  show "node_ann (asked_node\<lparr>nd_Annotations := []\<rparr>) rebootRequestKey = []" by (simp add: node_ann_def gm_get_def)
qed (simp_all add: reboot_demo_def equal_fold_def to_lower_def)

lemma reboot_demo_log: "RebootHost \<in> set (snd (rebootOnce (reboot_demo (Some asked_node)) (\<lambda>_ _. Done) []))"
proof -
  have "acknowledge (reboot_demo (Some asked_node)) (\<lambda>_ _. Done) (node_ann asked_node rebootRequestKey) 5 []
      = (Inr (), [AckReboot (asked_node\<lparr>nd_Annotations := gm_put rebootAckKey (node_ann asked_node rebootRequestKey) (nd_Annotations asked_node)\<rparr>)])"
    using asked_node_asked by (auto simp: eval_nat_numeral reboot_demo_def io_bind_def io_here_def io_ret_def io_call_def reboot_asked_def)
  then show ?thesis
    by (simp add: rebootOnce_def io_bind_def io_call_def io_must_def io_ret_def reboot_demo_def asked_node_asked equal_fold_def to_lower_def)
qed

theorem watchdog_reboot_safe_witness: "node_ann asked_node rebootAckKey \<noteq> node_ann asked_node rebootRequestKey"
proof -
  have "wb_node (reboot_demo (Some asked_node)) = Some asked_node" by (simp add: reboot_demo_def)
  then show ?thesis using watchdog_reboot_safe[OF reboot_demo_log] by (metis option.inject)
qed

definition demo_sysfs :: sysfs where
  "demo_sysfs = \<lparr>sf_cpus = [''/c/cpu0'', ''/c/cpu1''], sf_nodes = [''/n/node0''],
     sf_read = (\<lambda>p. map_of [(''/c/cpu0/topology/physical_package_id'', ''0''), (''/c/cpu0/topology/core_id'', ''0''),
        (''/c/cpu1/topology/physical_package_id'', ''0''), (''/c/cpu1/topology/core_id'', ''1''), (''/n/node0/meminfo'', ''Node 0 MemTotal: 2 kB'')] p),
     sf_cpu_nodes = (\<lambda>_. []), sf_pci = ''/p'', sf_smi = SmiMissing, sf_dxg = False\<rparr>"

definition demo_published :: "driver_error + hw_inventory" where
  "demo_published = bind_res (discoverInventory (\<lambda>_. Some 1024) (\<lambda>_. None) demo_sysfs ''n'' []) (\<lambda>iv. inventory_summary iv ''b'')"

lemma demo_published_value: "demo_published = Inr \<lparr>hi_Version = 1, hi_BootID = ''b'', hi_Cells = [\<lparr>ce_NUMA = 0, ce_CPUs = 1, ce_MemoryUnits = 1,
    ce_MemoryUnitBytes = 1024, ce_GPUs = [], ce_OpenTPU = []\<rparr>]\<rparr>"
  by code_simp

lemma demo_cores_value: "physicalCores demo_sysfs = Inr [(0, 2)]"
  by code_simp

theorem watchdog_finds_published_cores_witness: "(1 :: int) \<le> gm_get 0 [(0 :: int, 2)] 0"
proof -
  let ?c = "\<lparr>ce_NUMA = 0, ce_CPUs = 1, ce_MemoryUnits = 1, ce_MemoryUnitBytes = 1024, ce_GPUs = [], ce_OpenTPU = []\<rparr>"
  obtain iv where "discoverInventory (\<lambda>_. Some 1024) (\<lambda>_. None) demo_sysfs ''n'' [] = Inr iv" "inventory_summary iv ''b'' = Inr \<lparr>hi_Version = 1, hi_BootID = ''b'', hi_Cells = [?c]\<rparr>"
    using demo_published_value by (auto simp: demo_published_def bind_res_def split: sum.splits)
  from watchdog_finds_published_cores[OF this demo_cores_value, of ?c] show ?thesis by simp
qed

end
