(* ===== verification/Spec2Isabelle.thy ===== *)
theory Spec2Isabelle
  imports Ring_Stream Manifest_Props Dra_Safety Optical_Props Slurm_Props Demand_Props Render_Props Recovery_Demo Watchdog_Props
begin

text \<open>
  A verification library for the heterogeneous cluster orchestrator, a set of Go programs that run Slurm clusters with
  CPUs, GPUs, simulated TPUs and optical devices on Kubernetes.

  \<^bold>\<open>The program and its parts.\<close> An operator (\<^verbatim>\<open>src/slurm-operator\<close>) runs the Slurm control plane of each cluster, starts and
  removes worker pods for the jobs that wait, and takes degraded nodes through isolation, evacuation, reboot and
  verification. Two node plugins (\<^verbatim>\<open>src/dra-driver\<close>, \<^verbatim>\<open>src/optical-dra-driver\<close>) offer devices to Kubernetes and prepare claims,
  on top of a shared plugin (\<^verbatim>\<open>src/shared/draplugin\<close>). Checkpoints pass from a job to a flusher through a ring in shared memory
  (\<^verbatim>\<open>src/shared/ring\<close>) and are described by manifests (\<^verbatim>\<open>src/shared/checkpoint\<close>).

  \<^bold>\<open>How the code is modelled.\<close> \<open>Go_Prelude\<close> holds what all components share: results as sums with the error on the left,
  loops that stop at the first error, 64-bit integers with their wrap-around written out, Go maps as association lists and
  the functions of the standard library that the sources call. Code that is not in the repository (JSON, gzip, hashes, URL
  parsing, \<^verbatim>\<open>nvidia-smi\<close>, the API server, Slurm, the object store) is an argument of the definitions that use it. Code that
  writes to the API server or to Slurm is written in the monad of \<open>Effects\<close>: each write is appended to a log, what it answers is
  decided by a \<open>world\<close>, and a read may answer differently at each point of the log. Statements about a pass therefore hold for
  every pattern of failures. \<open>io_spec\<close>, \<open>io_ok\<close> and \<open>io_obeys\<close> are the triples in which these statements are proved.

  \<^bold>\<open>The theories.\<close>

  \<^item> \<open>Ring\<close>, \<open>Ring_Stream\<close>: \<^verbatim>\<open>shared/ring/ring.go\<close>. The mapped file with its counters, every step of a producer and a consumer as a
    step relation with all interleavings. The bytes received are a prefix of the bytes written, no counter is found corrupt,
    no slice is out of range, and the two sides do not both wait.
  \<^item> \<open>Manifest\<close>, \<open>Manifest_Tiling\<close>, \<open>Storage_Path\<close>, \<open>Manifest_Valid\<close>, \<open>Manifest_Props\<close>: \<^verbatim>\<open>shared/checkpoint\<close>. \<^verbatim>\<open>Validate\<close> with every check
    and error, and its equivalence with a declarative specification; chunks tile every tensor, storage paths are safe.
  \<^item> \<open>Draplugin\<close>, \<open>Draplugin_Inv\<close>, \<open>Draplugin_Ledger\<close>: \<^verbatim>\<open>shared/draplugin/plugin.go\<close>. Preparation, release, reconciliation and recovery of
    claims with the state directory; a locale for the driver below it, and the refinement of an abstract ledger.
  \<^item> \<open>Dra_Driver\<close>, \<open>Dra_Props\<close>, \<open>Dra_Safety\<close>: \<^verbatim>\<open>dra-driver/internal/driver\<close> and \<^verbatim>\<open>shared/hardware\<close>. Discovery, the published slices, CDI and
    the NRI hook; CPU cores are exclusive, claims stay on one NUMA node, a restart restores the claims.
  \<^item> \<open>Optical_Driver\<close>, \<open>Optical_Props\<close>: \<^verbatim>\<open>optical-dra-driver/internal/driver\<close>. The topology annotation, its normal form, and the same
    plugin contract for the second driver.
  \<^item> \<open>Cluster_API\<close>, \<open>Slurm_Client\<close>, \<open>Slurm_Props\<close>, \<open>Demand\<close>, \<open>Demand_Props\<close>, \<open>Render\<close>, \<open>Render_Props\<close>: the types of the cluster resource, the
    REST client with host lists, the demand for workers and the rendered Slurm configuration
    (\<^verbatim>\<open>slurm-operator/api\<close>, \<^verbatim>\<open>internal/slurm\<close>, \<^verbatim>\<open>internal/resources\<close>, \<^verbatim>\<open>internal/render\<close>).
  \<^item> \<open>Effects\<close>, \<open>Kube\<close>, \<open>Workers\<close>, \<open>Worker_Pass\<close>, \<open>Worker_Props\<close>, \<open>Worker_Choice\<close>, \<open>Worker_Demo\<close>: \<^verbatim>\<open>controllers/workers.go\<close>. Every
    step of a pass over the workers; removal only of idle drained nodes, limits and minima of pools, groups served
    completely or not at all.
  \<^item> \<open>Control_Plane\<close>, \<open>Checkpoint_Scan\<close>, \<open>Controller\<close>, \<open>Controller_Props\<close>: \<^verbatim>\<open>controllers/cluster_controller.go\<close> and
    \<^verbatim>\<open>recovery_checkpoint.go\<close>. The objects of the control plane and the whole \<^verbatim>\<open>Reconcile\<close>; workers are touched only behind a
    ready control plane, the finalizer stays until the workers are gone.
  \<^item> \<open>Recovery\<close>, \<open>Recovery_Evacuation\<close>, \<open>Recovery_Verifier\<close>: \<^verbatim>\<open>controllers/recovery.go\<close>, \<^verbatim>\<open>recovery_evacuation.go\<close>, \<^verbatim>\<open>recovery_verifier.go\<close>.
    \<open>Protocol\<close> and \<open>Recovery_Protocol\<close> state what recovery promises as a protocol over its durable state; \<open>Recovery_Refine\<close>,
    \<open>Recovery_Refine_Evac\<close>, \<open>Recovery_Refine_Jobs\<close>, \<open>Recovery_Refine_Pass\<close> and \<open>Recovery_Props\<close> prove that the code follows it, one triple per
    operation; \<open>Recovery_Safety\<close> and \<open>Recovery_Demo\<close> hold the properties and concrete passes.

  \<^bold>\<open>Bounds.\<close> No definition has fuel: loops are structural, or have a termination measure; the loop of the ring that may wait
  is a step relation, and the loop of a host list that may diverge has the error value \<open>Diverges\<close> for the case that the
  code does not return. Sums that the code computes at 64 bits wrap in the model where the code does not check them.

  \<^bold>\<open>Not modelled.\<close> Generated code (\<^verbatim>\<open>zz_generated.deepcopy.go\<close>), the registration of types and controllers, the \<^verbatim>\<open>main\<close> functions
  that only read flags, events and metrics.
\<close>

end
